(* ===== verification/GoBase.thy ===== *)
theory GoBase
  imports Main "HOL-Library.Word" "HOL-Library.Sublist"
begin

text \<open>
  Prelude of the development: the Go values every component shares (sized integers, errors with
  wrapping), the functions of Go's standard library the sources call on strings and decimal
  numbers, and the lemma collections the component proofs draw on.

  Go strings are byte strings and \<^typ>\<open>string\<close> is a list of bytes, so \<open>len\<close>, indexing and
  concatenation agree. The functions of \<^verbatim>\<open>strings\<close> that look at runes are modelled on the
  UTF-8 encodings of the runes that matter: \<open>unicodeSpaces\<close> lists the encoding of every
  rune that \<^verbatim>\<open>unicode.IsSpace\<close> accepts.
\<close>

named_theorems go_const "the constants of the Go sources, unfolded"
named_theorems go_fun "the small total helper functions of the Go sources, unfolded"

section \<open>Integers\<close>

text \<open>Go's \<^verbatim>\<open>int32\<close> and \<^verbatim>\<open>int64\<close> keep their width; comparisons and printing read them
  as two's complement through \<^const>\<open>sint\<close>. Go's \<^verbatim>\<open>int\<close> is 64 bits wide on every supported
  target; the one place that makes one from text, \<^verbatim>\<open>strconv.Atoi\<close>, checks the range.\<close>

type_synonym int32 = "32 word"
type_synonym int64 = "64 word"
type_synonym time = int

lemma sint_int32_bounds: "- (2 ^ 31) \<le> sint (w :: int32)" "sint (w :: int32) < 2 ^ 31"
  using sint_greater_eq [of w] sint_less [of w] by simp_all

section \<open>Errors\<close>

text \<open>
  An error is an API status error (of which the code only tells the reasons apart), a plain
  \<^verbatim>\<open>fmt.Errorf\<close> or \<^verbatim>\<open>errors.New\<close> message, or an error wrapped with \<^verbatim>\<open>%w\<close>.
  \<^verbatim>\<open>apierrors.IsNotFound\<close> and its kin look through wrapping, as their documentation says.
\<close>

datatype statusReason = ReasonNotFound | ReasonAlreadyExists | ReasonConflict | ReasonOther

datatype goerror =
    ApiStatus statusReason string
  | Errorf string
  | Wrapf string goerror

primrec errorString :: "goerror \<Rightarrow> string" where
  "errorString (ApiStatus r m) = m"
| "errorString (Errorf m) = m"
| "errorString (Wrapf p e) = p @ errorString e"

primrec reasonForError :: "goerror \<Rightarrow> statusReason option" where
  "reasonForError (ApiStatus r m) = Some r"
| "reasonForError (Errorf m) = None"
| "reasonForError (Wrapf p e) = reasonForError e"

definition isNotFound :: "goerror \<Rightarrow> bool" where
  "isNotFound e \<longleftrightarrow> reasonForError e = Some ReasonNotFound"

definition isAlreadyExists :: "goerror \<Rightarrow> bool" where
  "isAlreadyExists e \<longleftrightarrow> reasonForError e = Some ReasonAlreadyExists"

definition isConflict :: "goerror \<Rightarrow> bool" where
  "isConflict e \<longleftrightarrow> reasonForError e = Some ReasonConflict"

lemma reason_wrap [simp]:
  "isNotFound (Wrapf p e) = isNotFound e"
  "isAlreadyExists (Wrapf p e) = isAlreadyExists e"
  "isConflict (Wrapf p e) = isConflict e"
  by (simp_all add: isNotFound_def isAlreadyExists_def isConflict_def)

lemma reason_status [simp]:
  "isNotFound (ApiStatus r m) \<longleftrightarrow> r = ReasonNotFound"
  "isAlreadyExists (ApiStatus r m) \<longleftrightarrow> r = ReasonAlreadyExists"
  "isConflict (ApiStatus r m) \<longleftrightarrow> r = ReasonConflict"
  by (simp_all add: isNotFound_def isAlreadyExists_def isConflict_def)

lemma reason_errorf [simp]:
  "\<not> isNotFound (Errorf m)" "\<not> isAlreadyExists (Errorf m)" "\<not> isConflict (Errorf m)"
  by (simp_all add: isNotFound_def isAlreadyExists_def isConflict_def)

lemma reason_exclusive:
  "isNotFound e \<Longrightarrow> \<not> isConflict e" "isConflict e \<Longrightarrow> \<not> isNotFound e"
  by (auto simp: isNotFound_def isConflict_def)

section \<open>Byte strings\<close>

definition hasPrefix :: "string \<Rightarrow> string \<Rightarrow> bool" where
  "hasPrefix s p \<longleftrightarrow> length p \<le> length s \<and> take (length p) s = p"

definition hasSuffix :: "string \<Rightarrow> string \<Rightarrow> bool" where
  "hasSuffix s p \<longleftrightarrow> length p \<le> length s \<and> drop (length s - length p) s = p"

definition trimPrefix :: "string \<Rightarrow> string \<Rightarrow> string" where
  "trimPrefix s p = (if hasPrefix s p then drop (length p) s else s)"

lemma hasPrefix_iff: "hasPrefix s p \<longleftrightarrow> (\<exists>t. s = p @ t)"
  by (auto simp: hasPrefix_def) (metis append_take_drop_id)

lemma hasPrefix_append [simp]: "hasPrefix (p @ s) p"
  by (simp add: hasPrefix_def)

lemma hasPrefix_Nil [simp]: "hasPrefix s []"
  by (simp add: hasPrefix_def)

lemma hasPrefix_Cons [simp]: "hasPrefix (c # s) (d # p) \<longleftrightarrow> c = d \<and> hasPrefix s p"
  by (auto simp: hasPrefix_def)

lemma hasPrefix_Nil_iff [simp]: "hasPrefix [] p \<longleftrightarrow> p = []"
  by (auto simp: hasPrefix_def)

lemma hasSuffix_iff: "hasSuffix s p \<longleftrightarrow> (\<exists>t. s = t @ p)"
  by (auto simp: hasSuffix_def) (metis append_take_drop_id)

lemma trimPrefix_append [simp]: "trimPrefix (p @ s) p = s"
  by (simp add: trimPrefix_def)

fun contains :: "string \<Rightarrow> string \<Rightarrow> bool" where
  "contains [] sub \<longleftrightarrow> sub = []"
| "contains (c # s) sub \<longleftrightarrow> hasPrefix (c # s) sub \<or> contains s sub"

lemma contains_iff: "contains s sub \<longleftrightarrow> (\<exists>a b. s = a @ sub @ b)"
proof (induction s)
  case (Cons c s)
  have "(\<exists>a b. c # s = a @ sub @ b) \<longleftrightarrow>
      (\<exists>b. c # s = sub @ b) \<or> (\<exists>a b. s = a @ sub @ b)"
    by (auto simp: Cons_eq_append_conv)
  then show ?case using Cons.IH by (auto simp: hasPrefix_iff)
qed auto

subsection \<open>White space\<close>

definition unicodeSpaces :: "string list" where
  "unicodeSpaces =
     [[CHR 0x09], [CHR 0x0A], [CHR 0x0B], [CHR 0x0C], [CHR 0x0D], [CHR 0x20],
      [CHR 0xC2, CHR 0x85], [CHR 0xC2, CHR 0xA0],
      [CHR 0xE1, CHR 0x9A, CHR 0x80],
      [CHR 0xE2, CHR 0x80, CHR 0x80], [CHR 0xE2, CHR 0x80, CHR 0x81],
      [CHR 0xE2, CHR 0x80, CHR 0x82], [CHR 0xE2, CHR 0x80, CHR 0x83],
      [CHR 0xE2, CHR 0x80, CHR 0x84], [CHR 0xE2, CHR 0x80, CHR 0x85],
      [CHR 0xE2, CHR 0x80, CHR 0x86], [CHR 0xE2, CHR 0x80, CHR 0x87],
      [CHR 0xE2, CHR 0x80, CHR 0x88], [CHR 0xE2, CHR 0x80, CHR 0x89],
      [CHR 0xE2, CHR 0x80, CHR 0x8A], [CHR 0xE2, CHR 0x80, CHR 0xA8],
      [CHR 0xE2, CHR 0x80, CHR 0xA9], [CHR 0xE2, CHR 0x80, CHR 0xAF],
      [CHR 0xE2, CHR 0x81, CHR 0x9F], [CHR 0xE3, CHR 0x80, CHR 0x80]]"

definition spaceWidth :: "string \<Rightarrow> nat" where
  "spaceWidth s = (case find (hasPrefix s) unicodeSpaces of None \<Rightarrow> 0 | Some p \<Rightarrow> length p)"

definition spaceSuffixWidth :: "string \<Rightarrow> nat" where
  "spaceSuffixWidth s = (case find (hasSuffix s) unicodeSpaces of None \<Rightarrow> 0 | Some p \<Rightarrow> length p)"

lemma spaceWidth_le: "spaceWidth s \<le> length s"
  by (auto simp: spaceWidth_def hasPrefix_def find_Some_iff split: option.splits)

lemma spaceSuffixWidth_le: "spaceSuffixWidth s \<le> length s"
  by (auto simp: spaceSuffixWidth_def hasSuffix_def find_Some_iff split: option.splits)

lemma spaceWidth_Nil [simp]: "spaceWidth [] = 0"
  using spaceWidth_le [of "[]"] by simp

lemma spaceSuffixWidth_Nil [simp]: "spaceSuffixWidth [] = 0"
  using spaceSuffixWidth_le [of "[]"] by simp

function trimLeftSpace :: "string \<Rightarrow> string" where
  "trimLeftSpace s = (if spaceWidth s = 0 then s else trimLeftSpace (drop (spaceWidth s) s))"
  by pat_completeness auto
termination
proof (relation "measure length", goal_cases)
  case (2 s)
  then have "s \<noteq> []" by auto
  with 2 show ?case by simp
qed simp

function trimRightSpace :: "string \<Rightarrow> string" where
  "trimRightSpace s =
     (if spaceSuffixWidth s = 0 then s
      else trimRightSpace (take (length s - spaceSuffixWidth s) s))"
  by pat_completeness auto
termination
proof (relation "measure length", goal_cases)
  case (2 s)
  then have "s \<noteq> []" by auto
  with 2 show ?case by simp
qed simp

declare trimLeftSpace.simps [simp del] trimRightSpace.simps [simp del]

text \<open>\<^verbatim>\<open>strings.TrimSpace\<close>.\<close>

definition trimSpace :: "string \<Rightarrow> string" where
  "trimSpace s = trimRightSpace (trimLeftSpace s)"

lemma trimLeftSpace_Nil [simp]: "trimLeftSpace [] = []"
  by (subst trimLeftSpace.simps) simp

lemma trimRightSpace_Nil [simp]: "trimRightSpace [] = []"
  by (subst trimRightSpace.simps) simp

lemma trimSpace_Nil [simp]: "trimSpace [] = []"
  by (simp add: trimSpace_def)

lemma trimSpace_nonempty: "trimSpace s \<noteq> [] \<Longrightarrow> s \<noteq> []"
  by auto

lemma trimLeftSpace_suffix: "\<exists>p. s = p @ trimLeftSpace s"
proof (induction s rule: trimLeftSpace.induct)
  case (1 s)
  show ?case
  proof (cases "spaceWidth s = 0")
    case True
    then show ?thesis by (subst trimLeftSpace.simps) simp
  next
    case False
    then obtain p where "drop (spaceWidth s) s = p @ trimLeftSpace s"
      using 1 trimLeftSpace.simps [of s] by auto
    then have "s = (take (spaceWidth s) s @ p) @ trimLeftSpace s"
      by (metis append.assoc append_take_drop_id)
    then show ?thesis by blast
  qed
qed

lemma trimRightSpace_prefix: "\<exists>q. s = trimRightSpace s @ q"
proof (induction s rule: trimRightSpace.induct)
  case (1 s)
  let ?t = "take (length s - spaceSuffixWidth s) s"
  show ?case
  proof (cases "spaceSuffixWidth s = 0")
    case True
    then show ?thesis by (subst trimRightSpace.simps) simp
  next
    case False
    then obtain q where "?t = trimRightSpace s @ q"
      using 1 trimRightSpace.simps [of s] by auto
    then have "s = trimRightSpace s @ (q @ drop (length s - spaceSuffixWidth s) s)"
      by (metis append.assoc append_take_drop_id)
    then show ?thesis by blast
  qed
qed

lemma trimSpace_infix: "\<exists>p q. s = p @ trimSpace s @ q"
proof -
  obtain p where p: "s = p @ trimLeftSpace s" using trimLeftSpace_suffix by blast
  obtain q where "trimLeftSpace s = trimSpace s @ q"
    unfolding trimSpace_def using trimRightSpace_prefix by blast
  with p show ?thesis by metis
qed

text \<open>\<^verbatim>\<open>strings.Fields\<close>: the maximal runs of non-space bytes.\<close>

function fieldsFrom :: "string \<Rightarrow> string \<Rightarrow> string list" where
  "fieldsFrom cur [] = (if cur = [] then [] else [cur])"
| "fieldsFrom cur (c # s) =
     (if spaceWidth (c # s) = 0 then fieldsFrom (cur @ [c]) s
      else (if cur = [] then [] else [cur]) @ fieldsFrom [] (drop (spaceWidth (c # s)) (c # s)))"
  by pat_completeness auto
termination
  by (relation "measure (length \<circ> snd)") (auto simp del: drop.simps)

declare fieldsFrom.simps(2) [simp del]

definition fields :: "string \<Rightarrow> string list" where
  "fields s = fieldsFrom [] s"

lemma fieldsFrom_nonempty: "f \<in> set (fieldsFrom cur s) \<Longrightarrow> f \<noteq> []"
proof (induction cur s rule: fieldsFrom.induct)
  case (2 cur c s)
  then show ?case using fieldsFrom.simps(2) [of cur c s] by (auto split: if_splits)
qed (auto split: if_splits)

lemma fields_nonempty: "f \<in> set (fields s) \<Longrightarrow> f \<noteq> []"
  by (simp add: fields_def fieldsFrom_nonempty)

subsection \<open>Letter case\<close>

definition isUpperByte :: "char \<Rightarrow> bool" where
  "isUpperByte c \<longleftrightarrow> (65::nat) \<le> of_char c \<and> of_char c \<le> (90::nat)"

definition toLowerByte :: "char \<Rightarrow> char" where
  "toLowerByte c = (if isUpperByte c then char_of ((of_char c :: nat) + 32) else c)"

text \<open>
  \<^verbatim>\<open>strings.ToLower\<close>. Beside the ASCII letters, two runes have an ASCII lower case: U+0130
  (bytes C4 B0) goes to \<open>i\<close> and U+212A (bytes E2 84 AA) to \<open>k\<close>. Every other rune keeps a
  non-ASCII encoding, which no caller compares, and is left as it is.
\<close>

fun toLower :: "string \<Rightarrow> string" where
  "toLower [] = []"
| "toLower (a # s) =
     (if hasPrefix (a # s) [CHR 0xC4, CHR 0xB0] then CHR ''i'' # toLower (drop 1 s)
      else if hasPrefix (a # s) [CHR 0xE2, CHR 0x84, CHR 0xAA] then CHR ''k'' # toLower (drop 2 s)
      else toLowerByte a # toLower s)"

text \<open>\<^verbatim>\<open>strings.EqualFold\<close> against an ASCII word that has no \<open>k\<close> and no \<open>s\<close> in it (the two
  letters with a non-ASCII fold): equality up to ASCII case.\<close>

definition equalFoldAscii :: "string \<Rightarrow> string \<Rightarrow> bool" where
  "equalFoldAscii a b \<longleftrightarrow> map toLowerByte a = map toLowerByte b"

subsection \<open>Splitting at a separator\<close>

text \<open>\<^verbatim>\<open>strings.SplitN(s, sep, 2)\<close> for a one-byte separator.\<close>

definition splitN2 :: "char \<Rightarrow> string \<Rightarrow> string list" where
  "splitN2 sep s =
     (if sep \<in> set s then [takeWhile (\<lambda>c. c \<noteq> sep) s, tl (dropWhile (\<lambda>c. c \<noteq> sep) s)] else [s])"

lemma takeWhile_neq_append [simp]:
  "c \<notin> set a \<Longrightarrow> takeWhile (\<lambda>x. x \<noteq> c) (a @ c # b) = a"
  "c \<notin> set a \<Longrightarrow> dropWhile (\<lambda>x. x \<noteq> c) (a @ c # b) = c # b"
  by (induction a) auto

lemma splitN2_append: "c \<notin> set a \<Longrightarrow> splitN2 c (a @ c # b) = [a, b]"
  by (simp add: splitN2_def)

lemma splitN2_two:
  "splitN2 c s = [a, b] \<longleftrightarrow> s = a @ c # b \<and> c \<notin> set a"
proof
  assume h: "splitN2 c s = [a, b]"
  then have "c \<in> set s" by (auto simp: splitN2_def split: if_splits)
  then obtain x y where "s = x @ c # y" "c \<notin> set x" using split_list_first by fastforce
  with h show "s = a @ c # b \<and> c \<notin> set a" by (auto simp: splitN2_append)
qed (auto simp: splitN2_append)

section \<open>Decimal numbers\<close>

definition digitChar :: "nat \<Rightarrow> char" where
  "digitChar d = char_of (48 + d)"

definition isDigit :: "char \<Rightarrow> bool" where
  "isDigit c \<longleftrightarrow> (48::nat) \<le> of_char c \<and> of_char c \<le> (57::nat)"

definition digitVal :: "char \<Rightarrow> nat" where
  "digitVal c = of_char c - 48"

fun showNat :: "nat \<Rightarrow> string" where
  "showNat n = (if n < 10 then [digitChar n] else showNat (n div 10) @ [digitChar (n mod 10)])"

declare showNat.simps [simp del]

text \<open>\<^verbatim>\<open>strconv.Itoa\<close>, and \<^verbatim>\<open>%d\<close> of \<^verbatim>\<open>fmt.Sprintf\<close>.\<close>

definition showInt :: "int \<Rightarrow> string" where
  "showInt i = (if i < 0 then CHR ''-'' # showNat (nat (- i)) else showNat (nat i))"

definition digitsVal :: "string \<Rightarrow> nat" where
  "digitsVal s = foldl (\<lambda>v c. 10 * v + digitVal c) 0 s"

text \<open>\<^verbatim>\<open>strconv.Atoi\<close>: an optional sign, at least one digit, nothing else, and within the range of
  a 64-bit \<^verbatim>\<open>int\<close>.\<close>

definition atoi :: "string \<Rightarrow> goerror + int" where
  "atoi s =
     (let (neg, ds) = (case s of
          [] \<Rightarrow> (False, s)
        | c # t \<Rightarrow> if c = CHR ''-'' then (True, t) else if c = CHR ''+'' then (False, t) else (False, s))
      in if ds = [] \<or> \<not> list_all isDigit ds then Inl (Errorf ''invalid syntax'')
         else let v = (if neg then - int (digitsVal ds) else int (digitsVal ds))
              in if - (2 ^ 63) \<le> v \<and> v < 2 ^ 63 then Inr v
                 else Inl (Errorf ''value out of range''))"

lemma digitChar_props:
  assumes "d < 10"
  shows "isDigit (digitChar d)" "digitVal (digitChar d) = d"
  using assms by (simp_all add: digitChar_def isDigit_def digitVal_def)

lemma showNat_digits: "list_all isDigit (showNat n) \<and> showNat n \<noteq> []"
proof (induction n rule: showNat.induct)
  case (1 n)
  then show ?case by (subst (1 2) showNat.simps) (simp add: digitChar_props)
qed

lemma showNat_val: "digitsVal (showNat n) = n"
proof (induction n rule: showNat.induct)
  case (1 n)
  show ?case
  proof (cases "n < 10")
    case True
    then show ?thesis by (subst showNat.simps) (simp add: digitsVal_def digitChar_props)
  next
    case False
    with 1 have "digitsVal (showNat (n div 10)) = n div 10" by simp
    with False show ?thesis
      by (subst showNat.simps) (simp add: digitsVal_def digitChar_props)
  qed
qed

lemma showNat_hd: "showNat n = c # t \<Longrightarrow> c \<noteq> CHR ''-'' \<and> c \<noteq> CHR ''+''"
  using showNat_digits [of n] by (auto simp: isDigit_def)

lemma showNat_inj: "showNat m = showNat n \<Longrightarrow> m = n"
  by (metis showNat_val)

lemma showInt_nonempty [simp]: "showInt i \<noteq> []"
  using showNat_digits by (auto simp: showInt_def)

lemma atoi_showInt:
  assumes "- (2 ^ 63) \<le> i" "i < 2 ^ 63"
  shows "atoi (showInt i) = Inr i"
proof (cases "i < 0")
  case True
  with assms show ?thesis
    using showNat_digits [of "nat (- i)"]
    by (simp add: atoi_def showInt_def showNat_val)
next
  case False
  obtain c t where ct: "showNat (nat i) = c # t"
    using showNat_digits [of "nat i"] by (cases "showNat (nat i)") auto
  have "digitsVal (c # t) = nat i" using showNat_val [of "nat i"] ct by simp
  with False assms ct showNat_digits [of "nat i"] showNat_hd [OF ct] show ?thesis
    by (simp add: atoi_def showInt_def)
qed

section \<open>Results\<close>

text \<open>The result of fallible pure code is a sum, \<^const>\<open>Inl\<close> for the error.\<close>

definition bindR :: "'e + 'a \<Rightarrow> ('a \<Rightarrow> 'e + 'b) \<Rightarrow> 'e + 'b" where
  "bindR r f = (case r of Inl e \<Rightarrow> Inl e | Inr x \<Rightarrow> f x)"

lemma bindR_simps [simp]: "bindR (Inl e) f = Inl e" "bindR (Inr x) f = f x"
  by (simp_all add: bindR_def)

lemma bindR_eq_Inr: "bindR r f = Inr y \<longleftrightarrow> (\<exists>x. r = Inr x \<and> f x = Inr y)"
  by (cases r) auto

definition mapR :: "('a \<Rightarrow> 'b) \<Rightarrow> 'e + 'a \<Rightarrow> 'e + 'b" where
  "mapR f r = (case r of Inl e \<Rightarrow> Inl e | Inr x \<Rightarrow> Inr (f x))"

lemma mapR_simps [simp]: "mapR f (Inl e) = Inl e" "mapR f (Inr x) = Inr (f x)"
  by (simp_all add: mapR_def)

lemma mapR_eq_Inr: "mapR f r = Inr y \<longleftrightarrow> (\<exists>x. r = Inr x \<and> y = f x)"
  by (cases r) auto

lemma mapR_eq_Inl: "mapR f r = Inl e \<longleftrightarrow> r = Inl e"
  by (cases r) auto

end
