(* ===== verification/ApiTypes.thy ===== *)
theory ApiTypes
  imports GoBase
begin

text \<open>
  The \<^verbatim>\<open>ModelService\<close> custom resource of \<^verbatim>\<open>api/v1alpha1/modelservice_types.go\<close>, one record per
  struct and one field per struct field, with the parts of \<^verbatim>\<open>metav1\<close> and \<^verbatim>\<open>corev1\<close> it
  embeds. A Go pointer that may be nil is an option; a Go map is a partial map.
  The quantities of \<^verbatim>\<open>corev1.ResourceList\<close> are opaque: they are kept in their canonical
  text form.
\<close>

section \<open>Embedded Kubernetes metadata\<close>

type_synonym labels = "string \<rightharpoonup> string"
type_synonym quantity = string

record OwnerReference =
  or_APIVersion :: string
  or_Kind :: string
  or_Name :: string
  or_UID :: string
  or_Controller :: "bool option"
  or_BlockOwnerDeletion :: "bool option"

record ObjectMeta =
  meta_Name :: string
  meta_Namespace :: string
  meta_UID :: string
  meta_ResourceVersion :: string
  meta_Generation :: int64
  meta_DeletionTimestamp :: "time option"
  meta_Labels :: labels
  meta_Annotations :: labels
  meta_OwnerReferences :: "OwnerReference list"

definition zeroMeta :: ObjectMeta where
  "zeroMeta = \<lparr>meta_Name = [], meta_Namespace = [], meta_UID = [], meta_ResourceVersion = [],
     meta_Generation = 0, meta_DeletionTimestamp = None, meta_Labels = Map.empty,
     meta_Annotations = Map.empty, meta_OwnerReferences = []\<rparr>"

definition namedMeta :: "string \<Rightarrow> string \<Rightarrow> ObjectMeta" where
  "namedMeta name namespace = zeroMeta\<lparr>meta_Name := name, meta_Namespace := namespace\<rparr>"

lemma namedMeta_simps [simp]:
  "meta_Name (namedMeta n ns) = n" "meta_Namespace (namedMeta n ns) = ns"
  "meta_OwnerReferences (namedMeta n ns) = []"
  by (simp_all add: namedMeta_def zeroMeta_def)

lemma meta_Labels_same: "meta_Labels m = l \<Longrightarrow> m\<lparr>meta_Labels := l\<rparr> = m"
  by (cases m) simp

lemma zeroMeta_simps [simp]:
  "meta_Name zeroMeta = []" "meta_Namespace zeroMeta = []" "meta_OwnerReferences zeroMeta = []"
  by (simp_all add: zeroMeta_def)

type_synonym conditionStatus = string

abbreviation ConditionTrue :: conditionStatus where "ConditionTrue \<equiv> ''True''"
abbreviation ConditionFalse :: conditionStatus where "ConditionFalse \<equiv> ''False''"

record Condition =
  cond_Type :: string
  cond_Status :: conditionStatus
  cond_ObservedGeneration :: int64
  cond_LastTransitionTime :: time
  cond_Reason :: string
  cond_Message :: string

record ResourceRequirements =
  rr_Limits :: "(string \<times> quantity) list"
  rr_Requests :: "(string \<times> quantity) list"

section \<open>The ModelService specification\<close>

record ModelServiceStorage =
  st_Enabled :: bool
  st_Size :: string
  st_MountPath :: string

record ModelServiceSecurity =
  sec_RunAsNonRoot :: bool
  sec_RunAsUser :: int64
  sec_RunAsGroup :: int64
  sec_FSGroup :: int64
  sec_ReadOnlyRootFilesystem :: bool
  sec_AutomountServiceAccountToken :: "bool option"

record ModelServiceHealth =
  he_StartupPath :: string
  he_StartupFailureThreshold :: int32
  he_StartupPeriodSeconds :: int32
  he_ReadinessPath :: string
  he_LivenessPath :: string

record ModelServiceRollout =
  ro_TerminationGracePeriodSeconds :: int64
  ro_PreStopDelaySeconds :: int32
  ro_MinReadySeconds :: int32
  ro_ProgressDeadlineSeconds :: int32
  ro_MaxUnavailable :: string
  ro_MaxSurge :: string

record ModelServicePodDisruptionBudget =
  pd_Enabled :: bool
  pd_MaxUnavailable :: string

record ModelServiceNetworkPolicy =
  np_Enabled :: bool
  np_AllowSameNamespaceIngress :: bool
  np_AllowDNSEgress :: bool

record ModelServiceExposure =
  ex_Enabled :: bool
  ex_Hostname :: string
  ex_PathPrefix :: string
  ex_GatewayName :: string
  ex_GatewayNamespace :: string
  ex_GatewaySectionName :: string
  ex_GatewayDataPlaneNamespace :: string

type_synonym ModelServiceBackend = string

definition ModelServiceBackendDeployment :: ModelServiceBackend where
  [go_const]: "ModelServiceBackendDeployment = ''Deployment''"

definition ModelServiceBackendKServe :: ModelServiceBackend where
  [go_const]: "ModelServiceBackendKServe = ''KServe''"

record ModelServiceModelFormat =
  mf_Name :: string
  mf_Version :: string

record ModelServicePredictor =
  pr_ModelFormat :: ModelServiceModelFormat
  pr_Runtime :: string
  pr_StorageURI :: string
  pr_ServiceAccountName :: string

record ModelServiceSpec =
  spec_Backend :: ModelServiceBackend
  spec_Image :: string
  spec_Replicas :: int32
  spec_Port :: int32
  spec_Resources :: ResourceRequirements
  spec_Security :: "ModelServiceSecurity option"
  spec_Health :: "ModelServiceHealth option"
  spec_Rollout :: "ModelServiceRollout option"
  spec_PodDisruptionBudget :: "ModelServicePodDisruptionBudget option"
  spec_NetworkPolicy :: "ModelServiceNetworkPolicy option"
  spec_Exposure :: "ModelServiceExposure option"
  spec_Storage :: "ModelServiceStorage option"
  spec_Predictor :: "ModelServicePredictor option"

record ModelServiceStatus =
  status_Phase :: string
  status_ReadyReplicas :: int32
  status_Endpoint :: string
  status_ObservedGeneration :: int64
  status_Conditions :: "Condition list"

record ModelService =
  ms_APIVersion :: string
  ms_Kind :: string
  ms_Meta :: ObjectMeta
  ms_Spec :: ModelServiceSpec
  ms_Status :: ModelServiceStatus

abbreviation ms_Name :: "ModelService \<Rightarrow> string" where
  "ms_Name m \<equiv> meta_Name (ms_Meta m)"

abbreviation ms_Namespace :: "ModelService \<Rightarrow> string" where
  "ms_Namespace m \<equiv> meta_Namespace (ms_Meta m)"

abbreviation ms_Generation :: "ModelService \<Rightarrow> int64" where
  "ms_Generation m \<equiv> meta_Generation (ms_Meta m)"

text \<open>The zero values a Go variable of these types starts with.\<close>

definition zeroSpec :: ModelServiceSpec where
  "zeroSpec = \<lparr>spec_Backend = [], spec_Image = [], spec_Replicas = 0, spec_Port = 0,
     spec_Resources = \<lparr>rr_Limits = [], rr_Requests = []\<rparr>, spec_Security = None, spec_Health = None,
     spec_Rollout = None, spec_PodDisruptionBudget = None, spec_NetworkPolicy = None,
     spec_Exposure = None, spec_Storage = None, spec_Predictor = None\<rparr>"

definition zeroStatus :: ModelServiceStatus where
  "zeroStatus = \<lparr>status_Phase = [], status_ReadyReplicas = 0, status_Endpoint = [],
     status_ObservedGeneration = 0, status_Conditions = []\<rparr>"

definition zeroModelService :: ModelService where
  "zeroModelService = \<lparr>ms_APIVersion = [], ms_Kind = [], ms_Meta = zeroMeta, ms_Spec = zeroSpec,
     ms_Status = zeroStatus\<rparr>"

definition zeroExposure :: ModelServiceExposure where
  "zeroExposure = \<lparr>ex_Enabled = False, ex_Hostname = [], ex_PathPrefix = [], ex_GatewayName = [],
     ex_GatewayNamespace = [], ex_GatewaySectionName = [], ex_GatewayDataPlaneNamespace = []\<rparr>"

definition zeroStorage :: ModelServiceStorage where
  "zeroStorage = \<lparr>st_Enabled = False, st_Size = [], st_MountPath = []\<rparr>"

definition zeroSecurity :: ModelServiceSecurity where
  "zeroSecurity = \<lparr>sec_RunAsNonRoot = False, sec_RunAsUser = 0, sec_RunAsGroup = 0, sec_FSGroup = 0,
     sec_ReadOnlyRootFilesystem = False, sec_AutomountServiceAccountToken = None\<rparr>"

end
