(* ===== verification/KubeTypes.thy ===== *)
theory KubeTypes
  imports ApiTypes
begin

text \<open>
  The Kubernetes objects the operator manages, with the fields it writes or reads (and, for the
  objects it updates in place, some it leaves alone, so that the frame of an update can be
  stated), the values of an unstructured object, and the third-party functions the sources
  call. The latter are not modelled: they are the fields of the record \<open>ext\<close>, which every
  definition that uses one of them takes as an argument.
\<close>

section \<open>Workload objects\<close>

datatype IntOrString = IntVal int32 | StrVal string

record LabelSelector =
  ls_MatchLabels :: labels

record VolumeMount =
  vm_Name :: string
  vm_MountPath :: string

record Probe =
  pb_Path :: string
  pb_Port :: IntOrString
  pb_InitialDelaySeconds :: int32
  pb_PeriodSeconds :: int32
  pb_TimeoutSeconds :: int32
  pb_FailureThreshold :: int32

record ContainerPort =
  cp_Name :: string
  cp_ContainerPort :: int32
  cp_Protocol :: string

record SecurityContext =
  sc_AllowPrivilegeEscalation :: "bool option"
  sc_ReadOnlyRootFilesystem :: "bool option"
  sc_DropCapabilities :: "string list option"

record PodSecurityContext =
  psc_RunAsNonRoot :: "bool option"
  psc_RunAsUser :: "int64 option"
  psc_RunAsGroup :: "int64 option"
  psc_FSGroup :: "int64 option"
  psc_SeccompProfile :: "string option"

record Lifecycle =
  lc_PreStopCommand :: "string list"

record Container =
  c_Name :: string
  c_Image :: string
  c_ImagePullPolicy :: string
  c_Resources :: ResourceRequirements
  c_VolumeMounts :: "VolumeMount list"
  c_SecurityContext :: "SecurityContext option"
  c_Lifecycle :: "Lifecycle option"
  c_Ports :: "ContainerPort list"
  c_StartupProbe :: "Probe option"
  c_ReadinessProbe :: "Probe option"
  c_LivenessProbe :: "Probe option"

datatype VolumeSource = EmptyDir | PersistentVolumeClaimSource string bool

record Volume =
  v_Name :: string
  v_Source :: VolumeSource

record PodSpec =
  ps_TerminationGracePeriodSeconds :: "int64 option"
  ps_ServiceAccountName :: string
  ps_AutomountServiceAccountToken :: "bool option"
  ps_SecurityContext :: "PodSecurityContext option"
  ps_Containers :: "Container list"
  ps_Volumes :: "Volume list"

record DeploymentStrategy =
  ds_Type :: string
  ds_MaxUnavailable :: "IntOrString option"
  ds_MaxSurge :: "IntOrString option"

record DeploymentCondition =
  dc_Type :: string
  dc_Status :: conditionStatus
  dc_Reason :: string

record Deployment =
  dep_Meta :: ObjectMeta
  dep_Replicas :: "int32 option"
  dep_Strategy :: DeploymentStrategy
  dep_MinReadySeconds :: int32
  dep_ProgressDeadlineSeconds :: "int32 option"
  dep_Selector :: "LabelSelector option"
  dep_TemplateLabels :: labels
  dep_TemplateAnnotations :: labels
  dep_PodSpec :: PodSpec
  dep_Paused :: bool
  dep_RevisionHistoryLimit :: "int32 option"
  dep_StatusReadyReplicas :: int32
  dep_StatusAvailableReplicas :: int32
  dep_StatusConditions :: "DeploymentCondition list"

record ServicePort =
  sp_Name :: string
  sp_Port :: int32
  sp_TargetPort :: IntOrString
  sp_Protocol :: string

record Service =
  svc_Meta :: ObjectMeta
  svc_Selector :: labels
  svc_Ports :: "ServicePort list"
  svc_Type :: string
  svc_ClusterIP :: string

record ServiceAccount =
  sa_Meta :: ObjectMeta
  sa_AutomountServiceAccountToken :: "bool option"

record PersistentVolumeClaim =
  pvc_Meta :: ObjectMeta
  pvc_AccessModes :: "string list"
  pvc_Requests :: "(string \<times> quantity) list"
  pvc_Limits :: "(string \<times> quantity) list"
  pvc_StorageClassName :: "string option"
  pvc_VolumeName :: string

record PodDisruptionBudget =
  pdb_Meta :: ObjectMeta
  pdb_Selector :: "LabelSelector option"
  pdb_MinAvailable :: "IntOrString option"
  pdb_MaxUnavailable :: "IntOrString option"

record NetworkPolicyPeer =
  npp_PodSelector :: "LabelSelector option"
  npp_NamespaceSelector :: "LabelSelector option"

record NetworkPolicyPort =
  npo_Protocol :: "string option"
  npo_Port :: "IntOrString option"

record NetworkPolicyRule =
  npr_Peers :: "NetworkPolicyPeer list"
  npr_Ports :: "NetworkPolicyPort list"

record NetworkPolicy =
  nep_Meta :: ObjectMeta
  nep_PodSelector :: LabelSelector
  nep_PolicyTypes :: "string list"
  nep_Ingress :: "NetworkPolicyRule list"
  nep_Egress :: "NetworkPolicyRule list"

record ParentReference =
  pref_Name :: string
  pref_Namespace :: "string option"
  pref_SectionName :: "string option"

record HTTPBackendRef =
  bref_Kind :: "string option"
  bref_Name :: string
  bref_Port :: "int32 option"
  bref_Weight :: "int32 option"

record HTTPRouteRule =
  hrr_PathMatches :: "(string \<times> string) list"
  hrr_BackendRefs :: "HTTPBackendRef list"

record HTTPRoute =
  hr_Meta :: ObjectMeta
  hr_ParentRefs :: "ParentReference list"
  hr_Hostnames :: "string list"
  hr_Rules :: "HTTPRouteRule list"

section \<open>Unstructured objects\<close>

text \<open>The values of Go's \<^verbatim>\<open>any\<close> an unstructured object holds; a Go map is an association
  list with one entry per key.\<close>

datatype anyval =
    ANil
  | ABool bool
  | AInt int64
  | AFloat string
  | AStr string
  | ASlice "anyval list"
  | AMap "(string \<times> anyval) list"

type_synonym anymap = "(string \<times> anyval) list"

record GroupVersionKind =
  gvk_Group :: string
  gvk_Version :: string
  gvk_Kind :: string

record Unstructured =
  us_GVK :: GroupVersionKind
  us_Meta :: ObjectMeta
  us_Object :: anymap

section \<open>Objects of any kind\<close>

datatype objkind =
    ServiceAccountKind | DeploymentKind | ServiceKind | PersistentVolumeClaimKind
  | PodDisruptionBudgetKind | NetworkPolicyKind | HTTPRouteKind | InferenceServiceKind
  | ModelServiceKind

datatype kobject =
    KServiceAccount ServiceAccount
  | KDeployment Deployment
  | KService Service
  | KPersistentVolumeClaim PersistentVolumeClaim
  | KPodDisruptionBudget PodDisruptionBudget
  | KNetworkPolicy NetworkPolicy
  | KHTTPRoute HTTPRoute
  | KInferenceService Unstructured
  | KModelService ModelService

primrec kindOf :: "kobject \<Rightarrow> objkind" where
  "kindOf (KServiceAccount x) = ServiceAccountKind"
| "kindOf (KDeployment x) = DeploymentKind"
| "kindOf (KService x) = ServiceKind"
| "kindOf (KPersistentVolumeClaim x) = PersistentVolumeClaimKind"
| "kindOf (KPodDisruptionBudget x) = PodDisruptionBudgetKind"
| "kindOf (KNetworkPolicy x) = NetworkPolicyKind"
| "kindOf (KHTTPRoute x) = HTTPRouteKind"
| "kindOf (KInferenceService x) = InferenceServiceKind"
| "kindOf (KModelService x) = ModelServiceKind"

primrec metaOf :: "kobject \<Rightarrow> ObjectMeta" where
  "metaOf (KServiceAccount x) = sa_Meta x"
| "metaOf (KDeployment x) = dep_Meta x"
| "metaOf (KService x) = svc_Meta x"
| "metaOf (KPersistentVolumeClaim x) = pvc_Meta x"
| "metaOf (KPodDisruptionBudget x) = pdb_Meta x"
| "metaOf (KNetworkPolicy x) = nep_Meta x"
| "metaOf (KHTTPRoute x) = hr_Meta x"
| "metaOf (KInferenceService x) = us_Meta x"
| "metaOf (KModelService x) = ms_Meta x"

type_synonym objkey = "string \<times> string"

text \<open>\<^verbatim>\<open>client.ObjectKeyFromObject\<close>: namespace and name.\<close>

definition keyOf :: "kobject \<Rightarrow> objkey" where
  "keyOf obj = (meta_Namespace (metaOf obj), meta_Name (metaOf obj))"

definition keyOfMS :: "ModelService \<Rightarrow> objkey" where
  "keyOfMS m = (ms_Namespace m, ms_Name m)"

section \<open>Zero values and typed variables\<close>

definition zeroPodSpec :: PodSpec where
  "zeroPodSpec = \<lparr>ps_TerminationGracePeriodSeconds = None, ps_ServiceAccountName = [],
     ps_AutomountServiceAccountToken = None, ps_SecurityContext = None, ps_Containers = [],
     ps_Volumes = []\<rparr>"

definition zeroDeployment :: Deployment where
  "zeroDeployment = \<lparr>dep_Meta = zeroMeta, dep_Replicas = None,
     dep_Strategy = \<lparr>ds_Type = [], ds_MaxUnavailable = None, ds_MaxSurge = None\<rparr>,
     dep_MinReadySeconds = 0, dep_ProgressDeadlineSeconds = None, dep_Selector = None,
     dep_TemplateLabels = Map.empty, dep_TemplateAnnotations = Map.empty, dep_PodSpec = zeroPodSpec,
     dep_Paused = False, dep_RevisionHistoryLimit = None, dep_StatusReadyReplicas = 0,
     dep_StatusAvailableReplicas = 0, dep_StatusConditions = []\<rparr>"

definition zeroService :: Service where
  "zeroService = \<lparr>svc_Meta = zeroMeta, svc_Selector = Map.empty, svc_Ports = [], svc_Type = [],
     svc_ClusterIP = []\<rparr>"

definition zeroServiceAccount :: ServiceAccount where
  "zeroServiceAccount = \<lparr>sa_Meta = zeroMeta, sa_AutomountServiceAccountToken = None\<rparr>"

definition zeroPVC :: PersistentVolumeClaim where
  "zeroPVC = \<lparr>pvc_Meta = zeroMeta, pvc_AccessModes = [], pvc_Requests = [], pvc_Limits = [],
     pvc_StorageClassName = None, pvc_VolumeName = []\<rparr>"

definition zeroPDB :: PodDisruptionBudget where
  "zeroPDB = \<lparr>pdb_Meta = zeroMeta, pdb_Selector = None, pdb_MinAvailable = None,
     pdb_MaxUnavailable = None\<rparr>"

definition zeroNetworkPolicy :: NetworkPolicy where
  "zeroNetworkPolicy = \<lparr>nep_Meta = zeroMeta, nep_PodSelector = \<lparr>ls_MatchLabels = Map.empty\<rparr>,
     nep_PolicyTypes = [], nep_Ingress = [], nep_Egress = []\<rparr>"

definition zeroHTTPRoute :: HTTPRoute where
  "zeroHTTPRoute = \<lparr>hr_Meta = zeroMeta, hr_ParentRefs = [], hr_Hostnames = [], hr_Rules = []\<rparr>"

definition zeroUnstructured :: Unstructured where
  "zeroUnstructured = \<lparr>us_GVK = \<lparr>gvk_Group = [], gvk_Version = [], gvk_Kind = []\<rparr>,
     us_Meta = zeroMeta, us_Object = []\<rparr>"

text \<open>
  A client call fills a variable of a fixed Go type, so a caller never sees an object of another
  kind: reading a \<^typ>\<open>kobject\<close> into a typed variable yields its content, or the zero value
  of the type.
\<close>

definition asServiceAccount :: "kobject \<Rightarrow> ServiceAccount" where
  "asServiceAccount k = (case k of KServiceAccount x \<Rightarrow> x | _ \<Rightarrow> zeroServiceAccount)"

definition asDeployment :: "kobject \<Rightarrow> Deployment" where
  "asDeployment k = (case k of KDeployment x \<Rightarrow> x | _ \<Rightarrow> zeroDeployment)"

definition asService :: "kobject \<Rightarrow> Service" where
  "asService k = (case k of KService x \<Rightarrow> x | _ \<Rightarrow> zeroService)"

definition asPVC :: "kobject \<Rightarrow> PersistentVolumeClaim" where
  "asPVC k = (case k of KPersistentVolumeClaim x \<Rightarrow> x | _ \<Rightarrow> zeroPVC)"

definition asPDB :: "kobject \<Rightarrow> PodDisruptionBudget" where
  "asPDB k = (case k of KPodDisruptionBudget x \<Rightarrow> x | _ \<Rightarrow> zeroPDB)"

definition asNetworkPolicy :: "kobject \<Rightarrow> NetworkPolicy" where
  "asNetworkPolicy k = (case k of KNetworkPolicy x \<Rightarrow> x | _ \<Rightarrow> zeroNetworkPolicy)"

definition asHTTPRoute :: "kobject \<Rightarrow> HTTPRoute" where
  "asHTTPRoute k = (case k of KHTTPRoute x \<Rightarrow> x | _ \<Rightarrow> zeroHTTPRoute)"

definition asUnstructured :: "kobject \<Rightarrow> Unstructured" where
  "asUnstructured k = (case k of KInferenceService x \<Rightarrow> x | _ \<Rightarrow> zeroUnstructured)"

definition asModelService :: "kobject \<Rightarrow> ModelService" where
  "asModelService k = (case k of KModelService x \<Rightarrow> x | _ \<Rightarrow> zeroModelService)"

lemma as_typed [simp]:
  "asServiceAccount (KServiceAccount a) = a" "asDeployment (KDeployment d) = d"
  "asService (KService s) = s" "asPVC (KPersistentVolumeClaim p) = p"
  "asPDB (KPodDisruptionBudget b) = b" "asNetworkPolicy (KNetworkPolicy n) = n"
  "asHTTPRoute (KHTTPRoute r) = r" "asUnstructured (KInferenceService u) = u"
  "asModelService (KModelService m) = m"
  by (simp_all add: asServiceAccount_def asDeployment_def asService_def asPVC_def asPDB_def
      asNetworkPolicy_def asHTTPRoute_def asUnstructured_def asModelService_def)

section \<open>Third-party functions\<close>

text \<open>
  \<^item> \<^verbatim>\<open>controllerutil.SetControllerReference\<close> and \<^verbatim>\<open>metav1.IsControlledBy\<close> (on metadata);
  \<^item> \<^verbatim>\<open>intstr.Parse\<close>, \<^verbatim>\<open>resource.ParseQuantity\<close>;
  \<^item> the JSON encoding of \<^verbatim>\<open>corev1.ResourceRequirements\<close> (its quantities encode themselves) and
    the decoding of that text into a generic map;
  \<^item> \<^verbatim>\<open>unstructured.NestedString\<close> and \<^verbatim>\<open>NestedSlice\<close>: value, found flag, error;
  \<^item> \<^verbatim>\<open>validation.IsDNS1123Label\<close> and \<^verbatim>\<open>IsDNS1123Subdomain\<close>: the list of complaints.
\<close>

record ext =
  x_SetControllerReference :: "ModelService \<Rightarrow> ObjectMeta \<Rightarrow> goerror + ObjectMeta"
  x_IsControlledBy :: "ObjectMeta \<Rightarrow> ObjectMeta \<Rightarrow> bool"
  x_ParseIntOrString :: "string \<Rightarrow> IntOrString"
  x_ParseQuantity :: "string \<Rightarrow> goerror + quantity"
  x_MarshalResources :: "ResourceRequirements \<Rightarrow> goerror + string"
  x_UnmarshalMap :: "string \<Rightarrow> goerror + anymap"
  x_NestedString :: "anymap \<Rightarrow> string list \<Rightarrow> string \<times> bool \<times> goerror option"
  x_NestedSlice :: "anymap \<Rightarrow> string list \<Rightarrow> anyval list \<times> bool \<times> goerror option"
  x_IsDNS1123Label :: "string \<Rightarrow> string list"
  x_IsDNS1123Subdomain :: "string \<Rightarrow> string list"

text \<open>
  What the documentation of the owner-reference helpers promises: setting the reference touches
  only the owner references, setting it again changes nothing, and an object that got it is
  controlled by the owner.
\<close>

definition ownerRefsDocumented :: "ext \<Rightarrow> bool" where
  "ownerRefsDocumented x \<longleftrightarrow>
     (\<forall>ms m m'. x_SetControllerReference x ms m = Inr m' \<longrightarrow>
        (\<exists>refs. m' = m\<lparr>meta_OwnerReferences := refs\<rparr>) \<and>
        x_SetControllerReference x ms m' = Inr m' \<and>
        x_IsControlledBy x m' (ms_Meta ms))"

lemma ownerRefsD:
  assumes "ownerRefsDocumented x" "x_SetControllerReference x ms m = Inr m'"
  shows "\<exists>refs. m' = m\<lparr>meta_OwnerReferences := refs\<rparr>"
    and "x_SetControllerReference x ms m' = Inr m'"
    and "x_IsControlledBy x m' (ms_Meta ms)"
  using assms unfolding ownerRefsDocumented_def by blast+

lemma ownerRefs_fields:
  assumes "ownerRefsDocumented x" "x_SetControllerReference x ms m = Inr m'"
  shows "meta_Name m' = meta_Name m" "meta_Namespace m' = meta_Namespace m"
    and "meta_Labels m' = meta_Labels m" "meta_Annotations m' = meta_Annotations m"
    and "meta_UID m' = meta_UID m" "meta_ResourceVersion m' = meta_ResourceVersion m"
  using ownerRefsD(1) [OF assms] by auto

end
