(* ===== verification/Effects.thy ===== *)
theory Effects
  imports KubeTypes
begin

text \<open>
  Programs with effects. The sources talk to the outside world through calls: the Kubernetes
  client (\<^verbatim>\<open>Get\<close>, \<^verbatim>\<open>Create\<close>, \<^verbatim>\<open>Update\<close>, \<^verbatim>\<open>Status().Update\<close>, \<^verbatim>\<open>Patch\<close>,
  \<^verbatim>\<open>Delete\<close>, \<^verbatim>\<open>List\<close>, \<^verbatim>\<open>controllerutil.CreateOrUpdate\<close>), the clock, the random source, the
  OIDC verifier, the log and the metrics. A value of type \<open>'a prog\<close> is a piece of such code:
  it returns a value or makes one call and continues with whatever the world answers.
  No answer is ruled out, so a theorem about every execution of a program holds against every
  API server, with any other client working on the cluster at the same time.
  Every execution is finite: \<open>'a prog\<close> is a datatype.
\<close>

section \<open>Calls and answers\<close>

text \<open>Token claims as \<^verbatim>\<open>internal/api/auth/claims.go\<close> decodes them.\<close>

record RealmAccess =
  ra_Roles :: "string list"

record Claims =
  cl_Subject :: string
  cl_PreferredUsername :: string
  cl_AuthorizedParty :: string
  cl_RealmAccess :: RealmAccess

text \<open>Calls answered with an object of the kind asked for, or an error. The argument of
  \<open>OCreateOrUpdate\<close> is the object with its key set and the mutate function of the caller.\<close>

datatype objcall =
    OGet objkind objkey
  | OCreateOrUpdate kobject "kobject \<Rightarrow> goerror + kobject"
  | OCreate kobject
  | OUpdate kobject
  | OStatusUpdate kobject
  | OApply kobject string bool

record Preconditions =
  pre_UID :: "string option"
  pre_ResourceVersion :: "string option"

datatype logval = LStr string | LInt int | LStrs "string list"

record logentry =
  le_Level :: string
  le_Message :: string
  le_Attrs :: "(string \<times> logval) list"

datatype outevent =
    LogOut logentry
  | InFlightInc
  | InFlightDec
  | RequestsInc string string string
  | DurationObserve string string string time

datatype 'a prog =
    Ret 'a
  | ObjCall objcall "goerror + kobject \<Rightarrow> 'a prog"
  | DelCall kobject "Preconditions option" "goerror option \<Rightarrow> 'a prog"
  | ListCall string "nat option" "goerror + ModelService list \<Rightarrow> 'a prog"
  | Now "time \<Rightarrow> 'a prog"
  | RandRead nat "goerror + string \<Rightarrow> 'a prog"
  | VerifyToken string "goerror + (goerror + Claims) \<Rightarrow> 'a prog"
  | Emit outevent "'a prog"

datatype event =
    EObj objcall "goerror + kobject"
  | EDel kobject "Preconditions option" "goerror option"
  | EList string "nat option" "goerror + ModelService list"
  | ENow time
  | ERand nat "goerror + string"
  | EVerify string "goerror + (goerror + Claims)"
  | EOut outevent

text \<open>Induction over programs, with the hypothesis for every answer.\<close>

lemma prog_induct [case_names Ret Obj Del List Now Rand Verify Emit]:
  fixes p :: "'a prog"
  assumes "\<And>x. P (Ret x)"
    and "\<And>c k. (\<And>r. P (k r)) \<Longrightarrow> P (ObjCall c k)"
    and "\<And>d q k. (\<And>r. P (k r)) \<Longrightarrow> P (DelCall d q k)"
    and "\<And>n l k. (\<And>r. P (k r)) \<Longrightarrow> P (ListCall n l k)"
    and "\<And>k. (\<And>t. P (k t)) \<Longrightarrow> P (Now k)"
    and "\<And>n k. (\<And>r. P (k r)) \<Longrightarrow> P (RandRead n k)"
    and "\<And>t k. (\<And>r. P (k r)) \<Longrightarrow> P (VerifyToken t k)"
    and "\<And>w q. P q \<Longrightarrow> P (Emit w q)"
  shows "P p"
  using assms by (induction p) (simp_all add: rangeI)

section \<open>Sequencing\<close>

primrec bind :: "'a prog \<Rightarrow> ('a \<Rightarrow> 'b prog) \<Rightarrow> 'b prog" where
  "bind (Ret x) f = f x"
| "bind (ObjCall c k) f = ObjCall c (\<lambda>r. bind (k r) f)"
| "bind (DelCall d p k) f = DelCall d p (\<lambda>r. bind (k r) f)"
| "bind (ListCall n l k) f = ListCall n l (\<lambda>r. bind (k r) f)"
| "bind (Now k) f = Now (\<lambda>r. bind (k r) f)"
| "bind (RandRead n k) f = RandRead n (\<lambda>r. bind (k r) f)"
| "bind (VerifyToken t k) f = VerifyToken t (\<lambda>r. bind (k r) f)"
| "bind (Emit w p) f = Emit w (bind p f)"

lemma bind_Ret [simp]: "bind p Ret = p"
  by (induction p) auto

lemma bind_assoc [simp]: "bind (bind p f) g = bind p (\<lambda>x. bind (f x) g)"
  by (induction p) auto

text \<open>Go's \<^verbatim>\<open>if err != nil { return err }\<close>.\<close>

definition bindE :: "('e + 'a) prog \<Rightarrow> ('a \<Rightarrow> ('e + 'b) prog) \<Rightarrow> ('e + 'b) prog" where
  "bindE p f = bind p (\<lambda>r. case r of Inl e \<Rightarrow> Ret (Inl e) | Inr x \<Rightarrow> f x)"

lemma bindE_simps [simp]:
  "bindE (Ret (Inl e)) f = Ret (Inl e)" "bindE (Ret (Inr x)) f = f x"
  by (simp_all add: bindE_def)

definition objCall :: "objcall \<Rightarrow> (goerror + kobject) prog" where
  [go_fun]: "objCall c = ObjCall c Ret"

definition delCall :: "kobject \<Rightarrow> Preconditions option \<Rightarrow> (goerror + unit) prog" where
  [go_fun]: "delCall d p = DelCall d p (\<lambda>r. Ret (case r of None \<Rightarrow> Inr () | Some e \<Rightarrow> Inl e))"

section \<open>Executions\<close>

inductive exec :: "'a prog \<Rightarrow> event list \<Rightarrow> 'a \<Rightarrow> bool" where
  exec_Ret: "exec (Ret x) [] x"
| exec_Obj: "exec (k r) tr y \<Longrightarrow> exec (ObjCall c k) (EObj c r # tr) y"
| exec_Del: "exec (k r) tr y \<Longrightarrow> exec (DelCall d p k) (EDel d p r # tr) y"
| exec_List: "exec (k r) tr y \<Longrightarrow> exec (ListCall n l k) (EList n l r # tr) y"
| exec_Now: "exec (k t) tr y \<Longrightarrow> exec (Now k) (ENow t # tr) y"
| exec_Rand: "exec (k r) tr y \<Longrightarrow> exec (RandRead n k) (ERand n r # tr) y"
| exec_Verify: "exec (k r) tr y \<Longrightarrow> exec (VerifyToken t k) (EVerify t r # tr) y"
| exec_Emit: "exec p tr y \<Longrightarrow> exec (Emit w p) (EOut w # tr) y"

inductive_simps exec_Ret_iff [simp]: "exec (Ret x) tr y"
inductive_simps exec_Obj_iff: "exec (ObjCall c k) tr y"
inductive_simps exec_Del_iff: "exec (DelCall d p k) tr y"
inductive_simps exec_List_iff: "exec (ListCall n l k) tr y"
inductive_simps exec_Now_iff: "exec (Now k) tr y"
inductive_simps exec_Rand_iff: "exec (RandRead n k) tr y"
inductive_simps exec_Verify_iff: "exec (VerifyToken t k) tr y"
inductive_simps exec_Emit_iff: "exec (Emit w p) tr y"

inductive_cases exec_ObjE: "exec (ObjCall c k) tr y"
inductive_cases exec_DelE: "exec (DelCall d p k) tr y"
inductive_cases exec_ListE: "exec (ListCall n l k) tr y"
inductive_cases exec_NowE: "exec (Now k) tr y"
inductive_cases exec_RandE: "exec (RandRead n k) tr y"
inductive_cases exec_VerifyE: "exec (VerifyToken t k) tr y"
inductive_cases exec_EmitE: "exec (Emit w p) tr y"

lemmas exec_elims =
  exec_ObjE exec_DelE exec_ListE exec_NowE exec_RandE exec_VerifyE exec_EmitE

lemmas exec_iffs =
  exec_Obj_iff exec_Del_iff exec_List_iff exec_Now_iff exec_Rand_iff exec_Verify_iff exec_Emit_iff

lemma exec_bind_append: "exec p tr1 x \<Longrightarrow> exec (f x) tr2 y \<Longrightarrow> exec (bind p f) (tr1 @ tr2) y"
  by (induction rule: exec.induct) (auto intro: exec.intros)

lemma exec_Cons_split:
  assumes "\<exists>tr1 tr2 x. tr = tr1 @ tr2 \<and> exec p tr1 x \<and> exec (f x) tr2 y"
    and "\<And>tr1 x. exec p tr1 x \<Longrightarrow> exec p' (e # tr1) x"
  shows "\<exists>tr1 tr2 x. e # tr = tr1 @ tr2 \<and> exec p' tr1 x \<and> exec (f x) tr2 y"
proof -
  from assms(1) obtain tr1 tr2 x where "tr = tr1 @ tr2" "exec p tr1 x" "exec (f x) tr2 y" by blast
  then have "e # tr = (e # tr1) @ tr2 \<and> exec p' (e # tr1) x \<and> exec (f x) tr2 y"
    by (simp add: assms(2))
  then show ?thesis by blast
qed

lemma exec_bindD:
  "exec (bind p f) tr y \<Longrightarrow> \<exists>tr1 tr2 x. tr = tr1 @ tr2 \<and> exec p tr1 x \<and> exec (f x) tr2 y"
proof (induction p arbitrary: tr rule: prog_induct)
  case (Ret x)
  then show ?case by (intro exI [of _ "[]"] exI [of _ tr] exI [of _ x]) simp
qed (simp only: bind.simps, elim exec_elims, hypsubst, rule exec_Cons_split, blast, erule exec.intros)+

lemma exec_bind:
  "exec (bind p f) tr y \<longleftrightarrow> (\<exists>tr1 tr2 x. tr = tr1 @ tr2 \<and> exec p tr1 x \<and> exec (f x) tr2 y)"
proof
  assume "\<exists>tr1 tr2 x. tr = tr1 @ tr2 \<and> exec p tr1 x \<and> exec (f x) tr2 y"
  then show "exec (bind p f) tr y" by (elim exE conjE) (simp add: exec_bind_append)
qed (rule exec_bindD)

lemma exec_bindE:
  "exec (bindE p f) tr y \<longleftrightarrow>
     (\<exists>e. exec p tr (Inl e) \<and> y = Inl e) \<or>
     (\<exists>tr1 tr2 x. tr = tr1 @ tr2 \<and> exec p tr1 (Inr x) \<and> exec (f x) tr2 y)"
proof -
  have "exec (bindE p f) tr y \<longleftrightarrow> (\<exists>tr1 tr2 r. tr = tr1 @ tr2 \<and> exec p tr1 r \<and>
      ((\<exists>e. r = Inl e \<and> tr2 = [] \<and> y = Inl e) \<or> (\<exists>x. r = Inr x \<and> exec (f x) tr2 y)))"
    unfolding bindE_def exec_bind by (intro iff_exI conj_cong refl) (auto split: sum.splits)
  also have "\<dots> \<longleftrightarrow> (\<exists>e. exec p tr (Inl e) \<and> y = Inl e) \<or>
      (\<exists>tr1 tr2 x. tr = tr1 @ tr2 \<and> exec p tr1 (Inr x) \<and> exec (f x) tr2 y)"
    by force
  finally show ?thesis .
qed

text \<open>No program is stuck: whatever the world answers, there is a result.\<close>

lemma exec_total: "\<exists>tr y. exec p tr y"
  by (induction p rule: prog_induct) (blast intro: exec.intros)+

lemma exec_totalE: obtains tr y where "exec p tr y"
  using exec_total [of p] by metis

section \<open>Properties of every call\<close>

text \<open>\<open>always P p\<close>: every event of every execution of \<open>p\<close> satisfies \<open>P\<close>.\<close>

primrec always :: "(event \<Rightarrow> bool) \<Rightarrow> 'a prog \<Rightarrow> bool" where
  "always P (Ret x) \<longleftrightarrow> True"
| "always P (ObjCall c k) \<longleftrightarrow> (\<forall>r. P (EObj c r) \<and> always P (k r))"
| "always P (DelCall d p k) \<longleftrightarrow> (\<forall>r. P (EDel d p r) \<and> always P (k r))"
| "always P (ListCall n l k) \<longleftrightarrow> (\<forall>r. P (EList n l r) \<and> always P (k r))"
| "always P (Now k) \<longleftrightarrow> (\<forall>t. P (ENow t) \<and> always P (k t))"
| "always P (RandRead n k) \<longleftrightarrow> (\<forall>r. P (ERand n r) \<and> always P (k r))"
| "always P (VerifyToken t k) \<longleftrightarrow> (\<forall>r. P (EVerify t r) \<and> always P (k r))"
| "always P (Emit w p) \<longleftrightarrow> P (EOut w) \<and> always P p"

lemma always_exec: "exec p tr x \<Longrightarrow> always P p \<Longrightarrow> list_all P tr"
  by (induction rule: exec.induct) auto

lemma alwaysD: "always P p \<Longrightarrow> exec p tr x \<Longrightarrow> e \<in> set tr \<Longrightarrow> P e"
  using always_exec by (metis list_all_iff)

lemma always_bind:
  assumes "always P p" "\<And>tr x. exec p tr x \<Longrightarrow> always P (f x)"
  shows "always P (bind p f)"
  using assms by (induction p rule: prog_induct) (fastforce intro: exec.intros)+

lemma always_bindI: "always P p \<Longrightarrow> (\<And>x. always P (f x)) \<Longrightarrow> always P (bind p f)"
  by (rule always_bind)

lemma always_bindEI: "always P p \<Longrightarrow> (\<And>x. always P (f x)) \<Longrightarrow> always P (bindE p f)"
  unfolding bindE_def by (rule always_bindI) (auto split: sum.splits)

lemma always_mono: "always P p \<Longrightarrow> (\<And>e. P e \<Longrightarrow> Q e) \<Longrightarrow> always Q p"
  by (induction p rule: prog_induct) auto

lemma always_conj: "always P p \<Longrightarrow> always Q p \<Longrightarrow> always (\<lambda>e. P e \<and> Q e) p"
  by (induction p rule: prog_induct) auto

lemma always_step:
  assumes "\<And>tr y. exec q tr y \<Longrightarrow> list_all P (e # tr)"
    and "(\<And>tr y. exec q tr y \<Longrightarrow> list_all P tr) \<Longrightarrow> always P q"
  shows "P e \<and> always P q"
  using assms exec_total [of q] by auto

lemma always_of_exec: "(\<And>tr y. exec p tr y \<Longrightarrow> list_all P tr) \<Longrightarrow> always P p"
proof (induction p rule: prog_induct)
  case (Obj c k)
  have "P (EObj c res) \<and> always P (k res)" for res
    by (rule always_step) (rule Obj(2), erule exec_Obj, rule Obj(1))
  then show ?case by simp
next
  case (Del d q k)
  have "P (EDel d q res) \<and> always P (k res)" for res
    by (rule always_step) (rule Del(2), erule exec_Del, rule Del(1))
  then show ?case by simp
next
  case (List n l k)
  have "P (EList n l res) \<and> always P (k res)" for res
    by (rule always_step) (rule List(2), erule exec_List, rule List(1))
  then show ?case by simp
next
  case (Now k)
  have "P (ENow res) \<and> always P (k res)" for res
    by (rule always_step) (rule Now(2), erule exec_Now, rule Now(1))
  then show ?case by simp
next
  case (Rand n k)
  have "P (ERand n res) \<and> always P (k res)" for res
    by (rule always_step) (rule Rand(2), erule exec_Rand, rule Rand(1))
  then show ?case by simp
next
  case (Verify t k)
  have "P (EVerify t res) \<and> always P (k res)" for res
    by (rule always_step) (rule Verify(2), erule exec_Verify, rule Verify(1))
  then show ?case by simp
next
  case (Emit w q)
  have "P (EOut w) \<and> always P q"
    by (rule always_step) (rule Emit(2), erule exec_Emit, rule Emit(1))
  then show ?case by simp
qed simp

lemma always_objCall [simp]: "always P (objCall c) \<longleftrightarrow> (\<forall>r. P (EObj c r))"
  by (simp add: objCall_def)

lemma always_delCall [simp]: "always P (delCall d p) \<longleftrightarrow> (\<forall>r. P (EDel d p r))"
  by (simp add: delCall_def)

lemma exec_objCall: "exec (objCall c) tr x \<longleftrightarrow> tr = [EObj c x]"
  by (auto simp: objCall_def exec_iffs)

lemma exec_delCall:
  "exec (delCall d p) tr x \<longleftrightarrow>
     (tr = [EDel d p None] \<and> x = Inr ()) \<or> (\<exists>e. tr = [EDel d p (Some e)] \<and> x = Inl e)"
  by (auto simp: delCall_def exec_iffs split: option.splits)

lemma exec_bind_objCall:
  "exec (bind (objCall c) f) tr y \<longleftrightarrow> (\<exists>r tr'. tr = EObj c r # tr' \<and> exec (f r) tr' y)"
  by (simp add: objCall_def exec_Obj_iff)

lemma exec_case_sum:
  "exec (case r of Inl e \<Rightarrow> f e | Inr v \<Rightarrow> g v) tr y \<longleftrightarrow>
     (\<exists>e. r = Inl e \<and> exec (f e) tr y) \<or> (\<exists>v. r = Inr v \<and> exec (g v) tr y)"
  by (cases r) auto

lemma exec_if:
  "exec (if b then p else q) tr y \<longleftrightarrow> (b \<and> exec p tr y) \<or> (\<not> b \<and> exec q tr y)"
  by simp

lemma exec_case_option:
  "exec (case r of None \<Rightarrow> f | Some v \<Rightarrow> g v) tr y \<longleftrightarrow>
     (r = None \<and> exec f tr y) \<or> (\<exists>v. r = Some v \<and> exec (g v) tr y)"
  by (cases r) auto

lemma always_case_sum:
  "(\<And>e. r = Inl e \<Longrightarrow> always P (f e)) \<Longrightarrow> (\<And>x. r = Inr x \<Longrightarrow> always P (g x)) \<Longrightarrow>
   always P (case r of Inl e \<Rightarrow> f e | Inr x \<Rightarrow> g x)"
  by (cases r) auto

section \<open>Properties of whole traces\<close>

text \<open>
  A property of traces that holds of the empty trace and survives concatenation can be proved piece by
  piece: it holds of a composed program when it holds of its parts.
\<close>

locale trace_property =
  fixes Q :: "event list \<Rightarrow> bool"
  assumes Q_Nil: "Q []"
    and Q_append: "Q a \<Longrightarrow> Q b \<Longrightarrow> Q (a @ b)"
begin

definition holds :: "'a prog \<Rightarrow> bool" where
  "holds p \<longleftrightarrow> (\<forall>tr y. exec p tr y \<longrightarrow> Q tr)"

lemma holdsI: "(\<And>tr y. exec p tr y \<Longrightarrow> Q tr) \<Longrightarrow> holds p"
  by (simp add: holds_def)

lemma holdsD: "holds p \<Longrightarrow> exec p tr y \<Longrightarrow> Q tr"
  by (rule holds_def [THEN iffD1, rule_format])

lemma holds_Ret [simp]: "holds (Ret x)"
  by (simp add: holds_def Q_Nil)

lemma holds_bind: "holds p \<Longrightarrow> (\<And>x. holds (f x)) \<Longrightarrow> holds (bind p f)"
  unfolding holds_def exec_bind by (metis Q_append)

lemma holds_bindE: "holds p \<Longrightarrow> (\<And>x. holds (f x)) \<Longrightarrow> holds (bindE p f)"
  unfolding bindE_def by (rule holds_bind) (auto split: sum.split)

lemma holds_call:
  "(\<And>t. Q [ENow t]) \<Longrightarrow> (\<And>t. holds (k t)) \<Longrightarrow> holds (Now k)"
  "(\<And>res. Q [ERand n res]) \<Longrightarrow> (\<And>res. holds (k' res)) \<Longrightarrow> holds (RandRead n k')"
  "Q [EOut out] \<Longrightarrow> holds p \<Longrightarrow> holds (Emit out p)"
  using Q_append [of "[_]"] by (fastforce simp: holds_def exec_iffs)+

lemma holds_always: "always P p \<Longrightarrow> (\<And>tr. list_all P tr \<Longrightarrow> Q tr) \<Longrightarrow> holds p"
  by (rule holdsI) (drule (1) always_exec, simp)

end

section \<open>Running a program against a concrete world\<close>

text \<open>A world with a state answers every call; running a program yields its trace, its result and
  the final state.\<close>

record 's world =
  w_obj :: "objcall \<Rightarrow> 's \<Rightarrow> (goerror + kobject) \<times> 's"
  w_del :: "kobject \<Rightarrow> Preconditions option \<Rightarrow> 's \<Rightarrow> goerror option \<times> 's"
  w_list :: "string \<Rightarrow> nat option \<Rightarrow> 's \<Rightarrow> (goerror + ModelService list) \<times> 's"
  w_now :: "'s \<Rightarrow> time \<times> 's"
  w_rand :: "nat \<Rightarrow> 's \<Rightarrow> (goerror + string) \<times> 's"
  w_verify :: "string \<Rightarrow> 's \<Rightarrow> (goerror + (goerror + Claims)) \<times> 's"

primrec run :: "'s world \<Rightarrow> 'a prog \<Rightarrow> 's \<Rightarrow> event list \<times> 'a \<times> 's" where
  "run W (Ret x) s = ([], x, s)"
| "run W (ObjCall c k) s =
     (let (r, s1) = w_obj W c s; (tr, y, s2) = run W (k r) s1 in (EObj c r # tr, y, s2))"
| "run W (DelCall d p k) s =
     (let (r, s1) = w_del W d p s; (tr, y, s2) = run W (k r) s1 in (EDel d p r # tr, y, s2))"
| "run W (ListCall n l k) s =
     (let (r, s1) = w_list W n l s; (tr, y, s2) = run W (k r) s1 in (EList n l r # tr, y, s2))"
| "run W (Now k) s =
     (let (t, s1) = w_now W s; (tr, y, s2) = run W (k t) s1 in (ENow t # tr, y, s2))"
| "run W (RandRead n k) s =
     (let (r, s1) = w_rand W n s; (tr, y, s2) = run W (k r) s1 in (ERand n r # tr, y, s2))"
| "run W (VerifyToken t k) s =
     (let (r, s1) = w_verify W t s; (tr, y, s2) = run W (k r) s1 in (EVerify t r # tr, y, s2))"
| "run W (Emit w p) s =
     (let (tr, y, s2) = run W p s in (EOut w # tr, y, s2))"

lemma run_exec: "run W p s = (tr, y, s') \<Longrightarrow> exec p tr y"
  by (induction p arbitrary: s tr y s' rule: prog_induct) (auto simp: Let_def exec_iffs split: prod.splits)

lemma run_bind:
  "run W (bind p f) s =
     (let (tr1, x, s1) = run W p s; (tr2, y, s2) = run W (f x) s1 in (tr1 @ tr2, y, s2))"
  by (induction p arbitrary: s rule: prog_induct) (simp_all add: Let_def split: prod.splits)

lemma run_bindE:
  "run W (bindE p f) s =
     (let (tr1, x, s1) = run W p s in
      case x of Inl e \<Rightarrow> (tr1, Inl e, s1)
      | Inr y \<Rightarrow> (let (tr2, z, s2) = run W (f y) s1 in (tr1 @ tr2, z, s2)))"
  by (simp add: bindE_def run_bind Let_def split: prod.splits sum.splits)

end
