(* ===== verification/Requests.thy ===== *)
theory Requests
  imports KubeTypes
begin

text \<open>
  The customer-facing request and response models of the REST API,
  \<^verbatim>\<open>internal/api/request\<close> and \<^verbatim>\<open>internal/api/response\<close>: one record per struct, one field per
  struct field. A pointer field is an option.
\<close>

section \<open>Requests\<close>

record ModelFormatRequest =
  mfr_Name :: string
  mfr_Version :: string

record PredictorRequest =
  prq_ModelFormat :: ModelFormatRequest
  prq_Runtime :: string
  prq_StorageURI :: string
  prq_ServiceAccountName :: string

record ExposureRequest =
  er_Enabled :: bool
  er_Hostname :: string
  er_PathPrefix :: string

record StorageRequest =
  sr_Enabled :: bool
  sr_Size :: string
  sr_MountPath :: string

record CreateModelServiceRequest =
  cr_Name :: string
  cr_Backend :: string
  cr_Image :: string
  cr_Replicas :: int32
  cr_Port :: int32
  cr_Predictor :: "PredictorRequest option"
  cr_Exposure :: ExposureRequest
  cr_Storage :: StorageRequest

record UpdateModelServiceRequest =
  ur_Backend :: string
  ur_Image :: string
  ur_Replicas :: int32
  ur_Port :: int32
  ur_Predictor :: "PredictorRequest option"
  ur_Exposure :: ExposureRequest
  ur_Storage :: StorageRequest

record PatchExposureRequest =
  pe_Enabled :: "bool option"
  pe_Hostname :: "string option"
  pe_PathPrefix :: "string option"

record PatchStorageRequest =
  pst_Enabled :: "bool option"
  pst_Size :: "string option"
  pst_MountPath :: "string option"

record PatchModelServiceRequest =
  pa_Backend :: "string option"
  pa_Image :: "string option"
  pa_Replicas :: "int32 option"
  pa_Port :: "int32 option"
  pa_Predictor :: "PredictorRequest option"
  pa_Exposure :: "PatchExposureRequest option"
  pa_Storage :: "PatchStorageRequest option"

text \<open>The zero values a request variable starts with, before the body is decoded into it.\<close>

definition zeroPredictorRequest :: PredictorRequest where
  "zeroPredictorRequest = \<lparr>prq_ModelFormat = \<lparr>mfr_Name = [], mfr_Version = []\<rparr>, prq_Runtime = [],
     prq_StorageURI = [], prq_ServiceAccountName = []\<rparr>"

definition zeroExposureRequest :: ExposureRequest where
  "zeroExposureRequest = \<lparr>er_Enabled = False, er_Hostname = [], er_PathPrefix = []\<rparr>"

definition zeroStorageRequest :: StorageRequest where
  "zeroStorageRequest = \<lparr>sr_Enabled = False, sr_Size = [], sr_MountPath = []\<rparr>"

definition zeroCreateRequest :: CreateModelServiceRequest where
  "zeroCreateRequest = \<lparr>cr_Name = [], cr_Backend = [], cr_Image = [], cr_Replicas = 0, cr_Port = 0,
     cr_Predictor = None, cr_Exposure = zeroExposureRequest, cr_Storage = zeroStorageRequest\<rparr>"

definition zeroUpdateRequest :: UpdateModelServiceRequest where
  "zeroUpdateRequest = \<lparr>ur_Backend = [], ur_Image = [], ur_Replicas = 0, ur_Port = 0,
     ur_Predictor = None, ur_Exposure = zeroExposureRequest, ur_Storage = zeroStorageRequest\<rparr>"

definition zeroPatchRequest :: PatchModelServiceRequest where
  "zeroPatchRequest = \<lparr>pa_Backend = None, pa_Image = None, pa_Replicas = None, pa_Port = None,
     pa_Predictor = None, pa_Exposure = None, pa_Storage = None\<rparr>"

section \<open>Responses\<close>

record ValidationDetail =
  vd_Field :: string
  vd_Message :: string

record ErrorBody =
  eb_Code :: string
  eb_Message :: string
  eb_RequestID :: string
  eb_Details :: "ValidationDetail list"

record ModelServiceSummary =
  sum_Name :: string
  sum_Backend :: string
  sum_Image :: string
  sum_Replicas :: int32
  sum_State :: string
  sum_Hostname :: string

record ModelServiceListResponse =
  lr_Items :: "ModelServiceSummary list"
  lr_Count :: int

record ExposureResponse =
  exr_Enabled :: bool
  exr_Hostname :: string
  exr_PathPrefix :: string

record StorageResponse =
  str_Enabled :: bool
  str_Size :: string
  str_MountPath :: string

record PredictorResponse =
  prr_ModelFormatName :: string
  prr_ModelFormatVersion :: string
  prr_Runtime :: string
  prr_StorageURI :: string
  prr_ServiceAccountName :: string

record ModelServiceResponse =
  res_APIVersion :: string
  res_Kind :: string
  res_Name :: string
  res_Backend :: string
  res_Image :: string
  res_Replicas :: int32
  res_Port :: int32
  res_Predictor :: "PredictorResponse option"
  res_Exposure :: ExposureResponse
  res_Storage :: StorageResponse
  res_State :: string
  res_Generation :: int64

record ConditionResponse =
  cor_Type :: string
  cor_Status :: string
  cor_Reason :: string
  cor_Message :: string

record ModelServiceStatusResponse =
  sres_Name :: string
  sres_State :: string
  sres_ObservedGeneration :: int64
  sres_DesiredReplicas :: int32
  sres_ReadyReplicas :: int32
  sres_Endpoint :: string
  sres_Conditions :: "ConditionResponse list"

end
