(* ===== verification/Http.thy ===== *)
theory Http
  imports Effects Requests
begin

text \<open>
  The HTTP values the API works on: requests with the context the middleware fills in, response
  writers with the status recorders wrapped around them, and \<^verbatim>\<open>response.WriteJSON\<close> with the
  functions of \<^verbatim>\<open>net/http\<close> the sources write with.
\<close>

section \<open>Requests\<close>

text \<open>\<^verbatim>\<open>auth.Identity\<close>.\<close>

record Identity =
  id_Subject :: string
  id_PreferredUsername :: string
  id_ClientID :: string
  id_Roles :: "string list"

text \<open>
  The header map has canonical keys. \<open>rq_EscapedPath\<close> is \<^verbatim>\<open>r.URL.EscapedPath()\<close>; the body is
  the bytes the client sends, with a flag for a connection that fails before the end. The last three
  fields are what the context and the routing add: the request id, the identity and the path values.
\<close>

record http_request =
  rq_Method :: string
  rq_RequestURI :: string
  rq_ProtoAtLeast11 :: bool
  rq_EscapedPath :: string
  rq_RawQuery :: string
  rq_Header :: "string \<rightharpoonup> string list"
  rq_Body :: string
  rq_BodyFails :: bool
  rq_RemoteAddr :: string
  rq_RequestID :: "string option"
  rq_Identity :: "Identity option"
  rq_PathValues :: "(string \<times> string) list"

definition toUpperByte :: "char \<Rightarrow> char" where
  "toUpperByte c =
     (if (97::nat) \<le> of_char c \<and> of_char c \<le> (122::nat) then char_of ((of_char c :: nat) - 32) else c)"

text \<open>\<^verbatim>\<open>textproto.CanonicalMIMEHeaderKey\<close> on a valid key: upper case at the start and after a hyphen.\<close>

fun canonicalFrom :: "bool \<Rightarrow> string \<Rightarrow> string" where
  "canonicalFrom upper [] = []"
| "canonicalFrom upper (c # s) =
     (if upper then toUpperByte c else toLowerByte c) # canonicalFrom (c = CHR ''-'') s"

definition canonicalKey :: "string \<Rightarrow> string" where
  "canonicalKey k = canonicalFrom True k"

definition headerGet :: "http_request \<Rightarrow> string \<Rightarrow> string" where
  "headerGet r k = (case rq_Header r (canonicalKey k) of Some (v # _) \<Rightarrow> v | _ \<Rightarrow> [])"

definition pathValue :: "http_request \<Rightarrow> string \<Rightarrow> string" where
  "pathValue r name = (case map_of (rq_PathValues r) name of Some v \<Rightarrow> v | None \<Rightarrow> [])"

text \<open>\<^verbatim>\<open>middleware.RequestIDFromContext\<close> and \<^verbatim>\<open>middleware.IdentityFromContext\<close>.\<close>

definition RequestIDFromContext :: "http_request \<Rightarrow> string" where
  "RequestIDFromContext r = (case rq_RequestID r of Some i \<Rightarrow> i | None \<Rightarrow> [])"

definition IdentityFromContext :: "http_request \<Rightarrow> Identity option" where
  "IdentityFromContext r = rq_Identity r"

subsection \<open>Paths\<close>

definition hexDigitVal :: "char \<Rightarrow> nat option" where
  "hexDigitVal c =
     (let n = (of_char c :: nat)
      in if 48 \<le> n \<and> n \<le> 57 then Some (n - 48)
         else if 97 \<le> n \<and> n \<le> 102 then Some (n - 87)
         else if 65 \<le> n \<and> n \<le> 70 then Some (n - 55)
         else None)"

text \<open>Percent-decoding; \<open>None\<close> for a malformed escape.\<close>

fun percentDecode :: "string \<Rightarrow> string option" where
  "percentDecode [] = Some []"
| "percentDecode (c # s) =
     (if c = CHR ''%''
      then (case s of
              a # b # t \<Rightarrow>
                (case (hexDigitVal a, hexDigitVal b) of
                   (Some h, Some l) \<Rightarrow> map_option (\<lambda>u. char_of (16 * h + l) # u) (percentDecode t)
                 | _ \<Rightarrow> None)
            | _ \<Rightarrow> None)
      else map_option (\<lambda>u. c # u) (percentDecode s))"

text \<open>\<^verbatim>\<open>http.pathUnescape\<close>: a malformed string is left alone.\<close>

definition pathUnescape :: "string \<Rightarrow> string" where
  "pathUnescape s = (case percentDecode s of Some t \<Rightarrow> t | None \<Rightarrow> s)"

text \<open>\<^verbatim>\<open>r.URL.Path\<close>.\<close>

definition urlPath :: "http_request \<Rightarrow> string" where
  "urlPath r = pathUnescape (rq_EscapedPath r)"

section \<open>Response writers\<close>

text \<open>What is written as a body: a JSON document, by the Go value it encodes, or plain text.\<close>

datatype payload =
    ErrorDoc ErrorBody
  | ModelDoc ModelServiceResponse
  | ListDoc ModelServiceListResponse
  | StatusDoc ModelServiceStatusResponse
  | StatusWord string
  | PlainText string
  | RedirectPage string

text \<open>
  The writer of a request: the header map being prepared, what has been sent (status and the header
  map at that moment), the body written so far, and the status code each \<^verbatim>\<open>responseRecorder\<close> around
  the connection holds, innermost first (0 until a status is written).
\<close>

record rw =
  rw_Header :: "(string \<times> string) list"
  rw_Sent :: "(int \<times> (string \<times> string) list) option"
  rw_Body :: "payload list"
  rw_Recorders :: "int list"

definition freshWriter :: rw where
  "freshWriter = \<lparr>rw_Header = [], rw_Sent = None, rw_Body = [], rw_Recorders = []\<rparr>"

definition setHeader :: "string \<Rightarrow> string \<Rightarrow> rw \<Rightarrow> rw" where
  "setHeader k v w =
     w\<lparr>rw_Header := (canonicalKey k, v) # filter (\<lambda>(j, _). j \<noteq> canonicalKey k) (rw_Header w)\<rparr>"

definition delHeader :: "string \<Rightarrow> rw \<Rightarrow> rw" where
  "delHeader k w = w\<lparr>rw_Header := filter (\<lambda>(j, _). j \<noteq> canonicalKey k) (rw_Header w)\<rparr>"

text \<open>\<^verbatim>\<open>responseRecorder.WriteHeader\<close> of every recorder on the way out, then the connection's: it keeps the
  first status and ignores later ones.\<close>

definition sendStatus :: "int \<Rightarrow> rw \<Rightarrow> rw" where
  "sendStatus code w =
     (case rw_Sent w of None \<Rightarrow> w\<lparr>rw_Sent := Some (code, rw_Header w)\<rparr> | Some _ \<Rightarrow> w)"

definition writeHeader :: "int \<Rightarrow> rw \<Rightarrow> rw" where
  "writeHeader code w = sendStatus code (w\<lparr>rw_Recorders := map (\<lambda>_. code) (rw_Recorders w)\<rparr>)"

text \<open>\<^verbatim>\<open>responseRecorder.Write\<close>: from the inside out, the first recorder without a status writes 200 to
  itself and to everything around it; the connection sends 200 if nothing was sent.\<close>

definition writeBody :: "payload \<Rightarrow> rw \<Rightarrow> rw" where
  "writeBody p w =
     (let w' = sendStatus 200 (w\<lparr>rw_Recorders :=
           takeWhile (\<lambda>s. s \<noteq> 0) (rw_Recorders w) @
           map (\<lambda>_. 200) (dropWhile (\<lambda>s. s \<noteq> 0) (rw_Recorders w))\<rparr>)
      in w'\<lparr>rw_Body := rw_Body w' @ [p]\<rparr>)"

definition WriteJSON :: "int \<Rightarrow> payload \<Rightarrow> rw \<Rightarrow> rw" where
  "WriteJSON statusCode value w =
     writeBody value (writeHeader statusCode (setHeader ''Content-Type'' ''application/json'' w))"

text \<open>\<^verbatim>\<open>http.Error\<close>.\<close>

definition httpError :: "string \<Rightarrow> int \<Rightarrow> rw \<Rightarrow> rw" where
  "httpError message code w =
     writeBody (PlainText (message @ [CHR 0x0A]))
       (writeHeader code
         (setHeader ''X-Content-Type-Options'' ''nosniff''
           (setHeader ''Content-Type'' ''text/plain; charset=utf-8''
             (delHeader ''Content-Length'' w))))"

text \<open>\<^verbatim>\<open>&responseRecorder{ResponseWriter: w}\<close>, and leaving it: the recorder's status, the writer below.\<close>

definition pushRecorder :: "rw \<Rightarrow> rw" where
  "pushRecorder w = w\<lparr>rw_Recorders := 0 # rw_Recorders w\<rparr>"

definition recordedStatus :: "rw \<Rightarrow> int" where
  "recordedStatus w = (case rw_Recorders w of [] \<Rightarrow> 200 | s # _ \<Rightarrow> if s = 0 then 200 else s)"

definition popRecorder :: "rw \<Rightarrow> rw" where
  "popRecorder w = w\<lparr>rw_Recorders := tl (rw_Recorders w)\<rparr>"

text \<open>A handler may change the request it is given (the router sets its path values) and writes a
  response. A leaf leaves the request alone.\<close>

type_synonym handler = "http_request \<Rightarrow> rw \<Rightarrow> (http_request \<times> rw) prog"
type_synonym leaf = "http_request \<Rightarrow> rw \<Rightarrow> rw prog"

definition serveLeaf :: "leaf \<Rightarrow> handler" where
  "serveLeaf h r w = bind (h r w) (\<lambda>w'. Ret (r, w'))"

section \<open>One response\<close>

text \<open>A response has been written completely: a status was sent, and every recorder holds it.\<close>

definition answered :: "rw \<Rightarrow> int \<Rightarrow> bool" where
  "answered w code \<longleftrightarrow>
     (\<exists>h. rw_Sent w = Some (code, h)) \<and> list_all (\<lambda>s. s = code) (rw_Recorders w)"

text \<open>Nothing has been sent yet.\<close>

definition pristine :: "rw \<Rightarrow> bool" where
  "pristine w \<longleftrightarrow> rw_Sent w = None \<and> rw_Body w = [] \<and> list_all (\<lambda>s. s = 0) (rw_Recorders w)"

lemma writer_frame [simp]:
  "rw_Sent (setHeader k v w) = rw_Sent w" "rw_Body (setHeader k v w) = rw_Body w"
  "rw_Recorders (setHeader k v w) = rw_Recorders w"
  "rw_Sent (delHeader k w) = rw_Sent w" "rw_Body (delHeader k w) = rw_Body w"
  "rw_Recorders (delHeader k w) = rw_Recorders w"
  "rw_Recorders (sendStatus code w) = rw_Recorders w" "rw_Body (sendStatus code w) = rw_Body w"
  "rw_Header (sendStatus code w) = rw_Header w"
  "rw_Recorders (writeHeader code w) = map (\<lambda>_. code) (rw_Recorders w)"
  "rw_Body (writeHeader code w) = rw_Body w" "rw_Header (writeHeader code w) = rw_Header w"
  "rw_Header (writeBody p w) = rw_Header w"
  by (simp_all add: setHeader_def delHeader_def sendStatus_def writeHeader_def writeBody_def Let_def
      split: option.split)

lemma pristine_header [simp]:
  "pristine (setHeader k v w) = pristine w" "pristine (delHeader k w) = pristine w"
  by (simp_all add: pristine_def)

lemma writeHeader_sent:
  "rw_Sent w = None \<Longrightarrow> rw_Sent (writeHeader code w) = Some (code, rw_Header w)"
  by (simp add: writeHeader_def sendStatus_def)

lemma writeBody_after:
  assumes "rw_Sent w = Some s" "list_all (\<lambda>s. s \<noteq> 0) (rw_Recorders w)"
  shows "writeBody p w = w\<lparr>rw_Body := rw_Body w @ [p]\<rparr>"
proof -
  have all: "\<And>s. s \<in> set (rw_Recorders w) \<Longrightarrow> s \<noteq> 0" using assms(2) by (simp add: list_all_iff)
  have "takeWhile (\<lambda>s. s \<noteq> 0) (rw_Recorders w) = rw_Recorders w"
    using all by (simp add: takeWhile_eq_all_conv)
  moreover have "dropWhile (\<lambda>s. s \<noteq> 0) (rw_Recorders w) = []"
    using all by (simp add: dropWhile_eq_Nil_conv)
  ultimately show ?thesis
    unfolding writeBody_def using assms(1)
    by (simp add: sendStatus_def Let_def del: takeWhile_eq_all_conv dropWhile_eq_Nil_conv)
qed

text \<open>Writing a status and then a body on a pristine writer sends exactly that response.\<close>

lemma write_response:
  assumes "pristine w" "code \<noteq> 0"
  shows "answered (writeBody p (writeHeader code w)) code"
    and "rw_Body (writeBody p (writeHeader code w)) = [p]"
    and "rw_Sent (writeBody p (writeHeader code w)) = Some (code, rw_Header w)"
    and "length (rw_Recorders (writeBody p (writeHeader code w))) = length (rw_Recorders w)"
proof -
  have sent: "rw_Sent (writeHeader code w) = Some (code, rw_Header w)"
    using assms(1) by (simp add: pristine_def writeHeader_sent)
  have eq: "writeBody p (writeHeader code w) =
      (writeHeader code w)\<lparr>rw_Body := rw_Body (writeHeader code w) @ [p]\<rparr>"
    by (rule writeBody_after [OF sent]) (use assms(2) in \<open>simp add: list_all_iff\<close>)
  show "answered (writeBody p (writeHeader code w)) code"
    unfolding eq answered_def using sent by (simp add: list_all_iff)
  show "rw_Body (writeBody p (writeHeader code w)) = [p]"
    unfolding eq using assms(1) by (simp add: pristine_def)
  show "rw_Sent (writeBody p (writeHeader code w)) = Some (code, rw_Header w)" unfolding eq using sent by simp
  show "length (rw_Recorders (writeBody p (writeHeader code w))) = length (rw_Recorders w)"
    unfolding eq by simp
qed

end
