(* ===== verification/Samples.thy ===== *)
theory Samples
  imports KubeTypes
begin

text \<open>
  Concrete inputs for the witnesses: the ModelService of the repository's README, and one
  concrete instance of the third-party functions, with the proof that it behaves as their
  documentation says. No definition of the model uses anything of this theory.
\<close>

section \<open>A concrete instance of the third-party functions\<close>

definition controllerOf :: "ObjectMeta \<Rightarrow> OwnerReference option" where
  "controllerOf m = find (\<lambda>r. or_Controller r = Some True) (meta_OwnerReferences m)"

definition controllerRef :: "ModelService \<Rightarrow> OwnerReference" where
  "controllerRef ms = \<lparr>or_APIVersion = ''platform.anselem.dev/v1alpha1'', or_Kind = ''ModelService'',
     or_Name = ms_Name ms, or_UID = meta_UID (ms_Meta ms), or_Controller = Some True,
     or_BlockOwnerDeletion = Some True\<rparr>"

definition sampleSetControllerReference :: "ModelService \<Rightarrow> ObjectMeta \<Rightarrow> goerror + ObjectMeta" where
  "sampleSetControllerReference ms m =
     (case controllerOf m of
        None \<Rightarrow> Inr (m\<lparr>meta_OwnerReferences := controllerRef ms # meta_OwnerReferences m\<rparr>)
      | Some r \<Rightarrow>
          if or_UID r = meta_UID (ms_Meta ms) then Inr m
          else Inl (Errorf ''already owned by another controller''))"

definition sampleIsControlledBy :: "ObjectMeta \<Rightarrow> ObjectMeta \<Rightarrow> bool" where
  "sampleIsControlledBy m owner =
     (case controllerOf m of None \<Rightarrow> False | Some r \<Rightarrow> or_UID r = meta_UID owner)"

definition sampleParseIntOrString :: "string \<Rightarrow> IntOrString" where
  "sampleParseIntOrString s = (case atoi s of Inr i \<Rightarrow> IntVal (word_of_int i) | Inl _ \<Rightarrow> StrVal s)"

definition sampleParseQuantity :: "string \<Rightarrow> goerror + quantity" where
  "sampleParseQuantity s =
     (if s \<noteq> [] \<and> isDigit (hd s) then Inr s else Inl (Errorf ''quantities must match the regular expression''))"

fun sampleNestedField :: "anymap \<Rightarrow> string list \<Rightarrow> goerror + anyval option" where
  "sampleNestedField m [] = Inr (Some (AMap m))"
| "sampleNestedField m [f] = Inr (map_of m f)"
| "sampleNestedField m (f # fs) =
     (case map_of m f of
        None \<Rightarrow> Inr None
      | Some (AMap m') \<Rightarrow> sampleNestedField m' fs
      | Some _ \<Rightarrow> Inl (Errorf ''accessor error''))"

definition sampleNestedString :: "anymap \<Rightarrow> string list \<Rightarrow> string \<times> bool \<times> goerror option" where
  "sampleNestedString m fs =
     (case sampleNestedField m fs of
        Inl e \<Rightarrow> ([], False, Some e)
      | Inr None \<Rightarrow> ([], False, None)
      | Inr (Some (AStr s)) \<Rightarrow> (s, True, None)
      | Inr (Some _) \<Rightarrow> ([], False, Some (Errorf ''accessor error'')))"

definition sampleNestedSlice :: "anymap \<Rightarrow> string list \<Rightarrow> anyval list \<times> bool \<times> goerror option" where
  "sampleNestedSlice m fs =
     (case sampleNestedField m fs of
        Inl e \<Rightarrow> ([], False, Some e)
      | Inr None \<Rightarrow> ([], False, None)
      | Inr (Some (ASlice xs)) \<Rightarrow> (xs, True, None)
      | Inr (Some _) \<Rightarrow> ([], False, Some (Errorf ''accessor error'')))"

definition isDNSLabelChar :: "char \<Rightarrow> bool" where
  "isDNSLabelChar c \<longleftrightarrow> isDigit c \<or> c = CHR ''-'' \<or> ((97::nat) \<le> of_char c \<and> of_char c \<le> (122::nat))"

definition sampleIsDNS1123Label :: "string \<Rightarrow> string list" where
  "sampleIsDNS1123Label s =
     (if s \<noteq> [] \<and> list_all isDNSLabelChar s \<and> hd s \<noteq> CHR ''-'' \<and> last s \<noteq> CHR ''-'' \<and> length s \<le> 63
      then [] else [''a lowercase RFC 1123 label must consist of lower case alphanumeric characters''])"

definition sampleIsDNS1123Subdomain :: "string \<Rightarrow> string list" where
  "sampleIsDNS1123Subdomain s =
     (if s \<noteq> [] \<and> list_all (\<lambda>c. isDNSLabelChar c \<or> c = CHR ''.'') s \<and> length s \<le> 253
      then [] else [''a lowercase RFC 1123 subdomain must consist of lower case alphanumeric characters''])"

definition sampleExt :: ext where
  "sampleExt = \<lparr>x_SetControllerReference = sampleSetControllerReference,
     x_IsControlledBy = sampleIsControlledBy, x_ParseIntOrString = sampleParseIntOrString,
     x_ParseQuantity = sampleParseQuantity,
     x_MarshalResources = (\<lambda>r. Inr ''{}''), x_UnmarshalMap = (\<lambda>t. Inr []),
     x_NestedString = sampleNestedString, x_NestedSlice = sampleNestedSlice,
     x_IsDNS1123Label = sampleIsDNS1123Label, x_IsDNS1123Subdomain = sampleIsDNS1123Subdomain\<rparr>"

lemma sampleExt_simps [simp]:
  "x_SetControllerReference sampleExt = sampleSetControllerReference"
  "x_IsControlledBy sampleExt = sampleIsControlledBy"
  "x_ParseIntOrString sampleExt = sampleParseIntOrString"
  "x_ParseQuantity sampleExt = sampleParseQuantity"
  "x_NestedString sampleExt = sampleNestedString"
  "x_NestedSlice sampleExt = sampleNestedSlice"
  "x_IsDNS1123Label sampleExt = sampleIsDNS1123Label"
  "x_IsDNS1123Subdomain sampleExt = sampleIsDNS1123Subdomain"
  by (simp_all add: sampleExt_def)

lemma sampleExt_ownerRefs: "ownerRefsDocumented sampleExt"
proof -
  have "(\<exists>refs. m' = m\<lparr>meta_OwnerReferences := refs\<rparr>) \<and>
      sampleSetControllerReference ms m' = Inr m' \<and> sampleIsControlledBy m' (ms_Meta ms)"
    if h: "sampleSetControllerReference ms m = Inr m'" for ms m m'
  proof (cases "controllerOf m")
    case None
    with h have m': "m' = m\<lparr>meta_OwnerReferences := controllerRef ms # meta_OwnerReferences m\<rparr>"
      by (simp add: sampleSetControllerReference_def)
    then have "controllerOf m' = Some (controllerRef ms)"
      by (simp add: controllerOf_def controllerRef_def)
    then show ?thesis unfolding sampleSetControllerReference_def sampleIsControlledBy_def
      using m' by (auto simp: controllerRef_def)
  next
    case (Some r)
    with h have "m' = m" "or_UID r = meta_UID (ms_Meta ms)"
      by (auto simp: sampleSetControllerReference_def split: if_splits)
    moreover have "\<exists>refs. m = m\<lparr>meta_OwnerReferences := refs\<rparr>"
      by (rule exI [of _ "meta_OwnerReferences m"]) simp
    ultimately show ?thesis using Some
      by (simp add: sampleSetControllerReference_def sampleIsControlledBy_def)
  qed
  then show ?thesis by (simp add: ownerRefsDocumented_def)
qed

section \<open>A concrete ModelService\<close>

definition sampleExposure :: ModelServiceExposure where
  "sampleExposure = \<lparr>ex_Enabled = True, ex_Hostname = ''fraud-model.local'', ex_PathPrefix = ''/'',
     ex_GatewayName = ''shared-gateway'', ex_GatewayNamespace = ''gateway-system'',
     ex_GatewaySectionName = ''fraud-model-https'',
     ex_GatewayDataPlaneNamespace = ''envoy-gateway-system''\<rparr>"

definition sampleStorage :: ModelServiceStorage where
  "sampleStorage = \<lparr>st_Enabled = True, st_Size = ''1Gi'', st_MountPath = ''/models''\<rparr>"

definition sampleSpec :: ModelServiceSpec where
  "sampleSpec = zeroSpec\<lparr>spec_Backend := ''Deployment'', spec_Image := ''nginx'',
     spec_Replicas := 2, spec_Port := 8080, spec_Exposure := Some sampleExposure,
     spec_Storage := Some sampleStorage\<rparr>"

definition sampleMeta :: ObjectMeta where
  "sampleMeta = zeroMeta\<lparr>meta_Name := ''fraud-model'', meta_Namespace := ''ai-platform'',
     meta_UID := ''uid-1'', meta_ResourceVersion := ''7'', meta_Generation := 3\<rparr>"

definition sampleMS :: ModelService where
  "sampleMS = \<lparr>ms_APIVersion = ''platform.anselem.dev/v1alpha1'', ms_Kind = ''ModelService'',
     ms_Meta = sampleMeta, ms_Spec = sampleSpec, ms_Status = zeroStatus\<rparr>"

definition samplePredictor :: ModelServicePredictor where
  "samplePredictor = \<lparr>pr_ModelFormat = \<lparr>mf_Name = ''sklearn'', mf_Version = ''1''\<rparr>,
     pr_Runtime = ''kserve-sklearnserver'', pr_StorageURI = ''s3://models/iris'',
     pr_ServiceAccountName = ''kserve-model-reader''\<rparr>"

definition sampleKServeMS :: ModelService where
  "sampleKServeMS = sampleMS\<lparr>ms_Spec := zeroSpec\<lparr>spec_Backend := ''KServe'', spec_Replicas := 1,
     spec_Port := 8080, spec_Predictor := Some samplePredictor\<rparr>\<rparr>"

lemmas sample_defs =
  sampleMS_def sampleMeta_def sampleSpec_def sampleExposure_def sampleStorage_def zeroMeta_def
  zeroSpec_def zeroStatus_def samplePredictor_def sampleKServeMS_def

end
