(* ===== verification/Store.thy ===== *)
theory Store
  imports Effects Samples
begin

text \<open>
  The API's access to Kubernetes, \<^verbatim>\<open>internal/api/kubernetes\<close>: the ModelService store, bound to one
  namespace, and the readiness check. The interface the handlers see (\<^verbatim>\<open>api.ModelServiceStore\<close>)
  is a record of operations; what a handler may rely on is the locale \<open>namespaced_store\<close>, which
  the implementation is shown to meet.
\<close>

section \<open>The interface\<close>

text \<open>An operation that fills the object it is given returns the object as the API server answered it.\<close>

record modelServiceStore =
  sto_List :: "(goerror + ModelService list) prog"
  sto_Get :: "string \<Rightarrow> (goerror + ModelService) prog"
  sto_Create :: "ModelService \<Rightarrow> (goerror + ModelService) prog"
  sto_Update :: "ModelService \<Rightarrow> (goerror + ModelService) prog"
  sto_Delete :: "ModelService \<Rightarrow> (goerror + unit) prog"

section \<open>The implementation\<close>

text \<open>\<^verbatim>\<open>%q\<close> for the strings that occur here, names and namespaces: quoted, with the quote and the
  backslash escaped.\<close>

definition quoteGo :: "string \<Rightarrow> string" where
  "quoteGo s =
     [CHR 0x22] @
     concat (map (\<lambda>c. if c = CHR 0x22 \<or> c = CHR 0x5C then [CHR 0x5C, c] else [c]) s) @ [CHR 0x22]"

definition storeError :: "string \<Rightarrow> string \<Rightarrow> string \<Rightarrow> goerror \<Rightarrow> goerror" where
  "storeError verb name namespace e =
     Wrapf (verb @ '' ModelService '' @ quoteGo name @ '' in namespace '' @ quoteGo namespace @ '': '') e"

definition listError :: "string \<Rightarrow> goerror \<Rightarrow> goerror" where
  "listError namespace e = Wrapf (''list ModelServices in namespace '' @ quoteGo namespace @ '': '') e"

definition inNamespace :: "string \<Rightarrow> ModelService \<Rightarrow> ModelService" where
  "inNamespace namespace ms = ms\<lparr>ms_Meta := (ms_Meta ms)\<lparr>meta_Namespace := namespace\<rparr>\<rparr>"

definition storeList :: "string \<Rightarrow> (goerror + ModelService list) prog" where
  "storeList namespace =
     ListCall namespace None (\<lambda>r. Ret (case r of
        Inl e \<Rightarrow> Inl (listError namespace e)
      | Inr items \<Rightarrow> Inr items))"

definition storeGet :: "string \<Rightarrow> string \<Rightarrow> (goerror + ModelService) prog" where
  "storeGet namespace name =
     ObjCall (OGet ModelServiceKind (namespace, name)) (\<lambda>r. Ret (mapR asModelService r))"

definition storeCreate :: "string \<Rightarrow> ModelService \<Rightarrow> (goerror + ModelService) prog" where
  "storeCreate namespace modelService =
     (let modelService = inNamespace namespace modelService
      in ObjCall (OCreate (KModelService modelService)) (\<lambda>r. Ret (case r of
           Inl e \<Rightarrow> Inl (storeError ''create'' (ms_Name modelService) namespace e)
         | Inr obj \<Rightarrow> Inr (asModelService obj))))"

definition storeUpdate :: "string \<Rightarrow> ModelService \<Rightarrow> (goerror + ModelService) prog" where
  "storeUpdate namespace modelService =
     (let modelService = inNamespace namespace modelService
      in ObjCall (OUpdate (KModelService modelService)) (\<lambda>r. Ret (case r of
           Inl e \<Rightarrow> Inl (storeError ''update'' (ms_Name modelService) namespace e)
         | Inr obj \<Rightarrow> Inr (asModelService obj))))"

definition deletePreconditions :: "ModelService \<Rightarrow> Preconditions" where
  "deletePreconditions ms =
     \<lparr>pre_UID = (if meta_UID (ms_Meta ms) \<noteq> [] then Some (meta_UID (ms_Meta ms)) else None),
      pre_ResourceVersion = (if meta_ResourceVersion (ms_Meta ms) \<noteq> []
                             then Some (meta_ResourceVersion (ms_Meta ms)) else None)\<rparr>"

definition storeDelete :: "string \<Rightarrow> ModelService \<Rightarrow> (goerror + unit) prog" where
  "storeDelete namespace modelService =
     (let modelService = inNamespace namespace modelService
      in DelCall (KModelService modelService) (Some (deletePreconditions modelService)) (\<lambda>r. Ret (case r of
           Some e \<Rightarrow> Inl (storeError ''delete'' (ms_Name modelService) namespace e)
         | None \<Rightarrow> Inr ())))"

definition NewModelServiceStore :: "string \<Rightarrow> modelServiceStore" where
  "NewModelServiceStore namespace =
     \<lparr>sto_List = storeList namespace, sto_Get = storeGet namespace, sto_Create = storeCreate namespace,
      sto_Update = storeUpdate namespace, sto_Delete = storeDelete namespace\<rparr>"

text \<open>\<^verbatim>\<open>ReadinessChecker.Check\<close>.\<close>

definition readinessCheck :: "string \<Rightarrow> (goerror + unit) prog" where
  "readinessCheck namespace =
     ListCall namespace (Some 1) (\<lambda>r. Ret (case r of
        Inl e \<Rightarrow> Inl (listError namespace e)
      | Inr items \<Rightarrow> Inr ()))"

section \<open>What a handler may rely on\<close>

text \<open>
  Every operation makes exactly one call, in the namespace of the store whatever object or name it is
  given; a deletion carries the identity and version of the object it was given as preconditions;
  an error keeps its API reason.
\<close>

locale namespaced_store =
  fixes st :: modelServiceStore and ns :: string
  assumes get_exec: "exec (sto_Get st name) tr y \<longleftrightarrow>
      (\<exists>r. tr = [EObj (OGet ModelServiceKind (ns, name)) r] \<and> y = mapR asModelService r)"
    and create_exec: "exec (sto_Create st ms) tr y \<longleftrightarrow>
      (\<exists>obj. tr = [EObj (OCreate (KModelService (inNamespace ns ms))) (Inr obj)] \<and> y = Inr (asModelService obj)) \<or>
      (\<exists>e. tr = [EObj (OCreate (KModelService (inNamespace ns ms))) (Inl e)] \<and>
           y = Inl (storeError ''create'' (ms_Name ms) ns e))"
    and update_exec: "exec (sto_Update st ms) tr y \<longleftrightarrow>
      (\<exists>obj. tr = [EObj (OUpdate (KModelService (inNamespace ns ms))) (Inr obj)] \<and> y = Inr (asModelService obj)) \<or>
      (\<exists>e. tr = [EObj (OUpdate (KModelService (inNamespace ns ms))) (Inl e)] \<and>
           y = Inl (storeError ''update'' (ms_Name ms) ns e))"
    and delete_exec: "exec (sto_Delete st ms) tr deleted \<longleftrightarrow>
      (tr = [EDel (KModelService (inNamespace ns ms)) (Some (deletePreconditions ms)) None] \<and> deleted = Inr ()) \<or>
      (\<exists>e. tr = [EDel (KModelService (inNamespace ns ms)) (Some (deletePreconditions ms)) (Some e)] \<and>
           deleted = Inl (storeError ''delete'' (ms_Name ms) ns e))"
    and list_exec: "exec (sto_List st) tr listed \<longleftrightarrow>
      (\<exists>items. tr = [EList ns None (Inr items)] \<and> listed = Inr items) \<or>
      (\<exists>e. tr = [EList ns None (Inl e)] \<and> listed = Inl (listError ns e))"

lemma inNamespace_simps [simp]:
  "meta_Name (ms_Meta (inNamespace n m)) = ms_Name m" "meta_Namespace (ms_Meta (inNamespace n m)) = n"
  "ms_Spec (inNamespace n m) = ms_Spec m" "ms_Status (inNamespace n m) = ms_Status m"
  "meta_UID (ms_Meta (inNamespace n m)) = meta_UID (ms_Meta m)"
  "meta_ResourceVersion (ms_Meta (inNamespace n m)) = meta_ResourceVersion (ms_Meta m)"
  "meta_Labels (ms_Meta (inNamespace n m)) = meta_Labels (ms_Meta m)"
  "meta_Annotations (ms_Meta (inNamespace n m)) = meta_Annotations (ms_Meta m)"
  by (simp_all add: inNamespace_def)

lemma deletePreconditions_inNamespace [simp]:
  "deletePreconditions (inNamespace n m) = deletePreconditions m"
  by (simp add: deletePreconditions_def)

lemma storeError_reason [simp]:
  "isNotFound (storeError v n ns e) = isNotFound e"
  "isConflict (storeError v n ns e) = isConflict e"
  "isAlreadyExists (storeError v n ns e) = isAlreadyExists e"
  by (simp_all add: storeError_def)

interpretation k8s: namespaced_store "NewModelServiceStore ns" ns for ns
  by unfold_locales
     (auto simp: NewModelServiceStore_def storeList_def storeGet_def storeCreate_def storeUpdate_def
       storeDelete_def Let_def exec_iffs split_sum_ex split_option_ex)

end
