(* ===== verification/Json.thy ===== *)
theory Json
  imports GoBase
begin

text \<open>
  The part of \<^verbatim>\<open>encoding/json\<close> the request handlers rely on, on bytes: the scanner's grammar,
  the unquoting of strings, and \<^verbatim>\<open>Decoder.Decode\<close> over a body limited by
  \<^verbatim>\<open>http.MaxBytesReader\<close>. The scanner reads byte by byte, so it tells a byte that can not
  continue a value (an error) from input that ends too early (more is needed).
\<close>

section \<open>Values\<close>

datatype jvalue =
    JNull
  | JBool bool
  | JNum string
  | JStr string
  | JArr "jvalue list"
  | JObj "(string \<times> jvalue) list"

text \<open>The outcome of scanning a prefix of the input: a bad byte, input that ends too early, or a value
  with the bytes after it.\<close>

datatype 'a scan = ScanError | ScanMore | Scanned 'a string

definition isJsonSpace :: "char \<Rightarrow> bool" where
  "isJsonSpace c \<longleftrightarrow> c = CHR '' '' \<or> c = CHR 0x09 \<or> c = CHR 0x0D \<or> c = CHR 0x0A"

definition skipSpaces :: "string \<Rightarrow> string" where
  "skipSpaces s = dropWhile isJsonSpace s"

section \<open>Strings\<close>

subsection \<open>UTF-8\<close>

abbreviation byteOf :: "char \<Rightarrow> nat" where
  "byteOf c \<equiv> of_char c"

definition isCont :: "char \<Rightarrow> bool" where
  "isCont c \<longleftrightarrow> 128 \<le> byteOf c \<and> byteOf c < 192"

text \<open>The width of the well-formed encoding a string starts with, 0 when there is none
  (\<^verbatim>\<open>utf8.DecodeRune\<close> returns \<^verbatim>\<open>RuneError\<close> and width 1 then).\<close>

definition runeWidth :: "string \<Rightarrow> nat" where
  "runeWidth s =
     (case s of
        [] \<Rightarrow> 0
      | a # t \<Rightarrow>
          if byteOf a < 128 then 1
          else if 194 \<le> byteOf a \<and> byteOf a < 224
          then (case t of b # _ \<Rightarrow> if isCont b then 2 else 0 | _ \<Rightarrow> 0)
          else if 224 \<le> byteOf a \<and> byteOf a < 240
          then (case t of
                  b # c # _ \<Rightarrow>
                    if isCont b \<and> isCont c \<and> (byteOf a = 224 \<longrightarrow> 160 \<le> byteOf b) \<and>
                       (byteOf a = 237 \<longrightarrow> byteOf b < 160) then 3 else 0
                | _ \<Rightarrow> 0)
          else if 240 \<le> byteOf a \<and> byteOf a < 245
          then (case t of
                  b # c # d # _ \<Rightarrow>
                    if isCont b \<and> isCont c \<and> isCont d \<and> (byteOf a = 240 \<longrightarrow> 144 \<le> byteOf b) \<and>
                       (byteOf a = 244 \<longrightarrow> byteOf b < 144) then 4 else 0
                | _ \<Rightarrow> 0)
          else 0)"

definition replacementRune :: string where
  "replacementRune = [CHR 0xEF, CHR 0xBF, CHR 0xBD]"

definition encodeRune :: "nat \<Rightarrow> string" where
  "encodeRune r =
     (if r < 128 then [char_of r]
      else if r < 2048 then [char_of (192 + r div 64), char_of (128 + r mod 64)]
      else if 55296 \<le> r \<and> r < 57344 then replacementRune
      else if r < 65536
      then [char_of (224 + r div 4096), char_of (128 + r div 64 mod 64), char_of (128 + r mod 64)]
      else if r < 1114112
      then [char_of (240 + r div 262144), char_of (128 + r div 4096 mod 64),
            char_of (128 + r div 64 mod 64), char_of (128 + r mod 64)]
      else replacementRune)"

subsection \<open>Escapes\<close>

definition hexVal :: "char \<Rightarrow> nat option" where
  "hexVal c =
     (if isDigit c then Some (digitVal c)
      else if 97 \<le> byteOf c \<and> byteOf c \<le> 102 then Some (byteOf c - 87)
      else if 65 \<le> byteOf c \<and> byteOf c \<le> 70 then Some (byteOf c - 55)
      else None)"

fun hex4 :: "string \<Rightarrow> nat option" where
  "hex4 [a, b, c, d] =
     (case (hexVal a, hexVal b, hexVal c, hexVal d) of
        (Some p, Some q, Some r, Some t) \<Rightarrow> Some (4096 * p + 256 * q + 16 * r + t)
      | _ \<Rightarrow> None)"
| "hex4 _ = None"

definition simpleEscape :: "char \<Rightarrow> char option" where
  "simpleEscape c =
     (if c = CHR 0x22 \<or> c = CHR 0x5C \<or> c = CHR ''/'' then Some c
      else if c = CHR ''b'' then Some (CHR 0x08)
      else if c = CHR ''f'' then Some (CHR 0x0C)
      else if c = CHR ''n'' then Some (CHR 0x0A)
      else if c = CHR ''r'' then Some (CHR 0x0D)
      else if c = CHR ''t'' then Some (CHR 0x09)
      else None)"

text \<open>Scanning the bytes of a string literal after its opening quote: the raw content and what follows
  the closing quote.\<close>

fun scanHex :: "nat \<Rightarrow> string \<Rightarrow> string scan" where
  "scanHex 0 s = Scanned [] s"
| "scanHex (Suc n) [] = ScanMore"
| "scanHex (Suc n) (c # s) =
     (if hexVal c = None then ScanError
      else case scanHex n s of
             ScanError \<Rightarrow> ScanError | ScanMore \<Rightarrow> ScanMore | Scanned hs rest \<Rightarrow> Scanned (c # hs) rest)"

fun scanString :: "string \<Rightarrow> string scan" where
  "scanString [] = ScanMore"
| "scanString (c # s) =
     (if c = CHR 0x22 then Scanned [] s
      else if byteOf c < 32 then ScanError
      else if c = CHR 0x5C
      then (case s of
              [] \<Rightarrow> ScanMore
            | e # s' \<Rightarrow>
                if simpleEscape e \<noteq> None
                then (case scanString s' of
                        ScanError \<Rightarrow> ScanError | ScanMore \<Rightarrow> ScanMore
                      | Scanned raw rest \<Rightarrow> Scanned (c # e # raw) rest)
                else if e = CHR ''u''
                then (case scanHex 4 s' of
                        ScanError \<Rightarrow> ScanError | ScanMore \<Rightarrow> ScanMore
                      | Scanned hs _ \<Rightarrow>
                          (case scanString (drop 4 s') of
                             ScanError \<Rightarrow> ScanError | ScanMore \<Rightarrow> ScanMore
                           | Scanned raw rest \<Rightarrow> Scanned (c # e # hs @ raw) rest))
                else ScanError)
      else (case scanString s of
              ScanError \<Rightarrow> ScanError | ScanMore \<Rightarrow> ScanMore
            | Scanned raw rest \<Rightarrow> Scanned (c # raw) rest))"

definition isHighSurrogate :: "nat \<Rightarrow> bool" where
  "isHighSurrogate r \<longleftrightarrow> 55296 \<le> r \<and> r < 56320"

definition isLowSurrogate :: "nat \<Rightarrow> bool" where
  "isLowSurrogate r \<longleftrightarrow> 56320 \<le> r \<and> r < 57344"

text \<open>\<^verbatim>\<open>unquote\<close> on the raw content of a scanned literal: escapes are replaced, a surrogate pair is
  combined, a lone surrogate and every malformed byte become the replacement rune.\<close>

function unquote :: "string \<Rightarrow> string" where
  "unquote [] = []"
| "unquote (c # s) =
     (if c = CHR 0x5C
      then (case s of
              [] \<Rightarrow> []
            | e # s' \<Rightarrow>
                (case simpleEscape e of
                   Some b \<Rightarrow> b # unquote s'
                 | None \<Rightarrow>
                     (case hex4 (take 4 s') of
                        None \<Rightarrow> []
                      | Some r \<Rightarrow>
                          let s'' = drop 4 s'
                          in if isHighSurrogate r \<and> take 2 s'' = [CHR 0x5C, CHR ''u'']
                             then (case hex4 (take 4 (drop 2 s'')) of
                                     Some r2 \<Rightarrow>
                                       if isLowSurrogate r2
                                       then encodeRune (65536 + (r - 55296) * 1024 + (r2 - 56320)) @
                                            unquote (drop 6 s'')
                                       else replacementRune @ unquote s''
                                   | None \<Rightarrow> replacementRune @ unquote s'')
                             else encodeRune r @ unquote s'')))
      else if runeWidth (c # s) = 0 then replacementRune @ unquote s
      else take (runeWidth (c # s)) (c # s) @ unquote (drop (runeWidth (c # s)) (c # s)))"
  by pat_completeness auto
termination
  by (relation "measure length") (auto simp del: drop.simps)

declare unquote.simps(2) [simp del]

section \<open>Numbers and literals\<close>

definition scanLiteral :: "string \<Rightarrow> jvalue \<Rightarrow> string \<Rightarrow> jvalue scan" where
  "scanLiteral word v s =
     (if hasPrefix s word then Scanned v (drop (length word) s)
      else if hasPrefix word s then ScanMore
      else ScanError)"

text \<open>\<open>[0-9]+\<close>: at least one digit is required.\<close>

definition scanDigits1 :: "string \<Rightarrow> string scan" where
  "scanDigits1 s =
     (case s of
        [] \<Rightarrow> ScanMore
      | c # _ \<Rightarrow> if isDigit c then Scanned (takeWhile isDigit s) (dropWhile isDigit s) else ScanError)"

definition scanExponent :: "string \<Rightarrow> string scan" where
  "scanExponent s =
     (case s of
        [] \<Rightarrow> Scanned [] []
      | c # t \<Rightarrow>
          if c = CHR ''e'' \<or> c = CHR ''E''
          then let (sign, u) = (case t of
                     [] \<Rightarrow> ([], [])
                   | d # v \<Rightarrow> if d = CHR ''+'' \<or> d = CHR ''-'' then ([d], v) else ([], t))
               in case scanDigits1 u of
                    ScanError \<Rightarrow> ScanError | ScanMore \<Rightarrow> ScanMore
                  | Scanned ds rest \<Rightarrow> Scanned (c # sign @ ds) rest
          else Scanned [] s)"

definition scanFraction :: "string \<Rightarrow> string scan" where
  "scanFraction s =
     (case s of
        [] \<Rightarrow> Scanned [] []
      | c # t \<Rightarrow>
          if c = CHR ''.''
          then case scanDigits1 t of
                 ScanError \<Rightarrow> ScanError | ScanMore \<Rightarrow> ScanMore
               | Scanned ds rest \<Rightarrow> Scanned (c # ds) rest
          else Scanned [] s)"

definition scanNumber :: "string \<Rightarrow> jvalue scan" where
  "scanNumber s =
     (let (sign, t) = (case s of [] \<Rightarrow> ([], []) | c # u \<Rightarrow> if c = CHR ''-'' then ([c], u) else ([], s))
      in case scanDigits1 t of
           ScanError \<Rightarrow> ScanError | ScanMore \<Rightarrow> ScanMore
         | Scanned ds0 rest0 \<Rightarrow>
             let (ds, u) = (if hd ds0 = CHR ''0'' then (''0'', tl t) else (ds0, rest0))
             in case scanFraction u of
                  ScanError \<Rightarrow> ScanError | ScanMore \<Rightarrow> ScanMore
                | Scanned frac v \<Rightarrow>
                    (case scanExponent v of
                       ScanError \<Rightarrow> ScanError | ScanMore \<Rightarrow> ScanMore
                     | Scanned ex w \<Rightarrow> Scanned (JNum (sign @ ds @ frac @ ex)) w))"

section \<open>Values, objects and arrays\<close>

definition maxNestingDepth :: nat where
  "maxNestingDepth = 10000"

definition expectByte :: "char \<Rightarrow> string \<Rightarrow> unit scan" where
  "expectByte c s =
     (case skipSpaces s of [] \<Rightarrow> ScanMore | d # t \<Rightarrow> if d = c then Scanned () t else ScanError)"

text \<open>One value after optional white space. The first argument is fuel: every recursive call consumes at
  least one byte, so the length of the input bounds it (shown in JsonFuel). \<open>d\<close> is the nesting depth.\<close>

fun scanValue :: "nat \<Rightarrow> nat \<Rightarrow> string \<Rightarrow> jvalue scan"
  and scanElements :: "nat \<Rightarrow> nat \<Rightarrow> string \<Rightarrow> jvalue list scan"
  and scanMembers :: "nat \<Rightarrow> nat \<Rightarrow> string \<Rightarrow> (string \<times> jvalue) list scan" where
  "scanValue 0 d s = ScanError"
| "scanValue (Suc n) d s =
     (case skipSpaces s of
        [] \<Rightarrow> ScanMore
      | c # t \<Rightarrow>
          if c = CHR 0x7B
          then if maxNestingDepth < d + 1 then ScanError
               else (case skipSpaces t of
                       [] \<Rightarrow> ScanMore
                     | e # u \<Rightarrow>
                         if e = CHR 0x7D then Scanned (JObj []) u
                         else (case scanMembers n (d + 1) t of
                                 ScanError \<Rightarrow> ScanError | ScanMore \<Rightarrow> ScanMore
                               | Scanned ms rest \<Rightarrow> Scanned (JObj ms) rest))
          else if c = CHR 0x5B
          then if maxNestingDepth < d + 1 then ScanError
               else (case skipSpaces t of
                       [] \<Rightarrow> ScanMore
                     | e # u \<Rightarrow>
                         if e = CHR 0x5D then Scanned (JArr []) u
                         else (case scanElements n (d + 1) t of
                                 ScanError \<Rightarrow> ScanError | ScanMore \<Rightarrow> ScanMore
                               | Scanned vs rest \<Rightarrow> Scanned (JArr vs) rest))
          else if c = CHR 0x22
          then (case scanString t of
                  ScanError \<Rightarrow> ScanError | ScanMore \<Rightarrow> ScanMore
                | Scanned raw rest \<Rightarrow> Scanned (JStr (unquote raw)) rest)
          else if c = CHR ''-'' \<or> isDigit c then scanNumber (c # t)
          else if c = CHR ''t'' then scanLiteral ''true'' (JBool True) (c # t)
          else if c = CHR ''f'' then scanLiteral ''false'' (JBool False) (c # t)
          else if c = CHR ''n'' then scanLiteral ''null'' JNull (c # t)
          else ScanError)"
| "scanElements 0 d s = ScanError"
| "scanElements (Suc n) d s =
     (case scanValue n d s of
        ScanError \<Rightarrow> ScanError | ScanMore \<Rightarrow> ScanMore
      | Scanned v t \<Rightarrow>
          (case skipSpaces t of
             [] \<Rightarrow> ScanMore
           | c # u \<Rightarrow>
               if c = CHR 0x5D then Scanned [v] u
               else if c = CHR '',''
               then (case scanElements n d u of
                       ScanError \<Rightarrow> ScanError | ScanMore \<Rightarrow> ScanMore
                     | Scanned vs rest \<Rightarrow> Scanned (v # vs) rest)
               else ScanError))"
| "scanMembers 0 d s = ScanError"
| "scanMembers (Suc n) d s =
     (case expectByte (CHR 0x22) s of
        ScanError \<Rightarrow> ScanError | ScanMore \<Rightarrow> ScanMore
      | Scanned _ t \<Rightarrow>
          (case scanString t of
             ScanError \<Rightarrow> ScanError | ScanMore \<Rightarrow> ScanMore
           | Scanned raw u \<Rightarrow>
               (case expectByte (CHR '':'') u of
                  ScanError \<Rightarrow> ScanError | ScanMore \<Rightarrow> ScanMore
                | Scanned _ w \<Rightarrow>
                    (case scanValue n d w of
                       ScanError \<Rightarrow> ScanError | ScanMore \<Rightarrow> ScanMore
                     | Scanned v y \<Rightarrow>
                         (case skipSpaces y of
                            [] \<Rightarrow> ScanMore
                          | c # z \<Rightarrow>
                              if c = CHR 0x7D then Scanned [(unquote raw, v)] z
                              else if c = CHR '',''
                              then (case scanMembers n d z of
                                      ScanError \<Rightarrow> ScanError | ScanMore \<Rightarrow> ScanMore
                                    | Scanned ms rest \<Rightarrow> Scanned ((unquote raw, v) # ms) rest)
                              else ScanError)))))"

definition scanText :: "string \<Rightarrow> jvalue scan" where
  "scanText s = scanValue (2 * length s + 1) 0 s"

end
