(* ===== verification/Decode.thy ===== *)
theory Decode
  imports Json Requests
begin

text \<open>
  Decoding a request body into a request: \<^verbatim>\<open>json.Decoder\<close> with \<^verbatim>\<open>DisallowUnknownFields\<close> over
  \<^verbatim>\<open>http.MaxBytesReader\<close>, and \<^verbatim>\<open>ensureSingleJSONValue\<close> of
  \<^verbatim>\<open>internal/api/handlers/create_modelservice.go\<close>. Every decoding error leads to the same answer, so
  a decoder returns \<open>None\<close> for an error of any kind.
\<close>

section \<open>Field names\<close>

text \<open>\<^verbatim>\<open>foldName\<close>: ASCII letters to upper case; the long s (C5 BF) and the Kelvin sign (E2 84 AA) are the
  only other runes that fold to an ASCII letter.\<close>

fun foldName :: "string \<Rightarrow> string" where
  "foldName [] = []"
| "foldName (a # s) =
     (if hasPrefix (a # s) [CHR 0xC5, CHR 0xBF] then CHR ''S'' # foldName (drop 1 s)
      else if hasPrefix (a # s) [CHR 0xE2, CHR 0x84, CHR 0xAA] then CHR ''K'' # foldName (drop 2 s)
      else (if (97::nat) \<le> of_char a \<and> of_char a \<le> (122::nat)
            then char_of ((of_char a :: nat) - 32) else a) # foldName s)"

type_synonym 'r setter = "jvalue \<Rightarrow> 'r \<Rightarrow> 'r option"

text \<open>The field a key stands for: the one with that exact name, else one whose folded name agrees.\<close>

definition findField :: "(string \<times> 'r setter) list \<Rightarrow> string \<Rightarrow> 'r setter option" where
  "findField fs key =
     (case find (\<lambda>(n, _). n = key) fs of
        Some (_, f) \<Rightarrow> Some f
      | None \<Rightarrow>
          (case find (\<lambda>(n, _). foldName n = foldName key) fs of
             Some (_, f) \<Rightarrow> Some f
           | None \<Rightarrow> None))"

section \<open>Decoding into Go types\<close>

text \<open>A JSON null leaves a string, a number, a boolean or a struct as it is and sets a pointer to nil.\<close>

fun decodeString :: "string setter" where
  "decodeString JNull old = Some old"
| "decodeString (JStr s) old = Some s"
| "decodeString _ old = None"

fun decodeBool :: "bool setter" where
  "decodeBool JNull old = Some old"
| "decodeBool (JBool b) old = Some b"
| "decodeBool _ old = None"

text \<open>A number literal decodes into an \<^verbatim>\<open>int32\<close> when \<^verbatim>\<open>strconv.ParseInt\<close> accepts it, so without
  fraction and exponent, and in range.\<close>

fun decodeInt32 :: "int32 setter" where
  "decodeInt32 JNull old = Some old"
| "decodeInt32 (JNum n) old =
     (case atoi n of
        Inl e \<Rightarrow> None
      | Inr v \<Rightarrow> if - (2 ^ 31) \<le> v \<and> v < 2 ^ 31 then Some (word_of_int v) else None)"
| "decodeInt32 _ old = None"

text \<open>The members of an object are decoded in order, so a repeated key overwrites, or extends a struct; an
  unknown key is an error.\<close>

fun decodeMembers :: "(string \<times> 'r setter) list \<Rightarrow> (string \<times> jvalue) list \<Rightarrow> 'r \<Rightarrow> 'r option" where
  "decodeMembers fs [] r = Some r"
| "decodeMembers fs ((key, v) # ms) r =
     (case findField fs key of
        None \<Rightarrow> None
      | Some f \<Rightarrow> (case f v r of None \<Rightarrow> None | Some r' \<Rightarrow> decodeMembers fs ms r'))"

definition decodeStruct :: "(string \<times> 'r setter) list \<Rightarrow> 'r setter" where
  "decodeStruct fs v r =
     (case v of JNull \<Rightarrow> Some r | JObj ms \<Rightarrow> decodeMembers fs ms r | _ \<Rightarrow> None)"

definition decodePtr :: "'a \<Rightarrow> 'a setter \<Rightarrow> 'a option setter" where
  "decodePtr zero f v old =
     (if v = JNull then Some None
      else map_option Some (f v (case old of None \<Rightarrow> zero | Some a \<Rightarrow> a)))"

text \<open>A field of a record, given by its reader and its updater.\<close>

definition field :: "string \<Rightarrow> 'a setter \<Rightarrow> ('r \<Rightarrow> 'a) \<Rightarrow> ('a \<Rightarrow> 'r \<Rightarrow> 'r) \<Rightarrow> string \<times> 'r setter" where
  "field name f get put = (name, \<lambda>v r. map_option (\<lambda>a. put a r) (f v (get r)))"

section \<open>The request types\<close>

definition modelFormatFields :: "(string \<times> ModelFormatRequest setter) list" where
  "modelFormatFields =
     [field ''name'' decodeString mfr_Name (\<lambda>a r. r\<lparr>mfr_Name := a\<rparr>),
      field ''version'' decodeString mfr_Version (\<lambda>a r. r\<lparr>mfr_Version := a\<rparr>)]"

definition predictorFields :: "(string \<times> PredictorRequest setter) list" where
  "predictorFields =
     [field ''modelFormat'' (decodeStruct modelFormatFields) prq_ModelFormat (\<lambda>a r. r\<lparr>prq_ModelFormat := a\<rparr>),
      field ''runtime'' decodeString prq_Runtime (\<lambda>a r. r\<lparr>prq_Runtime := a\<rparr>),
      field ''storageUri'' decodeString prq_StorageURI (\<lambda>a r. r\<lparr>prq_StorageURI := a\<rparr>),
      field ''serviceAccountName'' decodeString prq_ServiceAccountName (\<lambda>a r. r\<lparr>prq_ServiceAccountName := a\<rparr>)]"

definition exposureFields :: "(string \<times> ExposureRequest setter) list" where
  "exposureFields =
     [field ''enabled'' decodeBool er_Enabled (\<lambda>a r. r\<lparr>er_Enabled := a\<rparr>),
      field ''hostname'' decodeString er_Hostname (\<lambda>a r. r\<lparr>er_Hostname := a\<rparr>),
      field ''pathPrefix'' decodeString er_PathPrefix (\<lambda>a r. r\<lparr>er_PathPrefix := a\<rparr>)]"

definition storageFields :: "(string \<times> StorageRequest setter) list" where
  "storageFields =
     [field ''enabled'' decodeBool sr_Enabled (\<lambda>a r. r\<lparr>sr_Enabled := a\<rparr>),
      field ''size'' decodeString sr_Size (\<lambda>a r. r\<lparr>sr_Size := a\<rparr>),
      field ''mountPath'' decodeString sr_MountPath (\<lambda>a r. r\<lparr>sr_MountPath := a\<rparr>)]"

definition createFields :: "(string \<times> CreateModelServiceRequest setter) list" where
  "createFields =
     [field ''name'' decodeString cr_Name (\<lambda>a r. r\<lparr>cr_Name := a\<rparr>),
      field ''backend'' decodeString cr_Backend (\<lambda>a r. r\<lparr>cr_Backend := a\<rparr>),
      field ''image'' decodeString cr_Image (\<lambda>a r. r\<lparr>cr_Image := a\<rparr>),
      field ''replicas'' decodeInt32 cr_Replicas (\<lambda>a r. r\<lparr>cr_Replicas := a\<rparr>),
      field ''port'' decodeInt32 cr_Port (\<lambda>a r. r\<lparr>cr_Port := a\<rparr>),
      field ''predictor'' (decodePtr zeroPredictorRequest (decodeStruct predictorFields)) cr_Predictor
        (\<lambda>a r. r\<lparr>cr_Predictor := a\<rparr>),
      field ''exposure'' (decodeStruct exposureFields) cr_Exposure (\<lambda>a r. r\<lparr>cr_Exposure := a\<rparr>),
      field ''storage'' (decodeStruct storageFields) cr_Storage (\<lambda>a r. r\<lparr>cr_Storage := a\<rparr>)]"

definition updateFields :: "(string \<times> UpdateModelServiceRequest setter) list" where
  "updateFields =
     [field ''backend'' decodeString ur_Backend (\<lambda>a r. r\<lparr>ur_Backend := a\<rparr>),
      field ''image'' decodeString ur_Image (\<lambda>a r. r\<lparr>ur_Image := a\<rparr>),
      field ''replicas'' decodeInt32 ur_Replicas (\<lambda>a r. r\<lparr>ur_Replicas := a\<rparr>),
      field ''port'' decodeInt32 ur_Port (\<lambda>a r. r\<lparr>ur_Port := a\<rparr>),
      field ''predictor'' (decodePtr zeroPredictorRequest (decodeStruct predictorFields)) ur_Predictor
        (\<lambda>a r. r\<lparr>ur_Predictor := a\<rparr>),
      field ''exposure'' (decodeStruct exposureFields) ur_Exposure (\<lambda>a r. r\<lparr>ur_Exposure := a\<rparr>),
      field ''storage'' (decodeStruct storageFields) ur_Storage (\<lambda>a r. r\<lparr>ur_Storage := a\<rparr>)]"

definition patchExposureFields :: "(string \<times> PatchExposureRequest setter) list" where
  "patchExposureFields =
     [field ''enabled'' (decodePtr False decodeBool) pe_Enabled (\<lambda>a r. r\<lparr>pe_Enabled := a\<rparr>),
      field ''hostname'' (decodePtr [] decodeString) pe_Hostname (\<lambda>a r. r\<lparr>pe_Hostname := a\<rparr>),
      field ''pathPrefix'' (decodePtr [] decodeString) pe_PathPrefix (\<lambda>a r. r\<lparr>pe_PathPrefix := a\<rparr>)]"

definition patchStorageFields :: "(string \<times> PatchStorageRequest setter) list" where
  "patchStorageFields =
     [field ''enabled'' (decodePtr False decodeBool) pst_Enabled (\<lambda>a r. r\<lparr>pst_Enabled := a\<rparr>),
      field ''size'' (decodePtr [] decodeString) pst_Size (\<lambda>a r. r\<lparr>pst_Size := a\<rparr>),
      field ''mountPath'' (decodePtr [] decodeString) pst_MountPath (\<lambda>a r. r\<lparr>pst_MountPath := a\<rparr>)]"

definition patchFields :: "(string \<times> PatchModelServiceRequest setter) list" where
  "patchFields =
     [field ''backend'' (decodePtr [] decodeString) pa_Backend (\<lambda>a r. r\<lparr>pa_Backend := a\<rparr>),
      field ''image'' (decodePtr [] decodeString) pa_Image (\<lambda>a r. r\<lparr>pa_Image := a\<rparr>),
      field ''replicas'' (decodePtr 0 decodeInt32) pa_Replicas (\<lambda>a r. r\<lparr>pa_Replicas := a\<rparr>),
      field ''port'' (decodePtr 0 decodeInt32) pa_Port (\<lambda>a r. r\<lparr>pa_Port := a\<rparr>),
      field ''predictor'' (decodePtr zeroPredictorRequest (decodeStruct predictorFields)) pa_Predictor
        (\<lambda>a r. r\<lparr>pa_Predictor := a\<rparr>),
      field ''exposure'' (decodePtr \<lparr>pe_Enabled = None, pe_Hostname = None, pe_PathPrefix = None\<rparr>
          (decodeStruct patchExposureFields)) pa_Exposure (\<lambda>a r. r\<lparr>pa_Exposure := a\<rparr>),
      field ''storage'' (decodePtr \<lparr>pst_Enabled = None, pst_Size = None, pst_MountPath = None\<rparr>
          (decodeStruct patchStorageFields)) pa_Storage (\<lambda>a r. r\<lparr>pa_Storage := a\<rparr>)]"

section \<open>Request bodies\<close>

definition maxRequestBodyBytes :: nat where
  "maxRequestBodyBytes = 1048576"

text \<open>How the first \<^verbatim>\<open>Decode\<close> ends: beyond the limit, any other error, or a request with the bytes that
  follow the value.\<close>

datatype 'r decoded = TooLarge | Malformed | Decoded 'r string

definition isScalar :: "jvalue \<Rightarrow> bool" where
  "isScalar v \<longleftrightarrow> (case v of JArr _ \<Rightarrow> False | JObj _ \<Rightarrow> False | _ \<Rightarrow> True)"

text \<open>
  The decoder sees at most \<^const>\<open>maxRequestBodyBytes\<close> bytes; then the reader fails, with a
  \<^verbatim>\<open>MaxBytesError\<close> when the body is longer. A complete value is decoded even so; the end of a
  top-level scalar is only known from the byte after it, or from the end of the body.
\<close>

definition decodeScanned :: "'r setter \<Rightarrow> 'r \<Rightarrow> bool \<Rightarrow> bool \<Rightarrow> jvalue scan \<Rightarrow> 'r decoded" where
  "decodeScanned f zero tooLong fails scanned =
     (case scanned of
        ScanError \<Rightarrow> Malformed
      | ScanMore \<Rightarrow> if tooLong then TooLarge else Malformed
      | Scanned v rest \<Rightarrow>
          if rest = [] \<and> isScalar v \<and> tooLong then TooLarge
          else if rest = [] \<and> isScalar v \<and> fails then Malformed
          else (case f v zero of None \<Rightarrow> Malformed | Some r \<Rightarrow> Decoded r rest))"

definition decodeRequest :: "'r setter \<Rightarrow> 'r \<Rightarrow> string \<Rightarrow> bool \<Rightarrow> 'r decoded" where
  "decodeRequest f zero body fails =
     decodeScanned f zero (maxRequestBodyBytes < length body) fails (scanText (take maxRequestBodyBytes body))"

text \<open>\<^verbatim>\<open>ensureSingleJSONValue\<close>: the second \<^verbatim>\<open>Decode\<close> must report the end of the body, so nothing but
  white space follows and the reader has not failed.\<close>

definition ensureSingleJSONValue :: "string \<Rightarrow> bool \<Rightarrow> string \<Rightarrow> bool" where
  "ensureSingleJSONValue body fails rest \<longleftrightarrow>
     skipSpaces rest = [] \<and> length body \<le> maxRequestBodyBytes \<and> \<not> fails"

end
