(* ===== verification/Validation.thy ===== *)
theory Validation
  imports Requests Samples
begin

text \<open>
  Request validation, \<^verbatim>\<open>internal/api/validation/modelservice.go\<close>. The functions append to a
  list of details the caller passes by pointer; here they take the list and return it extended.
  The DNS-name checks and the quantity parser of the Kubernetes libraries are parameters; Go's
  \<^verbatim>\<open>net.ParseIP\<close> is modelled.
\<close>

section \<open>net.ParseIP\<close>

text \<open>The loop of \<^verbatim>\<open>parseIPv4Fields\<close>: \<open>val\<close> and \<open>digLen\<close> of the current octet, \<open>pos\<close>, and
  whether the previous byte was a dot (or there was none).\<close>

fun parseIPv4Fields :: "nat \<Rightarrow> nat \<Rightarrow> nat \<Rightarrow> bool \<Rightarrow> string \<Rightarrow> bool" where
  "parseIPv4Fields val digLen pos afterDot [] = (\<not> afterDot \<and> pos = 3)"
| "parseIPv4Fields val digLen pos afterDot (c # s) =
     (if isDigit c
      then if digLen = 1 \<and> val = 0 then False
           else if 10 * val + digitVal c > 255 then False
           else parseIPv4Fields (10 * val + digitVal c) (digLen + 1) pos False s
      else if c = CHR ''.''
      then if afterDot \<or> s = [] \<or> pos = 3 then False
           else parseIPv4Fields 0 0 (pos + 1) True s
      else False)"

definition isHexDigit :: "char \<Rightarrow> bool" where
  "isHexDigit c \<longleftrightarrow> isDigit c \<or> (let n = (of_char c :: nat) in (97 \<le> n \<and> n \<le> 102) \<or> (65 \<le> n \<and> n \<le> 70))"

text \<open>The main loop of \<^verbatim>\<open>parseIPv6\<close>: \<open>i\<close> counts the bytes filled so far. A group has one to four
  hexadecimal digits (so it fits 16 bits); the first group may instead start a trailing IPv4
  part.\<close>

function parseIPv6Groups :: "nat \<Rightarrow> bool \<Rightarrow> string \<Rightarrow> bool" where
  "parseIPv6Groups i ellipsis s =
     (if 16 \<le> i then s = [] \<and> \<not> ellipsis
      else
        let group = takeWhile isHexDigit s; rest = dropWhile isHexDigit s
        in if group = [] \<or> 4 < length group then False
           else if rest \<noteq> [] \<and> hd rest = CHR ''.''
           then if (\<not> ellipsis \<and> i \<noteq> 12) \<or> 16 < i + 4 then False
                else parseIPv4Fields 0 0 0 True s \<and> (if i + 4 < 16 then ellipsis else \<not> ellipsis)
           else if rest = [] then (if i + 2 < 16 then ellipsis else \<not> ellipsis)
           else if hd rest \<noteq> CHR '':'' \<or> tl rest = [] then False
           else if hd (tl rest) = CHR '':''
           then if ellipsis then False
                else if tl (tl rest) = [] then i + 2 < 16
                else parseIPv6Groups (i + 2) True (tl (tl rest))
           else parseIPv6Groups (i + 2) ellipsis (tl rest))"
  by pat_completeness auto
termination
  by (relation "measure (\<lambda>(i, e, s). 16 - i)") auto

declare parseIPv6Groups.simps [simp del]

text \<open>\<^verbatim>\<open>net.ParseIP(s) != nil\<close>. An address with a zone (after a percent sign) is not accepted; the first
  dot or colon decides the family.\<close>

definition parseIP :: "string \<Rightarrow> bool" where
  "parseIP s =
     (case find (\<lambda>c. c = CHR ''.'' \<or> c = CHR '':'' \<or> c = CHR ''%'') s of
        None \<Rightarrow> False
      | Some c \<Rightarrow>
          if c = CHR ''.'' then parseIPv4Fields 0 0 0 True s
          else if c = CHR '':''
          then if CHR ''%'' \<in> set s then False
               else if hasPrefix s ''::''
               then s = ''::'' \<or> parseIPv6Groups 0 True (drop 2 s)
               else parseIPv6Groups 0 False s
          else False)"

section \<open>The validators\<close>

definition detail :: "string \<Rightarrow> string \<Rightarrow> ValidationDetail" where
  "detail field message = \<lparr>vd_Field = field, vd_Message = message\<rparr>"

text \<open>\<^verbatim>\<open>if c { *details = append(*details, d) }\<close>\<close>

definition complainIf :: "bool \<Rightarrow> string \<Rightarrow> string \<Rightarrow> ValidationDetail list \<Rightarrow> ValidationDetail list" where
  "complainIf c field message details = (if c then details @ [detail field message] else details)"

definition validS3StorageURI :: "string \<Rightarrow> bool" where
  "validS3StorageURI storageURI =
     (if \<not> hasPrefix storageURI ''s3://'' then False
      else let location = trimPrefix storageURI ''s3://''; parts = splitN2 (CHR ''/'') location
           in length parts = 2 \<and> parts ! 0 \<noteq> [] \<and> parts ! 1 \<noteq> [])"

definition validHostname :: "ext \<Rightarrow> string \<Rightarrow> bool" where
  "validHostname x hostname =
     (if 253 < length hostname then False
      else \<not> parseIP hostname \<and> length (x_IsDNS1123Subdomain x hostname) = 0)"

definition validateName :: "ext \<Rightarrow> string \<Rightarrow> ValidationDetail list \<Rightarrow> ValidationDetail list" where
  "validateName x name details =
     (if trimSpace name = [] then details @ [detail ''name'' ''must not be empty'']
      else details @ map (detail ''name'') (x_IsDNS1123Label x name))"

definition validateReplicas :: "int32 \<Rightarrow> int \<Rightarrow> ValidationDetail list \<Rightarrow> ValidationDetail list" where
  "validateReplicas replicas maxReplicas details =
     complainIf (sint replicas < 1 \<or> sint replicas > maxReplicas) ''replicas''
       (''must be between 1 and '' @ showInt maxReplicas) details"

definition validateExposure :: "ext \<Rightarrow> ExposureRequest \<Rightarrow> ValidationDetail list \<Rightarrow> ValidationDetail list" where
  "validateExposure x exposure details =
     (if \<not> er_Enabled exposure then details
      else
        let details =
              (if trimSpace (er_Hostname exposure) = []
               then details @ [detail ''exposure.hostname'' ''is required when exposure is enabled'']
               else complainIf (\<not> validHostname x (er_Hostname exposure)) ''exposure.hostname''
                      ''must be a valid DNS hostname'' details)
        in complainIf (er_PathPrefix exposure \<noteq> [] \<and> \<not> hasPrefix (er_PathPrefix exposure) ''/'')
             ''exposure.pathPrefix'' ''must begin with /'' details)"

definition validateStorage :: "ext \<Rightarrow> StorageRequest \<Rightarrow> ValidationDetail list \<Rightarrow> ValidationDetail list" where
  "validateStorage x storage details =
     (if \<not> sr_Enabled storage then details
      else
        let details =
              (if trimSpace (sr_Size storage) = []
               then details @ [detail ''storage.size'' ''is required when storage is enabled'']
               else (case x_ParseQuantity x (sr_Size storage) of
                       Inl e \<Rightarrow> details @ [detail ''storage.size'' ''must be a valid Kubernetes quantity'']
                     | Inr q \<Rightarrow> details))
        in complainIf (\<not> hasPrefix (sr_MountPath storage) ''/'') ''storage.mountPath''
             ''must be an absolute path'' details)"

definition validateDeploymentRequest ::
    "ext \<Rightarrow> CreateModelServiceRequest \<Rightarrow> ValidationDetail list \<Rightarrow> ValidationDetail list" where
  "validateDeploymentRequest x request details =
     (let details = complainIf (trimSpace (cr_Image request) = []) ''image'' ''must not be empty'' details;
          details = complainIf (sint (cr_Port request) < 1 \<or> sint (cr_Port request) > 65535) ''port''
                      ''must be between 1 and 65535'' details;
          details = complainIf (cr_Predictor request \<noteq> None) ''predictor''
                      ''may only be configured for KServe'' details;
          details = validateExposure x (cr_Exposure request) details
      in validateStorage x (cr_Storage request) details)"

definition validatePredictor :: "PredictorRequest \<Rightarrow> ValidationDetail list \<Rightarrow> ValidationDetail list" where
  "validatePredictor predictor details =
     (let details = complainIf (mfr_Name (prq_ModelFormat predictor) \<noteq> ''sklearn'')
                      ''predictor.modelFormat.name'' ''must be sklearn'' details;
          details = complainIf (mfr_Version (prq_ModelFormat predictor) \<noteq> ''1'')
                      ''predictor.modelFormat.version'' ''must be 1'' details;
          details = complainIf (prq_Runtime predictor \<noteq> ''kserve-sklearnserver'')
                      ''predictor.runtime'' ''must be kserve-sklearnserver'' details;
          details = complainIf (\<not> validS3StorageURI (prq_StorageURI predictor))
                      ''predictor.storageUri'' ''must use the form s3://bucket/object-path'' details
      in complainIf (prq_ServiceAccountName predictor \<noteq> ''kserve-model-reader'')
           ''predictor.serviceAccountName'' ''must be kserve-model-reader'' details)"

definition validateKServeRequest ::
    "CreateModelServiceRequest \<Rightarrow> ValidationDetail list \<Rightarrow> ValidationDetail list" where
  "validateKServeRequest request details =
     (let details = complainIf (trimSpace (cr_Image request) \<noteq> []) ''image''
                      ''must be omitted for KServe'' details;
          details = complainIf (cr_Port request \<noteq> 0) ''port'' ''must be omitted for KServe'' details;
          details = complainIf (er_Enabled (cr_Exposure request)) ''exposure.enabled''
                      ''must be false for KServe'' details;
          details = complainIf (sr_Enabled (cr_Storage request)) ''storage.enabled''
                      ''must be false for KServe'' details
      in case cr_Predictor request of
           None \<Rightarrow> details @ [detail ''predictor'' ''is required for KServe'']
         | Some predictor \<Rightarrow> validatePredictor predictor details)"

definition ValidateCreateModelService ::
    "ext \<Rightarrow> CreateModelServiceRequest \<Rightarrow> int \<Rightarrow> ValidationDetail list" where
  "ValidateCreateModelService x request maxReplicas =
     (let details = validateName x (cr_Name request) [];
          details = validateReplicas (cr_Replicas request) maxReplicas details;
          backend = (if cr_Backend request = [] then ModelServiceBackendDeployment else cr_Backend request)
      in if backend = ModelServiceBackendDeployment then validateDeploymentRequest x request details
         else if backend = ModelServiceBackendKServe then validateKServeRequest request details
         else details @ [detail ''backend'' ''must be one of: Deployment, KServe''])"

text \<open>\<^verbatim>\<open>ValidateUpdateModelService\<close> validates the update as the creation of the named object.\<close>

definition asCreateRequest :: "string \<Rightarrow> UpdateModelServiceRequest \<Rightarrow> CreateModelServiceRequest" where
  "asCreateRequest name request =
     \<lparr>cr_Name = name, cr_Backend = ur_Backend request, cr_Image = ur_Image request,
      cr_Replicas = ur_Replicas request, cr_Port = ur_Port request,
      cr_Predictor = ur_Predictor request, cr_Exposure = ur_Exposure request,
      cr_Storage = ur_Storage request\<rparr>"

definition ValidateUpdateModelService ::
    "ext \<Rightarrow> string \<Rightarrow> UpdateModelServiceRequest \<Rightarrow> int \<Rightarrow> ValidationDetail list" where
  "ValidateUpdateModelService x name request maxReplicas =
     ValidateCreateModelService x (asCreateRequest name request) maxReplicas"

section \<open>What a valid request is\<close>

text \<open>The declarative reading of the rules: for each field, the condition under which it is at fault.\<close>

definition requestBackend :: "CreateModelServiceRequest \<Rightarrow> string" where
  "requestBackend request = (if cr_Backend request = [] then ''Deployment'' else cr_Backend request)"

definition isS3Location :: "string \<Rightarrow> bool" where
  "isS3Location uri \<longleftrightarrow>
     (\<exists>bucket path. uri = ''s3://'' @ bucket @ ''/'' @ path \<and> bucket \<noteq> [] \<and> path \<noteq> [] \<and>
        CHR ''/'' \<notin> set bucket)"

definition exposureFaults :: "ext \<Rightarrow> ExposureRequest \<Rightarrow> string set" where
  "exposureFaults x e =
     (if er_Enabled e
      then {f. f = ''exposure.hostname'' \<and>
               \<not> (trimSpace (er_Hostname e) \<noteq> [] \<and> validHostname x (er_Hostname e))} \<union>
           {f. f = ''exposure.pathPrefix'' \<and> er_PathPrefix e \<noteq> [] \<and> \<not> hasPrefix (er_PathPrefix e) ''/''}
      else {})"

definition storageFaults :: "ext \<Rightarrow> StorageRequest \<Rightarrow> string set" where
  "storageFaults x st =
     (if sr_Enabled st
      then {f. f = ''storage.size'' \<and>
               \<not> (trimSpace (sr_Size st) \<noteq> [] \<and> (\<exists>q. x_ParseQuantity x (sr_Size st) = Inr q))} \<union>
           {f. f = ''storage.mountPath'' \<and> \<not> hasPrefix (sr_MountPath st) ''/''}
      else {})"

definition predictorFaults :: "PredictorRequest \<Rightarrow> string set" where
  "predictorFaults p =
     {f. (f = ''predictor.modelFormat.name'' \<and> mfr_Name (prq_ModelFormat p) \<noteq> ''sklearn'') \<or>
         (f = ''predictor.modelFormat.version'' \<and> mfr_Version (prq_ModelFormat p) \<noteq> ''1'') \<or>
         (f = ''predictor.runtime'' \<and> prq_Runtime p \<noteq> ''kserve-sklearnserver'') \<or>
         (f = ''predictor.storageUri'' \<and> \<not> isS3Location (prq_StorageURI p)) \<or>
         (f = ''predictor.serviceAccountName'' \<and> prq_ServiceAccountName p \<noteq> ''kserve-model-reader'')}"

definition backendFaults :: "ext \<Rightarrow> CreateModelServiceRequest \<Rightarrow> string set" where
  "backendFaults x r =
     (if requestBackend r = ''Deployment''
      then {f. (f = ''image'' \<and> trimSpace (cr_Image r) = []) \<or>
               (f = ''port'' \<and> \<not> (1 \<le> sint (cr_Port r) \<and> sint (cr_Port r) \<le> 65535)) \<or>
               (f = ''predictor'' \<and> cr_Predictor r \<noteq> None)} \<union>
           exposureFaults x (cr_Exposure r) \<union> storageFaults x (cr_Storage r)
      else if requestBackend r = ''KServe''
      then {f. (f = ''image'' \<and> trimSpace (cr_Image r) \<noteq> []) \<or>
               (f = ''port'' \<and> cr_Port r \<noteq> 0) \<or>
               (f = ''exposure.enabled'' \<and> er_Enabled (cr_Exposure r)) \<or>
               (f = ''storage.enabled'' \<and> sr_Enabled (cr_Storage r)) \<or>
               (f = ''predictor'' \<and> cr_Predictor r = None)} \<union>
           (case cr_Predictor r of None \<Rightarrow> {} | Some p \<Rightarrow> predictorFaults p)
      else {''backend''})"

definition requestFaults :: "ext \<Rightarrow> int \<Rightarrow> CreateModelServiceRequest \<Rightarrow> string set" where
  "requestFaults x maxReplicas r =
     {f. (f = ''name'' \<and> \<not> (trimSpace (cr_Name r) \<noteq> [] \<and> x_IsDNS1123Label x (cr_Name r) = [])) \<or>
         (f = ''replicas'' \<and> \<not> (1 \<le> sint (cr_Replicas r) \<and> sint (cr_Replicas r) \<le> maxReplicas))} \<union>
     backendFaults x r"

section \<open>The validators compute it\<close>

abbreviation faultsOf :: "ValidationDetail list \<Rightarrow> string set" where
  "faultsOf details \<equiv> vd_Field ` set details"

lemma faultsOf_complainIf [simp]:
  "faultsOf (complainIf c field message details) = faultsOf details \<union> {f. f = field \<and> c}"
  by (auto simp: complainIf_def detail_def)

lemma validS3_iff: "validS3StorageURI uri \<longleftrightarrow> isS3Location uri"
proof
  assume h: "validS3StorageURI uri"
  then obtain location where uri: "uri = ''s3://'' @ location"
    unfolding validS3StorageURI_def hasPrefix_iff by (auto split: if_splits)
  let ?parts = "splitN2 (CHR ''/'') location"
  have "trimPrefix uri ''s3://'' = location" unfolding uri by (rule trimPrefix_append)
  with h have "length ?parts = 2" "?parts ! 0 \<noteq> []" "?parts ! 1 \<noteq> []"
    by (auto simp: validS3StorageURI_def Let_def split: if_splits)
  moreover from this(1) obtain a b where "?parts = [a, b]"
    by (auto simp: splitN2_def split: if_splits)
  ultimately have "?parts = [a, b]" "a \<noteq> []" "b \<noteq> []" by simp_all
  then have "location = a @ CHR ''/'' # b" "CHR ''/'' \<notin> set a" "a \<noteq> []" "b \<noteq> []"
    by (simp_all add: splitN2_two)
  then show "isS3Location uri" unfolding isS3Location_def uri
    by (intro exI [of _ a] exI [of _ b]) simp
next
  assume "isS3Location uri"
  then obtain bucket path where uri: "uri = ''s3://'' @ bucket @ CHR ''/'' # path"
    and ne: "bucket \<noteq> []" "path \<noteq> []" "CHR ''/'' \<notin> set bucket"
    unfolding isS3Location_def by auto
  have "trimPrefix uri ''s3://'' = bucket @ CHR ''/'' # path" unfolding uri by (rule trimPrefix_append)
  moreover have "hasPrefix uri ''s3://''" unfolding uri by (rule hasPrefix_append)
  ultimately show "validS3StorageURI uri"
    using ne by (simp only: validS3StorageURI_def Let_def) (simp add: splitN2_append)
qed

lemma faultsOf_validateName:
  "faultsOf (validateName x name details) =
     faultsOf details \<union> {f. f = ''name'' \<and> \<not> (trimSpace name \<noteq> [] \<and> x_IsDNS1123Label x name = [])}"
  by (cases "x_IsDNS1123Label x name") (auto simp: validateName_def detail_def)

lemma faultsOf_validateReplicas:
  "faultsOf (validateReplicas n m details) =
     faultsOf details \<union> {f. f = ''replicas'' \<and> \<not> (1 \<le> sint n \<and> sint n \<le> m)}"
  by (auto simp: validateReplicas_def)

lemma faultsOf_validateExposure:
  "faultsOf (validateExposure x e details) = faultsOf details \<union> exposureFaults x e"
  by (auto simp: validateExposure_def exposureFaults_def detail_def Let_def)

lemma faultsOf_validateStorage:
  "faultsOf (validateStorage x st details) = faultsOf details \<union> storageFaults x st"
  by (auto simp: validateStorage_def storageFaults_def detail_def Let_def split: sum.split)

lemma faultsOf_validatePredictor:
  "faultsOf (validatePredictor p details) = faultsOf details \<union> predictorFaults p"
  by (simp only: validatePredictor_def predictorFaults_def validS3_iff Let_def faultsOf_complainIf
      Collect_disj_eq Un_assoc)

lemma faultsOf_validateBackend:
  assumes "requestBackend r = ''Deployment''"
  shows "faultsOf (validateDeploymentRequest x r details) = faultsOf details \<union> backendFaults x r"
  unfolding backendFaults_def if_P [OF assms]
  by (simp only: validateDeploymentRequest_def Let_def faultsOf_complainIf not_less [symmetric] de_Morgan_conj not_not
      faultsOf_validateStorage faultsOf_validateExposure Collect_disj_eq Un_assoc)

lemma faultsOf_validateKServe:
  assumes "requestBackend r = ''KServe''"
  shows "faultsOf (validateKServeRequest r details) = faultsOf details \<union> backendFaults x r"
proof -
  have 1: "requestBackend r \<noteq> ''Deployment''" using assms by simp
  show ?thesis
    unfolding backendFaults_def if_not_P [OF 1] if_P [OF assms]
    by (cases "cr_Predictor r")
       (simp_all add: validateKServeRequest_def Let_def detail_def faultsOf_validatePredictor
         Collect_disj_eq Un_assoc)
qed

lemma faultsOf_validateCreate:
  "faultsOf (ValidateCreateModelService x r maxReplicas) = requestFaults x maxReplicas r"
proof -
  let ?ds = "validateReplicas (cr_Replicas r) maxReplicas (validateName x (cr_Name r) [])"
  have base: "faultsOf ?ds \<union> backendFaults x r = requestFaults x maxReplicas r"
    by (auto simp: faultsOf_validateReplicas faultsOf_validateName requestFaults_def)
  consider "requestBackend r = ''Deployment''" | "requestBackend r = ''KServe''"
    | "requestBackend r \<noteq> ''Deployment''" "requestBackend r \<noteq> ''KServe''" by blast
  then show ?thesis
  proof cases
    case 1
    then have "ValidateCreateModelService x r maxReplicas = validateDeploymentRequest x r ?ds"
      by (auto simp: ValidateCreateModelService_def requestBackend_def Let_def go_const split: if_splits)
    then show ?thesis using faultsOf_validateBackend [OF 1, of x ?ds] base by simp
  next
    case 2
    then have "ValidateCreateModelService x r maxReplicas = validateKServeRequest r ?ds"
      by (auto simp: ValidateCreateModelService_def requestBackend_def Let_def go_const split: if_splits)
    then show ?thesis using faultsOf_validateKServe [OF 2, of ?ds x] base by simp
  next
    case 3
    then have "ValidateCreateModelService x r maxReplicas =
        ?ds @ [detail ''backend'' ''must be one of: Deployment, KServe'']"
      by (auto simp: ValidateCreateModelService_def requestBackend_def Let_def go_const split: if_splits)
    moreover have "backendFaults x r = {''backend''}" using 3 by (simp add: backendFaults_def)
    ultimately show ?thesis unfolding base [symmetric] by (simp add: detail_def)
  qed
qed

text \<open>C14. Validation is exact: the fields the validators complain about are those at fault by the rules of
  the API, no more and no fewer, for creation and for replacement. A request passes exactly when no
  field is at fault.\<close>

theorem validation_exact:
  "vd_Field ` set (ValidateCreateModelService x request maxReplicas) = requestFaults x maxReplicas request \<and>
   (ValidateCreateModelService x request maxReplicas = [] \<longleftrightarrow> requestFaults x maxReplicas request = {}) \<and>
   vd_Field ` set (ValidateUpdateModelService x name update maxReplicas) =
     requestFaults x maxReplicas (asCreateRequest name update)"
  unfolding ValidateUpdateModelService_def faultsOf_validateCreate [symmetric] by simp

section \<open>Host names are not addresses\<close>

lemma isDigit_dot [simp]: "\<not> isDigit (CHR ''.'')"
  by (simp add: isDigit_def)

lemma parse_first_digit:
  "d < 10 \<Longrightarrow> parseIPv4Fields 0 0 pos ad (digitChar d # s) = parseIPv4Fields d 1 pos False s"
  by (simp add: digitChar_props)

lemma parse_next_digit:
  "d < 10 \<Longrightarrow> 0 < v \<Longrightarrow> 10 * v + d \<le> 255 \<Longrightarrow>
   parseIPv4Fields v n pos ad (digitChar d # s) = parseIPv4Fields (10 * v + d) (Suc n) pos False s"
  by (simp add: digitChar_props)

lemma parse_octet:
  assumes "n < 256"
  shows "\<exists>k. parseIPv4Fields 0 0 pos ad (showNat n @ s) = parseIPv4Fields n k pos False s"
proof -
  consider "n < 10" | "10 \<le> n" "n < 100" | "100 \<le> n" by linarith
  then show ?thesis
  proof cases
    case 1
    then have "showNat n = [digitChar n]" by (subst showNat.simps) simp
    with 1 show ?thesis using parse_first_digit [of n] by auto
  next
    case 2
    then have "showNat n = [digitChar (n div 10), digitChar (n mod 10)]"
      by (subst showNat.simps, subst showNat.simps) simp
    moreover have "10 * (n div 10) + n mod 10 = n" by simp
    ultimately show ?thesis
      using 2 parse_first_digit [of "n div 10"] parse_next_digit [of "n mod 10" "n div 10"] by auto
  next
    case 3
    with assms have "showNat n = [digitChar (n div 100), digitChar (n div 10 mod 10), digitChar (n mod 10)]"
      by (subst showNat.simps, subst showNat.simps, subst showNat.simps)
         (simp add: div_mult2_eq [symmetric], linarith)
    moreover have "n div 100 = n div 10 div 10" by (simp add: div_mult2_eq [symmetric])
    then have "10 * (n div 100) + n div 10 mod 10 = n div 10" by simp
    moreover have "10 * (n div 10) + n mod 10 = n" by simp
    moreover have "0 < n div 100" "n div 100 < 10" "0 < n div 10" using 3 assms by auto
    ultimately show ?thesis
      using assms parse_first_digit [of "n div 100"]
        parse_next_digit [of "n div 10 mod 10" "n div 100"] parse_next_digit [of "n mod 10" "n div 10"]
      by auto
  qed
qed

lemma parse_dot:
  "pos < 3 \<Longrightarrow> s \<noteq> [] \<Longrightarrow>
   parseIPv4Fields v k pos False (CHR ''.'' # s) = parseIPv4Fields 0 0 (Suc pos) True s"
  by simp

lemma parse_dotted_octet:
  assumes "n < 256" "pos < 3" "s \<noteq> []"
  shows "parseIPv4Fields 0 0 pos ad (showNat n @ CHR ''.'' # s) = parseIPv4Fields 0 0 (Suc pos) True s"
  using parse_octet [OF assms(1), of pos ad "CHR ''.'' # s"] parse_dot [OF assms(2,3)] by auto

lemma find_append_digits:
  "list_all isDigit ds \<Longrightarrow>
   find (\<lambda>c. c = CHR ''.'' \<or> c = CHR '':'' \<or> c = CHR ''%'') (ds @ CHR ''.'' # s) = Some (CHR ''.'')"
  by (induction ds) (auto simp: isDigit_def)

definition dottedQuad :: "nat \<Rightarrow> nat \<Rightarrow> nat \<Rightarrow> nat \<Rightarrow> string" where
  "dottedQuad a b c d = showNat a @ ''.'' @ showNat b @ ''.'' @ showNat c @ ''.'' @ showNat d"

lemma parseIP_dottedQuad:
  assumes "a < 256" "b < 256" "c < 256" "d < 256"
  shows "parseIP (dottedQuad a b c d)"
proof -
  have ne: "showNat n \<noteq> []" for n using showNat_digits by blast
  have "parseIPv4Fields 0 0 0 True (dottedQuad a b c d) = parseIPv4Fields 0 0 3 True (showNat d @ [])"
    unfolding dottedQuad_def using assms ne
    by (simp add: parse_dotted_octet numeral_3_eq_3 del: parseIPv4Fields.simps)
  moreover have "parseIPv4Fields 0 0 3 True (showNat d @ [])"
    using parse_octet [OF assms(4), of 3 True "[]"] by (auto simp del: append_Nil2)
  ultimately have "parseIPv4Fields 0 0 0 True (dottedQuad a b c d)" by simp
  moreover have "find (\<lambda>c. c = CHR ''.'' \<or> c = CHR '':'' \<or> c = CHR ''%'') (dottedQuad a b c d) =
      Some (CHR ''.'')"
    unfolding dottedQuad_def using showNat_digits [of a] by (simp add: find_append_digits)
  ultimately show ?thesis by (simp add: parseIP_def)
qed

text \<open>An exposure never names an address: no IPv4 address in its usual notation passes as a host
  name, whatever the DNS check of the Kubernetes library accepts (it accepts such names).\<close>

lemma hostname_not_ipv4:
  assumes "a < 256" and "b < 256" and "c < 256" and "d < 256"
  shows "\<not> validHostname x (dottedQuad a b c d)"
  using parseIP_dottedQuad [OF assms] by (simp add: validHostname_def)

end
