(* ===== verification/Handlers.thy ===== *)
theory Handlers
  imports Http Store Decode Validation
begin

text \<open>
  The request handlers of \<^verbatim>\<open>internal/api/handlers\<close>. A handler takes the store it was built
  with (any implementation of the interface), its settings, the request and the response writer, and
  returns the writer; every early return of the source is a branch that writes one response.
\<close>

section \<open>Shared pieces\<close>

definition codeRequestTooLarge :: string where [go_const]: "codeRequestTooLarge = ''REQUEST_TOO_LARGE''"
definition codeInvalidJSON :: string where [go_const]: "codeInvalidJSON = ''INVALID_JSON''"
definition codeValidationFailed :: string where [go_const]: "codeValidationFailed = ''VALIDATION_FAILED''"
definition codeMethodNotAllowed :: string where [go_const]: "codeMethodNotAllowed = ''METHOD_NOT_ALLOWED''"
definition codeInvalidModelServiceName :: string where
  [go_const]: "codeInvalidModelServiceName = ''INVALID_MODEL_SERVICE_NAME''"
definition codeModelServiceNotFound :: string where
  [go_const]: "codeModelServiceNotFound = ''MODEL_SERVICE_NOT_FOUND''"
definition codeKubernetesUnavailable :: string where
  [go_const]: "codeKubernetesUnavailable = ''KUBERNETES_UNAVAILABLE''"
definition messageMethodNotAllowed :: string where [go_const]: "messageMethodNotAllowed = ''method not allowed''"
definition messageModelServiceNameRequired :: string where
  [go_const]: "messageModelServiceNameRequired = ''ModelService name is required''"
definition messageRequestBodyTooLarge :: string where
  [go_const]: "messageRequestBodyTooLarge = ''request body is too large''"
definition messageRequestBodyInvalidJSON :: string where
  [go_const]: "messageRequestBodyInvalidJSON = ''request body contains invalid JSON''"
definition messageRequestBodySingleJSONObject :: string where
  [go_const]: "messageRequestBodySingleJSONObject = ''request body must contain one JSON object''"
definition messageRequestValidationFailed :: string where
  [go_const]: "messageRequestValidationFailed = ''request validation failed''"
definition messageUnableToLoadModelService :: string where
  [go_const]: "messageUnableToLoadModelService = ''unable to load ModelService''"
definition messageModelServiceModifiedConcurrently :: string where
  [go_const]: "messageModelServiceModifiedConcurrently =
     ''ModelService was modified concurrently; retry the request''"

text \<open>\<^verbatim>\<open>response.WriteJSON(w, status, response.APIError{Error: response.ErrorBody{...}})\<close>.\<close>

definition writeError ::
    "int \<Rightarrow> string \<Rightarrow> string \<Rightarrow> ValidationDetail list \<Rightarrow> http_request \<Rightarrow> rw \<Rightarrow> rw" where
  "writeError status code message details r w =
     WriteJSON status (ErrorDoc \<lparr>eb_Code = code, eb_Message = message,
       eb_RequestID = RequestIDFromContext r, eb_Details = details\<rparr>) w"

definition logEntry :: "string \<Rightarrow> string \<Rightarrow> (string \<times> logval) list \<Rightarrow> outevent" where
  "logEntry level message attrs = LogOut \<lparr>le_Level = level, le_Message = message, le_Attrs = attrs\<rparr>"

text \<open>The log record of a failed operation on a named ModelService.\<close>

definition logFailure :: "string \<Rightarrow> http_request \<Rightarrow> string \<Rightarrow> goerror \<Rightarrow> outevent" where
  "logFailure event r name e =
     logEntry ''ERROR'' event
       [(''request_id'', LStr (RequestIDFromContext r)), (''model_service'', LStr name),
        (''error'', LStr (errorString e))]"

definition notFoundMessage :: "string \<Rightarrow> string" where
  "notFoundMessage name = ''ModelService '' @ [CHR 0x22] @ name @ [CHR 0x22] @ '' was not found''"

text \<open>The branch every handler has for a failed \<^verbatim>\<open>store.Get\<close>.\<close>

definition getFailed :: "string \<Rightarrow> string \<Rightarrow> string \<Rightarrow> goerror \<Rightarrow> leaf" where
  "getFailed event message name e r w =
     (if isNotFound e
      then Ret (writeError 404 codeModelServiceNotFound (notFoundMessage name) [] r w)
      else Emit (logFailure event r name e)
             (Ret (writeError 503 codeKubernetesUnavailable message [] r w)))"

record ModelServiceDefaults =
  df_GatewayName :: string
  df_GatewayNamespace :: string
  df_GatewaySectionName :: string
  df_GatewayDataPlaneNamespace :: string

section \<open>Conversions\<close>

definition normalizedModelServiceBackend :: "ModelServiceBackend \<Rightarrow> string" where
  "normalizedModelServiceBackend backend =
     (if backend = [] then ModelServiceBackendDeployment else backend)"

definition modelServiceState :: "ModelService \<Rightarrow> string" where
  "modelServiceState ms =
     (if meta_DeletionTimestamp (ms_Meta ms) \<noteq> None then ''Deleting''
      else if status_Phase (ms_Status ms) \<noteq> [] then status_Phase (ms_Status ms)
      else ''Pending'')"

definition modelServiceToResponse :: "ModelService \<Rightarrow> ModelServiceResponse" where
  "modelServiceToResponse ms =
     (let spec = ms_Spec ms;
          backend = normalizedModelServiceBackend (spec_Backend spec)
      in \<lparr>res_APIVersion = ''v1'', res_Kind = ''ModelService'', res_Name = ms_Name ms,
          res_Backend = backend,
          res_Image = (if backend = ModelServiceBackendDeployment then spec_Image spec else []),
          res_Replicas = spec_Replicas spec,
          res_Port = (if backend = ModelServiceBackendDeployment then spec_Port spec else 0),
          res_Predictor = map_option (\<lambda>p. \<lparr>prr_ModelFormatName = mf_Name (pr_ModelFormat p),
             prr_ModelFormatVersion = mf_Version (pr_ModelFormat p), prr_Runtime = pr_Runtime p,
             prr_StorageURI = pr_StorageURI p, prr_ServiceAccountName = pr_ServiceAccountName p\<rparr>)
             (spec_Predictor spec),
          res_Exposure =
            (case spec_Exposure spec of
               None \<Rightarrow> \<lparr>exr_Enabled = False, exr_Hostname = [], exr_PathPrefix = []\<rparr>
             | Some e \<Rightarrow>
                 if ex_Enabled e
                 then \<lparr>exr_Enabled = True, exr_Hostname = ex_Hostname e, exr_PathPrefix = ex_PathPrefix e\<rparr>
                 else \<lparr>exr_Enabled = False, exr_Hostname = [], exr_PathPrefix = []\<rparr>),
          res_Storage =
            (case spec_Storage spec of
               None \<Rightarrow> \<lparr>str_Enabled = False, str_Size = [], str_MountPath = []\<rparr>
             | Some s \<Rightarrow>
                 if st_Enabled s
                 then \<lparr>str_Enabled = True, str_Size = st_Size s, str_MountPath = st_MountPath s\<rparr>
                 else \<lparr>str_Enabled = False, str_Size = [], str_MountPath = []\<rparr>),
          res_State = modelServiceState ms, res_Generation = ms_Generation ms\<rparr>)"

definition modelServiceToSummary :: "ModelService \<Rightarrow> ModelServiceSummary" where
  "modelServiceToSummary ms =
     (let spec = ms_Spec ms;
          backend = normalizedModelServiceBackend (spec_Backend spec)
      in \<lparr>sum_Name = ms_Name ms, sum_Backend = backend,
          sum_Image = (if backend = ModelServiceBackendDeployment then spec_Image spec else []),
          sum_Replicas = spec_Replicas spec, sum_State = modelServiceState ms,
          sum_Hostname =
            (case spec_Exposure spec of
               None \<Rightarrow> [] | Some e \<Rightarrow> if ex_Enabled e then ex_Hostname e else [])\<rparr>)"

definition modelServiceToStatusResponse :: "ModelService \<Rightarrow> ModelServiceStatusResponse" where
  "modelServiceToStatusResponse ms =
     \<lparr>sres_Name = ms_Name ms, sres_State = modelServiceState ms,
      sres_ObservedGeneration = status_ObservedGeneration (ms_Status ms),
      sres_DesiredReplicas = spec_Replicas (ms_Spec ms),
      sres_ReadyReplicas = status_ReadyReplicas (ms_Status ms),
      sres_Endpoint =
        (case spec_Exposure (ms_Spec ms) of
           None \<Rightarrow> []
         | Some e \<Rightarrow> if ex_Enabled e \<and> ex_Hostname e \<noteq> [] then ''https://'' @ ex_Hostname e else []),
      sres_Conditions = map (\<lambda>c. \<lparr>cor_Type = cond_Type c, cor_Status = cond_Status c,
         cor_Reason = cond_Reason c, cor_Message = cond_Message c\<rparr>) (status_Conditions (ms_Status ms))\<rparr>"

definition requestPredictorToModelService :: "PredictorRequest option \<Rightarrow> ModelServicePredictor option" where
  "requestPredictorToModelService predictor =
     map_option (\<lambda>p. \<lparr>pr_ModelFormat = \<lparr>mf_Name = mfr_Name (prq_ModelFormat p),
        mf_Version = mfr_Version (prq_ModelFormat p)\<rparr>, pr_Runtime = prq_Runtime p,
        pr_StorageURI = prq_StorageURI p, pr_ServiceAccountName = prq_ServiceAccountName p\<rparr>) predictor"

definition enabledExposure :: "ExposureRequest \<Rightarrow> ModelServiceDefaults \<Rightarrow> ModelServiceExposure" where
  "enabledExposure e defaults =
     \<lparr>ex_Enabled = True, ex_Hostname = er_Hostname e,
      ex_PathPrefix = (if er_PathPrefix e = [] then ''/'' else er_PathPrefix e),
      ex_GatewayName = df_GatewayName defaults, ex_GatewayNamespace = df_GatewayNamespace defaults,
      ex_GatewaySectionName = df_GatewaySectionName defaults,
      ex_GatewayDataPlaneNamespace = df_GatewayDataPlaneNamespace defaults\<rparr>"

definition createRequestToModelService ::
    "CreateModelServiceRequest \<Rightarrow> ModelServiceDefaults \<Rightarrow> ModelService" where
  "createRequestToModelService request defaults =
     \<lparr>ms_APIVersion = ''platform.anselem.dev/v1alpha1'', ms_Kind = ''ModelService'',
      ms_Meta = zeroMeta\<lparr>meta_Name := cr_Name request\<rparr>,
      ms_Spec = zeroSpec
        \<lparr>spec_Backend := (if cr_Backend request = [] then ModelServiceBackendDeployment
                          else cr_Backend request),
         spec_Image := cr_Image request, spec_Replicas := cr_Replicas request,
         spec_Port := cr_Port request,
         spec_Predictor := requestPredictorToModelService (cr_Predictor request),
         spec_Exposure := (if er_Enabled (cr_Exposure request)
                           then Some (enabledExposure (cr_Exposure request) defaults) else None),
         spec_Storage := (if sr_Enabled (cr_Storage request)
                          then Some \<lparr>st_Enabled = True, st_Size = sr_Size (cr_Storage request),
                                     st_MountPath = sr_MountPath (cr_Storage request)\<rparr>
                          else None)\<rparr>,
      ms_Status = zeroStatus\<rparr>"

definition applyUpdateRequest ::
    "ModelService \<Rightarrow> UpdateModelServiceRequest \<Rightarrow> ModelServiceDefaults \<Rightarrow> ModelService" where
  "applyUpdateRequest ms request defaults =
     ms\<lparr>ms_Spec := (ms_Spec ms)
        \<lparr>spec_Backend := ur_Backend request,
         spec_Predictor := requestPredictorToModelService (ur_Predictor request),
         spec_Image := ur_Image request, spec_Replicas := ur_Replicas request,
         spec_Port := ur_Port request,
         spec_Exposure := Some (if er_Enabled (ur_Exposure request)
                                then enabledExposure (ur_Exposure request) defaults else zeroExposure),
         spec_Storage := Some (if sr_Enabled (ur_Storage request)
                               then \<lparr>st_Enabled = True, st_Size = sr_Size (ur_Storage request),
                                     st_MountPath = sr_MountPath (ur_Storage request)\<rparr>
                               else zeroStorage)\<rparr>\<rparr>"

section \<open>Patches\<close>

definition hasPatchFields :: "PatchModelServiceRequest \<Rightarrow> bool" where
  "hasPatchFields request \<longleftrightarrow>
     pa_Backend request \<noteq> None \<or> pa_Image request \<noteq> None \<or> pa_Replicas request \<noteq> None \<or>
     pa_Port request \<noteq> None \<or> pa_Predictor request \<noteq> None \<or> pa_Exposure request \<noteq> None \<or>
     pa_Storage request \<noteq> None"

text \<open>\<^verbatim>\<open>if p != nil { field = *p }\<close>\<close>

definition orElse :: "'a option \<Rightarrow> 'a \<Rightarrow> 'a" where
  "orElse p old = (case p of None \<Rightarrow> old | Some v \<Rightarrow> v)"

definition applyExposurePatch ::
    "PatchExposureRequest \<Rightarrow> ModelServiceDefaults \<Rightarrow> ModelService \<Rightarrow> ModelService" where
  "applyExposurePatch request defaults ms =
     (let exposure =
            (case spec_Exposure (ms_Spec ms) of
               None \<Rightarrow> zeroExposure\<lparr>ex_GatewayName := df_GatewayName defaults,
                   ex_GatewayNamespace := df_GatewayNamespace defaults,
                   ex_GatewaySectionName := df_GatewaySectionName defaults,
                   ex_GatewayDataPlaneNamespace := df_GatewayDataPlaneNamespace defaults\<rparr>
             | Some e \<Rightarrow> e);
          exposure = exposure\<lparr>ex_Enabled := orElse (pe_Enabled request) (ex_Enabled exposure)\<rparr>;
          exposure = exposure\<lparr>ex_Hostname := orElse (pe_Hostname request) (ex_Hostname exposure)\<rparr>;
          exposure = exposure\<lparr>ex_PathPrefix := orElse (pe_PathPrefix request) (ex_PathPrefix exposure)\<rparr>;
          exposure = (if ex_Enabled exposure \<and> ex_PathPrefix exposure = []
                      then exposure\<lparr>ex_PathPrefix := ''/''\<rparr> else exposure);
          exposure = (if ex_GatewayName exposure = []
                      then exposure\<lparr>ex_GatewayName := df_GatewayName defaults\<rparr> else exposure);
          exposure = (if ex_GatewayNamespace exposure = []
                      then exposure\<lparr>ex_GatewayNamespace := df_GatewayNamespace defaults\<rparr> else exposure);
          exposure = (if ex_GatewaySectionName exposure = []
                      then exposure\<lparr>ex_GatewaySectionName := df_GatewaySectionName defaults\<rparr> else exposure);
          exposure = (if ex_GatewayDataPlaneNamespace exposure = []
                      then exposure\<lparr>ex_GatewayDataPlaneNamespace := df_GatewayDataPlaneNamespace defaults\<rparr>
                      else exposure)
      in ms\<lparr>ms_Spec := (ms_Spec ms)\<lparr>spec_Exposure := Some exposure\<rparr>\<rparr>)"

definition applyStoragePatch :: "PatchStorageRequest \<Rightarrow> ModelService \<Rightarrow> ModelService" where
  "applyStoragePatch request ms =
     (let storage = (case spec_Storage (ms_Spec ms) of None \<Rightarrow> zeroStorage | Some s \<Rightarrow> s)
      in ms\<lparr>ms_Spec := (ms_Spec ms)\<lparr>spec_Storage := Some
           \<lparr>st_Enabled = orElse (pst_Enabled request) (st_Enabled storage),
            st_Size = orElse (pst_Size request) (st_Size storage),
            st_MountPath = orElse (pst_MountPath request) (st_MountPath storage)\<rparr>\<rparr>\<rparr>)"

definition applyPatchRequest ::
    "ModelService \<Rightarrow> PatchModelServiceRequest \<Rightarrow> ModelServiceDefaults \<Rightarrow> ModelService" where
  "applyPatchRequest ms request defaults =
     (let spec = ms_Spec ms;
          ms = ms\<lparr>ms_Spec := spec
            \<lparr>spec_Backend := orElse (pa_Backend request) (spec_Backend spec),
             spec_Predictor := (case pa_Predictor request of
                None \<Rightarrow> spec_Predictor spec | Some p \<Rightarrow> requestPredictorToModelService (Some p)),
             spec_Image := orElse (pa_Image request) (spec_Image spec),
             spec_Replicas := orElse (pa_Replicas request) (spec_Replicas spec),
             spec_Port := orElse (pa_Port request) (spec_Port spec)\<rparr>\<rparr>;
          ms = (case pa_Exposure request of None \<Rightarrow> ms | Some e \<Rightarrow> applyExposurePatch e defaults ms)
      in case pa_Storage request of None \<Rightarrow> ms | Some s \<Rightarrow> applyStoragePatch s ms)"

definition modelServiceToUpdateRequest :: "ModelService \<Rightarrow> UpdateModelServiceRequest" where
  "modelServiceToUpdateRequest ms =
     (let spec = ms_Spec ms;
          backend = (if spec_Backend spec = [] then ModelServiceBackendDeployment else spec_Backend spec)
      in \<lparr>ur_Backend = backend, ur_Image = spec_Image spec, ur_Replicas = spec_Replicas spec,
          ur_Port = (if backend = ModelServiceBackendKServe then 0 else spec_Port spec),
          ur_Predictor = map_option (\<lambda>p. \<lparr>prq_ModelFormat =
             \<lparr>mfr_Name = mf_Name (pr_ModelFormat p), mfr_Version = mf_Version (pr_ModelFormat p)\<rparr>,
             prq_Runtime = pr_Runtime p, prq_StorageURI = pr_StorageURI p,
             prq_ServiceAccountName = pr_ServiceAccountName p\<rparr>) (spec_Predictor spec),
          ur_Exposure =
            (case spec_Exposure spec of
               None \<Rightarrow> zeroExposureRequest
             | Some e \<Rightarrow> \<lparr>er_Enabled = ex_Enabled e, er_Hostname = ex_Hostname e,
                          er_PathPrefix = ex_PathPrefix e\<rparr>),
          ur_Storage =
            (case spec_Storage spec of
               None \<Rightarrow> zeroStorageRequest
             | Some s \<Rightarrow> \<lparr>sr_Enabled = st_Enabled s, sr_Size = st_Size s, sr_MountPath = st_MountPath s\<rparr>)\<rparr>)"

text \<open>The fields a patch of a KServe ModelService may not touch.\<close>

definition patchBackendDetails :: "string \<Rightarrow> PatchModelServiceRequest \<Rightarrow> ValidationDetail list" where
  "patchBackendDetails existingBackend request =
     (if existingBackend = ModelServiceBackendKServe
      then complainIf (pa_Storage request \<noteq> None) ''storage'' ''may not be patched for KServe''
             (complainIf (pa_Exposure request \<noteq> None) ''exposure'' ''may not be patched for KServe''
               (complainIf (pa_Port request \<noteq> None) ''port'' ''may not be patched for KServe''
                 (complainIf (pa_Image request \<noteq> None) ''image'' ''may not be patched for KServe'' [])))
      else [])"

section \<open>Request bodies\<close>

text \<open>The decoding steps the three handlers with a body share, up to the check for a single value.\<close>

definition withRequestBody :: "'q setter \<Rightarrow> 'q \<Rightarrow> ('q \<Rightarrow> rw prog) \<Rightarrow> leaf" where
  "withRequestBody f zero k r w =
     (case decodeRequest f zero (rq_Body r) (rq_BodyFails r) of
        TooLarge \<Rightarrow> Ret (writeError 413 codeRequestTooLarge messageRequestBodyTooLarge [] r w)
      | Malformed \<Rightarrow> Ret (writeError 400 codeInvalidJSON messageRequestBodyInvalidJSON [] r w)
      | Decoded request rest \<Rightarrow>
          if \<not> ensureSingleJSONValue (rq_Body r) (rq_BodyFails r) rest
          then Ret (writeError 400 codeInvalidJSON messageRequestBodySingleJSONObject [] r w)
          else k request)"

section \<open>Ownership\<close>

definition trackingAnnotation :: string where
  [go_const]: "trackingAnnotation = ''argocd.argoproj.io/tracking-id''"

definition trackingLabel :: string where
  [go_const]: "trackingLabel = ''argocd.argoproj.io/instance''"

definition gitOpsManaged :: "ModelService \<Rightarrow> bool" where
  "gitOpsManaged ms \<longleftrightarrow>
     meta_Annotations (ms_Meta ms) trackingAnnotation \<noteq> None \<or> meta_Labels (ms_Meta ms) trackingLabel \<noteq> None"

text \<open>\<^verbatim>\<open>if rejectGitOpsMutation(w, r, model) { return }\<close>, with what follows as a continuation.\<close>

definition rejectGitOpsMutation :: "ModelService \<Rightarrow> rw prog \<Rightarrow> leaf" where
  "rejectGitOpsMutation ms k r w =
     (if \<not> gitOpsManaged ms then k
      else Ret (writeError 409 ''MODEL_SERVICE_OWNERSHIP_CONFLICT''
             ''ModelService is managed by GitOps; change or delete it through its Git repository'' [] r w))"

section \<open>Reading\<close>

definition listServeHTTP :: "modelServiceStore \<Rightarrow> leaf" where
  "listServeHTTP st r w =
     (if rq_Method r \<noteq> ''GET''
      then Ret (writeError 405 codeMethodNotAllowed messageMethodNotAllowed [] r (setHeader ''Allow'' ''GET'' w))
      else bind (sto_List st) (\<lambda>res. case res of
             Inl e \<Rightarrow>
               Emit (logEntry ''ERROR'' ''list_modelservices_failed''
                      [(''request_id'', LStr (RequestIDFromContext r)), (''error'', LStr (errorString e))])
                 (Ret (writeError 503 codeKubernetesUnavailable ''unable to list ModelServices'' [] r w))
           | Inr modelServices \<Rightarrow>
               let items = map modelServiceToSummary modelServices
               in Ret (WriteJSON 200 (ListDoc \<lparr>lr_Items = items, lr_Count = int (length items)\<rparr>) w)))"

definition getServeHTTP :: "modelServiceStore \<Rightarrow> leaf" where
  "getServeHTTP st r w =
     (if rq_Method r \<noteq> ''GET''
      then Ret (writeError 405 codeMethodNotAllowed messageMethodNotAllowed [] r (setHeader ''Allow'' ''GET'' w))
      else if pathValue r ''name'' = []
      then Ret (writeError 400 codeInvalidModelServiceName messageModelServiceNameRequired [] r w)
      else bind (sto_Get st (pathValue r ''name'')) (\<lambda>res. case res of
             Inl e \<Rightarrow> getFailed ''get_modelservice_failed'' ''unable to get ModelService'' (pathValue r ''name'') e r w
           | Inr ms \<Rightarrow> Ret (WriteJSON 200 (ModelDoc (modelServiceToResponse ms)) w)))"

definition getStatusServeHTTP :: "modelServiceStore \<Rightarrow> leaf" where
  "getStatusServeHTTP st r w =
     (if rq_Method r \<noteq> ''GET''
      then Ret (writeError 405 codeMethodNotAllowed messageMethodNotAllowed [] r (setHeader ''Allow'' ''GET'' w))
      else if pathValue r ''name'' = []
      then Ret (writeError 400 codeInvalidModelServiceName messageModelServiceNameRequired [] r w)
      else bind (sto_Get st (pathValue r ''name'')) (\<lambda>res. case res of
             Inl e \<Rightarrow> getFailed ''get_modelservice_status_failed'' ''unable to get ModelService status''
                        (pathValue r ''name'') e r w
           | Inr ms \<Rightarrow> Ret (WriteJSON 200 (StatusDoc (modelServiceToStatusResponse ms)) w)))"

section \<open>Writing\<close>

text \<open>What follows a well-formed body.\<close>

definition createDecoded ::
    "ext \<Rightarrow> modelServiceStore \<Rightarrow> int \<Rightarrow> ModelServiceDefaults \<Rightarrow> CreateModelServiceRequest \<Rightarrow> leaf" where
  "createDecoded x st maxReplicas defaults request r w =
     (let details = ValidateCreateModelService x request maxReplicas
      in if 0 < length details
         then Ret (writeError 400 codeValidationFailed messageRequestValidationFailed details r w)
         else bind (sto_Create st (createRequestToModelService request defaults)) (\<lambda>res. case res of
                Inl e \<Rightarrow>
                  if isAlreadyExists e
                  then Ret (writeError 409 ''MODEL_SERVICE_ALREADY_EXISTS''
                         (''ModelService '' @ [CHR 0x22] @ cr_Name request @ [CHR 0x22] @ '' already exists'')
                         [] r w)
                  else Emit (logFailure ''create_modelservice_failed'' r (cr_Name request) e)
                         (Ret (writeError 503 codeKubernetesUnavailable ''unable to create ModelService'' [] r w))
              | Inr ms \<Rightarrow> Ret (WriteJSON 201 (ModelDoc (modelServiceToResponse ms)) w)))"

definition createServeHTTP :: "ext \<Rightarrow> modelServiceStore \<Rightarrow> int \<Rightarrow> ModelServiceDefaults \<Rightarrow> leaf" where
  "createServeHTTP x st maxReplicas defaults r w =
     (if rq_Method r \<noteq> ''POST''
      then Ret (writeError 405 codeMethodNotAllowed messageMethodNotAllowed [] r
             (setHeader ''Allow'' ''GET, POST'' w))
      else if headerGet r ''Content-Type'' \<noteq> [] \<and> headerGet r ''Content-Type'' \<noteq> ''application/json''
      then Ret (writeError 415 ''UNSUPPORTED_MEDIA_TYPE'' ''Content-Type must be application/json'' [] r w)
      else withRequestBody (decodeStruct createFields) zeroCreateRequest
             (\<lambda>request. createDecoded x st maxReplicas defaults request r w) r w)"

definition immutableBackend :: "string \<Rightarrow> http_request \<Rightarrow> rw \<Rightarrow> rw" where
  "immutableBackend existingBackend r w =
     writeError 400 codeValidationFailed messageRequestValidationFailed
       [detail ''backend'' (''is immutable and must remain '' @ existingBackend)] r w"

text \<open>The end of an update or a patch: store the object and answer.\<close>

definition storeUpdated :: "modelServiceStore \<Rightarrow> string \<Rightarrow> string \<Rightarrow> ModelService \<Rightarrow> leaf" where
  "storeUpdated st event name ms r w =
     bind (sto_Update st ms) (\<lambda>res. case res of
        Inl e \<Rightarrow>
          if isConflict e
          then Ret (writeError 409 ''MODEL_SERVICE_UPDATE_CONFLICT'' messageModelServiceModifiedConcurrently [] r w)
          else Emit (logFailure event r name e)
                 (Ret (writeError 503 codeKubernetesUnavailable ''unable to update ModelService'' [] r w))
      | Inr updated \<Rightarrow> Ret (WriteJSON 200 (ModelDoc (modelServiceToResponse updated)) w))"

text \<open>What follows the loading of an object that is not managed by GitOps.\<close>

definition updateLoaded ::
    "ext \<Rightarrow> modelServiceStore \<Rightarrow> int \<Rightarrow> ModelServiceDefaults \<Rightarrow> UpdateModelServiceRequest \<Rightarrow>
     ModelService \<Rightarrow> leaf" where
  "updateLoaded x st maxReplicas defaults request ms r w =
     (let name = pathValue r ''name'';
          existingBackend = normalizedModelServiceBackend (spec_Backend (ms_Spec ms));
          request = (if ur_Backend request = []
                     then request\<lparr>ur_Backend := existingBackend\<rparr> else request)
      in if ur_Backend request \<noteq> existingBackend
         then Ret (immutableBackend existingBackend r w)
         else
           let details = ValidateUpdateModelService x name request maxReplicas
           in if 0 < length details
              then Ret (writeError 400 codeValidationFailed messageRequestValidationFailed details r w)
              else storeUpdated st ''update_modelservice_failed'' name
                     (applyUpdateRequest ms request defaults) r w)"

definition updateServeHTTP :: "ext \<Rightarrow> modelServiceStore \<Rightarrow> int \<Rightarrow> ModelServiceDefaults \<Rightarrow> leaf" where
  "updateServeHTTP x st maxReplicas defaults r w =
     (let name = pathValue r ''name''
      in if name = []
         then Ret (writeError 400 codeInvalidModelServiceName messageModelServiceNameRequired [] r w)
         else withRequestBody (decodeStruct updateFields) zeroUpdateRequest (\<lambda>request.
           bind (sto_Get st name) (\<lambda>res. case res of
             Inl e \<Rightarrow> getFailed ''get_modelservice_for_update_failed'' messageUnableToLoadModelService name e r w
           | Inr ms \<Rightarrow>
               rejectGitOpsMutation ms (updateLoaded x st maxReplicas defaults request ms r w) r w)) r w)"

definition patchLoaded ::
    "ext \<Rightarrow> modelServiceStore \<Rightarrow> int \<Rightarrow> ModelServiceDefaults \<Rightarrow> PatchModelServiceRequest \<Rightarrow>
     ModelService \<Rightarrow> leaf" where
  "patchLoaded x st maxReplicas defaults request ms r w =
     (let name = pathValue r ''name'';
          existingBackend = normalizedModelServiceBackend (spec_Backend (ms_Spec ms))
      in if pa_Backend request \<noteq> None \<and> pa_Backend request \<noteq> Some existingBackend
         then Ret (immutableBackend existingBackend r w)
         else if 0 < length (patchBackendDetails existingBackend request)
         then Ret (writeError 400 codeValidationFailed messageRequestValidationFailed
                (patchBackendDetails existingBackend request) r w)
         else
           let candidate = applyPatchRequest ms request defaults;
               details = ValidateUpdateModelService x name
                 (modelServiceToUpdateRequest candidate) maxReplicas
           in if 0 < length details
              then Ret (writeError 400 codeValidationFailed messageRequestValidationFailed details r w)
              else storeUpdated st ''patch_modelservice_failed'' name candidate r w)"

definition patchServeHTTP :: "ext \<Rightarrow> modelServiceStore \<Rightarrow> int \<Rightarrow> ModelServiceDefaults \<Rightarrow> leaf" where
  "patchServeHTTP x st maxReplicas defaults r w =
     (let name = pathValue r ''name''
      in if name = []
         then Ret (writeError 400 codeInvalidModelServiceName messageModelServiceNameRequired [] r w)
         else withRequestBody (decodeStruct patchFields) zeroPatchRequest (\<lambda>request.
           if \<not> hasPatchFields request
           then Ret (writeError 400 ''EMPTY_PATCH'' ''request must contain at least one field to update'' [] r w)
           else bind (sto_Get st name) (\<lambda>res. case res of
             Inl e \<Rightarrow> getFailed ''get_modelservice_for_patch_failed'' messageUnableToLoadModelService name e r w
           | Inr ms \<Rightarrow>
               rejectGitOpsMutation ms (patchLoaded x st maxReplicas defaults request ms r w) r w)) r w)"

definition deleteLoaded :: "modelServiceStore \<Rightarrow> ModelService \<Rightarrow> leaf" where
  "deleteLoaded st ms r w =
     (let name = pathValue r ''name''
      in bind (sto_Delete st ms) (\<lambda>res. case res of
           Inl e \<Rightarrow>
             if isNotFound e then Ret (writeHeader 204 w)
             else if isConflict e
             then Ret (writeError 409 ''MODEL_SERVICE_DELETE_CONFLICT''
                    messageModelServiceModifiedConcurrently [] r w)
             else Emit (logFailure ''delete_modelservice_failed'' r name e)
                    (Ret (writeError 503 codeKubernetesUnavailable ''unable to delete ModelService'' [] r w))
         | Inr _ \<Rightarrow>
             Emit (logEntry ''INFO'' ''modelservice_delete_requested''
                    [(''request_id'', LStr (RequestIDFromContext r)), (''model_service'', LStr name)])
               (Ret (writeHeader 204 w))))"

definition deleteServeHTTP :: "modelServiceStore \<Rightarrow> leaf" where
  "deleteServeHTTP st r w =
     (let name = pathValue r ''name''
      in if name = []
         then Ret (writeError 400 codeInvalidModelServiceName messageModelServiceNameRequired [] r w)
         else bind (sto_Get st name) (\<lambda>res. case res of
           Inl e \<Rightarrow> getFailed ''get_modelservice_for_delete_failed'' messageUnableToLoadModelService name e r w
         | Inr ms \<Rightarrow> rejectGitOpsMutation ms (deleteLoaded st ms r w) r w))"

section \<open>Health\<close>

definition Health :: leaf where
  "Health r w =
     (if rq_Method r \<noteq> ''GET''
      then Ret (httpError messageMethodNotAllowed 405 (setHeader ''Allow'' ''GET'' w))
      else Ret (writeBody (StatusWord ''ok'')
             (writeHeader 200 (setHeader ''Content-Type'' ''application/json'' w))))"

definition writeReadinessResponse :: "int \<Rightarrow> string \<Rightarrow> rw \<Rightarrow> rw" where
  "writeReadinessResponse statusCode status w = writeBody (StatusWord status) (writeHeader statusCode w)"

text \<open>\<open>None\<close> is a nil checker. The deadline of the check bounds the call to Kubernetes, which fails then; it
  is one of the errors a call can return.\<close>

definition readinessServeHTTP :: "(goerror + unit) prog option \<Rightarrow> leaf" where
  "readinessServeHTTP checker r w =
     (if rq_Method r \<noteq> ''GET''
      then Ret (httpError messageMethodNotAllowed 405 (setHeader ''Allow'' ''GET'' w))
      else
        let w = setHeader ''Content-Type'' ''application/json'' w
        in case checker of
             None \<Rightarrow> Ret (writeReadinessResponse 503 ''not-ready'' w)
           | Some check \<Rightarrow> bind check (\<lambda>res. case res of
               Inl e \<Rightarrow> Ret (writeReadinessResponse 503 ''not-ready'' w)
             | Inr _ \<Rightarrow> Ret (writeReadinessResponse 200 ''ready'' w)))"

section \<open>Dispatch by method\<close>

definition collectionServeHTTP :: "handler \<Rightarrow> handler \<Rightarrow> handler" where
  "collectionServeHTTP list create r w =
     (if rq_Method r = ''GET'' then list r w
      else if rq_Method r = ''POST'' then create r w
      else Ret (r, httpError messageMethodNotAllowed 405 (setHeader ''Allow'' ''GET, POST'' w)))"

definition resourceServeHTTP :: "handler \<Rightarrow> handler \<Rightarrow> handler \<Rightarrow> handler \<Rightarrow> handler" where
  "resourceServeHTTP get update patch delete r w =
     (if rq_Method r = ''GET'' then get r w
      else if rq_Method r = ''PUT'' then update r w
      else if rq_Method r = ''PATCH'' then patch r w
      else if rq_Method r = ''DELETE'' then delete r w
      else Ret (r, httpError messageMethodNotAllowed 405 (setHeader ''Allow'' ''GET, PUT'' w)))"

section \<open>Executions of the handlers\<close>

text \<open>The log records a handler emits are the only events beside its calls to the store.\<close>

definition isLog :: "event \<Rightarrow> bool" where
  "isLog e \<longleftrightarrow> (\<exists>l. e = EOut (LogOut l))"

text \<open>An error response with a JSON body.\<close>

definition errorResponse :: "int set \<Rightarrow> rw \<Rightarrow> rw \<Rightarrow> bool" where
  "errorResponse codes w w' \<longleftrightarrow> (\<exists>code b w0. code \<in> codes \<and> w' = WriteJSON code (ErrorDoc b) w0 \<and>
     rw_Sent w0 = rw_Sent w \<and> rw_Body w0 = rw_Body w \<and> rw_Recorders w0 = rw_Recorders w)"

lemma writeError_errorResponse [simp]:
  "code \<in> codes \<Longrightarrow> errorResponse codes w (writeError code c m d r w)"
  "code \<in> codes \<Longrightarrow> errorResponse codes w (writeError code c m d r (setHeader k v w))"
  by (fastforce simp: errorResponse_def writeError_def)+

lemma immutableBackend_errorResponse [simp]: "400 \<in> codes \<Longrightarrow> errorResponse codes w (immutableBackend b r w)"
  by (simp add: immutableBackend_def)

lemma exec_withRequestBody:
  assumes "exec (withRequestBody f zero k r w) tr w'"
  obtains (rejected) "tr = []" "errorResponse {400, 413} w w'"
  | (accepted) request rest where "decodeRequest f zero (rq_Body r) (rq_BodyFails r) = Decoded request rest"
      "ensureSingleJSONValue (rq_Body r) (rq_BodyFails r) rest" "exec (k request) tr w'"
  using assms by (cases "decodeRequest f zero (rq_Body r) (rq_BodyFails r)")
    (auto simp: withRequestBody_def split: if_splits)

lemma exec_getFailed:
  assumes "exec (getFailed event message name e r w) tr w'"
  shows "list_all isLog tr" "errorResponse {404, 503} w w'"
  using assms by (auto simp: getFailed_def exec_Emit_iff isLog_def logFailure_def logEntry_def split: if_splits)

lemma exec_rejectGitOps:
  "exec (rejectGitOpsMutation ms k r w) tr w' \<longleftrightarrow>
     (\<not> gitOpsManaged ms \<and> exec k tr w') \<or>
     (gitOpsManaged ms \<and> tr = [] \<and>
      w' = writeError 409 ''MODEL_SERVICE_OWNERSHIP_CONFLICT''
             ''ModelService is managed by GitOps; change or delete it through its Git repository'' [] r w)"
  by (auto simp: rejectGitOpsMutation_def)

context namespaced_store
begin

abbreviation getCall :: "string \<Rightarrow> goerror + kobject \<Rightarrow> event" where
  "getCall name res \<equiv> EObj (OGet ModelServiceKind (ns, name)) res"

lemma exec_bind_get:
  assumes "exec (bind (sto_Get st name) k) tr w'"
  obtains res tr' where "tr = getCall name res # tr'" "exec (k (mapR asModelService res)) tr' w'"
  using assms unfolding exec_bind get_exec by auto

text \<open>The end of an update: one call, and the answer tells whether it succeeded.\<close>

lemma exec_storeUpdated:
  assumes "exec (storeUpdated st event name ms r w) tr w'"
  obtains (failed) e tr' where "tr = EObj (OUpdate (KModelService (inNamespace ns ms))) (Inl e) # tr'"
      "list_all isLog tr'" "errorResponse (if isConflict e then {409} else {503}) w w'"
  | (stored) obj where "tr = [EObj (OUpdate (KModelService (inNamespace ns ms))) (Inr obj)]"
      "w' = WriteJSON 200 (ModelDoc (modelServiceToResponse (asModelService obj))) w"
  using assms unfolding storeUpdated_def exec_bind update_exec
  by (elim exE conjE disjE)
     (auto simp: exec_case_sum exec_if exec_Emit_iff isLog_def logFailure_def logEntry_def)

lemma exec_createDecoded:
  assumes "exec (createDecoded x st maxReplicas defaults request r w) tr w'"
  obtains (invalid) "tr = []" "errorResponse {400} w w'"
  | (failed) e tr' where "ValidateCreateModelService x request maxReplicas = []"
      "tr = EObj (OCreate (KModelService (inNamespace ns (createRequestToModelService request defaults)))) (Inl e) # tr'"
      "list_all isLog tr'" "errorResponse (if isAlreadyExists e then {409} else {503}) w w'"
  | (created) obj where "ValidateCreateModelService x request maxReplicas = []"
      "tr = [EObj (OCreate (KModelService (inNamespace ns (createRequestToModelService request defaults)))) (Inr obj)]"
      "w' = WriteJSON 201 (ModelDoc (modelServiceToResponse (asModelService obj))) w"
proof (cases "ValidateCreateModelService x request maxReplicas = []")
  case True
  with assms show ?thesis
    by (simp add: createDecoded_def Let_def exec_bind create_exec)
       (elim exE conjE disjE,
        auto simp: exec_if exec_Emit_iff isLog_def logFailure_def logEntry_def intro: failed created)
qed (use assms invalid in \<open>auto simp: createDecoded_def Let_def\<close>)

text \<open>Loading the object a mutation is about: not found or unreadable, managed by GitOps, or passed on.\<close>

lemma exec_load:
  assumes "exec (bind (sto_Get st name) (\<lambda>res. case res of
      Inl e \<Rightarrow> getFailed event message name e r w
    | Inr ms \<Rightarrow> rejectGitOpsMutation ms (k ms) r w)) tr w'"
  obtains (unread) e tr' where "tr = getCall name (Inl e) # tr'" "list_all isLog tr'"
      "errorResponse {404, 503} w w'"
  | (refused) obj where "tr = [getCall name (Inr obj)]" "gitOpsManaged (asModelService obj)"
      "errorResponse {409} w w'"
  | (loaded) obj tr' where "tr = getCall name (Inr obj) # tr'" "\<not> gitOpsManaged (asModelService obj)"
      "exec (k (asModelService obj)) tr' w'"
  using assms
proof (rule exec_bind_get)
  fix res tr' assume tr: "tr = getCall name res # tr'"
    and ex: "exec (case mapR asModelService res of
        Inl e \<Rightarrow> getFailed event message name e r w
      | Inr ms \<Rightarrow> rejectGitOpsMutation ms (k ms) r w) tr' w'"
  show ?thesis
  proof (cases res)
    case (Inl e)
    with ex have "exec (getFailed event message name e r w) tr' w'" by simp
    from exec_getFailed [OF this] show ?thesis using tr Inl by (intro unread) simp_all
  next
    case (Inr obj)
    with ex have "exec (rejectGitOpsMutation (asModelService obj) (k (asModelService obj)) r w) tr' w'" by simp
    then show ?thesis unfolding exec_rejectGitOps
      by (elim disjE conjE) (use tr Inr in \<open>auto intro: loaded refused\<close>)
  qed
qed

lemma exec_updateLoaded:
  assumes "exec (updateLoaded x st maxReplicas defaults request ms r w) tr w'"
  obtains (invalid) "tr = []" "errorResponse {400} w w'"
  | (failed) request' e tr' where
      "request' = (if ur_Backend request = []
         then request\<lparr>ur_Backend := normalizedModelServiceBackend (spec_Backend (ms_Spec ms))\<rparr> else request)"
      "ur_Backend request' = normalizedModelServiceBackend (spec_Backend (ms_Spec ms))"
      "ValidateUpdateModelService x (pathValue r ''name'') request' maxReplicas = []"
      "tr = EObj (OUpdate (KModelService (inNamespace ns (applyUpdateRequest ms request' defaults)))) (Inl e) # tr'"
      "list_all isLog tr'" "errorResponse (if isConflict e then {409} else {503}) w w'"
  | (stored) request' obj where
      "request' = (if ur_Backend request = []
         then request\<lparr>ur_Backend := normalizedModelServiceBackend (spec_Backend (ms_Spec ms))\<rparr> else request)"
      "ur_Backend request' = normalizedModelServiceBackend (spec_Backend (ms_Spec ms))"
      "ValidateUpdateModelService x (pathValue r ''name'') request' maxReplicas = []"
      "tr = [EObj (OUpdate (KModelService (inNamespace ns (applyUpdateRequest ms request' defaults)))) (Inr obj)]"
      "w' = WriteJSON 200 (ModelDoc (modelServiceToResponse (asModelService obj))) w"
proof -
  let ?b = "normalizedModelServiceBackend (spec_Backend (ms_Spec ms))"
  define q where "q = (if ur_Backend request = [] then request\<lparr>ur_Backend := ?b\<rparr> else request)"
  show ?thesis
  proof (cases "ur_Backend q = ?b \<and> ValidateUpdateModelService x (pathValue r ''name'') q maxReplicas = []")
    case True
    with assms have "exec (storeUpdated st ''update_modelservice_failed'' (pathValue r ''name'')
        (applyUpdateRequest ms q defaults) r w) tr w'"
      by (simp add: updateLoaded_def Let_def q_def [symmetric])
    then show ?thesis
      by (cases rule: exec_storeUpdated) (use True q_def failed [of q] stored [of q] in auto)
  next
    case False
    with assms show ?thesis
      by (intro invalid) (auto simp: updateLoaded_def Let_def q_def [symmetric] split: if_splits)
  qed
qed

lemma exec_patchLoaded:
  assumes "exec (patchLoaded x st maxReplicas defaults request ms r w) tr w'"
  obtains (invalid) "tr = []" "errorResponse {400} w w'"
  | (failed) e tr' where
      "pa_Backend request = None \<or> pa_Backend request = Some (normalizedModelServiceBackend (spec_Backend (ms_Spec ms)))"
      "patchBackendDetails (normalizedModelServiceBackend (spec_Backend (ms_Spec ms))) request = []"
      "ValidateUpdateModelService x (pathValue r ''name'')
         (modelServiceToUpdateRequest (applyPatchRequest ms request defaults)) maxReplicas = []"
      "tr = EObj (OUpdate (KModelService (inNamespace ns (applyPatchRequest ms request defaults)))) (Inl e) # tr'"
      "list_all isLog tr'" "errorResponse (if isConflict e then {409} else {503}) w w'"
  | (stored) obj where
      "pa_Backend request = None \<or> pa_Backend request = Some (normalizedModelServiceBackend (spec_Backend (ms_Spec ms)))"
      "patchBackendDetails (normalizedModelServiceBackend (spec_Backend (ms_Spec ms))) request = []"
      "ValidateUpdateModelService x (pathValue r ''name'')
         (modelServiceToUpdateRequest (applyPatchRequest ms request defaults)) maxReplicas = []"
      "tr = [EObj (OUpdate (KModelService (inNamespace ns (applyPatchRequest ms request defaults)))) (Inr obj)]"
      "w' = WriteJSON 200 (ModelDoc (modelServiceToResponse (asModelService obj))) w"
proof -
  let ?b = "normalizedModelServiceBackend (spec_Backend (ms_Spec ms))"
  let ?c = "applyPatchRequest ms request defaults"
  show ?thesis
  proof (cases "(pa_Backend request = None \<or> pa_Backend request = Some ?b) \<and>
      patchBackendDetails ?b request = [] \<and>
      ValidateUpdateModelService x (pathValue r ''name'') (modelServiceToUpdateRequest ?c) maxReplicas = []")
    case True
    with assms have "exec (storeUpdated st ''patch_modelservice_failed'' (pathValue r ''name'') ?c r w) tr w'"
      by (auto simp: patchLoaded_def Let_def)
    then show ?thesis
      by (cases rule: exec_storeUpdated) (use True failed stored in auto)
  next
    case False
    with assms show ?thesis by (intro invalid) (auto simp: patchLoaded_def Let_def split: if_splits)
  qed
qed

lemma exec_deleteLoaded:
  assumes "exec (deleteLoaded st ms r w) tr w'"
  obtains (failed) e tr' where
      "tr = EDel (KModelService (inNamespace ns ms)) (Some (deletePreconditions ms)) (Some e) # tr'"
      "list_all isLog tr'" "\<not> isNotFound e" "errorResponse (if isConflict e then {409} else {503}) w w'"
  | (gone) e where
      "tr = [EDel (KModelService (inNamespace ns ms)) (Some (deletePreconditions ms)) (Some e)]"
      "isNotFound e" "w' = writeHeader 204 w"
  | (deleted) tr' where
      "tr = EDel (KModelService (inNamespace ns ms)) (Some (deletePreconditions ms)) None # tr'"
      "list_all isLog tr'" "w' = writeHeader 204 w"
  using assms unfolding deleteLoaded_def Let_def exec_bind delete_exec
  by (elim exE conjE disjE)
     (auto simp: exec_if exec_Emit_iff isLog_def logFailure_def logEntry_def split: if_splits
       intro: failed gone deleted)

end

end
