(* ===== verification/Middleware.thy ===== *)
theory Middleware
  imports Handlers
begin

text \<open>
  Authentication, authorization and the middleware of \<^verbatim>\<open>internal/api/auth\<close> and
  \<^verbatim>\<open>internal/api/middleware\<close>. A middleware takes the next handler; the request it passes on
  may be a copy with a richer context, the request it returns is the one it was given (or the one the
  next handler changed, when it passed the same one on).
\<close>

section \<open>Roles and tokens\<close>

definition RoleModelViewer :: string where [go_const]: "RoleModelViewer = ''model-viewer''"
definition RoleModelDeployer :: string where [go_const]: "RoleModelDeployer = ''model-deployer''"
definition RolePlatformAdmin :: string where [go_const]: "RolePlatformAdmin = ''platform-admin''"

definition HasRole :: "Identity \<Rightarrow> string \<Rightarrow> bool" where
  "HasRole i role \<longleftrightarrow> role \<in> set (id_Roles i)"

type_synonym verifier = "string \<Rightarrow> (goerror + Identity) prog"

text \<open>\<^verbatim>\<open>OIDCVerifier.Verify\<close>. The OIDC library checks the token; the answer is its error, or the result of
  decoding the claims.\<close>

definition oidcVerify :: verifier where
  "oidcVerify rawToken =
     VerifyToken rawToken (\<lambda>res. Ret (case res of
        Inl e \<Rightarrow> Inl (Wrapf ''verify JWT: '' e)
      | Inr (Inl e) \<Rightarrow> Inl (Wrapf ''decode JWT claims: '' e)
      | Inr (Inr claims) \<Rightarrow>
          if cl_Subject claims = [] then Inl (Errorf ''JWT subject claim is missing'')
          else Inr \<lparr>id_Subject = cl_Subject claims, id_PreferredUsername = cl_PreferredUsername claims,
                    id_ClientID = cl_AuthorizedParty claims, id_Roles = ra_Roles (cl_RealmAccess claims)\<rparr>))"

definition bearerToken :: "string \<Rightarrow> string option" where
  "bearerToken authorization =
     (let parts = GoBase.fields authorization
      in if length parts \<noteq> 2 then None
         else if \<not> equalFoldAscii (parts ! 0) ''Bearer'' then None
         else if parts ! 1 = [] then None
         else Some (parts ! 1))"

definition writeUnauthorized :: "http_request \<Rightarrow> string \<Rightarrow> rw \<Rightarrow> rw" where
  "writeUnauthorized r message w =
     writeError 401 ''UNAUTHORIZED'' message [] r (setHeader ''WWW-Authenticate'' ''Bearer'' w)"

definition Authentication :: "verifier \<Rightarrow> handler \<Rightarrow> handler" where
  "Authentication verify next r w =
     (case bearerToken (headerGet r ''Authorization'') of
        None \<Rightarrow> Ret (r, writeUnauthorized r ''Bearer access token is required'' w)
      | Some rawToken \<Rightarrow> bind (verify rawToken) (\<lambda>res. case res of
          Inl e \<Rightarrow>
            Emit (logEntry ''WARN'' ''jwt_authentication_failed''
                   [(''request_id'', LStr (RequestIDFromContext r)), (''error'', LStr (errorString e))])
              (Ret (r, writeUnauthorized r ''access token is invalid'' w))
        | Inr identity \<Rightarrow>
            bind (next (r\<lparr>rq_Identity := Some identity\<rparr>) w) (\<lambda>(_, w'). Ret (r, w'))))"

definition RequireAnyRole :: "string list \<Rightarrow> handler \<Rightarrow> handler" where
  "RequireAnyRole roles next r w =
     (case IdentityFromContext r of
        None \<Rightarrow>
          Emit (logEntry ''ERROR'' ''authorization_identity_missing''
                 [(''request_id'', LStr (RequestIDFromContext r))])
            (Ret (r, writeError 401 ''UNAUTHORIZED'' ''authenticated identity is missing'' [] r w))
      | Some identity \<Rightarrow>
          if list_ex (HasRole identity) roles then next r w
          else
            Emit (logEntry ''WARN'' ''authorization_denied''
                   [(''request_id'', LStr (RequestIDFromContext r)), (''subject'', LStr (id_Subject identity)),
                    (''username'', LStr (id_PreferredUsername identity)), (''required_roles'', LStrs roles)])
              (Ret (r, writeError 403 ''FORBIDDEN'' ''insufficient role for this operation'' [] r w)))"

section \<open>Request identifiers\<close>

definition hexChar :: "nat \<Rightarrow> char" where
  "hexChar n = char_of (if n < 10 then 48 + n else 87 + n)"

definition hexEncode :: "string \<Rightarrow> string" where
  "hexEncode s = concat (map (\<lambda>c. [hexChar (of_char c div 16), hexChar (of_char c mod 16)]) s)"

definition newRequestID :: "string prog" where
  "newRequestID =
     RandRead 16 (\<lambda>res. Ret (case res of
        Inl e \<Rightarrow> ''request-id-unavailable''
      | Inr value \<Rightarrow> hexEncode value))"

definition RequestID :: "handler \<Rightarrow> handler" where
  "RequestID next r w =
     (let given = trimSpace (headerGet r ''X-Request-ID'')
      in bind (if given = [] then newRequestID else Ret given) (\<lambda>requestID.
           bind (next (r\<lparr>rq_RequestID := Some requestID\<rparr>) (setHeader ''X-Request-ID'' requestID w))
             (\<lambda>(_, w'). Ret (r, w'))))"

section \<open>Logging, metrics and audit\<close>

text \<open>Time is in nanoseconds; \<^verbatim>\<open>Milliseconds()\<close> truncates toward zero.\<close>

definition milliseconds :: "time \<Rightarrow> int" where
  "milliseconds d = (if 0 \<le> d then d div 1000000 else - ((- d) div 1000000))"

definition RequestLogging :: "handler \<Rightarrow> handler" where
  "RequestLogging next r w =
     Now (\<lambda>start. bind (next r (pushRecorder w)) (\<lambda>(r', w').
       Now (\<lambda>now.
         Emit (logEntry ''INFO'' ''http_request''
                [(''request_id'', LStr (RequestIDFromContext r')), (''method'', LStr (rq_Method r')),
                 (''path'', LStr (urlPath r')), (''status'', LInt (recordedStatus w')),
                 (''duration_ms'', LInt (milliseconds (now - start))),
                 (''remote_addr'', LStr (rq_RemoteAddr r')), (''user_agent'', LStr (headerGet r' ''User-Agent''))])
           (Ret (r', popRecorder w')))))"

definition metricRoute :: "http_request \<Rightarrow> string" where
  "metricRoute r =
     (let path = urlPath r
      in if path = ''/healthz'' then ''/healthz''
         else if path = ''/readyz'' then ''/readyz''
         else if path = ''/metrics'' then ''/metrics''
         else if path = ''/api/v1/model-services'' then ''/api/v1/model-services''
         else if hasPrefix path ''/api/v1/model-services/''
         then if hasSuffix path ''/status'' then ''/api/v1/model-services/{name}/status''
              else ''/api/v1/model-services/{name}''
         else ''unmatched'')"

definition RequestMetrics :: "handler \<Rightarrow> handler" where
  "RequestMetrics next r w =
     (if urlPath r = ''/metrics'' then next r w
      else
        Emit InFlightInc (Now (\<lambda>start. bind (next r (pushRecorder w)) (\<lambda>(r', w').
          let route = metricRoute r'; status = showInt (recordedStatus w')
          in Emit (RequestsInc (rq_Method r') route status)
               (Now (\<lambda>now. Emit (DurationObserve (rq_Method r') route status (now - start))
                 (Emit InFlightDec (Ret (r', popRecorder w')))))))))"

definition isAuditedMutation :: "string \<Rightarrow> bool" where
  "isAuditedMutation method \<longleftrightarrow>
     method = ''POST'' \<or> method = ''PUT'' \<or> method = ''PATCH'' \<or> method = ''DELETE''"

definition auditResourceName :: "http_request \<Rightarrow> string" where
  "auditResourceName r = trimSpace (pathValue r ''name'')"

definition auditOutcome :: "int \<Rightarrow> string" where
  "auditOutcome statusCode =
     (if 200 \<le> statusCode \<and> statusCode < 300 then ''success''
      else if statusCode = 401 then ''unauthorized''
      else if statusCode = 403 then ''denied''
      else if 400 \<le> statusCode \<and> statusCode < 500 then ''rejected''
      else ''error'')"

definition auditRecord :: "http_request \<Rightarrow> int \<Rightarrow> outevent" where
  "auditRecord r statusCode =
     logEntry ''INFO'' ''api_audit''
       ([(''event'', LStr ''api_audit''), (''request_id'', LStr (RequestIDFromContext r)),
         (''method'', LStr (rq_Method r)), (''route'', LStr (metricRoute r)),
         (''resource_type'', LStr ''ModelService''), (''resource_name'', LStr (auditResourceName r)),
         (''status'', LInt statusCode), (''outcome'', LStr (auditOutcome statusCode))] @
        (case IdentityFromContext r of
           None \<Rightarrow> []
         | Some identity \<Rightarrow>
             [(''subject'', LStr (id_Subject identity)), (''username'', LStr (id_PreferredUsername identity)),
              (''roles'', LStrs (id_Roles identity))]))"

definition AuditLogging :: "handler \<Rightarrow> handler" where
  "AuditLogging next r w =
     (if \<not> isAuditedMutation (rq_Method r) then next r w
      else bind (next r (pushRecorder w)) (\<lambda>(r', w').
        Emit (auditRecord r' (recordedStatus w')) (Ret (r', popRecorder w'))))"

text \<open>\<^verbatim>\<open>Chain\<close> wraps from the last middleware to the first, so the first is the outermost.\<close>

definition Chain :: "handler \<Rightarrow> (handler \<Rightarrow> handler) list \<Rightarrow> handler" where
  "Chain h middlewares = foldr (\<lambda>middleware h. middleware h) middlewares h"

end
