(* ===== verification/Router.thy ===== *)
theory Router
  imports Middleware
begin

text \<open>
  Routing: \<^verbatim>\<open>http.ServeMux\<close> as far as the patterns of \<^verbatim>\<open>internal/api/routes.go\<close> use it, and
  \<^verbatim>\<open>newRouter\<close> itself.
\<close>

section \<open>Patterns\<close>

datatype segment = Lit string | Wild string

text \<open>A pattern is a list of segments and says whether it ends in a slash, and so matches every longer
  path too.\<close>

record pattern =
  pt_Segments :: "segment list"
  pt_Subtree :: bool

text \<open>\<^verbatim>\<open>firstSegment\<close>: the first segment of an escaped path, unescaped, and the rest.\<close>

definition firstSegment :: "string \<Rightarrow> string \<times> string" where
  "firstSegment path =
     (if path = ''/'' then (''/'', [])
      else let p = tl path
           in (pathUnescape (takeWhile (\<lambda>c. c \<noteq> CHR ''/'') p), dropWhile (\<lambda>c. c \<noteq> CHR ''/'') p))"

text \<open>The path values of a match, and the part of the path a subtree pattern leaves.\<close>

fun matchSegments :: "segment list \<Rightarrow> string \<Rightarrow> ((string \<times> string) list \<times> string) option" where
  "matchSegments [] path = Some ([], path)"
| "matchSegments (s # ss) path =
     (if path = [] then None
      else case firstSegment path of (seg, rest) \<Rightarrow>
        (case s of
           Lit l \<Rightarrow> if seg = l then matchSegments ss rest else None
         | Wild n \<Rightarrow>
             if seg = ''/'' then None
             else map_option (\<lambda>(vs, t). ((n, seg) # vs, t)) (matchSegments ss rest)))"

definition matchPattern :: "pattern \<Rightarrow> string \<Rightarrow> (string \<times> string) list option" where
  "matchPattern p path =
     (case matchSegments (pt_Segments p) path of
        None \<Rightarrow> None
      | Some (vs, rest) \<Rightarrow> if (rest = []) = (\<not> pt_Subtree p) then Some vs else None)"

text \<open>\<^verbatim>\<open>exactMatch\<close>: a subtree pattern matches only its root exactly.\<close>

definition exactPattern :: "pattern \<Rightarrow> string \<Rightarrow> bool" where
  "exactPattern p path =
     (case matchSegments (pt_Segments p) path of
        None \<Rightarrow> False
      | Some (vs, rest) \<Rightarrow> if pt_Subtree p then rest = ''/'' else rest = [])"

section \<open>Path cleaning\<close>

fun splitOn :: "char \<Rightarrow> string \<Rightarrow> string list" where
  "splitOn sep [] = [[]]"
| "splitOn sep (c # s) =
     (case splitOn sep s of
        [] \<Rightarrow> [[c]]
      | w # ws \<Rightarrow> if c = sep then [] # w # ws else (c # w) # ws)"

text \<open>\<^verbatim>\<open>path.Clean\<close> of a rooted path: empty and dot segments go, a double dot removes the segment before it.\<close>

fun cleanSegments :: "string list \<Rightarrow> string list \<Rightarrow> string list" where
  "cleanSegments acc [] = rev acc"
| "cleanSegments acc (s # ss) =
     (if s = [] \<or> s = ''.'' then cleanSegments acc ss
      else if s = ''..'' then cleanSegments (tl acc) ss
      else cleanSegments (s # acc) ss)"

definition rootedClean :: "string \<Rightarrow> string" where
  "rootedClean p =
     (let ss = cleanSegments [] (splitOn (CHR ''/'') p)
      in if ss = [] then ''/'' else concat (map (\<lambda>s. CHR ''/'' # s) ss))"

definition cleanPath :: "string \<Rightarrow> string" where
  "cleanPath p =
     (if p = [] then ''/''
      else let p = (if hd p \<noteq> CHR ''/'' then CHR ''/'' # p else p); np = rootedClean p
           in if last p = CHR ''/'' \<and> np \<noteq> ''/'' then np @ ''/'' else np)"

section \<open>Redirects\<close>

text \<open>The escaping of \<^verbatim>\<open>url.URL.String\<close> for a path.\<close>

definition pathSafe :: "char \<Rightarrow> bool" where
  "pathSafe c \<longleftrightarrow>
     isDigit c \<or> ((97::nat) \<le> of_char c \<and> of_char c \<le> (122::nat)) \<or> ((65::nat) \<le> of_char c \<and> of_char c \<le> (90::nat)) \<or>
     c \<in> set ''-_.~$&+,/:;=@''"

definition escapePath :: "string \<Rightarrow> string" where
  "escapePath s =
     concat (map (\<lambda>c. if pathSafe c then [c]
        else [CHR ''%'', toUpperByte (hexChar (of_char c div 16)), toUpperByte (hexChar (of_char c mod 16))]) s)"

text \<open>\<^verbatim>\<open>RedirectHandler(u.String(), 301)\<close>. The page is written for GET only.\<close>

definition redirectTo :: "string \<Rightarrow> leaf" where
  "redirectTo path r w =
     (let url = escapePath path @ (if rq_RawQuery r = [] then [] else ''?'' @ rq_RawQuery r);
          hadCT = list_ex (\<lambda>(k, v). k = ''Content-Type'') (rw_Header w);
          w1 = setHeader ''Location'' url w;
          w2 = (if \<not> hadCT \<and> (rq_Method r = ''GET'' \<or> rq_Method r = ''HEAD'')
                then setHeader ''Content-Type'' ''text/html; charset=utf-8'' w1 else w1);
          w3 = writeHeader 301 w2
      in Ret (if \<not> hadCT \<and> rq_Method r = ''GET'' then writeBody (RedirectPage url) w3 else w3))"

definition notFoundHandler :: leaf where
  "notFoundHandler r w = Ret (httpError ''404 page not found'' 404 w)"

section \<open>ServeMux\<close>

type_synonym routes = "(pattern \<times> handler) list"

definition matchRoutes :: "routes \<Rightarrow> string \<Rightarrow> (handler \<times> (string \<times> string) list) option" where
  "matchRoutes routes path =
     (case find (\<lambda>(p, h). matchPattern p path \<noteq> None) routes of
        None \<Rightarrow> None
      | Some (p, h) \<Rightarrow> map_option (\<lambda>vs. (h, vs)) (matchPattern p path))"

text \<open>No pattern matches the path exactly, and one does with a slash appended.\<close>

definition slashRedirect :: "routes \<Rightarrow> string \<Rightarrow> bool" where
  "slashRedirect routes path \<longleftrightarrow>
     \<not> list_ex (\<lambda>(p, h). exactPattern p path) routes \<and> \<not> hasSuffix path ''/'' \<and>
     list_ex (\<lambda>(p, h). exactPattern p (path @ ''/'')) routes"

text \<open>
  \<^verbatim>\<open>ServeMux.ServeHTTP\<close> for patterns without a method or a host, no two of which match the same
  path. A CONNECT request is not redirected to its cleaned path. A match replaces the pattern and the
  path values of the request.
\<close>

definition serveMux :: "routes \<Rightarrow> handler" where
  "serveMux routes r w =
     (if rq_RequestURI r = ''*''
      then Ret (r, writeHeader 400
             (if rq_ProtoAtLeast11 r then setHeader ''Connection'' ''close'' w else w))
      else
        let escaped = rq_EscapedPath r;
            path = (if rq_Method r = ''CONNECT'' then escaped else cleanPath escaped)
        in if slashRedirect routes path
           then serveLeaf (redirectTo (cleanPath (urlPath r) @ ''/'')) (r\<lparr>rq_PathValues := []\<rparr>) w
           else if rq_Method r \<noteq> ''CONNECT'' \<and> path \<noteq> escaped
           then serveLeaf (redirectTo path) (r\<lparr>rq_PathValues := []\<rparr>) w
           else case matchRoutes routes path of
                  None \<Rightarrow> serveLeaf notFoundHandler (r\<lparr>rq_PathValues := []\<rparr>) w
                | Some (h, vs) \<Rightarrow> h (r\<lparr>rq_PathValues := vs\<rparr>) w)"

section \<open>The API's routes\<close>

definition literalPattern :: "string list \<Rightarrow> bool \<Rightarrow> pattern" where
  "literalPattern ss subtree = \<lparr>pt_Segments = map Lit ss, pt_Subtree = subtree\<rparr>"

definition modelServicePattern :: "string list \<Rightarrow> pattern" where
  "modelServicePattern tail =
     \<lparr>pt_Segments = [Lit ''api'', Lit ''v1'', Lit ''model-services'', Wild ''name''] @ map Lit tail,
      pt_Subtree = False\<rparr>"

text \<open>The handlers \<^verbatim>\<open>NewServer\<close> builds.\<close>

record apiHandlers =
  ah_List :: leaf
  ah_Get :: leaf
  ah_GetStatus :: leaf
  ah_Create :: leaf
  ah_Update :: leaf
  ah_Patch :: leaf
  ah_Delete :: leaf
  ah_Readiness :: leaf

definition protectedRoutes :: "apiHandlers \<Rightarrow> routes" where
  "protectedRoutes hs =
     (let viewerOnly = RequireAnyRole [RoleModelViewer];
          deployerOnly = RequireAnyRole [RoleModelDeployer];
          adminOnly = RequireAnyRole [RolePlatformAdmin]
      in [(literalPattern [''api'', ''v1'', ''model-services''] False,
           collectionServeHTTP (viewerOnly (serveLeaf (ah_List hs))) (deployerOnly (serveLeaf (ah_Create hs)))),
          (modelServicePattern [''status''], viewerOnly (serveLeaf (ah_GetStatus hs))),
          (modelServicePattern [],
           resourceServeHTTP (viewerOnly (serveLeaf (ah_Get hs))) (deployerOnly (serveLeaf (ah_Update hs)))
             (deployerOnly (serveLeaf (ah_Patch hs))) (adminOnly (serveLeaf (ah_Delete hs))))])"

definition publicRoutes :: "verifier \<Rightarrow> handler \<Rightarrow> apiHandlers \<Rightarrow> routes" where
  "publicRoutes verify metrics hs =
     [(literalPattern [''healthz''] False, serveLeaf Health),
      (literalPattern [''readyz''] False, serveLeaf (ah_Readiness hs)),
      (literalPattern [''metrics''] False, metrics),
      (literalPattern [''api'', ''v1''] True,
       Authentication verify (AuditLogging (serveMux (protectedRoutes hs))))]"

text \<open>The handler of \<^verbatim>\<open>/metrics\<close> is the Prometheus library's, a parameter.\<close>

definition newRouter :: "verifier \<Rightarrow> handler \<Rightarrow> apiHandlers \<Rightarrow> handler" where
  "newRouter verify metrics hs =
     Chain (serveMux (publicRoutes verify metrics hs)) [RequestID, RequestLogging, RequestMetrics]"

text \<open>\<^verbatim>\<open>NewServer\<close>: one store, one limit and one set of defaults for all handlers.\<close>

definition newServerHandlers ::
    "ext \<Rightarrow> modelServiceStore \<Rightarrow> (goerror + unit) prog option \<Rightarrow> int \<Rightarrow> ModelServiceDefaults \<Rightarrow> apiHandlers" where
  "newServerHandlers x st checker maxReplicas defaults =
     \<lparr>ah_List = listServeHTTP st, ah_Get = getServeHTTP st, ah_GetStatus = getStatusServeHTTP st,
      ah_Create = createServeHTTP x st maxReplicas defaults,
      ah_Update = updateServeHTTP x st maxReplicas defaults,
      ah_Patch = patchServeHTTP x st maxReplicas defaults,
      ah_Delete = deleteServeHTTP st, ah_Readiness = readinessServeHTTP checker\<rparr>"

definition NewServer ::
    "ext \<Rightarrow> verifier \<Rightarrow> handler \<Rightarrow> (goerror + unit) prog option \<Rightarrow> modelServiceStore \<Rightarrow> int \<Rightarrow>
     ModelServiceDefaults \<Rightarrow> handler" where
  "NewServer x verify metrics checker st maxReplicas defaults =
     newRouter verify metrics (newServerHandlers x st checker maxReplicas defaults)"

section \<open>No path is ambiguous\<close>

lemma protected_match:
  "matchPattern (literalPattern [''api'', ''v1'', ''model-services''] False) path \<noteq> None \<Longrightarrow>
   matchPattern (modelServicePattern tail) path = None"
  by (auto simp: matchPattern_def literalPattern_def modelServicePattern_def split: option.splits prod.splits if_splits)

lemma status_match:
  "matchPattern (modelServicePattern [''status'']) path \<noteq> None \<Longrightarrow> matchPattern (modelServicePattern []) path = None"
  by (auto simp: matchPattern_def literalPattern_def modelServicePattern_def split: option.splits prod.splits if_splits)

lemma public_match:
  "matchPattern (literalPattern (a # as) b) path \<noteq> None \<Longrightarrow> matchPattern (literalPattern (c # cs) d) path \<noteq> None \<Longrightarrow> a = c"
  by (auto simp: matchPattern_def literalPattern_def split: option.splits prod.splits if_splits)


end
