(* ===== verification/Contracts.thy ===== *)
theory Contracts
  imports Router
begin

text \<open>
  The contracts between the pieces of the HTTP server. A handler (locales \<open>sound_leaf\<close> and
  \<open>sound_handler\<close>) answers every request exactly once and puts the request id of the context into
  its error documents; a middleware (locale \<open>wrapper\<close>) turns sound handlers into sound handlers.
  Every handler and middleware of the sources is shown to meet its contract; for every middleware there
  is a lemma that takes an execution apart into what the middleware adds and what the handler inside does.
\<close>

section \<open>Results of a program\<close>

text \<open>\<open>resultsIn P p\<close>: whatever the world answers, the result of \<open>p\<close> satisfies \<open>P\<close>.\<close>

primrec resultsIn :: "('a \<Rightarrow> bool) \<Rightarrow> 'a prog \<Rightarrow> bool" where
  "resultsIn P (Ret x) \<longleftrightarrow> P x"
| "resultsIn P (ObjCall c k) \<longleftrightarrow> (\<forall>r. resultsIn P (k r))"
| "resultsIn P (DelCall d p k) \<longleftrightarrow> (\<forall>r. resultsIn P (k r))"
| "resultsIn P (ListCall n l k) \<longleftrightarrow> (\<forall>r. resultsIn P (k r))"
| "resultsIn P (Now k) \<longleftrightarrow> (\<forall>t. resultsIn P (k t))"
| "resultsIn P (RandRead n k) \<longleftrightarrow> (\<forall>r. resultsIn P (k r))"
| "resultsIn P (VerifyToken t k) \<longleftrightarrow> (\<forall>r. resultsIn P (k r))"
| "resultsIn P (Emit w p) \<longleftrightarrow> resultsIn P p"

lemma resultsIn_exec: "exec p tr y \<Longrightarrow> resultsIn P p \<Longrightarrow> P y"
  by (induction rule: exec.induct) auto

lemma resultsIn_iff: "resultsIn P p \<longleftrightarrow> (\<forall>tr y. exec p tr y \<longrightarrow> P y)"
  by (induction p rule: prog_induct) (simp_all add: exec_iffs, blast+)

lemma resultsIn_bind: "resultsIn P (bind p f) \<longleftrightarrow> resultsIn (\<lambda>x. resultsIn P (f x)) p"
  by (induction p rule: prog_induct) simp_all

lemma resultsIn_bindI: "(\<And>x. resultsIn P (f x)) \<Longrightarrow> resultsIn P (bind p f)"
  by (induction p rule: prog_induct) simp_all

lemma resultsIn_mono: "resultsIn P p \<Longrightarrow> (\<And>x. P x \<Longrightarrow> Q x) \<Longrightarrow> resultsIn Q p"
  by (simp add: resultsIn_iff)

lemma resultsIn_bind_mono:
  "resultsIn P p \<Longrightarrow> (\<And>x. P x \<Longrightarrow> resultsIn Q (f x)) \<Longrightarrow> resultsIn Q (bind p f)"
  by (simp add: resultsIn_bind resultsIn_mono)

section \<open>Sound responses\<close>

text \<open>The request without what the context and the routing add.\<close>

definition wire :: "http_request \<Rightarrow> http_request" where
  "wire r = r\<lparr>rq_RequestID := None, rq_Identity := None, rq_PathValues := []\<rparr>"

text \<open>A later version of the same request: routing may have set path values, nothing else.\<close>

definition sameRequest :: "http_request \<Rightarrow> http_request \<Rightarrow> bool" where
  "sameRequest r r' \<longleftrightarrow>
     wire r' = wire r \<and> rq_RequestID r' = rq_RequestID r \<and> rq_Identity r' = rq_Identity r"

text \<open>Only headers were prepared since \<open>w\<close>, and not the request id.\<close>

definition headersOnly :: "rw \<Rightarrow> rw \<Rightarrow> bool" where
  "headersOnly w w' \<longleftrightarrow>
     rw_Sent w' = rw_Sent w \<and> rw_Body w' = rw_Body w \<and> rw_Recorders w' = rw_Recorders w \<and>
     map_of (rw_Header w') ''X-Request-Id'' = map_of (rw_Header w) ''X-Request-Id''"

text \<open>
  One response went out: a status with the request id header as it was prepared, the same status in
  every recorder, and the request id of the context in every error document.
\<close>

definition goodResponse :: "http_request \<Rightarrow> rw \<Rightarrow> rw \<Rightarrow> bool" where
  "goodResponse r w w' \<longleftrightarrow>
     (\<exists>code hs. rw_Sent w' = Some (code, hs) \<and> code \<noteq> 0 \<and> list_all (\<lambda>s. s = code) (rw_Recorders w') \<and>
        map_of hs ''X-Request-Id'' = map_of (rw_Header w) ''X-Request-Id'') \<and>
     length (rw_Recorders w') = length (rw_Recorders w) \<and>
     (\<forall>b. ErrorDoc b \<in> set (rw_Body w') \<longrightarrow> eb_RequestID b = RequestIDFromContext r)"

lemma sameRequest_refl [simp]: "sameRequest r r"
  by (simp add: sameRequest_def)

lemma sameRequest_trans: "sameRequest r r' \<Longrightarrow> sameRequest r' r'' \<Longrightarrow> sameRequest r r''"
  by (simp add: sameRequest_def)

lemma sameRequest_pathValues [simp]: "sameRequest r (r\<lparr>rq_PathValues := vs\<rparr>)"
  by (simp add: sameRequest_def wire_def)

lemma wire_updates [simp]:
  "wire (r\<lparr>rq_PathValues := vs\<rparr>) = wire r" "wire (r\<lparr>rq_RequestID := i\<rparr>) = wire r"
  "wire (r\<lparr>rq_Identity := d\<rparr>) = wire r"
  by (simp_all add: wire_def)

lemma wire_fields:
  assumes "wire r' = wire r"
  shows "rq_Method r' = rq_Method r" "rq_EscapedPath r' = rq_EscapedPath r" "rq_Header r' = rq_Header r"
    "headerGet r' k = headerGet r k" "urlPath r' = urlPath r" "rq_RequestURI r' = rq_RequestURI r"
    "rq_RemoteAddr r' = rq_RemoteAddr r"
proof -
  have a: "rq_RemoteAddr r' = rq_RemoteAddr r" using arg_cong [OF assms, of rq_RemoteAddr] by (simp add: wire_def)
  have m: "rq_Method r' = rq_Method r" using arg_cong [OF assms, of rq_Method] by (simp add: wire_def)
  have p: "rq_EscapedPath r' = rq_EscapedPath r" using arg_cong [OF assms, of rq_EscapedPath] by (simp add: wire_def)
  have h: "rq_Header r' = rq_Header r" using arg_cong [OF assms, of rq_Header] by (simp add: wire_def)
  have u: "rq_RequestURI r' = rq_RequestURI r" using arg_cong [OF assms, of rq_RequestURI] by (simp add: wire_def)
  show "rq_Method r' = rq_Method r" "rq_EscapedPath r' = rq_EscapedPath r" "rq_Header r' = rq_Header r"
    "headerGet r' k = headerGet r k" "urlPath r' = urlPath r" "rq_RequestURI r' = rq_RequestURI r"
    "rq_RemoteAddr r' = rq_RemoteAddr r"
    using m p h u a by (simp_all add: headerGet_def urlPath_def)
qed

lemma headersOnly_refl [simp]: "headersOnly w w"
  by (simp add: headersOnly_def)

lemma map_of_filter_other: "j \<noteq> k \<Longrightarrow> map_of (filter (\<lambda>(i, _). i \<noteq> k) xs) j = map_of xs j"
  by (induction xs) auto

lemma headersOnly_header [simp]:
  "canonicalKey k \<noteq> ''X-Request-Id'' \<Longrightarrow> headersOnly w (setHeader k v w') = headersOnly w w'"
  "canonicalKey k \<noteq> ''X-Request-Id'' \<Longrightarrow> headersOnly w (delHeader k w') = headersOnly w w'"
  by (auto simp: headersOnly_def setHeader_def delHeader_def map_of_filter_other)

lemma goodResponse_status:
  assumes "pristine w" "headersOnly w w0" "code \<noteq> 0"
  shows "goodResponse r w (writeHeader code w0)"
  using assms by (auto simp: goodResponse_def headersOnly_def pristine_def writeHeader_sent list_all_iff)

lemma goodResponse_body:
  assumes "pristine w" "headersOnly w w0" "code \<noteq> 0"
    and "\<And>b. p = ErrorDoc b \<Longrightarrow> eb_RequestID b = RequestIDFromContext r"
  shows "goodResponse r w (writeBody p (writeHeader code w0))"
proof -
  have "pristine w0" using assms(1,2) by (simp add: pristine_def headersOnly_def)
  note sent = write_response [OF this assms(3), of p]
  from sent(1) have "list_all (\<lambda>s. s = code) (rw_Recorders (writeBody p (writeHeader code w0)))"
    by (auto simp: answered_def sent(3))
  then show ?thesis using assms sent(2,3,4)
    by (auto simp: goodResponse_def headersOnly_def)
qed

lemma canonical_keys:
  "canonicalKey ''Content-Type'' = ''Content-Type''" "canonicalKey ''Allow'' = ''Allow''"
  "canonicalKey ''Content-Length'' = ''Content-Length''" "canonicalKey ''Location'' = ''Location''"
  "canonicalKey ''X-Content-Type-Options'' = ''X-Content-Type-Options''"
  "canonicalKey ''WWW-Authenticate'' = ''Www-Authenticate''" "canonicalKey ''Connection'' = ''Connection''"
  "canonicalKey ''X-Request-ID'' = ''X-Request-Id''"
  by code_simp+

lemma good_writes:
  assumes "pristine w" "headersOnly w w0"
  shows "code \<noteq> 0 \<Longrightarrow> goodResponse r w (writeError code c m d r w0)"
    "code \<noteq> 0 \<Longrightarrow> (\<And>b. p \<noteq> ErrorDoc b) \<Longrightarrow> goodResponse r w (WriteJSON code p w0)"
    "code \<noteq> 0 \<Longrightarrow> goodResponse r w (httpError message code w0)"
    "code \<noteq> 0 \<Longrightarrow> goodResponse r w (writeHeader code w0)"
    "code \<noteq> 0 \<Longrightarrow> (\<And>b. p \<noteq> ErrorDoc b) \<Longrightarrow> goodResponse r w (writeBody p (writeHeader code w0))"
  unfolding writeError_def WriteJSON_def httpError_def
  by (rule goodResponse_body goodResponse_status; use assms in \<open>auto simp: canonical_keys\<close>)+

section \<open>Leaf handlers\<close>

locale sound_leaf =
  fixes h :: leaf
  assumes leaf_answers: "pristine w \<Longrightarrow> resultsIn (goodResponse r w) (h r w)"

lemma sound_leafI: "(\<And>r w. pristine w \<Longrightarrow> resultsIn (goodResponse r w) (h r w)) \<Longrightarrow> sound_leaf h"
  by unfold_locales

lemmas good_simps = good_writes canonical_keys

lemma good_getFailed: "pristine w \<Longrightarrow> resultsIn (goodResponse r w) (getFailed event message name e r w)"
  by (simp add: getFailed_def good_simps)

lemma good_withRequestBody:
  assumes "pristine w" "\<And>q. resultsIn (goodResponse r w) (k q)"
  shows "resultsIn (goodResponse r w) (withRequestBody f zero k r w)"
  using assms by (simp add: withRequestBody_def good_simps split: decoded.split)

lemma good_rejectGitOps:
  assumes "pristine w" "resultsIn (goodResponse r w) k"
  shows "resultsIn (goodResponse r w) (rejectGitOpsMutation ms k r w)"
  using assms by (simp add: rejectGitOpsMutation_def good_simps)

lemma good_storeUpdated: "pristine w \<Longrightarrow> resultsIn (goodResponse r w) (storeUpdated st event name ms r w)"
  unfolding storeUpdated_def by (rule resultsIn_bindI) (simp add: good_simps split: sum.split)

interpretation listLeaf: sound_leaf "listServeHTTP st" for st
  by (rule sound_leafI)
     (auto simp: listServeHTTP_def good_simps Let_def intro!: resultsIn_bindI split: sum.split)

interpretation getLeaf: sound_leaf "getServeHTTP st" for st
  by (rule sound_leafI)
     (auto simp: getServeHTTP_def good_simps good_getFailed intro!: resultsIn_bindI split: sum.split)

interpretation getStatusLeaf: sound_leaf "getStatusServeHTTP st" for st
  by (rule sound_leafI)
     (auto simp: getStatusServeHTTP_def good_simps good_getFailed intro!: resultsIn_bindI split: sum.split)

lemma good_createDecoded:
  "pristine w \<Longrightarrow> resultsIn (goodResponse r w) (createDecoded x st maxReplicas defaults request r w)"
  by (auto simp: createDecoded_def good_simps Let_def intro!: resultsIn_bindI split: sum.split)

interpretation createLeaf: sound_leaf "createServeHTTP x st maxReplicas defaults" for x st maxReplicas defaults
  by (rule sound_leafI)
     (auto simp: createServeHTTP_def good_simps intro!: good_withRequestBody good_createDecoded)

lemma good_updateLoaded:
  "pristine w \<Longrightarrow> resultsIn (goodResponse r w) (updateLoaded x st maxReplicas defaults request ms r w)"
  by (simp add: updateLoaded_def Let_def good_simps good_storeUpdated immutableBackend_def)

interpretation updateLeaf: sound_leaf "updateServeHTTP x st maxReplicas defaults" for x st maxReplicas defaults
  by (rule sound_leafI)
     (auto simp: updateServeHTTP_def good_simps Let_def good_getFailed split: sum.split
       intro!: good_withRequestBody good_rejectGitOps good_updateLoaded resultsIn_bindI)

lemma good_patchLoaded:
  "pristine w \<Longrightarrow> resultsIn (goodResponse r w) (patchLoaded x st maxReplicas defaults request ms r w)"
  by (simp add: patchLoaded_def Let_def good_simps good_storeUpdated immutableBackend_def)

interpretation patchLeaf: sound_leaf "patchServeHTTP x st maxReplicas defaults" for x st maxReplicas defaults
  by (rule sound_leafI)
     (auto simp: patchServeHTTP_def good_simps Let_def good_getFailed split: sum.split
       intro!: good_withRequestBody good_rejectGitOps good_patchLoaded resultsIn_bindI)

lemma good_deleteLoaded: "pristine w \<Longrightarrow> resultsIn (goodResponse r w) (deleteLoaded st ms r w)"
  by (auto simp: deleteLoaded_def Let_def good_simps split: sum.split intro!: resultsIn_bindI)

interpretation deleteLeaf: sound_leaf "deleteServeHTTP st" for st
  by (rule sound_leafI)
     (auto simp: deleteServeHTTP_def good_simps Let_def good_getFailed split: sum.split
       intro!: good_rejectGitOps good_deleteLoaded resultsIn_bindI)

interpretation healthLeaf: sound_leaf Health
  by (rule sound_leafI) (simp add: Health_def good_simps)

interpretation readinessLeaf: sound_leaf "readinessServeHTTP checker" for checker
  by (rule sound_leafI)
     (auto simp: readinessServeHTTP_def writeReadinessResponse_def good_simps Let_def
       split: sum.split option.split intro!: resultsIn_bindI)

interpretation notFoundLeaf: sound_leaf notFoundHandler
  by (rule sound_leafI) (simp add: notFoundHandler_def good_simps)

interpretation redirectLeaf: sound_leaf "redirectTo path" for path
  by (rule sound_leafI) (simp add: redirectTo_def good_simps Let_def)

section \<open>Handlers and middleware\<close>

locale sound_handler =
  fixes h :: handler
  assumes answers:
    "pristine w \<Longrightarrow> resultsIn (\<lambda>(r', w'). sameRequest r r' \<and> goodResponse r w w') (h r w)"
begin

lemma answers_exec:
  assumes "pristine w" "exec (h r w) tr (r', w')"
  shows "sameRequest r r'" "goodResponse r w w'"
  using resultsIn_exec [OF assms(2) answers [OF assms(1)]] by simp_all

end

locale wrapper =
  fixes m :: "handler \<Rightarrow> handler"
  assumes wraps: "sound_handler inner \<Longrightarrow> sound_handler (m inner)"

lemma sound_served: "sound_leaf h \<Longrightarrow> sound_handler (serveLeaf h)"
  by (rule sound_handler.intro) (auto simp: serveLeaf_def intro: resultsIn_bind_mono [OF sound_leaf.leaf_answers])

sublocale sound_leaf \<subseteq> served: sound_handler "serveLeaf h"
  by (rule sound_served) unfold_locales

lemma sound_handlerI:
  "(\<And>r w. pristine w \<Longrightarrow> resultsIn (\<lambda>(r', w'). sameRequest r r' \<and> goodResponse r w w') (h r w)) \<Longrightarrow> sound_handler h"
  by unfold_locales

lemma pristine_pushRecorder [simp]: "pristine (pushRecorder w) \<longleftrightarrow> pristine w"
  by (simp add: pristine_def pushRecorder_def)

text \<open>The response under a recorder: the recorder holds the status that was sent.\<close>

lemma goodResponse_recorder:
  assumes "goodResponse r (pushRecorder w) w'"
  shows "goodResponse r w (popRecorder w')"
    and "\<exists>hs. rw_Sent w' = Some (recordedStatus w', hs) \<and>
              map_of hs ''X-Request-Id'' = map_of (rw_Header w) ''X-Request-Id''"
proof -
  from assms obtain code hs where c: "rw_Sent w' = Some (code, hs)" "code \<noteq> 0"
      "list_all (\<lambda>s. s = code) (rw_Recorders w')"
      "map_of hs ''X-Request-Id'' = map_of (rw_Header w) ''X-Request-Id''"
      "length (rw_Recorders w') = Suc (length (rw_Recorders w))"
      "\<forall>b. ErrorDoc b \<in> set (rw_Body w') \<longrightarrow> eb_RequestID b = RequestIDFromContext r"
    by (auto simp: goodResponse_def pushRecorder_def)
  then obtain ss where ss: "rw_Recorders w' = code # ss" "list_all (\<lambda>s. s = code) ss"
      "length ss = length (rw_Recorders w)"
    by (cases "rw_Recorders w'") auto
  show "goodResponse r w (popRecorder w')" using c ss by (simp add: goodResponse_def popRecorder_def)
  show "\<exists>hs. rw_Sent w' = Some (recordedStatus w', hs) \<and>
            map_of hs ''X-Request-Id'' = map_of (rw_Header w) ''X-Request-Id''"
    using c ss by (simp add: recordedStatus_def)
qed

lemma goodResponse_context:
  "RequestIDFromContext r = RequestIDFromContext r' \<Longrightarrow> goodResponse r w w' \<longleftrightarrow> goodResponse r' w w'"
  by (simp add: goodResponse_def)

abbreviation sound :: "http_request \<Rightarrow> rw \<Rightarrow> (http_request \<times> rw) prog \<Rightarrow> bool" where
  "sound r w \<equiv> resultsIn (\<lambda>(r', w'). sameRequest r r' \<and> goodResponse r w w')"

lemma wrapperI:
  assumes "\<And>inner r w. (\<And>r w. pristine w \<Longrightarrow> sound r w (inner r w)) \<Longrightarrow> pristine w \<Longrightarrow> sound r w (m inner r w)"
  shows "wrapper m"
  by unfold_locales (rule assms, erule (1) sound_handler.answers)

text \<open>A middleware that runs the inner handler on a recorder.\<close>

lemma sound_recorded:
  assumes "\<And>r w. pristine w \<Longrightarrow> sound r w (inner r w)" "pristine w"
    and "\<And>r' w'. sameRequest r r' \<Longrightarrow> goodResponse r w (popRecorder w') \<Longrightarrow> sound r w (k (r', w'))"
  shows "sound r w (bind (inner r (pushRecorder w)) k)"
proof (rule resultsIn_bind_mono)
  show "sound r (pushRecorder w) (inner r (pushRecorder w))" using assms(1,2) by simp
  fix y assume "case y of (r', w') \<Rightarrow> sameRequest r r' \<and> goodResponse r (pushRecorder w) w'"
  then show "sound r w (k y)" using assms(3) goodResponse_recorder(1) by (cases y) auto
qed

interpretation requestLogging: wrapper RequestLogging
  by (rule wrapperI) (auto simp: RequestLogging_def intro!: sound_recorded)

interpretation requestMetrics: wrapper RequestMetrics
  by (rule wrapperI) (auto simp: RequestMetrics_def Let_def intro!: sound_recorded)

interpretation auditLogging: wrapper AuditLogging
  by (rule wrapperI) (auto simp: AuditLogging_def intro!: sound_recorded)

interpretation requireAnyRole: wrapper "RequireAnyRole roles" for roles
  by (rule wrapperI) (auto simp: RequireAnyRole_def good_simps split: option.split)

interpretation authentication: wrapper "Authentication verify" for verify
proof (rule wrapperI)
  fix inner :: handler and r w
  assume inner: "\<And>r w. pristine w \<Longrightarrow> sound r w (inner r w)" and w: "pristine w"
  have "sound r w (bind (inner (r\<lparr>rq_Identity := Some identity\<rparr>) w) (\<lambda>(_, w'). Ret (r, w')))" for identity
    by (rule resultsIn_bind_mono [OF inner [OF w]])
       (auto simp: goodResponse_def RequestIDFromContext_def)
  then show "sound r w (Authentication verify inner r w)"
    using w by (auto simp: Authentication_def writeUnauthorized_def good_simps split: option.split sum.split
        intro!: resultsIn_bindI)
qed

section \<open>Routing\<close>

text \<open>A router answers itself, or passes the request with its path values to a handler whose pattern matches
  the path as it came.\<close>

lemma redirect_silent: "always (\<lambda>_. False) (redirectTo path r w)"
  by (simp add: redirectTo_def Let_def)

lemma notFound_silent: "always (\<lambda>_. False) (notFoundHandler r w)"
  by (simp add: notFoundHandler_def)

lemma serveMux_cases:
  obtains (own) leaf where "sound_leaf leaf" "\<And>r w. always (\<lambda>_. False) (leaf r w)"
      "serveMux routes r w = serveLeaf leaf (r\<lparr>rq_PathValues := []\<rparr>) w"
  | (star) w0 where "serveMux routes r w = Ret (r, writeHeader 400 w0)" "headersOnly w w0"
  | (routed) p h vs where "(p, h) \<in> set routes" "matchPattern p (rq_EscapedPath r) = Some vs"
      "rq_Method r \<noteq> ''CONNECT'' \<longrightarrow> cleanPath (rq_EscapedPath r) = rq_EscapedPath r"
      "serveMux routes r w = h (r\<lparr>rq_PathValues := vs\<rparr>) w"
proof -
  let ?path = "if rq_Method r = ''CONNECT'' then rq_EscapedPath r else cleanPath (rq_EscapedPath r)"
  consider (S) "rq_RequestURI r = ''*''"
    | (R) "rq_RequestURI r \<noteq> ''*''" "slashRedirect routes ?path"
    | (C) "rq_RequestURI r \<noteq> ''*''" "\<not> slashRedirect routes (cleanPath (rq_EscapedPath r))"
        "rq_Method r \<noteq> ''CONNECT''" "cleanPath (rq_EscapedPath r) \<noteq> rq_EscapedPath r"
    | (M) "rq_RequestURI r \<noteq> ''*''" "\<not> slashRedirect routes ?path" "?path = rq_EscapedPath r"
    by (cases "rq_RequestURI r = ''*''"; cases "rq_Method r = ''CONNECT''"; cases "slashRedirect routes ?path";
        cases "?path = rq_EscapedPath r"; simp)
  then show thesis
  proof cases
    case S
    then show ?thesis
      by (intro star [of "if rq_ProtoAtLeast11 r then setHeader ''Connection'' ''close'' w else w"])
         (simp_all add: serveMux_def canonical_keys)
  next
    case R
    then show ?thesis by (intro own [OF redirectLeaf.sound_leaf_axioms redirect_silent]) (simp add: serveMux_def Let_def)
  next
    case C
    then show ?thesis by (intro own [OF redirectLeaf.sound_leaf_axioms redirect_silent]) (simp add: serveMux_def Let_def)
  next
    case M
    then have eq: "serveMux routes r w = (case matchRoutes routes (rq_EscapedPath r) of
        None \<Rightarrow> serveLeaf notFoundHandler (r\<lparr>rq_PathValues := []\<rparr>) w
      | Some (h, vs) \<Rightarrow> h (r\<lparr>rq_PathValues := vs\<rparr>) w)"
      by (auto simp: serveMux_def Let_def)
    show ?thesis
    proof (cases "matchRoutes routes (rq_EscapedPath r)")
      case None
      with eq show ?thesis by (intro own [OF notFoundLeaf.sound_leaf_axioms notFound_silent]) simp
    next
      case (Some hv)
      then obtain p h vs where "find (\<lambda>(p, h). matchPattern p (rq_EscapedPath r) \<noteq> None) routes = Some (p, h)"
          "matchPattern p (rq_EscapedPath r) = Some vs" "hv = (h, vs)"
        by (auto simp: matchRoutes_def split: option.splits)
      with Some eq M show ?thesis by (intro routed [of p h vs]) (auto simp: find_Some_iff split: if_splits)
    qed
  qed
qed

lemma sound_serveMux:
  assumes "\<And>p h. (p, h) \<in> set routes \<Longrightarrow> sound_handler h"
  shows "sound_handler (serveMux routes)"
proof (rule sound_handlerI)
  fix r w assume w: "pristine w"
  have ctx: "goodResponse (r\<lparr>rq_PathValues := vs\<rparr>) w w' \<longleftrightarrow> goodResponse r w w'"
    "sameRequest (r\<lparr>rq_PathValues := vs\<rparr>) r' \<longleftrightarrow> sameRequest r r'" for vs r' w'
    by (simp_all add: goodResponse_def RequestIDFromContext_def sameRequest_def)
  show "sound r w (serveMux routes r w)"
  proof (cases rule: serveMux_cases [of routes r w])
    case (own leaf)
    have "sound_handler (serveLeaf leaf)" using own(1) by (rule sound_served)
    from sound_handler.answers [OF this w, of "r\<lparr>rq_PathValues := []\<rparr>"] show ?thesis
      unfolding own(3) by (simp add: ctx)
  next
    case (star w0)
    then show ?thesis using w by (simp add: good_simps)
  next
    case (routed p h vs)
    from sound_handler.answers [OF assms [OF routed(1)] w, of "r\<lparr>rq_PathValues := vs\<rparr>"] show ?thesis
      unfolding routed(4) by (simp add: ctx)
  qed
qed

lemma sound_collection:
  "sound_handler list \<Longrightarrow> sound_handler create \<Longrightarrow> sound_handler (collectionServeHTTP list create)"
  by (rule sound_handlerI) (auto simp: collectionServeHTTP_def good_simps dest: sound_handler.answers)

lemma sound_resource:
  "sound_handler get \<Longrightarrow> sound_handler update \<Longrightarrow> sound_handler patch \<Longrightarrow> sound_handler delete \<Longrightarrow>
   sound_handler (resourceServeHTTP get update patch delete)"
  by (rule sound_handlerI) (auto simp: resourceServeHTTP_def good_simps dest: sound_handler.answers)

lemma protectedRoutes_sound:
  "(p, h) \<in> set (protectedRoutes (newServerHandlers x st checker maxReplicas defaults)) \<Longrightarrow> sound_handler h"
  unfolding protectedRoutes_def Let_def newServerHandlers_def
  by (auto intro!: sound_collection sound_resource requireAnyRole.wraps listLeaf.served.sound_handler_axioms
      getLeaf.served.sound_handler_axioms getStatusLeaf.served.sound_handler_axioms
      createLeaf.served.sound_handler_axioms updateLeaf.served.sound_handler_axioms
      patchLeaf.served.sound_handler_axioms deleteLeaf.served.sound_handler_axioms)

lemma publicRoutes_sound:
  assumes "sound_handler metrics"
    and "(p, h) \<in> set (publicRoutes verify metrics (newServerHandlers x st checker maxReplicas defaults))"
  shows "sound_handler h"
proof -
  have "sound_handler (Authentication verify (AuditLogging
      (serveMux (protectedRoutes (newServerHandlers x st checker maxReplicas defaults)))))"
    by (intro authentication.wraps auditLogging.wraps sound_serveMux protectedRoutes_sound)
  with assms show ?thesis
    by (auto simp: publicRoutes_def newServerHandlers_def healthLeaf.served.sound_handler_axioms
        readinessLeaf.served.sound_handler_axioms)
qed

text \<open>The server inside \<open>RequestID\<close>, and inside the two recording middlewares.\<close>

definition publicMux ::
    "ext \<Rightarrow> verifier \<Rightarrow> handler \<Rightarrow> (goerror + unit) prog option \<Rightarrow> modelServiceStore \<Rightarrow> int \<Rightarrow>
     ModelServiceDefaults \<Rightarrow> handler" where
  "publicMux x verify metrics checker st maxReplicas defaults =
     serveMux (publicRoutes verify metrics (newServerHandlers x st checker maxReplicas defaults))"

lemma NewServer_eq:
  "NewServer x verify metrics checker st maxReplicas defaults =
     RequestID (RequestLogging (RequestMetrics (publicMux x verify metrics checker st maxReplicas defaults)))"
  by (simp add: NewServer_def newRouter_def Chain_def publicMux_def)

lemma publicMux_sound:
  "sound_handler metrics \<Longrightarrow> sound_handler (publicMux x verify metrics checker st maxReplicas defaults)"
  unfolding publicMux_def by (rule sound_serveMux) (erule (1) publicRoutes_sound)

section \<open>Executions, one middleware at a time\<close>

lemma exec_bind_obtain:
  assumes "exec (bind p f) tr y"
  obtains tr1 x tr2 where "tr = tr1 @ tr2" "exec p tr1 x" "exec (f x) tr2 y"
  using exec_bindD [OF assms] by (elim exE conjE) (rule that)

lemma exec_bind_pair:
  assumes "exec (bind p (\<lambda>(a, b). f a b)) tr y"
  obtains tr1 a b tr2 where "tr = tr1 @ tr2" "exec p tr1 (a, b)" "exec (f a b) tr2 y"
  using assms unfolding exec_bind by (elim exE conjE) (metis (mono_tags, lifting) case_prod_conv surj_pair)

text \<open>The identifier \<open>RequestID\<close> chooses, and the events it takes to choose it.\<close>

definition chosenID :: "http_request \<Rightarrow> event list \<Rightarrow> string \<Rightarrow> bool" where
  "chosenID r tr i \<longleftrightarrow>
     (let given = trimSpace (headerGet r ''X-Request-ID'')
      in if given \<noteq> [] then tr = [] \<and> i = given
         else \<exists>res. tr = [ERand 16 res] \<and>
                i = (case res of Inl e \<Rightarrow> ''request-id-unavailable'' | Inr value \<Rightarrow> hexEncode value))"

lemma exec_RequestID:
  assumes "exec (RequestID inner r w) tr (r', w')"
  obtains i tr1 tr2 r'' where "r' = r" "tr = tr1 @ tr2" "chosenID r tr1 i"
    "exec (inner (r\<lparr>rq_RequestID := Some i\<rparr>) (setHeader ''X-Request-ID'' i w)) tr2 (r'', w')"
proof -
  let ?g = "trimSpace (headerGet r ''X-Request-ID'')"
  let ?k = "\<lambda>i. bind (inner (r\<lparr>rq_RequestID := Some i\<rparr>) (setHeader ''X-Request-ID'' i w)) (\<lambda>(_, w'). Ret (r, w'))"
  from assms have "exec (bind (if ?g = [] then newRequestID else Ret ?g) ?k) tr (r', w')"
    by (simp only: RequestID_def Let_def)
  then obtain tr1 i tr2 where t: "tr = tr1 @ tr2" "exec (if ?g = [] then newRequestID else Ret ?g) tr1 i"
      "exec (?k i) tr2 (r', w')"
    by (rule exec_bind_obtain)
  from t(3) obtain r'' where i: "r' = r" "exec (inner (r\<lparr>rq_RequestID := Some i\<rparr>) (setHeader ''X-Request-ID'' i w)) tr2 (r'', w')"
    by (rule exec_bind_pair) auto
  from t(2) have "chosenID r tr1 i"
    by (auto simp: chosenID_def Let_def newRequestID_def exec_Rand_iff split: if_splits)
  with t(1) i show thesis by (intro that)
qed

text \<open>The log record of a request.\<close>

definition requestLog :: "http_request \<Rightarrow> int \<Rightarrow> time \<Rightarrow> outevent" where
  "requestLog r status elapsed = logEntry ''INFO'' ''http_request''
     [(''request_id'', LStr (RequestIDFromContext r)), (''method'', LStr (rq_Method r)),
      (''path'', LStr (urlPath r)), (''status'', LInt status), (''duration_ms'', LInt (milliseconds elapsed)),
      (''remote_addr'', LStr (rq_RemoteAddr r)), (''user_agent'', LStr (headerGet r ''User-Agent''))]"

lemma exec_RequestLogging:
  assumes "exec (RequestLogging inner r w) tr (r', w')"
  obtains t t' tr1 w1 where "tr = ENow t # tr1 @ [ENow t', EOut (requestLog r' (recordedStatus w1) (t' - t))]"
    "exec (inner r (pushRecorder w)) tr1 (r', w1)" "w' = popRecorder w1"
  using assms unfolding RequestLogging_def exec_Now_iff requestLog_def
  by (elim exE conjE exec_bind_pair) (auto simp: exec_iffs)

lemma exec_RequestMetrics:
  assumes "exec (RequestMetrics inner r w) tr (r', w')"
  obtains (scrape) "urlPath r = ''/metrics''" "exec (inner r w) tr (r', w')"
  | (measured) t t' tr1 w1 where "urlPath r \<noteq> ''/metrics''"
      "tr = EOut InFlightInc # ENow t # tr1 @
         [EOut (RequestsInc (rq_Method r') (metricRoute r') (showInt (recordedStatus w1))), ENow t',
          EOut (DurationObserve (rq_Method r') (metricRoute r') (showInt (recordedStatus w1)) (t' - t)), EOut InFlightDec]"
      "exec (inner r (pushRecorder w)) tr1 (r', w1)" "w' = popRecorder w1"
proof (cases "urlPath r = ''/metrics''")
  case False
  with assms obtain t tr0 where "tr = EOut InFlightInc # ENow t # tr0"
    "exec (bind (inner r (pushRecorder w)) (\<lambda>(r', w').
          let route = metricRoute r'; status = showInt (recordedStatus w')
          in Emit (RequestsInc (rq_Method r') route status)
               (Now (\<lambda>now. Emit (DurationObserve (rq_Method r') route status (now - t))
                 (Emit InFlightDec (Ret (r', popRecorder w'))))))) tr0 (r', w')"
    by (auto simp: RequestMetrics_def exec_Emit_iff exec_Now_iff)
  with False show ?thesis
    by (elim exec_bind_pair) (auto simp: exec_iffs Let_def intro: measured)
qed (use assms scrape in \<open>simp add: RequestMetrics_def\<close>)

lemma exec_AuditLogging:
  assumes "exec (AuditLogging inner r w) tr (r', w')"
  obtains (skipped) "\<not> isAuditedMutation (rq_Method r)" "exec (inner r w) tr (r', w')"
  | (audited) tr1 w1 where "isAuditedMutation (rq_Method r)"
      "tr = tr1 @ [EOut (auditRecord r' (recordedStatus w1))]"
      "exec (inner r (pushRecorder w)) tr1 (r', w1)" "w' = popRecorder w1"
proof (cases "isAuditedMutation (rq_Method r)")
  case True
  with assms show ?thesis unfolding AuditLogging_def
    by (auto elim!: exec_bind_pair simp: exec_iffs intro: audited)
qed (use assms skipped in \<open>simp add: AuditLogging_def\<close>)

text \<open>Authentication with the OIDC verifier: refused with 401, or passed on with the identity of the
  verified token.\<close>

definition identityOf :: "Claims \<Rightarrow> Identity" where
  "identityOf claims = \<lparr>id_Subject = cl_Subject claims, id_PreferredUsername = cl_PreferredUsername claims,
     id_ClientID = cl_AuthorizedParty claims, id_Roles = ra_Roles (cl_RealmAccess claims)\<rparr>"

definition verdict :: "goerror + (goerror + Claims) \<Rightarrow> goerror + Identity" where
  "verdict res = (case res of
        Inl e \<Rightarrow> Inl (Wrapf ''verify JWT: '' e)
      | Inr (Inl e) \<Rightarrow> Inl (Wrapf ''decode JWT claims: '' e)
      | Inr (Inr claims) \<Rightarrow>
          if cl_Subject claims = [] then Inl (Errorf ''JWT subject claim is missing'')
          else Inr (identityOf claims))"

lemma oidcVerify_eq: "oidcVerify tok = VerifyToken tok (\<lambda>res. Ret (verdict res))"
  unfolding oidcVerify_def verdict_def identityOf_def by (rule refl)

lemma verdict_Inr: "verdict res = Inr i \<longleftrightarrow> (\<exists>c. res = Inr (Inr c) \<and> cl_Subject c \<noteq> [] \<and> i = identityOf c)"
  by (auto simp: verdict_def split: sum.splits if_splits)

lemma exec_Authentication:
  assumes "exec (Authentication oidcVerify inner r w) tr (r', w')"
  obtains (refused) message where "w' = writeUnauthorized r message w" "r' = r"
      "bearerToken (headerGet r ''Authorization'') = None \<Longrightarrow> tr = []"
      "\<And>e. e \<in> set tr \<Longrightarrow> (\<exists>attrs. e = EOut (logEntry ''WARN'' ''jwt_authentication_failed'' attrs)) \<or>
         (\<exists>tok res. e = EVerify tok res \<and> (\<forall>c. res = Inr (Inr c) \<longrightarrow> cl_Subject c = []))"
  | (accepted) tok claims tr1 r1 where "bearerToken (headerGet r ''Authorization'') = Some tok"
      "cl_Subject claims \<noteq> []" "tr = EVerify tok (Inr (Inr claims)) # tr1" "r' = r"
      "exec (inner (r\<lparr>rq_Identity := Some (identityOf claims)\<rparr>) w) tr1 (r1, w')"
proof (cases "bearerToken (headerGet r ''Authorization'')")
  case None
  with assms show ?thesis
    by (intro refused [of "''Bearer access token is required''"]) (auto simp: Authentication_def)
next
  case (Some tok)
  from assms Some obtain res tr1 where v: "tr = EVerify tok res # tr1"
    and k: "exec (case verdict res of
        Inl e \<Rightarrow> Emit (logEntry ''WARN'' ''jwt_authentication_failed''
             [(''request_id'', LStr (RequestIDFromContext r)), (''error'', LStr (errorString e))])
           (Ret (r, writeUnauthorized r ''access token is invalid'' w))
      | Inr identity \<Rightarrow> bind (inner (r\<lparr>rq_Identity := Some identity\<rparr>) w) (\<lambda>(_, w'). Ret (r, w'))) tr1 (r', w')"
    by (auto simp: Authentication_def oidcVerify_eq exec_Verify_iff)
  show ?thesis
  proof (cases "verdict res")
    case (Inr i)
    then obtain claims where c: "res = Inr (Inr claims)" "cl_Subject claims \<noteq> []" "i = identityOf claims"
      by (auto simp: verdict_Inr)
    with k Inr have "exec (bind (inner (r\<lparr>rq_Identity := Some (identityOf claims)\<rparr>) w) (\<lambda>(_, w'). Ret (r, w'))) tr1 (r', w')"
      by simp
    then obtain r1 where "r' = r" "exec (inner (r\<lparr>rq_Identity := Some (identityOf claims)\<rparr>) w) tr1 (r1, w')"
      by (rule exec_bind_pair) auto
    with Some c v show ?thesis by (intro accepted) auto
  next
    case (Inl e)
    with k have "w' = writeUnauthorized r ''access token is invalid'' w" "r' = r"
        "\<exists>attrs. tr1 = [EOut (logEntry ''WARN'' ''jwt_authentication_failed'' attrs)]"
      by (auto simp: exec_Emit_iff)
    moreover have "cl_Subject c = []" if "res = Inr (Inr c)" for c
      using that Inl by (auto simp: verdict_def split: if_splits)
    ultimately show ?thesis using Some v
      by (intro refused) auto
  qed
qed

lemma exec_RequireAnyRole:
  assumes "exec (RequireAnyRole roles inner r w) tr (r', w')"
  obtains (denied) event attrs code where "tr = [EOut (logEntry event ''authorization_denied'' attrs)] \<or>
      tr = [EOut (logEntry event ''authorization_identity_missing'' attrs)]"
      "code = (if IdentityFromContext r = None then 401 else 403)" "r' = r"
      "\<exists>c m. w' = writeError code c m [] r w"
      "\<And>identity. IdentityFromContext r = Some identity \<Longrightarrow> set roles \<inter> set (id_Roles identity) = {}"
  | (granted) identity role where "IdentityFromContext r = Some identity" "role \<in> set roles"
      "role \<in> set (id_Roles identity)" "exec (inner r w) tr (r', w')"
proof (cases "IdentityFromContext r")
  case None
  with assms show ?thesis by (intro denied) (auto simp: RequireAnyRole_def exec_Emit_iff)
next
  case (Some identity)
  show ?thesis
  proof (cases "list_ex (HasRole identity) roles")
    case True
    with assms Some show ?thesis
      by (auto simp: RequireAnyRole_def list_ex_iff HasRole_def intro: granted)
  next
    case False
    with assms Some show ?thesis
      by (intro denied) (auto simp: RequireAnyRole_def exec_Emit_iff list_ex_iff HasRole_def)
  qed
qed

end
