(* ===== verification/Mutations.thy ===== *)
theory Mutations
  imports Handlers
begin

text \<open>
  What the handlers that change ModelServices guarantee: which writes they attempt and under which
  conditions, and that the response tells the truth about the write. The lemmas about executions are
  proved once for any store that meets \<open>namespaced_store\<close>; the theorems are about the
  Kubernetes store.
\<close>

section \<open>Writes\<close>

definition isWrite :: "event \<Rightarrow> bool" where
  "isWrite e \<longleftrightarrow>
     (\<exists>d p r. e = EDel d p r) \<or> (\<exists>c r. e = EObj c r \<and> (\<forall>kind key. c \<noteq> OGet kind key))"

text \<open>A write the API server accepted.\<close>

definition wrote :: "event \<Rightarrow> bool" where
  "wrote e \<longleftrightarrow> isWrite e \<and> ((\<exists>d p. e = EDel d p None) \<or> (\<exists>c obj. e = EObj c (Inr obj)))"

lemma isLog_not_write [simp]: "isLog e \<Longrightarrow> \<not> isWrite e"
  by (auto simp: isLog_def isWrite_def)

lemma wrote_isWrite: "wrote e \<Longrightarrow> isWrite e"
  by (simp add: wrote_def)

lemma get_not_write [simp]: "\<not> isWrite (EObj (OGet kind key) res)"
  by (simp add: isWrite_def)

lemma write_simps [simp]:
  "isWrite (EObj (OUpdate obj) res)" "isWrite (EObj (OCreate obj) res)" "isWrite (EDel d p res')"
  "wrote (EObj (OUpdate obj) res) \<longleftrightarrow> (\<exists>o'. res = Inr o')"
  "wrote (EObj (OCreate obj) res) \<longleftrightarrow> (\<exists>o'. res = Inr o')"
  "wrote (EDel d p res') \<longleftrightarrow> res' = None"
  by (auto simp: isWrite_def wrote_def)

lemma logs_no_write: "list_all isLog tr \<Longrightarrow> e \<in> set tr \<Longrightarrow> \<not> isWrite e"
  by (auto simp: list_all_iff)

lemma errorResponse_mono: "errorResponse A w w' \<Longrightarrow> A \<subseteq> B \<Longrightarrow> errorResponse B w w'"
  by (auto simp: errorResponse_def)

lemma errorResponse_answered:
  assumes "errorResponse codes w w'" "pristine w" "0 \<notin> codes"
  obtains code where "code \<in> codes" "answered w' code" "\<exists>b. rw_Body w' = [ErrorDoc b]"
proof -
  from assms(1) obtain code b w0 where c: "code \<in> codes" "w' = WriteJSON code (ErrorDoc b) w0"
    and w0: "rw_Sent w0 = rw_Sent w" "rw_Body w0 = rw_Body w" "rw_Recorders w0 = rw_Recorders w"
    unfolding errorResponse_def by blast
  have "pristine (setHeader ''Content-Type'' ''application/json'' w0)"
    using assms(2) w0 by (simp add: pristine_def)
  moreover have "code \<noteq> 0" using c(1) assms(3) by auto
  ultimately show ?thesis
    using write_response [of _ code "ErrorDoc b"] c by (intro that [of code]) (auto simp: WriteJSON_def)
qed

lemma WriteJSON_answered:
  "pristine w \<Longrightarrow> code \<noteq> 0 \<Longrightarrow> answered (WriteJSON code p w) code \<and> rw_Body (WriteJSON code p w) = [p]"
  using write_response [of "setHeader ''Content-Type'' ''application/json'' w" code p]
  by (simp add: WriteJSON_def)

lemma writeHeader_answered: "pristine w \<Longrightarrow> answered (writeHeader code w) code"
  by (simp add: answered_def pristine_def writeHeader_sent list_all_iff)

section \<open>What a patch changes\<close>

lemma exposurePatch_frame:
  "\<exists>e. applyExposurePatch q defaults ms = ms\<lparr>ms_Spec := (ms_Spec ms)\<lparr>spec_Exposure := Some e\<rparr>\<rparr>"
  unfolding applyExposurePatch_def Let_def by blast

lemma storagePatch_frame:
  "\<exists>s. applyStoragePatch q ms = ms\<lparr>ms_Spec := (ms_Spec ms)\<lparr>spec_Storage := Some s\<rparr>\<rparr>"
  unfolding applyStoragePatch_def Let_def by blast

lemma applyPatchRequest_eq:
  "\<exists>ex st. applyPatchRequest ms q defaults = ms\<lparr>ms_Spec := (ms_Spec ms)
      \<lparr>spec_Backend := orElse (pa_Backend q) (spec_Backend (ms_Spec ms)),
       spec_Predictor := (case pa_Predictor q of
          None \<Rightarrow> spec_Predictor (ms_Spec ms) | Some p \<Rightarrow> requestPredictorToModelService (Some p)),
       spec_Image := orElse (pa_Image q) (spec_Image (ms_Spec ms)),
       spec_Replicas := orElse (pa_Replicas q) (spec_Replicas (ms_Spec ms)),
       spec_Port := orElse (pa_Port q) (spec_Port (ms_Spec ms)),
       spec_Exposure := ex, spec_Storage := st\<rparr>\<rparr> \<and>
     (pa_Exposure q = None \<longrightarrow> ex = spec_Exposure (ms_Spec ms)) \<and>
     (pa_Storage q = None \<longrightarrow> st = spec_Storage (ms_Spec ms))"
proof -
  let ?m = "ms\<lparr>ms_Spec := (ms_Spec ms)
      \<lparr>spec_Backend := orElse (pa_Backend q) (spec_Backend (ms_Spec ms)),
       spec_Predictor := (case pa_Predictor q of
          None \<Rightarrow> spec_Predictor (ms_Spec ms) | Some p \<Rightarrow> requestPredictorToModelService (Some p)),
       spec_Image := orElse (pa_Image q) (spec_Image (ms_Spec ms)),
       spec_Replicas := orElse (pa_Replicas q) (spec_Replicas (ms_Spec ms)),
       spec_Port := orElse (pa_Port q) (spec_Port (ms_Spec ms))\<rparr>\<rparr>"
  define m1 where "m1 = (case pa_Exposure q of None \<Rightarrow> ?m | Some e \<Rightarrow> applyExposurePatch e defaults ?m)"
  have m1: "\<exists>ex. m1 = ?m\<lparr>ms_Spec := (ms_Spec ?m)\<lparr>spec_Exposure := ex\<rparr>\<rparr> \<and>
      (pa_Exposure q = None \<longrightarrow> ex = spec_Exposure (ms_Spec ms))"
  proof (cases "pa_Exposure q")
    case None
    then show ?thesis
      by (intro exI [of _ "spec_Exposure (ms_Spec ms)"]) (simp add: m1_def)
  next
    case (Some e)
    obtain ex where "applyExposurePatch e defaults ?m = ?m\<lparr>ms_Spec := (ms_Spec ?m)\<lparr>spec_Exposure := Some ex\<rparr>\<rparr>"
      using exposurePatch_frame [of e defaults ?m] by (elim exE) (rule that)
    with Some show ?thesis unfolding m1_def by (intro exI [of _ "Some ex"]) simp
  qed
  then obtain ex where ex: "m1 = ?m\<lparr>ms_Spec := (ms_Spec ?m)\<lparr>spec_Exposure := ex\<rparr>\<rparr>"
    "pa_Exposure q = None \<longrightarrow> ex = spec_Exposure (ms_Spec ms)" by (elim exE conjE) (rule that)
  have new: "applyPatchRequest ms q defaults = (case pa_Storage q of None \<Rightarrow> m1 | Some s \<Rightarrow> applyStoragePatch s m1)"
    unfolding applyPatchRequest_def Let_def m1_def ..
  show ?thesis
  proof (cases "pa_Storage q")
    case None
    then show ?thesis unfolding new
      by (intro exI [of _ ex] exI [of _ "spec_Storage (ms_Spec ms)"]) (simp add: ex)
  next
    case (Some s)
    obtain st where "applyStoragePatch s m1 = m1\<lparr>ms_Spec := (ms_Spec m1)\<lparr>spec_Storage := Some st\<rparr>\<rparr>"
      using storagePatch_frame [of s m1] by (elim exE) (rule that)
    with Some show ?thesis unfolding new
      by (intro exI [of _ ex] exI [of _ "Some st"]) (simp add: ex)
  qed
qed

lemma applyPatchRequest_simps:
  "ms_Meta (applyPatchRequest ms q defaults) = ms_Meta ms"
  "ms_Status (applyPatchRequest ms q defaults) = ms_Status ms"
  "spec_Backend (ms_Spec (applyPatchRequest ms q defaults)) = orElse (pa_Backend q) (spec_Backend (ms_Spec ms))"
  "spec_Image (ms_Spec (applyPatchRequest ms q defaults)) = orElse (pa_Image q) (spec_Image (ms_Spec ms))"
  "spec_Port (ms_Spec (applyPatchRequest ms q defaults)) = orElse (pa_Port q) (spec_Port (ms_Spec ms))"
  "spec_Replicas (ms_Spec (applyPatchRequest ms q defaults)) = orElse (pa_Replicas q) (spec_Replicas (ms_Spec ms))"
  "pa_Exposure q = None \<Longrightarrow> spec_Exposure (ms_Spec (applyPatchRequest ms q defaults)) = spec_Exposure (ms_Spec ms)"
  "pa_Storage q = None \<Longrightarrow> spec_Storage (ms_Spec (applyPatchRequest ms q defaults)) = spec_Storage (ms_Spec ms)"
  using applyPatchRequest_eq [of ms q defaults] by auto

section \<open>The handlers on any namespaced store\<close>

context namespaced_store
begin

lemma exec_create:
  assumes "exec (createServeHTTP x st maxReplicas defaults r w) tr w'"
  obtains (refused) "\<forall>e\<in>set tr. \<not> isWrite e" "errorResponse {400, 405, 413, 415} w w'"
  | (attempted) request rest res tr' where
      "decodeRequest (decodeStruct createFields) zeroCreateRequest (rq_Body r) (rq_BodyFails r) =
         Decoded request rest"
      "ensureSingleJSONValue (rq_Body r) (rq_BodyFails r) rest"
      "ValidateCreateModelService x request maxReplicas = []"
      "tr = EObj (OCreate (KModelService (inNamespace ns (createRequestToModelService request defaults)))) res # tr'"
      "list_all isLog tr'"
      "(\<exists>e. res = Inl e \<and> errorResponse (if isAlreadyExists e then {409} else {503}) w w') \<or>
       (\<exists>obj. res = Inr obj \<and> w' = WriteJSON 201 (ModelDoc (modelServiceToResponse (asModelService obj))) w)"
proof (cases "rq_Method r \<noteq> ''POST'' \<or>
    (headerGet r ''Content-Type'' \<noteq> [] \<and> headerGet r ''Content-Type'' \<noteq> ''application/json'')")
  case True
  with assms show ?thesis by (intro refused) (auto simp: createServeHTTP_def split: if_splits)
next
  case False
  with assms have "exec (withRequestBody (decodeStruct createFields) zeroCreateRequest
      (\<lambda>request. createDecoded x st maxReplicas defaults request r w) r w) tr w'"
    by (auto simp: createServeHTTP_def split: if_splits)
  then show ?thesis
  proof (cases rule: exec_withRequestBody)
    case rejected
    then show ?thesis by (intro refused) (auto elim: errorResponse_mono)
  next
    case (accepted request rest)
    from accepted(3) show ?thesis
    proof (cases rule: exec_createDecoded)
      case invalid
      then show ?thesis by (intro refused) (auto elim: errorResponse_mono)
    qed (use accepted(1,2) attempted in auto)
  qed
qed

lemma exec_update:
  assumes "exec (updateServeHTTP x st maxReplicas defaults r w) tr w'"
  obtains (refused) "\<forall>e\<in>set tr. \<not> isWrite e" "errorResponse {400, 404, 409, 413, 503} w w'"
  | (attempted) request rest request' obj res tr' where
      "decodeRequest (decodeStruct updateFields) zeroUpdateRequest (rq_Body r) (rq_BodyFails r) =
         Decoded request rest"
      "\<not> gitOpsManaged (asModelService obj)"
      "request' = (if ur_Backend request = [] then request\<lparr>ur_Backend :=
         normalizedModelServiceBackend (spec_Backend (ms_Spec (asModelService obj)))\<rparr> else request)"
      "ur_Backend request' = normalizedModelServiceBackend (spec_Backend (ms_Spec (asModelService obj)))"
      "ValidateUpdateModelService x (pathValue r ''name'') request' maxReplicas = []"
      "tr = getCall (pathValue r ''name'') (Inr obj) #
         EObj (OUpdate (KModelService (inNamespace ns (applyUpdateRequest (asModelService obj) request' defaults)))) res # tr'"
      "list_all isLog tr'"
      "(\<exists>e. res = Inl e \<and> errorResponse (if isConflict e then {409} else {503}) w w') \<or>
       (\<exists>o'. res = Inr o' \<and> w' = WriteJSON 200 (ModelDoc (modelServiceToResponse (asModelService o'))) w)"
proof (cases "pathValue r ''name'' = []")
  case True
  with assms show ?thesis by (intro refused) (auto simp: updateServeHTTP_def)
next
  case False
  with assms have "exec (withRequestBody (decodeStruct updateFields) zeroUpdateRequest (\<lambda>request.
      bind (sto_Get st (pathValue r ''name'')) (\<lambda>res. case res of
        Inl e \<Rightarrow> getFailed ''get_modelservice_for_update_failed'' messageUnableToLoadModelService
                   (pathValue r ''name'') e r w
      | Inr ms \<Rightarrow> rejectGitOpsMutation ms (updateLoaded x st maxReplicas defaults request ms r w) r w)) r w) tr w'"
    by (simp add: updateServeHTTP_def Let_def)
  then show ?thesis
  proof (cases rule: exec_withRequestBody)
    case rejected
    then show ?thesis by (intro refused) (auto elim: errorResponse_mono)
  next
    case (accepted request rest)
    from accepted(3) show ?thesis
    proof (cases rule: exec_load)
      case (loaded obj tr')
      from loaded(3) show ?thesis
      proof (cases rule: exec_updateLoaded)
        case invalid
        with loaded(1) show ?thesis by (intro refused) (auto elim: errorResponse_mono)
      next
        case (failed request' e tr'')
        with loaded accepted(1) show ?thesis by (intro attempted [of request rest obj request' "Inl e" tr'']) auto
      next
        case (stored request' o')
        with loaded accepted(1) show ?thesis by (intro attempted [of request rest obj request' "Inr o'" "[]"]) auto
      qed
    qed (intro refused; auto simp: list_all_iff elim: errorResponse_mono)+
  qed
qed

lemma exec_patch:
  assumes "exec (patchServeHTTP x st maxReplicas defaults r w) tr w'"
  obtains (refused) "\<forall>e\<in>set tr. \<not> isWrite e" "errorResponse {400, 404, 409, 413, 503} w w'"
  | (attempted) request rest obj res tr' where
      "decodeRequest (decodeStruct patchFields) zeroPatchRequest (rq_Body r) (rq_BodyFails r) =
         Decoded request rest"
      "hasPatchFields request" "\<not> gitOpsManaged (asModelService obj)"
      "pa_Backend request = None \<or> pa_Backend request =
         Some (normalizedModelServiceBackend (spec_Backend (ms_Spec (asModelService obj))))"
      "patchBackendDetails (normalizedModelServiceBackend (spec_Backend (ms_Spec (asModelService obj)))) request = []"
      "ValidateUpdateModelService x (pathValue r ''name'')
         (modelServiceToUpdateRequest (applyPatchRequest (asModelService obj) request defaults)) maxReplicas = []"
      "tr = getCall (pathValue r ''name'') (Inr obj) #
         EObj (OUpdate (KModelService (inNamespace ns (applyPatchRequest (asModelService obj) request defaults)))) res # tr'"
      "list_all isLog tr'"
      "(\<exists>e. res = Inl e \<and> errorResponse (if isConflict e then {409} else {503}) w w') \<or>
       (\<exists>o'. res = Inr o' \<and> w' = WriteJSON 200 (ModelDoc (modelServiceToResponse (asModelService o'))) w)"
proof (cases "pathValue r ''name'' = []")
  case True
  with assms show ?thesis by (intro refused) (auto simp: patchServeHTTP_def)
next
  case False
  with assms have "exec (withRequestBody (decodeStruct patchFields) zeroPatchRequest (\<lambda>request.
      if \<not> hasPatchFields request
      then Ret (writeError 400 ''EMPTY_PATCH'' ''request must contain at least one field to update'' [] r w)
      else bind (sto_Get st (pathValue r ''name'')) (\<lambda>res. case res of
        Inl e \<Rightarrow> getFailed ''get_modelservice_for_patch_failed'' messageUnableToLoadModelService
                   (pathValue r ''name'') e r w
      | Inr ms \<Rightarrow> rejectGitOpsMutation ms (patchLoaded x st maxReplicas defaults request ms r w) r w)) r w) tr w'"
    by (simp add: patchServeHTTP_def Let_def)
  then show ?thesis
  proof (cases rule: exec_withRequestBody)
    case rejected
    then show ?thesis by (intro refused) (auto elim: errorResponse_mono)
  next
    case (accepted request rest)
    show ?thesis
    proof (cases "hasPatchFields request")
      case False
      with accepted(3) show ?thesis by (intro refused) auto
    next
      case True
      with accepted(3) have "exec (bind (sto_Get st (pathValue r ''name'')) (\<lambda>res. case res of
          Inl e \<Rightarrow> getFailed ''get_modelservice_for_patch_failed'' messageUnableToLoadModelService
                     (pathValue r ''name'') e r w
        | Inr ms \<Rightarrow> rejectGitOpsMutation ms (patchLoaded x st maxReplicas defaults request ms r w) r w)) tr w'"
        by simp
      then show ?thesis
      proof (cases rule: exec_load)
        case (loaded obj tr')
        from loaded(3) show ?thesis
        proof (cases rule: exec_patchLoaded)
          case invalid
          with loaded(1) show ?thesis by (intro refused) (auto elim: errorResponse_mono)
        next
          case (failed e tr'')
          with loaded accepted(1) True show ?thesis by (intro attempted [of request rest obj "Inl e" tr'']) auto
        next
          case (stored o')
          with loaded accepted(1) True show ?thesis by (intro attempted [of request rest obj "Inr o'" "[]"]) auto
        qed
      qed (intro refused; auto simp: list_all_iff elim: errorResponse_mono)+
    qed
  qed
qed

lemma exec_delete:
  assumes "exec (deleteServeHTTP st r w) tr w'"
  obtains (refused) "\<forall>e\<in>set tr. \<not> isWrite e" "errorResponse {400, 404, 409, 503} w w'"
  | (attempted) obj res tr' where "\<not> gitOpsManaged (asModelService obj)"
      "tr = getCall (pathValue r ''name'') (Inr obj) #
         EDel (KModelService (inNamespace ns (asModelService obj)))
           (Some (deletePreconditions (asModelService obj))) res # tr'"
      "list_all isLog tr'"
      "(\<exists>e. res = Some e \<and> \<not> isNotFound e \<and> errorResponse (if isConflict e then {409} else {503}) w w') \<or>
       (\<exists>e. res = Some e \<and> isNotFound e \<and> w' = writeHeader 204 w) \<or> (res = None \<and> w' = writeHeader 204 w)"
proof (cases "pathValue r ''name'' = []")
  case True
  with assms show ?thesis by (intro refused) (auto simp: deleteServeHTTP_def)
next
  case False
  with assms have "exec (bind (sto_Get st (pathValue r ''name'')) (\<lambda>res. case res of
      Inl e \<Rightarrow> getFailed ''get_modelservice_for_delete_failed'' messageUnableToLoadModelService
                 (pathValue r ''name'') e r w
    | Inr ms \<Rightarrow> rejectGitOpsMutation ms (deleteLoaded st ms r w) r w)) tr w'"
    by (simp add: deleteServeHTTP_def Let_def)
  then show ?thesis
  proof (cases rule: exec_load)
    case (loaded obj tr')
    from loaded(3) show ?thesis
      by (cases rule: exec_deleteLoaded) (use loaded(1,2) attempted in auto)
  qed (intro refused; auto simp: list_all_iff elim: errorResponse_mono)+
qed

end

section \<open>Guarded writes\<close>

text \<open>C7. A replacement (PUT) writes at most once, and only after it read the object of that name in the
  API's namespace and found it not managed by GitOps. What it writes is that object with the
  decoded, faultless request applied, in the API's namespace: same backend, and the metadata (so also
  the resource version, which makes a concurrent change a conflict) and the status it read.\<close>

theorem update_guarded:
  assumes "exec (updateServeHTTP x (NewModelServiceStore ns) maxReplicas defaults r w) tr w'"
    and "e \<in> set tr" and "isWrite e"
  shows "\<exists>obj request rest request' res logs. let ms = asModelService obj; name = pathValue r ''name'';
      new = inNamespace ns (applyUpdateRequest ms request' defaults) in
    decodeRequest (decodeStruct updateFields) zeroUpdateRequest (rq_Body r) (rq_BodyFails r) = Decoded request rest \<and>
    tr = EObj (OGet ModelServiceKind (ns, name)) (Inr obj) # EObj (OUpdate (KModelService new)) res # logs \<and>
    list_all isLog logs \<and> e = EObj (OUpdate (KModelService new)) res \<and> \<not> gitOpsManaged ms \<and>
    request' = (if ur_Backend request = [] then request\<lparr>ur_Backend := ur_Backend request'\<rparr> else request) \<and>
    requestFaults x maxReplicas (asCreateRequest name request') = {} \<and>
    spec_Backend (ms_Spec new) = normalizedModelServiceBackend (spec_Backend (ms_Spec ms)) \<and>
    ms_Meta new = (ms_Meta ms)\<lparr>meta_Namespace := ns\<rparr> \<and> ms_Status new = ms_Status ms"
  using assms(1)
proof (cases rule: k8s.exec_update)
  case (attempted request rest request' obj res logs)
  have e: "e = EObj (OUpdate (KModelService (inNamespace ns (applyUpdateRequest (asModelService obj) request' defaults)))) res"
    using assms(2,3) attempted(6,7) by (auto dest: logs_no_write)
  have faults: "requestFaults x maxReplicas (asCreateRequest (pathValue r ''name'') request') = {}"
    using attempted(5) faultsOf_validateCreate [of x _ maxReplicas]
    by (metis ValidateUpdateModelService_def image_empty list.set(1))
  have req: "request' = (if ur_Backend request = [] then request\<lparr>ur_Backend := ur_Backend request'\<rparr> else request)"
    using attempted(3) by simp
  show ?thesis
    unfolding Let_def
    by (intro exI [of _ obj] exI [of _ request] exI [of _ rest] exI [of _ request'] exI [of _ res] exI [of _ logs]
        conjI attempted(1,2,6,7) e req faults)
       (simp_all add: attempted(4) applyUpdateRequest_def inNamespace_def)
qed (use assms in auto)

text \<open>C21. A patch writes at most once, under the same guards; the written object is the one it read with
  the patch applied, and as a whole it has no fault: a patch can not make a stored ModelService
  invalid. The backend does not change, and for a KServe ModelService image, port, exposure and
  storage stay as they were.\<close>

theorem patch_guarded:
  assumes "exec (patchServeHTTP x (NewModelServiceStore ns) maxReplicas defaults r w) tr w'"
    and "e \<in> set tr" and "isWrite e"
  shows "\<exists>obj request rest res logs. let ms = asModelService obj; name = pathValue r ''name'';
      new = inNamespace ns (applyPatchRequest ms request defaults);
      backend = normalizedModelServiceBackend (spec_Backend (ms_Spec ms)) in
    decodeRequest (decodeStruct patchFields) zeroPatchRequest (rq_Body r) (rq_BodyFails r) = Decoded request rest \<and>
    tr = EObj (OGet ModelServiceKind (ns, name)) (Inr obj) # EObj (OUpdate (KModelService new)) res # logs \<and>
    list_all isLog logs \<and> e = EObj (OUpdate (KModelService new)) res \<and> \<not> gitOpsManaged ms \<and>
    requestFaults x maxReplicas (asCreateRequest name (modelServiceToUpdateRequest new)) = {} \<and>
    normalizedModelServiceBackend (spec_Backend (ms_Spec new)) = backend \<and>
    (backend = ''KServe'' \<longrightarrow>
       spec_Image (ms_Spec new) = spec_Image (ms_Spec ms) \<and> spec_Port (ms_Spec new) = spec_Port (ms_Spec ms) \<and>
       spec_Exposure (ms_Spec new) = spec_Exposure (ms_Spec ms) \<and> spec_Storage (ms_Spec new) = spec_Storage (ms_Spec ms)) \<and>
    ms_Meta new = (ms_Meta ms)\<lparr>meta_Namespace := ns\<rparr> \<and> ms_Status new = ms_Status ms"
  using assms(1)
proof (cases rule: k8s.exec_patch)
  case (attempted request rest obj res logs)
  let ?ms = "asModelService obj"
  let ?new = "applyPatchRequest ?ms request defaults"
  have e: "e = EObj (OUpdate (KModelService (inNamespace ns ?new))) res"
    using assms(2,3) attempted(7,8) by (auto dest: logs_no_write)
  have "modelServiceToUpdateRequest (inNamespace ns ?new) = modelServiceToUpdateRequest ?new"
    by (simp add: modelServiceToUpdateRequest_def)
  then have faults: "requestFaults x maxReplicas
      (asCreateRequest (pathValue r ''name'') (modelServiceToUpdateRequest (inNamespace ns ?new))) = {}"
    using attempted(6) faultsOf_validateCreate [of x _ maxReplicas]
    by (metis ValidateUpdateModelService_def image_empty list.set(1))
  note meta = applyPatchRequest_simps(1,2) [of ?ms request defaults]
  note spec = applyPatchRequest_simps(3-5) [of ?ms request defaults]
  have backend: "normalizedModelServiceBackend (spec_Backend (ms_Spec ?new)) =
      normalizedModelServiceBackend (spec_Backend (ms_Spec ?ms))"
    using attempted(4) unfolding spec(1)
    by (auto simp: orElse_def normalizedModelServiceBackend_def go_const)
  have kserve: "spec_Image (ms_Spec ?new) = spec_Image (ms_Spec ?ms) \<and>
      spec_Port (ms_Spec ?new) = spec_Port (ms_Spec ?ms) \<and>
      spec_Exposure (ms_Spec ?new) = spec_Exposure (ms_Spec ?ms) \<and>
      spec_Storage (ms_Spec ?new) = spec_Storage (ms_Spec ?ms)"
    if "normalizedModelServiceBackend (spec_Backend (ms_Spec ?ms)) = ''KServe''"
  proof -
    from attempted(5) that have "pa_Image request = None" "pa_Port request = None"
      "pa_Exposure request = None" "pa_Storage request = None"
      by (auto simp: patchBackendDetails_def complainIf_def go_const split: if_splits)
    then show ?thesis using spec by (simp add: orElse_def applyPatchRequest_simps)
  qed
  show ?thesis
    unfolding Let_def
    by (intro exI [of _ obj] exI [of _ request] exI [of _ rest] exI [of _ res] exI [of _ logs]
        conjI attempted(1,3,7,8) e faults)
       (use backend kserve meta in \<open>simp_all add: inNamespace_def\<close>)
qed (use assms in auto)

text \<open>C8. A deletion is attempted at most once, after the object was read and found not managed by GitOps,
  and is bound to the very object and version that was read: the call carries its UID and resource
  version as preconditions whenever the object has them.\<close>

theorem delete_guarded:
  assumes "exec (deleteServeHTTP (NewModelServiceStore ns) r w) tr w'"
    and "e \<in> set tr" and "isWrite e"
  shows "\<exists>obj pre res logs. let ms = asModelService obj in
    tr = EObj (OGet ModelServiceKind (ns, pathValue r ''name'')) (Inr obj) #
         EDel (KModelService (inNamespace ns ms)) (Some pre) res # logs \<and>
    list_all isLog logs \<and> e = EDel (KModelService (inNamespace ns ms)) (Some pre) res \<and>
    \<not> gitOpsManaged ms \<and>
    (meta_UID (ms_Meta ms) \<noteq> [] \<longrightarrow> pre_UID pre = Some (meta_UID (ms_Meta ms))) \<and>
    (meta_ResourceVersion (ms_Meta ms) \<noteq> [] \<longrightarrow>
       pre_ResourceVersion pre = Some (meta_ResourceVersion (ms_Meta ms)))"
  using assms(1)
proof (cases rule: k8s.exec_delete)
  case (attempted obj res logs)
  have e: "e = EDel (KModelService (inNamespace ns (asModelService obj)))
      (Some (deletePreconditions (asModelService obj))) res"
    using assms(2,3) attempted(2,3) by (auto dest: logs_no_write)
  show ?thesis
    unfolding Let_def
    by (intro exI [of _ obj] exI [of _ "deletePreconditions (asModelService obj)"] exI [of _ res] exI [of _ logs]
        conjI attempted(1,2,3) e)
       (simp_all add: deletePreconditions_def)
qed (use assms in auto)

text \<open>C22. A creation writes at most once, and what it writes is the translation of a decoded request
  without faults, in the namespace of the API.\<close>

theorem create_guarded:
  assumes "exec (createServeHTTP x (NewModelServiceStore ns) maxReplicas defaults r w) tr w'"
    and "e \<in> set tr" and "isWrite e"
  shows "\<exists>request rest res logs. let new = inNamespace ns (createRequestToModelService request defaults) in
    decodeRequest (decodeStruct createFields) zeroCreateRequest (rq_Body r) (rq_BodyFails r) = Decoded request rest \<and>
    tr = EObj (OCreate (KModelService new)) res # logs \<and> list_all isLog logs \<and>
    e = EObj (OCreate (KModelService new)) res \<and> requestFaults x maxReplicas request = {} \<and>
    keyOf (KModelService new) = (ns, cr_Name request)"
  using assms(1)
proof (cases rule: k8s.exec_create)
  case (attempted request rest res logs)
  have e: "e = EObj (OCreate (KModelService (inNamespace ns (createRequestToModelService request defaults)))) res"
    using assms(2,3) attempted(4,5) by (auto dest: logs_no_write)
  have "requestFaults x maxReplicas request = {}"
    using attempted(3) faultsOf_validateCreate [of x request maxReplicas] by simp
  then show ?thesis
    unfolding Let_def
    by (intro exI [of _ request] exI [of _ rest] exI [of _ res] exI [of _ logs] conjI attempted(1,4,5) e)
       (simp_all add: keyOf_def createRequestToModelService_def)
qed (use assms in auto)

section \<open>Truthful responses\<close>

text \<open>A response was sent, and it is a success exactly when the API server accepted the write (or the object
  to delete was already gone).\<close>

definition truthful :: "event list \<Rightarrow> rw \<Rightarrow> bool" where
  "truthful tr w' \<longleftrightarrow>
     (\<exists>code. answered w' code \<and> length (filter isWrite tr) \<le> 1 \<and>
        (if code < 400
         then code \<in> {200, 201, 204} \<and>
              ((\<exists>e. e \<in> set tr \<and> wrote e) \<or> (\<exists>d p e. EDel d p (Some e) \<in> set tr \<and> isNotFound e))
         else \<not> (\<exists>e. e \<in> set tr \<and> wrote e)))"

lemma truthful_error:
  assumes "errorResponse codes w w'" "pristine w" "\<And>c. c \<in> codes \<Longrightarrow> 400 \<le> c"
    and "length (filter isWrite tr) \<le> 1" "\<And>e. e \<in> set tr \<Longrightarrow> \<not> wrote e"
  shows "truthful tr w'"
proof -
  have "0 \<notin> codes" using assms(3) by fastforce
  from errorResponse_answered [OF assms(1,2) this] obtain code where "code \<in> codes" "answered w' code" by blast
  with assms(3-5) show ?thesis unfolding truthful_def by (intro exI [of _ code]) force
qed

lemma no_writes: "\<forall>e\<in>set tr. \<not> isWrite e \<Longrightarrow> filter isWrite tr = [] \<and> (\<forall>e. e \<in> set tr \<longrightarrow> \<not> wrote e)"
  by (auto simp: filter_empty_conv dest: wrote_isWrite)

lemma log_no_writes: "list_all isLog tr \<Longrightarrow> filter isWrite tr = [] \<and> (\<forall>e. e \<in> set tr \<longrightarrow> \<not> wrote e)"
  by (rule no_writes) (auto simp: list_all_iff)

context namespaced_store
begin

lemma create_truthful:
  assumes "pristine w" "exec (createServeHTTP x st maxReplicas defaults r w) tr w'"
  shows "truthful tr w'"
  using assms(2)
proof (cases rule: exec_create)
  case refused
  then show ?thesis by (intro truthful_error [OF refused(2) assms(1)]) (auto dest: no_writes)
next
  case (attempted request rest res logs)
  note logs = log_no_writes [OF attempted(5)]
  from attempted(6) show ?thesis
  proof (elim disjE exE conjE)
    fix e assume "res = Inl e" "errorResponse (if isAlreadyExists e then {409} else {503}) w w'"
    with attempted(4) logs show ?thesis by (intro truthful_error [OF _ assms(1)]) (auto split: if_splits)
  next
    fix obj assume "res = Inr obj" "w' = WriteJSON 201 (ModelDoc (modelServiceToResponse (asModelService obj))) w"
    with attempted(4) logs WriteJSON_answered [OF assms(1), of 201] show ?thesis
      unfolding truthful_def by (intro exI [of _ 201]) auto
  qed
qed

lemma update_truthful:
  assumes "pristine w" "exec (updateServeHTTP x st maxReplicas defaults r w) tr w'"
  shows "truthful tr w'"
  using assms(2)
proof (cases rule: exec_update)
  case refused
  then show ?thesis by (intro truthful_error [OF refused(2) assms(1)]) (auto dest: no_writes)
next
  case (attempted request rest request' obj res logs)
  note logs = log_no_writes [OF attempted(7)]
  from attempted(8) show ?thesis
  proof (elim disjE exE conjE)
    fix e assume "res = Inl e" "errorResponse (if isConflict e then {409} else {503}) w w'"
    with attempted(6) logs show ?thesis by (intro truthful_error [OF _ assms(1)]) (auto dest: wrote_isWrite split: if_splits)
  next
    fix o' assume "res = Inr o'" "w' = WriteJSON 200 (ModelDoc (modelServiceToResponse (asModelService o'))) w"
    with attempted(6) logs WriteJSON_answered [OF assms(1), of 200] show ?thesis
      unfolding truthful_def by (intro exI [of _ 200]) auto
  qed
qed

lemma patch_truthful:
  assumes "pristine w" "exec (patchServeHTTP x st maxReplicas defaults r w) tr w'"
  shows "truthful tr w'"
  using assms(2)
proof (cases rule: exec_patch)
  case refused
  then show ?thesis by (intro truthful_error [OF refused(2) assms(1)]) (auto dest: no_writes)
next
  case (attempted request rest obj res logs)
  note logs = log_no_writes [OF attempted(8)]
  from attempted(9) show ?thesis
  proof (elim disjE exE conjE)
    fix e assume "res = Inl e" "errorResponse (if isConflict e then {409} else {503}) w w'"
    with attempted(7) logs show ?thesis by (intro truthful_error [OF _ assms(1)]) (auto dest: wrote_isWrite split: if_splits)
  next
    fix o' assume "res = Inr o'" "w' = WriteJSON 200 (ModelDoc (modelServiceToResponse (asModelService o'))) w"
    with attempted(7) logs WriteJSON_answered [OF assms(1), of 200] show ?thesis
      unfolding truthful_def by (intro exI [of _ 200]) auto
  qed
qed

lemma delete_truthful:
  assumes "pristine w" "exec (deleteServeHTTP st r w) tr w'"
  shows "truthful tr w'"
  using assms(2)
proof (cases rule: exec_delete)
  case refused
  then show ?thesis by (intro truthful_error [OF refused(2) assms(1)]) (auto dest: no_writes)
next
  case (attempted obj res logs)
  note logs = log_no_writes [OF attempted(3)]
  from attempted(4) show ?thesis
  proof (elim disjE exE conjE)
    fix e assume "res = Some e" "errorResponse (if isConflict e then {409} else {503}) w w'"
    with attempted(2) logs show ?thesis by (intro truthful_error [OF _ assms(1)]) (auto dest: wrote_isWrite split: if_splits)
  next
    fix e assume gone: "res = Some e" "isNotFound e" "w' = writeHeader 204 w"
    then have "\<exists>d p e. EDel d p (Some e) \<in> set tr \<and> isNotFound e" using attempted(2) by auto
    with gone attempted(2) logs writeHeader_answered [OF assms(1), of 204] show ?thesis
      unfolding truthful_def by (intro exI [of _ 204]) simp
  next
    assume "res = None" "w' = writeHeader 204 w"
    with attempted(2) logs writeHeader_answered [OF assms(1), of 204] show ?thesis
      unfolding truthful_def by (intro exI [of _ 204]) auto
  qed
qed

end


section \<open>Concrete requests\<close>

definition sampleDefaults :: ModelServiceDefaults where
  "sampleDefaults = \<lparr>df_GatewayName = ''shared-gateway'', df_GatewayNamespace = ''gateway-system'',
     df_GatewaySectionName = ''fraud-model-https'', df_GatewayDataPlaneNamespace = ''envoy-gateway-system''\<rparr>"

definition sampleHttpRequest :: "string \<Rightarrow> string \<Rightarrow> http_request" where
  "sampleHttpRequest method body =
     \<lparr>rq_Method = method, rq_RequestURI = ''/api/v1/model-services/fraud-model'', rq_ProtoAtLeast11 = True,
      rq_EscapedPath = ''/api/v1/model-services/fraud-model'', rq_RawQuery = [],
      rq_Header = [''Content-Type'' \<mapsto> [''application/json'']], rq_Body = body, rq_BodyFails = False,
      rq_RemoteAddr = ''10.0.0.1:4711'', rq_RequestID = Some ''id-1'', rq_Identity = None,
      rq_PathValues = [(''name'', ''fraud-model'')]\<rparr>"

text \<open>An API server that has the sample ModelService and accepts every write.\<close>

definition sampleServerAnswer :: "objcall \<Rightarrow> goerror + kobject" where
  "sampleServerAnswer c =
     (case c of
        OGet kind key \<Rightarrow> Inr (KModelService sampleMS)
      | OCreateOrUpdate obj f \<Rightarrow> Inr obj
      | OCreate obj \<Rightarrow> Inr obj
      | OUpdate obj \<Rightarrow> Inr obj
      | OStatusUpdate obj \<Rightarrow> Inr obj
      | OApply obj owner force \<Rightarrow> Inr obj)"

definition sampleServer :: "unit world" where
  "sampleServer = \<lparr>w_obj = (\<lambda>c s. (sampleServerAnswer c, s)), w_del = (\<lambda>obj p s. (None, s)),
     w_list = (\<lambda>n l s. (Inr [sampleMS], s)), w_now = (\<lambda>s. (5, s)), w_rand = (\<lambda>n s. (Inr (replicate n (CHR ''x'')), s)),
     w_verify = (\<lambda>t s. (Inl (Errorf ''no verifier''), s))\<rparr>"

definition traceOf :: "'a prog \<Rightarrow> event list" where
  "traceOf p = fst (run sampleServer p ())"

definition resultOf :: "'a prog \<Rightarrow> 'a" where
  "resultOf p = fst (snd (run sampleServer p ()))"

lemma exec_sample: "exec p (traceOf p) (resultOf p)"
  by (rule run_exec [of sampleServer _ "()" _ _ "()"]) (simp add: traceOf_def resultOf_def prod_eq_iff)

definition sampleUpdateBody :: string where
  "sampleUpdateBody = ''{'' @ quoteGo ''image'' @ '':'' @ quoteGo ''nginx'' @ '', '' @ quoteGo ''replicas'' @
     '':3,'' @ quoteGo ''port'' @ '':8080}''"

definition samplePatchBody :: string where
  "samplePatchBody = ''{'' @ quoteGo ''replicas'' @ '': 3}''"

definition sampleCreateBody :: string where
  "sampleCreateBody = ''{'' @ quoteGo ''name'' @ '':'' @ quoteGo ''fraud-model'' @ '','' @
     quoteGo ''image'' @ '':'' @ quoteGo ''nginx'' @ '','' @ quoteGo ''replicas'' @ '':2,'' @
     quoteGo ''port'' @ '':8080}''"

definition sampleUpdate :: "rw prog" where
  "sampleUpdate = updateServeHTTP sampleExt (NewModelServiceStore ''ai-platform'') 10 sampleDefaults
     (sampleHttpRequest ''PUT'' sampleUpdateBody) freshWriter"

definition samplePatch :: "rw prog" where
  "samplePatch = patchServeHTTP sampleExt (NewModelServiceStore ''ai-platform'') 10 sampleDefaults
     (sampleHttpRequest ''PATCH'' samplePatchBody) freshWriter"

definition sampleCreate :: "rw prog" where
  "sampleCreate = createServeHTTP sampleExt (NewModelServiceStore ''ai-platform'') 10 sampleDefaults
     (sampleHttpRequest ''POST'' sampleCreateBody) freshWriter"

definition sampleDelete :: "rw prog" where
  "sampleDelete = deleteServeHTTP (NewModelServiceStore ''ai-platform'')
     (sampleHttpRequest ''DELETE'' []) freshWriter"

text \<open>A short body is decoded as a whole.\<close>

lemma decodeRequest_short:
  assumes "length body \<le> maxRequestBodyBytes" "scanText body = Scanned v rest" "\<not> isScalar v"
  shows "decodeRequest f zero body fails = (case f v zero of None \<Rightarrow> Malformed | Some q \<Rightarrow> Decoded q rest)"
  using assms by (simp add: decodeRequest_def decodeScanned_def)

lemma sample_scans:
  "scanText sampleUpdateBody =
     Scanned (JObj [(''image'', JStr ''nginx''), (''replicas'', JNum ''3''), (''port'', JNum ''8080'')]) []"
  "scanText samplePatchBody = Scanned (JObj [(''replicas'', JNum ''3'')]) []"
  "scanText sampleCreateBody = Scanned (JObj [(''name'', JStr ''fraud-model''), (''image'', JStr ''nginx''),
     (''replicas'', JNum ''2''), (''port'', JNum ''8080'')]) []"
  by code_simp+

lemma sample_decodes:
  "decodeStruct updateFields (JObj [(''image'', JStr ''nginx''), (''replicas'', JNum ''3''), (''port'', JNum ''8080'')])
     zeroUpdateRequest = Some (zeroUpdateRequest\<lparr>ur_Image := ''nginx'', ur_Replicas := 3, ur_Port := 8080\<rparr>)"
  "decodeStruct patchFields (JObj [(''replicas'', JNum ''3'')]) zeroPatchRequest =
     Some (zeroPatchRequest\<lparr>pa_Replicas := Some 3\<rparr>)"
  "decodeStruct createFields (JObj [(''name'', JStr ''fraud-model''), (''image'', JStr ''nginx''),
     (''replicas'', JNum ''2''), (''port'', JNum ''8080'')]) zeroCreateRequest =
     Some (zeroCreateRequest\<lparr>cr_Name := ''fraud-model'', cr_Image := ''nginx'', cr_Replicas := 2, cr_Port := 8080\<rparr>)"
  by code_simp+

lemma sample_lengths:
  "length sampleUpdateBody \<le> maxRequestBodyBytes" "length samplePatchBody \<le> maxRequestBodyBytes"
  "length sampleCreateBody \<le> maxRequestBodyBytes"
  by (simp_all add: sampleUpdateBody_def samplePatchBody_def sampleCreateBody_def maxRequestBodyBytes_def quoteGo_def)

lemma sample_valid:
  "ValidateUpdateModelService sampleExt ''fraud-model''
     (zeroUpdateRequest\<lparr>ur_Image := ''nginx'', ur_Replicas := 3, ur_Port := 8080, ur_Backend := ''Deployment''\<rparr>) 10 = []"
  "ValidateUpdateModelService sampleExt ''fraud-model''
     (modelServiceToUpdateRequest (applyPatchRequest sampleMS (zeroPatchRequest\<lparr>pa_Replicas := Some 3\<rparr>) sampleDefaults)) 10 = []"
  "ValidateCreateModelService sampleExt
     (zeroCreateRequest\<lparr>cr_Name := ''fraud-model'', cr_Image := ''nginx'', cr_Replicas := 2, cr_Port := 8080\<rparr>) 10 = []"
  by code_simp+

lemma sampleServer_simps [simp]:
  "w_obj sampleServer c s = (sampleServerAnswer c, s)" "w_del sampleServer obj p s = (None, s)"
  "w_list sampleServer n l s = (Inr [sampleMS], s)"
  by (simp_all add: sampleServer_def)

lemma sampleServerAnswer_simps [simp]:
  "sampleServerAnswer (OGet kind key) = Inr (KModelService sampleMS)"
  "sampleServerAnswer (OUpdate obj) = Inr obj" "sampleServerAnswer (OCreate obj) = Inr obj"
  by (simp_all add: sampleServerAnswer_def)

lemma sampleHttp_simps [simp]:
  "rq_Method (sampleHttpRequest m b) = m" "rq_Body (sampleHttpRequest m b) = b"
  "rq_BodyFails (sampleHttpRequest m b) = False" "pathValue (sampleHttpRequest m b) ''name'' = ''fraud-model''"
  "headerGet (sampleHttpRequest m b) ''Content-Type'' = ''application/json''"
  by (simp_all add: sampleHttpRequest_def pathValue_def headerGet_def canonicalKey_def toUpperByte_def
      toLowerByte_def isUpperByte_def)

lemma sample_unmanaged: "\<not> gitOpsManaged sampleMS" "spec_Backend (ms_Spec sampleMS) = ''Deployment''"
  by (simp_all add: gitOpsManaged_def sample_defs)

lemma sample_bodies:
  "decodeRequest (decodeStruct updateFields) zeroUpdateRequest sampleUpdateBody False =
     Decoded (zeroUpdateRequest\<lparr>ur_Image := ''nginx'', ur_Replicas := 3, ur_Port := 8080\<rparr>) []"
  "decodeRequest (decodeStruct patchFields) zeroPatchRequest samplePatchBody False =
     Decoded (zeroPatchRequest\<lparr>pa_Replicas := Some 3\<rparr>) []"
  "decodeRequest (decodeStruct createFields) zeroCreateRequest sampleCreateBody False =
     Decoded (zeroCreateRequest\<lparr>cr_Name := ''fraud-model'', cr_Image := ''nginx'', cr_Replicas := 2, cr_Port := 8080\<rparr>) []"
  by (simp_all add: decodeRequest_short [OF sample_lengths(1) sample_scans(1)]
      decodeRequest_short [OF sample_lengths(2) sample_scans(2)]
      decodeRequest_short [OF sample_lengths(3) sample_scans(3)] isScalar_def sample_decodes)

lemma sample_single:
  "ensureSingleJSONValue sampleUpdateBody False []" "ensureSingleJSONValue samplePatchBody False []"
  "ensureSingleJSONValue sampleCreateBody False []"
  using sample_lengths by (simp_all add: ensureSingleJSONValue_def skipSpaces_def)

lemma zeroUpdate_backend: "ur_Backend zeroUpdateRequest = []"
  by (simp add: zeroUpdateRequest_def)

lemmas sample_run_defs =
  traceOf_def withRequestBody_def sample_bodies sample_single run_bind Let_def rejectGitOpsMutation_def
  sample_unmanaged NewModelServiceStore_def storeGet_def storeUpdate_def storeCreate_def storeDelete_def
  normalizedModelServiceBackend_def go_const

lemma sampleUpdate_writes:
  "EObj (OUpdate (KModelService (inNamespace ''ai-platform'' (applyUpdateRequest sampleMS
      (zeroUpdateRequest\<lparr>ur_Image := ''nginx'', ur_Replicas := 3, ur_Port := 8080, ur_Backend := ''Deployment''\<rparr>)
      sampleDefaults)))) (Inr (KModelService (inNamespace ''ai-platform'' (applyUpdateRequest sampleMS
      (zeroUpdateRequest\<lparr>ur_Image := ''nginx'', ur_Replicas := 3, ur_Port := 8080, ur_Backend := ''Deployment''\<rparr>)
      sampleDefaults)))) \<in> set (traceOf sampleUpdate)"
  by (simp add: sampleUpdate_def updateServeHTTP_def updateLoaded_def storeUpdated_def sample_run_defs
      sample_valid zeroUpdate_backend)

lemma samplePatch_writes:
  "EObj (OUpdate (KModelService (inNamespace ''ai-platform''
      (applyPatchRequest sampleMS (zeroPatchRequest\<lparr>pa_Replicas := Some 3\<rparr>) sampleDefaults))))
    (Inr (KModelService (inNamespace ''ai-platform''
      (applyPatchRequest sampleMS (zeroPatchRequest\<lparr>pa_Replicas := Some 3\<rparr>) sampleDefaults)))) \<in> set (traceOf samplePatch)"
  by (simp add: samplePatch_def patchServeHTTP_def patchLoaded_def storeUpdated_def sample_run_defs
      sample_valid hasPatchFields_def patchBackendDetails_def) (simp add: zeroPatchRequest_def)

lemma sampleCreate_writes:
  "EObj (OCreate (KModelService (inNamespace ''ai-platform'' (createRequestToModelService
      (zeroCreateRequest\<lparr>cr_Name := ''fraud-model'', cr_Image := ''nginx'', cr_Replicas := 2, cr_Port := 8080\<rparr>) sampleDefaults))))
    (Inr (KModelService (inNamespace ''ai-platform'' (createRequestToModelService
      (zeroCreateRequest\<lparr>cr_Name := ''fraud-model'', cr_Image := ''nginx'', cr_Replicas := 2, cr_Port := 8080\<rparr>) sampleDefaults))))
   \<in> set (traceOf sampleCreate)"
  by (simp add: sampleCreate_def createServeHTTP_def createDecoded_def sample_run_defs sample_valid)

lemma sampleDelete_writes:
  "EDel (KModelService (inNamespace ''ai-platform'' sampleMS)) (Some (deletePreconditions sampleMS)) None
   \<in> set (traceOf sampleDelete)"
  by (simp add: sampleDelete_def deleteServeHTTP_def deleteLoaded_def sample_run_defs)

lemma sample_execs:
  "exec (updateServeHTTP sampleExt (NewModelServiceStore ''ai-platform'') 10 sampleDefaults
     (sampleHttpRequest ''PUT'' sampleUpdateBody) freshWriter) (traceOf sampleUpdate) (resultOf sampleUpdate)"
  "exec (patchServeHTTP sampleExt (NewModelServiceStore ''ai-platform'') 10 sampleDefaults
     (sampleHttpRequest ''PATCH'' samplePatchBody) freshWriter) (traceOf samplePatch) (resultOf samplePatch)"
  "exec (createServeHTTP sampleExt (NewModelServiceStore ''ai-platform'') 10 sampleDefaults
     (sampleHttpRequest ''POST'' sampleCreateBody) freshWriter) (traceOf sampleCreate) (resultOf sampleCreate)"
  "exec (deleteServeHTTP (NewModelServiceStore ''ai-platform'') (sampleHttpRequest ''DELETE'' []) freshWriter)
     (traceOf sampleDelete) (resultOf sampleDelete)"
  unfolding sampleUpdate_def [symmetric] samplePatch_def [symmetric] sampleCreate_def [symmetric]
    sampleDelete_def [symmetric] by (rule exec_sample)+

theorem update_guarded_witness:
  "\<exists>obj new res logs. traceOf sampleUpdate =
     EObj (OGet ModelServiceKind (''ai-platform'', ''fraud-model'')) (Inr obj) # EObj (OUpdate (KModelService new)) res # logs \<and>
     \<not> gitOpsManaged (asModelService obj)"
  using update_guarded [OF sample_execs(1) sampleUpdate_writes] by (auto simp: Let_def)

theorem patch_guarded_witness:
  "\<exists>obj new res logs. traceOf samplePatch =
     EObj (OGet ModelServiceKind (''ai-platform'', ''fraud-model'')) (Inr obj) # EObj (OUpdate (KModelService new)) res # logs \<and>
     requestFaults sampleExt 10 (asCreateRequest ''fraud-model'' (modelServiceToUpdateRequest new)) = {}"
  using patch_guarded [OF sample_execs(2) samplePatch_writes] by (simp add: Let_def) blast

theorem delete_guarded_witness:
  "\<exists>obj pre res logs. traceOf sampleDelete =
     EObj (OGet ModelServiceKind (''ai-platform'', ''fraud-model'')) (Inr obj) #
     EDel (KModelService (inNamespace ''ai-platform'' (asModelService obj))) (Some pre) res # logs \<and>
     (meta_UID (ms_Meta (asModelService obj)) \<noteq> [] \<longrightarrow> pre_UID pre = Some (meta_UID (ms_Meta (asModelService obj))))"
  using delete_guarded [OF sample_execs(4) sampleDelete_writes] by (simp add: Let_def) blast

theorem create_guarded_witness:
  "\<exists>new res logs. traceOf sampleCreate = EObj (OCreate (KModelService new)) res # logs \<and>
     keyOf (KModelService new) = (''ai-platform'', ''fraud-model'')"
  using create_guarded [OF sample_execs(3) sampleCreate_writes]
  by (auto simp: Let_def sample_bodies)


end
