(* ===== verification/Access.thy ===== *)
theory Access
  imports Contracts Mutations
begin

text \<open>
  Who may do what: the theorems about the assembled server that \<^verbatim>\<open>api.NewServer\<close> builds, over
  the Kubernetes store and the OIDC verifier. The specification is a table, \<open>requiredRole\<close> and
  \<open>permittedCall\<close>: which role a method needs and which calls to Kubernetes it may cause.
\<close>

section \<open>The access table\<close>

text \<open>A call to the Kubernetes API.\<close>

definition clusterCall :: "event \<Rightarrow> bool" where
  "clusterCall e =
     (case e of EObj c res \<Rightarrow> True | EDel obj p res \<Rightarrow> True | EList n l res \<Rightarrow> True | _ \<Rightarrow> False)"

definition requiredRole :: "string \<Rightarrow> string option" where
  "requiredRole method =
     (if method = ''GET'' then Some ''model-viewer''
      else if method = ''POST'' \<or> method = ''PUT'' \<or> method = ''PATCH'' then Some ''model-deployer''
      else if method = ''DELETE'' then Some ''platform-admin''
      else None)"

definition modelServiceIn :: "string \<Rightarrow> kobject \<Rightarrow> bool" where
  "modelServiceIn ns obj \<longleftrightarrow> kindOf obj = ModelServiceKind \<and> fst (keyOf obj) = ns"

definition permittedCall :: "string \<Rightarrow> string \<Rightarrow> event \<Rightarrow> bool" where
  "permittedCall ns method e =
     (case e of
        EList n l res \<Rightarrow> method = ''GET'' \<and> n = ns \<and> l = None
      | EObj c res \<Rightarrow>
          (case c of
             OGet kind key \<Rightarrow> method \<in> {''GET'', ''PUT'', ''PATCH'', ''DELETE''} \<and>
               kind = ModelServiceKind \<and> fst key = ns \<and> snd key \<noteq> []
           | OCreate obj \<Rightarrow> method = ''POST'' \<and> modelServiceIn ns obj
           | OUpdate obj \<Rightarrow> method \<in> {''PUT'', ''PATCH''} \<and> modelServiceIn ns obj
           | _ \<Rightarrow> False)
      | EDel obj p res \<Rightarrow> method = ''DELETE'' \<and> modelServiceIn ns obj \<and> p \<noteq> None
      | _ \<Rightarrow> True)"

lemma permittedCall_simps [simp]:
  "permittedCall ns m (EObj (OGet kind key) res) \<longleftrightarrow> m \<in> {''GET'', ''PUT'', ''PATCH'', ''DELETE''} \<and>
     kind = ModelServiceKind \<and> fst key = ns \<and> snd key \<noteq> []"
  "permittedCall ns m (EObj (OCreate obj) res) \<longleftrightarrow> m = ''POST'' \<and> modelServiceIn ns obj"
  "permittedCall ns m (EObj (OUpdate obj) res) \<longleftrightarrow> m \<in> {''PUT'', ''PATCH''} \<and> modelServiceIn ns obj"
  "permittedCall ns m (EDel obj p res') \<longleftrightarrow> m = ''DELETE'' \<and> modelServiceIn ns obj \<and> p \<noteq> None"
  "permittedCall ns m (EList n l res'') \<longleftrightarrow> m = ''GET'' \<and> n = ns \<and> l = None"
  "permittedCall ns m (EOut out)"
  by (simp_all add: permittedCall_def)

lemma clusterCall_simps [simp]:
  "clusterCall (EObj c res)" "clusterCall (EDel obj p res')" "clusterCall (EList n l res'')"
  "\<not> clusterCall (EOut out)" "\<not> clusterCall (ENow t)" "\<not> clusterCall (ERand k rnd)"
  "\<not> clusterCall (EVerify tok v)"
  by (simp_all add: clusterCall_def)

lemma modelServiceIn_inNamespace [simp]: "modelServiceIn ns (KModelService (inNamespace ns ms))"
  by (simp add: modelServiceIn_def keyOf_def)

section \<open>The handlers stay within the table\<close>

lemma always_getFailed [simp]: "always (permittedCall ns m) (getFailed event message name e r w)"
  by (simp add: getFailed_def)

lemma always_withRequestBody:
  "(\<And>q. always P (k q)) \<Longrightarrow> always P (withRequestBody f zero k r w)"
  by (simp add: withRequestBody_def split: decoded.split)

lemma always_rejectGitOps: "always P k \<Longrightarrow> always P (rejectGitOpsMutation ms k r w)"
  by (simp add: rejectGitOpsMutation_def)

context namespaced_store
begin

lemma always_store:
  "m \<in> {''GET'', ''PUT'', ''PATCH'', ''DELETE''} \<Longrightarrow> name \<noteq> [] \<Longrightarrow> always (permittedCall ns m) (sto_Get st name)"
  "always (permittedCall ns ''POST'') (sto_Create st ms)"
  "m \<in> {''PUT'', ''PATCH''} \<Longrightarrow> always (permittedCall ns m) (sto_Update st ms)"
  "always (permittedCall ns ''DELETE'') (sto_Delete st ms)"
  "always (permittedCall ns ''GET'') (sto_List st)"
  by (rule always_of_exec; auto simp: get_exec create_exec update_exec delete_exec list_exec)+

lemma list_permitted: "rq_Method r = m \<Longrightarrow> always (permittedCall ns m) (listServeHTTP st r w)"
  by (auto simp: listServeHTTP_def Let_def split: sum.split intro!: always_bindI always_store)

lemma get_permitted: "rq_Method r = m \<Longrightarrow> always (permittedCall ns m) (getServeHTTP st r w)"
  by (auto simp: getServeHTTP_def split: sum.split intro!: always_bindI always_store)

lemma getStatus_permitted: "rq_Method r = m \<Longrightarrow> always (permittedCall ns m) (getStatusServeHTTP st r w)"
  by (auto simp: getStatusServeHTTP_def split: sum.split intro!: always_bindI always_store)

lemma create_permitted:
  "rq_Method r = m \<Longrightarrow> always (permittedCall ns m) (createServeHTTP x st maxReplicas defaults r w)"
  by (auto simp: createServeHTTP_def createDecoded_def Let_def logFailure_def split: sum.split
      intro!: always_bindI always_store always_withRequestBody)

lemma storeUpdated_permitted:
  "m \<in> {''PUT'', ''PATCH''} \<Longrightarrow> always (permittedCall ns m) (storeUpdated st event name ms r w)"
  unfolding storeUpdated_def by (rule always_bindI) (auto split: sum.split intro: always_store)

lemma update_permitted:
  "m \<in> {''PUT'', ''PATCH''} \<Longrightarrow> always (permittedCall ns m) (updateServeHTTP x st maxReplicas defaults r w)"
  by (auto simp: updateServeHTTP_def updateLoaded_def Let_def split: sum.split
      intro!: always_bindI always_store always_withRequestBody always_rejectGitOps storeUpdated_permitted)

lemma patch_permitted:
  "m \<in> {''PUT'', ''PATCH''} \<Longrightarrow> always (permittedCall ns m) (patchServeHTTP x st maxReplicas defaults r w)"
  by (auto simp: patchServeHTTP_def patchLoaded_def Let_def split: sum.split
      intro!: always_bindI always_store always_withRequestBody always_rejectGitOps storeUpdated_permitted)

lemma delete_permitted: "always (permittedCall ns ''DELETE'') (deleteServeHTTP st r w)"
  by (auto simp: deleteServeHTTP_def deleteLoaded_def Let_def split: sum.split
      intro!: always_bindI always_store always_rejectGitOps)

end

section \<open>Guards\<close>

lemma always_False_exec: "exec p tr y \<Longrightarrow> always (\<lambda>_. False) p \<Longrightarrow> tr = []"
  using always_exec [of p tr y "\<lambda>_. False"] by (cases tr) auto

lemma exec_serveLeaf: "exec (serveLeaf h r w) tr (r', w') \<longleftrightarrow> r' = r \<and> exec (h r w) tr w'"
  by (auto simp: serveLeaf_def exec_bind)

text \<open>A call behind a role check: the caller has an identity with that role.\<close>

lemma role_guard:
  assumes "exec (RequireAnyRole [role] (serveLeaf h) r w) tr (r', w')" "always P (h r w)"
    and "e \<in> set tr" "clusterCall e"
  shows "\<exists>identity. IdentityFromContext r = Some identity \<and> role \<in> set (id_Roles identity) \<and> P e"
  using assms(1)
proof (cases rule: exec_RequireAnyRole)
  case (granted identity role')
  then have "exec (h r w) tr w'" by (simp add: exec_serveLeaf)
  with granted assms(2,3) show ?thesis by (auto dest: alwaysD)
qed (use assms(3,4) in auto)

definition authorised :: "string \<Rightarrow> http_request \<Rightarrow> event \<Rightarrow> bool" where
  "authorised ns r e \<longleftrightarrow> (\<exists>identity role. IdentityFromContext r = Some identity \<and>
     requiredRole (rq_Method r) = Some role \<and> role \<in> set (id_Roles identity) \<and> permittedCall ns (rq_Method r) e)"

lemma role_authorised:
  assumes "exec (RequireAnyRole [role] (serveLeaf h) r w) tr (r', w')"
    and "always (permittedCall ns (rq_Method r)) (h r w)" "requiredRole (rq_Method r) = Some role"
    and "e \<in> set tr" "clusterCall e"
  shows "authorised ns r e"
  using role_guard [OF assms(1,2,4,5)] assms(3) by (auto simp: authorised_def)

lemma collection_authorised:
  assumes "exec (collectionServeHTTP (RequireAnyRole [RoleModelViewer] (serveLeaf (listServeHTTP (NewModelServiceStore ns))))
      (RequireAnyRole [RoleModelDeployer] (serveLeaf (createServeHTTP x (NewModelServiceStore ns) maxReplicas defaults)))
      r w) tr (r', w')"
    and "e \<in> set tr" "clusterCall e"
  shows "authorised ns r e"
proof -
  consider "rq_Method r = ''GET''" | "rq_Method r = ''POST''"
    | "rq_Method r \<noteq> ''GET''" "rq_Method r \<noteq> ''POST''" by blast
  then show ?thesis
  proof cases
    case 1
    with assms(1) show ?thesis
      by (intro role_authorised [OF _ k8s.list_permitted [OF refl] _ assms(2,3)])
         (auto simp: collectionServeHTTP_def requiredRole_def go_const)
  next
    case 2
    with assms(1) show ?thesis
      by (intro role_authorised [OF _ k8s.create_permitted [OF refl] _ assms(2,3)])
         (auto simp: collectionServeHTTP_def requiredRole_def go_const)
  qed (use assms in \<open>simp add: collectionServeHTTP_def\<close>)
qed

lemma status_authorised:
  assumes "exec (RequireAnyRole [RoleModelViewer] (serveLeaf (getStatusServeHTTP (NewModelServiceStore ns))) r w) tr (r', w')"
    and "e \<in> set tr" "clusterCall e"
  shows "authorised ns r e"
proof -
  note guard = role_guard [OF assms(1) k8s.getStatus_permitted [OF refl] assms(2,3)]
  show ?thesis
  proof (cases "rq_Method r = ''GET''")
    case True
    with guard show ?thesis by (auto simp: authorised_def requiredRole_def go_const)
  next
    case False
    then have "always (\<lambda>_. False) (getStatusServeHTTP (NewModelServiceStore ns) r w)"
      by (simp add: getStatusServeHTTP_def)
    from role_guard [OF assms(1) this assms(2,3)] show ?thesis by blast
  qed
qed

lemma resource_authorised:
  assumes "exec (resourceServeHTTP (RequireAnyRole [RoleModelViewer] (serveLeaf (getServeHTTP (NewModelServiceStore ns))))
      (RequireAnyRole [RoleModelDeployer] (serveLeaf (updateServeHTTP x (NewModelServiceStore ns) maxReplicas defaults)))
      (RequireAnyRole [RoleModelDeployer] (serveLeaf (patchServeHTTP x (NewModelServiceStore ns) maxReplicas defaults)))
      (RequireAnyRole [RolePlatformAdmin] (serveLeaf (deleteServeHTTP (NewModelServiceStore ns)))) r w) tr (r', w')"
    and "e \<in> set tr" "clusterCall e"
  shows "authorised ns r e"
proof -
  consider "rq_Method r = ''GET''" | "rq_Method r = ''PUT''" | "rq_Method r = ''PATCH''" | "rq_Method r = ''DELETE''"
    | "rq_Method r \<notin> {''GET'', ''PUT'', ''PATCH'', ''DELETE''}" by blast
  then show ?thesis
  proof cases
    case 1
    with assms(1) show ?thesis
      by (intro role_authorised [OF _ k8s.get_permitted [OF refl] _ assms(2,3)])
         (auto simp: resourceServeHTTP_def requiredRole_def go_const)
  next
    case 2
    with assms(1) show ?thesis
      by (intro role_authorised [OF _ k8s.update_permitted _ assms(2,3)])
         (auto simp: resourceServeHTTP_def requiredRole_def go_const)
  next
    case 3
    with assms(1) show ?thesis
      by (intro role_authorised [OF _ k8s.patch_permitted _ assms(2,3)])
         (auto simp: resourceServeHTTP_def requiredRole_def go_const)
  next
    case 4
    have "always (permittedCall ns (rq_Method r)) (deleteServeHTTP (NewModelServiceStore ns) r w)"
      unfolding 4 by (rule k8s.delete_permitted)
    with 4 assms(1) show ?thesis
      by (intro role_authorised [OF _ _ _ assms(2,3)])
         (auto simp: resourceServeHTTP_def requiredRole_def go_const)
  qed (use assms in \<open>simp add: resourceServeHTTP_def\<close>)
qed

lemma protected_authorised:
  assumes "exec (serveMux (protectedRoutes (newServerHandlers x (NewModelServiceStore ns) checker maxReplicas defaults)) r w)
      tr (r', w')"
    and "e \<in> set tr" "clusterCall e"
  shows "authorised ns r e"
proof (cases rule: serveMux_cases [of "protectedRoutes (newServerHandlers x (NewModelServiceStore ns) checker maxReplicas defaults)" r w])
  case (own leaf)
  with assms have "tr = []" by (auto simp: exec_serveLeaf intro: always_False_exec)
  with assms(2) show ?thesis by simp
next
  case (star w0)
  with assms(1,2) show ?thesis by simp
next
  case (routed p h vs)
  have same: "authorised ns (r\<lparr>rq_PathValues := vs\<rparr>) e \<longleftrightarrow> authorised ns r e"
    by (simp add: authorised_def IdentityFromContext_def)
  from routed(1) have "h = collectionServeHTTP (RequireAnyRole [RoleModelViewer] (serveLeaf (listServeHTTP (NewModelServiceStore ns))))
        (RequireAnyRole [RoleModelDeployer] (serveLeaf (createServeHTTP x (NewModelServiceStore ns) maxReplicas defaults))) \<or>
      h = RequireAnyRole [RoleModelViewer] (serveLeaf (getStatusServeHTTP (NewModelServiceStore ns))) \<or>
      h = resourceServeHTTP (RequireAnyRole [RoleModelViewer] (serveLeaf (getServeHTTP (NewModelServiceStore ns))))
        (RequireAnyRole [RoleModelDeployer] (serveLeaf (updateServeHTTP x (NewModelServiceStore ns) maxReplicas defaults)))
        (RequireAnyRole [RoleModelDeployer] (serveLeaf (patchServeHTTP x (NewModelServiceStore ns) maxReplicas defaults)))
        (RequireAnyRole [RolePlatformAdmin] (serveLeaf (deleteServeHTTP (NewModelServiceStore ns))))"
    by (auto simp: protectedRoutes_def Let_def newServerHandlers_def)
  with assms(1) routed(4) have "authorised ns (r\<lparr>rq_PathValues := vs\<rparr>) e"
    using collection_authorised status_authorised resource_authorised assms(2,3) by metis
  with same show ?thesis by simp
qed

section \<open>The public routes\<close>

lemma publicMux_cases:
  assumes "exec (publicMux x verify metrics checker st maxReplicas defaults r w) tr (r', w')"
  obtains (own) "tr = []"
  | (ready) vs where "matchPattern (literalPattern [''readyz''] False) (rq_EscapedPath r) = Some vs"
      "rq_Method r \<noteq> ''CONNECT'' \<longrightarrow> cleanPath (rq_EscapedPath r) = rq_EscapedPath r"
      "exec (readinessServeHTTP checker (r\<lparr>rq_PathValues := vs\<rparr>) w) tr w'"
  | (metrics) vs where "exec (metrics (r\<lparr>rq_PathValues := vs\<rparr>) w) tr (r', w')"
  | (api) vs where "matchPattern (literalPattern [''api'', ''v1''] True) (rq_EscapedPath r) = Some vs"
      "exec (Authentication verify (AuditLogging
         (serveMux (protectedRoutes (newServerHandlers x st checker maxReplicas defaults)))) (r\<lparr>rq_PathValues := vs\<rparr>) w) tr (r', w')"
proof (cases rule: serveMux_cases [of "publicRoutes verify metrics (newServerHandlers x st checker maxReplicas defaults)" r w])
  case (own leaf)
  with assms show ?thesis
    by (intro that(1)) (auto simp: publicMux_def exec_serveLeaf intro: always_False_exec)
next
  case (star w0)
  with assms show ?thesis by (intro that(1)) (simp add: publicMux_def)
next
  case (routed p h vs)
  from assms routed(4) have run: "exec (h (r\<lparr>rq_PathValues := vs\<rparr>) w) tr (r', w')" by (simp add: publicMux_def)
  from routed(1) consider "h = serveLeaf Health"
    | "h = serveLeaf (readinessServeHTTP checker)" "p = literalPattern [''readyz''] False"
    | "h = metrics"
    | "h = Authentication verify (AuditLogging
         (serveMux (protectedRoutes (newServerHandlers x st checker maxReplicas defaults))))"
      "p = literalPattern [''api'', ''v1''] True"
    by (auto simp: publicRoutes_def newServerHandlers_def)
  then show ?thesis
  proof cases
    case 1
    with run show ?thesis by (intro that(1)) (auto simp: exec_serveLeaf Health_def split: if_splits)
  next
    case 2
    with run routed show ?thesis by (intro that(2) [of vs]) (auto simp: exec_serveLeaf)
  next
    case 3
    with run show ?thesis by (intro that(3) [of vs]) simp
  next
    case 4
    with run routed show ?thesis by (intro that(4) [of vs]) auto
  qed
qed

lemma exec_readiness:
  assumes "exec (readinessServeHTTP (Some (readinessCheck ns)) r w) tr w'" "e \<in> set tr"
  shows "rq_Method r = ''GET''" "\<exists>res. e = EList ns (Some 1) res"
  using assms by (auto simp: readinessServeHTTP_def readinessCheck_def Let_def exec_List_iff split: if_splits sum.splits)

lemma cleanPath_rooted: "\<exists>p'. cleanPath p = CHR ''/'' # p'"
proof -
  have "\<exists>p'. rootedClean q = CHR ''/'' # p'" for q
    by (cases "cleanSegments [] (splitOn (CHR ''/'') q)") (auto simp: rootedClean_def)
  then show ?thesis by (auto simp: cleanPath_def Let_def) (metis append_Cons)+
qed

lemma pathUnescape_slash: "pathUnescape (CHR ''/'' # p) = CHR ''/'' # pathUnescape p"
  by (cases "percentDecode p") (simp_all add: pathUnescape_def)

text \<open>A pattern of one literal segment matches exactly the path of that segment.\<close>

lemma single_segment_path:
  assumes "matchPattern (literalPattern [l] False) p = Some vs" "cleanPath p = p" "l \<noteq> ''/''"
  shows "pathUnescape p = CHR ''/'' # l"
proof -
  obtain q where p: "p = CHR ''/'' # q" using cleanPath_rooted [of p] assms(2) by auto
  have "q \<noteq> []" using assms(1,3) p by (auto simp: matchPattern_def literalPattern_def firstSegment_def)
  with assms(1) p have "pathUnescape (takeWhile (\<lambda>c. c \<noteq> CHR ''/'') q) = l" "dropWhile (\<lambda>c. c \<noteq> CHR ''/'') q = []"
    by (auto simp: matchPattern_def literalPattern_def firstSegment_def Let_def simp del: dropWhile_eq_Nil_conv
        split: if_splits)
  then have "pathUnescape q = l" by (metis append_Nil2 takeWhile_dropWhile_id)
  then show ?thesis using p by (simp add: pathUnescape_slash)
qed

text \<open>An event of the middle part of a trace that is in neither end.\<close>

lemma server_inner:
  assumes "exec (NewServer x verify metrics checker st maxReplicas defaults r w) tr (r', w')"
  shows "\<exists>r0 a inner b w0 w1 r1. wire r0 = wire r \<and>
    exec (publicMux x verify metrics checker st maxReplicas defaults r0 w0) inner (r1, w1) \<and>
    tr = a @ inner @ b \<and> (\<forall>e\<in>set a \<union> set b. \<not> clusterCall e)"
proof -
  from assms obtain i tr1 tr2 r'' where a: "tr = tr1 @ tr2" "chosenID r tr1 i"
    "exec (RequestLogging (RequestMetrics (publicMux x verify metrics checker st maxReplicas defaults))
       (r\<lparr>rq_RequestID := Some i\<rparr>) (setHeader ''X-Request-ID'' i w)) tr2 (r'', w')"
    unfolding NewServer_eq by (rule exec_RequestID)
  have a1: "\<forall>e\<in>set tr1. \<not> clusterCall e" using a(2) by (auto simp: chosenID_def Let_def split: if_splits)
  from a(3) obtain t t' tr3 w1 l where b: "tr2 = ENow t # tr3 @ [ENow t', EOut l]"
    "exec (RequestMetrics (publicMux x verify metrics checker st maxReplicas defaults)
       (r\<lparr>rq_RequestID := Some i\<rparr>) (pushRecorder (setHeader ''X-Request-ID'' i w))) tr3 (r'', w1)"
    by (rule exec_RequestLogging) blast
  from b(2) show ?thesis
  proof (cases rule: exec_RequestMetrics)
    case scrape
    with a(1) b(1) a1 show ?thesis
      by (intro exI [of _ "r\<lparr>rq_RequestID := Some i\<rparr>"] exI [of _ "tr1 @ [ENow t]"] exI [of _ tr3]
          exI [of _ "[ENow t', EOut l]"] exI conjI) auto
  next
    case (measured t2 t2' tr4 w2)
    with a(1) b(1) a1 show ?thesis
      by (intro exI [of _ "r\<lparr>rq_RequestID := Some i\<rparr>"] exI [of _ "tr1 @ [ENow t, EOut InFlightInc, ENow t2]"] exI [of _ tr4]
          exI [of _ "[EOut (RequestsInc (rq_Method r'') (metricRoute r'') (showInt (recordedStatus w2))), ENow t2',
            EOut (DurationObserve (rq_Method r'') (metricRoute r'') (showInt (recordedStatus w2)) (t2' - t2)),
            EOut InFlightDec, ENow t', EOut l]"] exI conjI) auto
  qed
qed

lemma first_part_event:
  assumes "xs @ ys = pre @ e # post" "e \<notin> set ys"
  obtains q where "xs = pre @ e # q"
proof -
  from assms(1) obtain us where "xs = pre @ us \<and> us @ ys = e # post \<or> xs @ us = pre \<and> ys = us @ e # post"
    by (auto simp: append_eq_append_conv2)
  with assms(2) show ?thesis by (cases us) (auto intro: that)
qed

lemma middle_event:
  assumes "a @ inner @ b = pre @ e # post" "e \<notin> set a" "e \<notin> set b"
  obtains p q where "inner = p @ e # q" "pre = a @ p"
proof -
  from assms(1) obtain us where "a = pre @ us \<and> us @ inner @ b = e # post \<or> a @ us = pre \<and> inner @ b = us @ e # post"
    by (auto simp: append_eq_append_conv2)
  then show ?thesis
  proof (elim disjE conjE)
    assume "a = pre @ us" "us @ inner @ b = e # post"
    with assms(2) have "a = pre" "inner @ b = [] @ e # post" by (cases us; auto)+
    with assms(3) show ?thesis using that [of "[]"] by (metis append_Nil append_Nil2 first_part_event)
  next
    assume u: "a @ us = pre" "inner @ b = us @ e # post"
    obtain q where "inner = us @ e # q" using first_part_event [OF u(2) assms(3)] .
    with u(1) show ?thesis by (intro that) auto
  qed
qed

section \<open>Access control\<close>

text \<open>C2. Access control of the whole server. Whatever the world answers, a request leads to a call to the
  Kubernetes API only in two cases. Either it is the readiness probe, GET of \<^verbatim>\<open>/readyz\<close>, which lists
  one ModelService of the API's namespace. Or its bearer token was verified before, the token has a
  subject and carries the role the method needs (model-viewer to read, model-deployer to create, replace
  and patch, platform-admin to delete), and the call is one that the method may make: on
  ModelServices, in the API's namespace only. The handler of \<^verbatim>\<open>/metrics\<close> is the Prometheus library's; it is
  assumed to make none of the calls of the model.\<close>

theorem access_control:
  assumes "exec (NewServer x oidcVerify metrics (Some (readinessCheck ns)) (NewModelServiceStore ns) maxReplicas defaults r w)
      tr (r', w')"
    and "\<forall>r w. always (\<lambda>_. False) (metrics r w)"
    and "tr = pre @ e # post" and "clusterCall e"
  shows "(rq_Method r = ''GET'' \<and> urlPath r = ''/readyz'' \<and> (\<exists>res. e = EList ns (Some 1) res)) \<or>
    (\<exists>tok claims role. bearerToken (headerGet r ''Authorization'') = Some tok \<and>
       EVerify tok (Inr (Inr claims)) \<in> set pre \<and> cl_Subject claims \<noteq> [] \<and>
       requiredRole (rq_Method r) = Some role \<and> role \<in> set (ra_Roles (cl_RealmAccess claims)) \<and>
       permittedCall ns (rq_Method r) e)"
proof -
  let ?mux = "publicMux x oidcVerify metrics (Some (readinessCheck ns)) (NewModelServiceStore ns) maxReplicas defaults"
  obtain r0 a inner b w0 w1 r1 where r0: "wire r0 = wire r" and run: "exec (?mux r0 w0) inner (r1, w1)"
    and tr: "tr = a @ inner @ b" "\<forall>e\<in>set a \<union> set b. \<not> clusterCall e"
    using server_inner [OF assms(1)] by metis
  have "e \<notin> set a" "e \<notin> set b" using tr(2) assms(4) by auto
  with tr(1) assms(3) obtain p q where inner: "inner = p @ e # q" and pre: "pre = a @ p"
    using middle_event by metis
  note fields = wire_fields [OF r0]
  from run show ?thesis
  proof (cases rule: publicMux_cases)
    case (ready vs)
    from exec_readiness [OF ready(3)] inner have "rq_Method r0 = ''GET''" "\<exists>res. e = EList ns (Some 1) res" by auto
    moreover from this ready(1,2) have "urlPath r0 = ''/readyz''"
      by (simp add: urlPath_def single_segment_path)
    ultimately show ?thesis using fields by simp
  next
    case (metrics vs)
    with assms(2) have "inner = []" by (blast intro: always_False_exec)
    with inner show ?thesis by simp
  next
    case (api vs)
    from api(2) show ?thesis
    proof (cases rule: exec_Authentication)
      case (refused message)
      then have "\<not> clusterCall e" using inner by fastforce
      with assms(4) show ?thesis by simp
    next
      case (accepted tok claims tr1 r2)
      with inner assms(4) have e: "e \<in> set tr1" and v: "EVerify tok (Inr (Inr claims)) \<in> set p"
        by (auto simp: Cons_eq_append_conv)
      have "authorised ns (r0\<lparr>rq_PathValues := vs, rq_Identity := Some (identityOf claims)\<rparr>) e"
        using accepted(5)
      proof (cases rule: exec_AuditLogging)
        case skipped
        from protected_authorised [OF skipped(2) e assms(4)] show ?thesis .
      next
        case (audited tr2 w2)
        with e assms(4) have "e \<in> set tr2" by auto
        from protected_authorised [OF audited(3) this assms(4)] show ?thesis .
      qed
      then obtain role where "requiredRole (rq_Method r0) = Some role" "role \<in> set (ra_Roles (cl_RealmAccess claims))"
          "permittedCall ns (rq_Method r0) e"
        by (auto simp: authorised_def IdentityFromContext_def identityOf_def)
      moreover have "bearerToken (headerGet r0 ''Authorization'') = Some tok"
        using accepted(1) by (simp add: headerGet_def)
      ultimately show ?thesis using fields accepted(2) v pre by auto
    qed
  qed (use inner in simp)
qed

section \<open>A concrete listing\<close>

definition sampleClaims :: Claims where
  "sampleClaims = \<lparr>cl_Subject = ''user-1'', cl_PreferredUsername = ''ada'', cl_AuthorizedParty = ''portal'',
     cl_RealmAccess = \<lparr>ra_Roles = [''model-viewer'', ''model-deployer'']\<rparr>\<rparr>"

text \<open>A world that accepts every token, and the server in it.\<close>

definition trustingWorld :: "unit world" where
  "trustingWorld = sampleServer\<lparr>w_verify := (\<lambda>t s. (Inr (Inr sampleClaims), s)), w_list := (\<lambda>n l s. (Inr [], s))\<rparr>"

definition plainMetrics :: handler where
  "plainMetrics r w = Ret (r, writeHeader 200 w)"

definition sampleAPI :: handler where
  "sampleAPI = NewServer sampleExt oidcVerify plainMetrics (Some (readinessCheck ''ai-platform''))
     (NewModelServiceStore ''ai-platform'') 10 sampleDefaults"

definition apiRequest :: "string \<Rightarrow> string \<Rightarrow> string \<Rightarrow> http_request" where
  "apiRequest method path body =
     \<lparr>rq_Method = method, rq_RequestURI = path, rq_ProtoAtLeast11 = True, rq_EscapedPath = path, rq_RawQuery = [],
      rq_Header = [''Authorization'' \<mapsto> [''Bearer token-1''], ''X-Request-Id'' \<mapsto> [''id-7'']],
      rq_Body = body, rq_BodyFails = False, rq_RemoteAddr = ''10.0.0.1:4711'', rq_RequestID = None,
      rq_Identity = None, rq_PathValues = []\<rparr>"

definition apiTrace :: "http_request \<Rightarrow> event list" where
  "apiTrace r = fst (run trustingWorld (sampleAPI r freshWriter) ())"

definition apiResult :: "http_request \<Rightarrow> http_request \<times> rw" where
  "apiResult r = fst (snd (run trustingWorld (sampleAPI r freshWriter) ()))"

lemma exec_api:
  "exec (NewServer sampleExt oidcVerify plainMetrics (Some (readinessCheck ''ai-platform''))
     (NewModelServiceStore ''ai-platform'') 10 sampleDefaults r freshWriter) (apiTrace r) (fst (apiResult r), snd (apiResult r))"
  unfolding sampleAPI_def [symmetric]
  by (rule run_exec [of trustingWorld _ "()" _ _ "()"]) (simp add: apiTrace_def apiResult_def prod_eq_iff)

lemma plainMetrics_silent: "\<forall>r w. always (\<lambda>_. False) (plainMetrics r w)"
  by (simp add: plainMetrics_def)

abbreviation sampleListing :: http_request where
  "sampleListing \<equiv> apiRequest ''GET'' ''/api/v1/model-services'' []"

lemma sampleListing_runs:
  "list_ex clusterCall (apiTrace sampleListing)" "urlPath sampleListing \<noteq> ''/readyz''"
  by code_simp+

theorem access_control_witness:
  "\<exists>pre e post tok claims. apiTrace sampleListing = pre @ e # post \<and> clusterCall e \<and>
     EVerify tok (Inr (Inr claims)) \<in> set pre \<and> ''model-viewer'' \<in> set (ra_Roles (cl_RealmAccess claims)) \<and>
     permittedCall ''ai-platform'' ''GET'' e"
proof -
  from sampleListing_runs(1) obtain e where "e \<in> set (apiTrace sampleListing)" "clusterCall e"
    by (auto simp: list_ex_iff)
  then obtain pre post where "apiTrace sampleListing = pre @ e # post" by (meson split_list)
  with access_control [OF exec_api plainMetrics_silent this \<open>clusterCall e\<close>] sampleListing_runs(2) \<open>clusterCall e\<close>
  show ?thesis
    by (intro exI [of _ pre] exI [of _ e] exI [of _ post]) (auto simp: apiRequest_def requiredRole_def)
qed

end
