(* ===== verification/Observability.thy ===== *)
theory Observability
  imports Access
begin

text \<open>
  What the server tells about its work: every request is answered once, logged once and counted once,
  under one request identifier; every authenticated mutation leaves exactly one audit record, with the
  status that was sent.
\<close>

section \<open>Events of the handlers\<close>

text \<open>The records of the observing middlewares.\<close>

definition logNamed :: "string \<Rightarrow> event \<Rightarrow> bool" where
  "logNamed message e =
     (case e of EOut out \<Rightarrow> (case out of LogOut l \<Rightarrow> le_Message l = message | _ \<Rightarrow> False) | _ \<Rightarrow> False)"

definition isAudit :: "event \<Rightarrow> bool" where
  "isAudit e \<longleftrightarrow> logNamed ''api_audit'' e"

text \<open>Metrics and request log records.\<close>

definition observed :: "event \<Rightarrow> bool" where
  "observed e =
     (case e of EOut out \<Rightarrow> (case out of LogOut l \<Rightarrow> le_Message l = ''http_request'' | _ \<Rightarrow> True) | _ \<Rightarrow> False)"

text \<open>An event of a handler: none of these.\<close>

definition innerEvent :: "event \<Rightarrow> bool" where
  "innerEvent e \<longleftrightarrow> \<not> isAudit e \<and> \<not> observed e"

lemma event_class_simps [simp]:
  "\<not> isAudit (EObj c res)" "\<not> isAudit (EDel obj p res')" "\<not> isAudit (EList n l res'')" "\<not> isAudit (ENow t)"
  "\<not> isAudit (ERand k rnd)" "\<not> isAudit (EVerify tok v)"
  "isAudit (EOut (logEntry level m attrs)) \<longleftrightarrow> m = ''api_audit''"
  "\<not> isAudit (EOut InFlightInc)" "\<not> isAudit (EOut InFlightDec)" "\<not> isAudit (EOut (RequestsInc a b d))"
  "\<not> isAudit (EOut (DurationObserve a b d t))"
  "\<not> observed (EObj c res)" "\<not> observed (EDel obj p res')" "\<not> observed (EList n l res'')" "\<not> observed (ENow t)"
  "\<not> observed (ERand k rnd)" "\<not> observed (EVerify tok v)"
  "observed (EOut (logEntry level m attrs)) \<longleftrightarrow> m = ''http_request''"
  "observed (EOut InFlightInc)" "observed (EOut InFlightDec)" "observed (EOut (RequestsInc a b d))"
  "observed (EOut (DurationObserve a b d t))"
  by (simp_all add: isAudit_def logNamed_def observed_def logEntry_def)

lemma record_classes [simp]:
  "isAudit (EOut (auditRecord r code))" "\<not> observed (EOut (auditRecord r code))"
  "observed (EOut (requestLog r code t))" "\<not> isAudit (EOut (requestLog r code t))"
  by (simp_all add: auditRecord_def requestLog_def)

lemma inner_getFailed:
  "event \<noteq> ''api_audit'' \<Longrightarrow> event \<noteq> ''http_request'' \<Longrightarrow> always innerEvent (getFailed event message name e r w)"
  by (simp add: getFailed_def logFailure_def innerEvent_def)

context namespaced_store
begin

lemma inner_store:
  "always innerEvent (sto_Get st name)" "always innerEvent (sto_Create st ms)" "always innerEvent (sto_Update st ms)"
  "always innerEvent (sto_Delete st ms)" "always innerEvent (sto_List st)"
  by (rule always_of_exec; auto simp: innerEvent_def get_exec create_exec update_exec delete_exec list_exec)+

lemma inner_storeUpdated:
  "event \<noteq> ''api_audit'' \<Longrightarrow> event \<noteq> ''http_request'' \<Longrightarrow> always innerEvent (storeUpdated st event name ms r w)"
  unfolding storeUpdated_def
  by (rule always_bindI) (auto simp: logFailure_def innerEvent_def split: sum.split intro: inner_store)

lemma inner_leaves:
  "always innerEvent (listServeHTTP st r w)" "always innerEvent (getServeHTTP st r w)"
  "always innerEvent (getStatusServeHTTP st r w)"
  "always innerEvent (createServeHTTP x st maxReplicas defaults r w)"
  "always innerEvent (updateServeHTTP x st maxReplicas defaults r w)"
  "always innerEvent (patchServeHTTP x st maxReplicas defaults r w)"
  "always innerEvent (deleteServeHTTP st r w)"
  by (auto simp: listServeHTTP_def getServeHTTP_def getStatusServeHTTP_def createServeHTTP_def createDecoded_def
      updateServeHTTP_def updateLoaded_def patchServeHTTP_def patchLoaded_def deleteServeHTTP_def deleteLoaded_def
      Let_def logFailure_def innerEvent_def [of "EOut _"] split: sum.split
      intro!: always_bindI inner_store always_withRequestBody always_rejectGitOps inner_storeUpdated inner_getFailed)

end

lemma inner_role:
  assumes "\<And>r w. always innerEvent (h r w)" "exec (RequireAnyRole roles (serveLeaf h) r w) tr (r', w')"
  shows "list_all innerEvent tr"
  using assms(2)
  by (cases rule: exec_RequireAnyRole) (auto simp: innerEvent_def exec_serveLeaf intro: always_exec [OF _ assms(1)])

lemma protected_inner:
  assumes "exec (serveMux (protectedRoutes (newServerHandlers x (NewModelServiceStore ns) checker maxReplicas defaults)) r w)
      tr (r', w')"
  shows "list_all innerEvent tr"
proof (cases rule: serveMux_cases [of "protectedRoutes (newServerHandlers x (NewModelServiceStore ns) checker maxReplicas defaults)" r w])
  case (own leaf)
  with assms have "tr = []" by (auto simp: exec_serveLeaf intro: always_False_exec)
  then show ?thesis by simp
next
  case (star w0)
  with assms show ?thesis by simp
next
  case (routed p h vs)
  with assms have "exec (h (r\<lparr>rq_PathValues := vs\<rparr>) w) tr (r', w')" by simp
  with routed(1) show ?thesis
    by (auto simp: protectedRoutes_def Let_def newServerHandlers_def collectionServeHTTP_def resourceServeHTTP_def
        split: if_splits intro: inner_role [OF k8s.inner_leaves(1)] inner_role [OF k8s.inner_leaves(2)]
        inner_role [OF k8s.inner_leaves(3)] inner_role [OF k8s.inner_leaves(4)] inner_role [OF k8s.inner_leaves(5)]
        inner_role [OF k8s.inner_leaves(6)] inner_role [OF k8s.inner_leaves(7)])
qed

section \<open>The anatomy of a request\<close>

text \<open>The metrics events around a request that took the time \<open>d\<close>.\<close>

definition measuredAround :: "http_request \<Rightarrow> int \<Rightarrow> event list \<Rightarrow> event list \<Rightarrow> bool" where
  "measuredAround r code before after \<longleftrightarrow>
     (if urlPath r = ''/metrics'' then before = [] \<and> after = []
      else \<exists>t t'. before = [EOut InFlightInc, ENow t] \<and>
        after = [EOut (RequestsInc (rq_Method r) (metricRoute r) (showInt code)), ENow t',
          EOut (DurationObserve (rq_Method r) (metricRoute r) (showInt code) (t' - t)), EOut InFlightDec])"

lemma popRecorder_sent [simp]: "rw_Sent (popRecorder w) = rw_Sent w" "rw_Body (popRecorder w) = rw_Body w"
  by (simp_all add: popRecorder_def)

lemma sameRequest_observed:
  assumes "sameRequest r r'"
  shows "requestLog r' code t = requestLog r code t" "metricRoute r' = metricRoute r" "rq_Method r' = rq_Method r"
    "urlPath r' = urlPath r" "measuredAround r' code before after = measuredAround r code before after"
    "RequestIDFromContext r' = RequestIDFromContext r"
proof -
  note fields = wire_fields [of r' r]
  have w: "wire r' = wire r" and i: "rq_RequestID r' = rq_RequestID r" using assms by (simp_all add: sameRequest_def)
  show "RequestIDFromContext r' = RequestIDFromContext r" using i by (simp add: RequestIDFromContext_def)
  then show "requestLog r' code t = requestLog r code t" using fields [OF w] by (simp add: requestLog_def)
  show mr: "metricRoute r' = metricRoute r" using fields [OF w] by (simp add: metricRoute_def)
  show m: "rq_Method r' = rq_Method r" and u: "urlPath r' = urlPath r" using fields [OF w] by simp_all
  show "measuredAround r' code before after = measuredAround r code before after"
    by (simp add: measuredAround_def mr m u)
qed

lemma exec_measured:
  assumes "exec (RequestMetrics inner r w) tr (r', w')" "sound_handler inner" "pristine w"
  shows "\<exists>before mid after w0 w1 code. tr = before @ mid @ after \<and> measuredAround r code before after \<and>
    exec (inner r w0) mid (r', w1) \<and> pristine w0 \<and>
    rw_Sent w' = rw_Sent w1 \<and> map_option fst (rw_Sent w1) = Some code"
  using assms(1)
proof (cases rule: exec_RequestMetrics)
  case scrape
  from sound_handler.answers_exec(2) [OF assms(2,3) scrape(2)] obtain code hs where "rw_Sent w' = Some (code, hs)"
    by (auto simp: goodResponse_def)
  with scrape assms(3) show ?thesis
    by (intro exI [of _ "[]"] exI [of _ tr] exI [of _ w] exI [of _ w'] exI [of _ code]) (simp add: measuredAround_def)
next
  case (measured t t' tr1 w1)
  have p: "pristine (pushRecorder w)" using assms(3) by simp
  note answer = sound_handler.answers_exec [OF assms(2) p measured(3)]
  have sent: "\<exists>hs. rw_Sent w1 = Some (recordedStatus w1, hs)" using goodResponse_recorder(2) [OF answer(2)] by blast
  note same = sameRequest_observed [OF answer(1)]
  have "measuredAround r (recordedStatus w1) [EOut InFlightInc, ENow t]
      [EOut (RequestsInc (rq_Method r') (metricRoute r') (showInt (recordedStatus w1))), ENow t',
       EOut (DurationObserve (rq_Method r') (metricRoute r') (showInt (recordedStatus w1)) (t' - t)), EOut InFlightDec]"
    using measured(1) same by (auto simp: measuredAround_def)
  with measured p sent show ?thesis
    by (elim exE, intro exI [of _ "[EOut InFlightInc, ENow t]"] exI [of _ tr1] exI [of _ "[EOut (RequestsInc (rq_Method r') (metricRoute r') (showInt (recordedStatus w1))), ENow t',
       EOut (DurationObserve (rq_Method r') (metricRoute r') (showInt (recordedStatus w1)) (t' - t)), EOut InFlightDec]"] exI [of _ "pushRecorder w"] exI [of _ w1] exI [of _ "recordedStatus w1"])
       simp
qed

text \<open>
  An execution of the server: the identifier is chosen, the clock is read, the metrics go around
  what the routes do, and the log record comes last. One response is sent; its status is the one in
  the metrics and in the log.
\<close>

lemma server_anatomy:
  assumes "exec (NewServer x verify metrics checker st maxReplicas defaults r w) tr (r', w')"
    and "pristine w" "sound_handler metrics"
  shows "\<exists>i idtr t before mid after t' w0 w1 r1 code hs. let r0 = r\<lparr>rq_RequestID := Some i\<rparr> in
    chosenID r idtr i \<and>
    tr = idtr @ ENow t # before @ mid @ after @ [ENow t', EOut (requestLog r0 code (t' - t))] \<and>
    measuredAround r0 code before after \<and>
    exec (publicMux x verify metrics checker st maxReplicas defaults r0 w0) mid (r1, w1) \<and> pristine w0 \<and>
    rw_Sent w' = rw_Sent w1 \<and> rw_Sent w' = Some (code, hs) \<and> map_of hs ''X-Request-Id'' = Some i \<and>
    (\<forall>b. ErrorDoc b \<in> set (rw_Body w') \<longrightarrow> eb_RequestID b = i)"
proof -
  let ?mux = "publicMux x verify metrics checker st maxReplicas defaults"
  have mux: "sound_handler ?mux" by (rule publicMux_sound [OF assms(3)])
  have measuring: "sound_handler (RequestMetrics ?mux)" by (rule requestMetrics.wraps [OF mux])
  from assms(1) obtain i idtr tr2 r'' where a: "tr = idtr @ tr2" "chosenID r idtr i"
    "exec (RequestLogging (RequestMetrics ?mux) (r\<lparr>rq_RequestID := Some i\<rparr>) (setHeader ''X-Request-ID'' i w)) tr2 (r'', w')"
    unfolding NewServer_eq by (rule exec_RequestID)
  let ?r0 = "r\<lparr>rq_RequestID := Some i\<rparr>"
  let ?w = "setHeader ''X-Request-ID'' i w"
  from a(3) obtain t t' tr3 w2 where b: "tr2 = ENow t # tr3 @ [ENow t', EOut (requestLog r'' (recordedStatus w2) (t' - t))]"
    "exec (RequestMetrics ?mux ?r0 (pushRecorder ?w)) tr3 (r'', w2)" "w' = popRecorder w2"
    by (rule exec_RequestLogging)
  have p: "pristine (pushRecorder ?w)" using assms(2) by simp
  note answer = sound_handler.answers_exec [OF measuring p b(2)]
  from goodResponse_recorder(2) [OF answer(2)] obtain hs where
    sent: "rw_Sent w2 = Some (recordedStatus w2, hs)" "map_of hs ''X-Request-Id'' = map_of (rw_Header ?w) ''X-Request-Id''"
    by blast
  from goodResponse_recorder(1) [OF answer(2)] have errors:
    "\<forall>b. ErrorDoc b \<in> set (rw_Body w') \<longrightarrow> eb_RequestID b = i"
    unfolding b(3) goodResponse_def by (simp add: RequestIDFromContext_def)
  from exec_measured [OF b(2) mux p] obtain before mid after w0 w1 code where
    c: "tr3 = before @ mid @ after" "measuredAround ?r0 code before after" "exec (?mux ?r0 w0) mid (r'', w1)"
      "pristine w0" "rw_Sent w2 = rw_Sent w1" "map_option fst (rw_Sent w1) = Some code"
    by (elim exE conjE) (rule that)
  have code: "code = recordedStatus w2" using c(5,6) sent(1) by auto
  have log: "requestLog r'' (recordedStatus w2) (t' - t) = requestLog ?r0 code (t' - t)"
    using sameRequest_observed(1) [OF answer(1)] code by simp
  have tr: "tr = idtr @ ENow t # before @ mid @ after @ [ENow t', EOut (requestLog ?r0 code (t' - t))]"
    unfolding a(1) b(1) c(1) log by simp
  have out: "rw_Sent w' = rw_Sent w1" "rw_Sent w' = Some (code, hs)" "map_of hs ''X-Request-Id'' = Some i"
    using b(3) c(5) sent code by (simp_all add: setHeader_def canonical_keys)
  show ?thesis
    unfolding Let_def
    by (rule exI [of _ i], rule exI [of _ idtr], rule exI [of _ t], rule exI [of _ before], rule exI [of _ mid],
        rule exI [of _ after], rule exI [of _ t'], rule exI [of _ w0], rule exI [of _ w1], rule exI [of _ r''],
        rule exI [of _ code], rule exI [of _ hs], intro conjI, fact a(2), fact tr, fact c(2), fact c(3), fact c(4),
        fact out(1), fact out(2), fact out(3), fact errors)
qed

lemma chosenID_quiet: "chosenID r tr i \<Longrightarrow> filter observed tr = [] \<and> filter isAudit tr = []"
  by (auto simp: chosenID_def Let_def split: if_splits)

text \<open>Inside the routes nothing is observed, and an audit record is the last event if there is one.\<close>

definition auditedAs :: "http_request \<Rightarrow> event list \<Rightarrow> rw \<Rightarrow> bool" where
  "auditedAs r tr w' \<longleftrightarrow>
     (if isAuditedMutation (rq_Method r) \<and>
         (\<exists>tok claims. EVerify tok (Inr (Inr claims)) \<in> set tr \<and> cl_Subject claims \<noteq> [])
      then \<exists>r1 tok claims code. filter isAudit tr = [EOut (auditRecord r1 code)] \<and>
        map_option fst (rw_Sent w') = Some code \<and> EVerify tok (Inr (Inr claims)) \<in> set tr \<and>
        IdentityFromContext r1 = Some (identityOf claims) \<and> wire r1 = wire r \<and> rq_RequestID r1 = rq_RequestID r
      else filter isAudit tr = [])"

lemma auditedAs_pathValues [simp]: "auditedAs (r\<lparr>rq_PathValues := vs\<rparr>) tr w' = auditedAs r tr w'"
proof -
  have "rq_Method (r\<lparr>rq_PathValues := vs\<rparr>) = rq_Method r" "rq_RequestID (r\<lparr>rq_PathValues := vs\<rparr>) = rq_RequestID r"
    by simp_all
  then show ?thesis unfolding auditedAs_def by (simp only: wire_updates)
qed

lemma inner_filters:
  "list_all innerEvent tr \<Longrightarrow> filter observed tr = []" "list_all innerEvent tr \<Longrightarrow> filter isAudit tr = []"
  by (auto simp: list_all_iff innerEvent_def filter_empty_conv)

lemma api_events:
  assumes "exec (Authentication oidcVerify (AuditLogging (serveMux (protectedRoutes
      (newServerHandlers x (NewModelServiceStore ns) checker maxReplicas defaults)))) r w) tr (r', w')"
    and "pristine w"
  shows "filter observed tr = [] \<and> auditedAs r tr w'"
  using assms(1)
proof (cases rule: exec_Authentication)
  case (refused message)
  then have "list_all innerEvent tr" by (fastforce simp: list_all_iff innerEvent_def)
  moreover have "\<not> (\<exists>tok claims. EVerify tok (Inr (Inr claims)) \<in> set tr \<and> cl_Subject claims \<noteq> [])"
    using refused(4) by fastforce
  ultimately show ?thesis by (simp add: auditedAs_def inner_filters)
next
  case (accepted tok claims tr1 r1)
  let ?mux = "serveMux (protectedRoutes (newServerHandlers x (NewModelServiceStore ns) checker maxReplicas defaults))"
  from accepted(5) show ?thesis
  proof (cases rule: exec_AuditLogging)
    case skipped
    with inner_filters [OF protected_inner [OF skipped(2)]] accepted(3) show ?thesis by (simp add: auditedAs_def)
  next
    case (audited tr2 w2)
    have mux: "sound_handler ?mux" by (intro sound_serveMux protectedRoutes_sound)
    have p: "pristine (pushRecorder w)" using assms(2) by simp
    note answer = sound_handler.answers_exec [OF mux p audited(3)]
    from goodResponse_recorder(2) [OF answer(2)] have code: "map_option fst (rw_Sent w') = Some (recordedStatus w2)"
      using audited(4) by auto
    have ident: "IdentityFromContext r1 = Some (identityOf claims)" "wire r1 = wire r" "rq_RequestID r1 = rq_RequestID r"
      using answer(1) by (simp_all add: sameRequest_def IdentityFromContext_def)
    have logs: "filter observed tr = []" "filter isAudit tr = [EOut (auditRecord r1 (recordedStatus w2))]"
      using inner_filters [OF protected_inner [OF audited(3)]] accepted(3) audited(2) by simp_all
    have "EVerify tok (Inr (Inr claims)) \<in> set tr" using accepted(3) by simp
    with code ident logs audited(1) accepted(2) show ?thesis
      unfolding auditedAs_def by (auto intro!: exI [of _ r1] exI [of _ "recordedStatus w2"])
  qed
qed

lemma publicMux_events:
  assumes "exec (publicMux x oidcVerify metrics (Some (readinessCheck ns)) (NewModelServiceStore ns) maxReplicas defaults r w)
      tr (r', w')"
    and "pristine w" "\<forall>r w. always (\<lambda>_. False) (metrics r w)"
  shows "filter observed tr = [] \<and> auditedAs r tr w'"
  using assms(1)
proof (cases rule: publicMux_cases)
  case (ready vs)
  have "\<And>e. e \<in> set tr \<Longrightarrow> \<exists>res. e = EList ns (Some 1) res" by (rule exec_readiness [OF ready(3)])
  then have "list_all innerEvent tr" "\<not> (\<exists>tok v. EVerify tok v \<in> set tr)"
    by (fastforce simp: list_all_iff innerEvent_def)+
  then show ?thesis by (auto simp: auditedAs_def inner_filters)
next
  case (metrics vs)
  with assms(3) have "tr = []" by (blast intro: always_False_exec)
  then show ?thesis by (simp add: auditedAs_def)
next
  case (api vs)
  from api_events [OF api(2) assms(2)] show ?thesis by simp
qed (simp add: auditedAs_def)

section \<open>Every request is accounted for\<close>

definition knownRoutes :: "string list" where
  "knownRoutes = [''/healthz'', ''/readyz'', ''/metrics'', ''/api/v1/model-services'',
     ''/api/v1/model-services/{name}/status'', ''/api/v1/model-services/{name}'', ''unmatched'']"

lemma metricRoute_known: "metricRoute r \<in> set knownRoutes"
  by (simp add: metricRoute_def knownRoutes_def Let_def)

lemma measuredAround_observed:
  "measuredAround r code before after \<Longrightarrow>
   \<exists>d. filter observed before @ filter observed after =
     (if urlPath r = ''/metrics'' then [] else [EOut InFlightInc,
        EOut (RequestsInc (rq_Method r) (metricRoute r) (showInt code)),
        EOut (DurationObserve (rq_Method r) (metricRoute r) (showInt code) d), EOut InFlightDec])"
  by (auto simp: measuredAround_def split: if_splits)

lemma measuredAround_audit: "measuredAround r code before after \<Longrightarrow> filter isAudit before = [] \<and> filter isAudit after = []"
  by (auto simp: measuredAround_def split: if_splits)

text \<open>C24. Every request is answered, measured and logged exactly once and consistently: one status is sent;
  the in-flight gauge goes up once and down once, one request is counted and one duration observed, in
  this order, with the method, the sent status and a route label out of seven fixed ones (so the number of time
  series does not grow with the paths clients ask for); one request log record follows, with the sent
  status and the identifier of the request. Scrapes of \<^verbatim>\<open>/metrics\<close> are logged but not measured. The
  handler of \<^verbatim>\<open>/metrics\<close> is assumed to answer, and to make none of the calls of the model.\<close>

theorem request_accounted:
  assumes "exec (NewServer x oidcVerify metrics (Some (readinessCheck ns)) (NewModelServiceStore ns) maxReplicas defaults r w)
      tr (r', w')"
    and "pristine w" and "sound_handler metrics" and "\<forall>r w. always (\<lambda>_. False) (metrics r w)"
  shows "\<exists>i code hs d elapsed. rw_Sent w' = Some (code, hs) \<and> metricRoute r \<in> set knownRoutes \<and>
    filter observed tr =
      (if urlPath r = ''/metrics'' then []
       else [EOut InFlightInc, EOut (RequestsInc (rq_Method r) (metricRoute r) (showInt code)),
             EOut (DurationObserve (rq_Method r) (metricRoute r) (showInt code) d), EOut InFlightDec]) @
      [EOut (requestLog (r\<lparr>rq_RequestID := Some i\<rparr>) code elapsed)]"
proof -
  from server_anatomy [OF assms(1-3)] obtain i idtr t before mid after t' w0 w1 r1 code hs where
    s: "chosenID r idtr i"
      "tr = idtr @ ENow t # before @ mid @ after @ [ENow t', EOut (requestLog (r\<lparr>rq_RequestID := Some i\<rparr>) code (t' - t))]"
      "measuredAround (r\<lparr>rq_RequestID := Some i\<rparr>) code before after"
      "exec (publicMux x oidcVerify metrics (Some (readinessCheck ns)) (NewModelServiceStore ns) maxReplicas defaults
         (r\<lparr>rq_RequestID := Some i\<rparr>) w0) mid (r1, w1)" "pristine w0" "rw_Sent w' = Some (code, hs)"
    unfolding Let_def by (elim exE conjE) (rule that)
  have mid: "filter observed mid = []" using publicMux_events [OF s(4,5) assms(4)] by simp
  have same: "rq_Method (r\<lparr>rq_RequestID := Some i\<rparr>) = rq_Method r"
    "urlPath (r\<lparr>rq_RequestID := Some i\<rparr>) = urlPath r" "metricRoute (r\<lparr>rq_RequestID := Some i\<rparr>) = metricRoute r"
    by (simp_all add: urlPath_def metricRoute_def)
  from measuredAround_observed [OF s(3)] obtain d where d: "filter observed before @ filter observed after =
      (if urlPath r = ''/metrics'' then [] else [EOut InFlightInc,
        EOut (RequestsInc (rq_Method r) (metricRoute r) (showInt code)),
        EOut (DurationObserve (rq_Method r) (metricRoute r) (showInt code) d), EOut InFlightDec])"
    unfolding same by (elim exE) (rule that, simp)
  have "filter observed tr = (filter observed before @ filter observed after) @
      [EOut (requestLog (r\<lparr>rq_RequestID := Some i\<rparr>) code (t' - t))]"
    unfolding s(2) using chosenID_quiet [OF s(1)] mid by simp
  with d s(6) show ?thesis
    by (intro exI [of _ i] exI [of _ code] exI [of _ hs] exI [of _ d] exI [of _ "t' - t"])
       (simp add: metricRoute_known)
qed

text \<open>C33. One identifier runs through a request: the client's \<^verbatim>\<open>X-Request-ID\<close>, trimmed, when it is not blank,
  otherwise 16 fresh random bytes in hexadecimal (or the fixed fallback when the random source fails).
  It is in the header of the response as it was sent, in every error document of the body and in the
  request log record, which is the last event of the request.\<close>

theorem request_id_end_to_end:
  assumes "exec (NewServer x verify metrics checker st maxReplicas defaults r w) tr (r', w')"
    and "pristine w" and "sound_handler metrics"
  shows "\<exists>i code hs elapsed. rw_Sent w' = Some (code, hs) \<and>
    (let given = trimSpace (headerGet r ''X-Request-ID'') in
     if given \<noteq> [] then i = given
     else \<exists>res. ERand 16 res \<in> set tr \<and>
            i = (case res of Inl e \<Rightarrow> ''request-id-unavailable'' | Inr value \<Rightarrow> hexEncode value)) \<and>
    map_of hs ''X-Request-Id'' = Some i \<and>
    (\<forall>b. ErrorDoc b \<in> set (rw_Body w') \<longrightarrow> eb_RequestID b = i) \<and>
    last tr = EOut (requestLog (r\<lparr>rq_RequestID := Some i\<rparr>) code elapsed)"
proof -
  from server_anatomy [OF assms] obtain i idtr t before mid after t' code hs where
    s: "chosenID r idtr i"
      "tr = idtr @ ENow t # before @ mid @ after @ [ENow t', EOut (requestLog (r\<lparr>rq_RequestID := Some i\<rparr>) code (t' - t))]"
      "rw_Sent w' = Some (code, hs)" "map_of hs ''X-Request-Id'' = Some i"
      "\<forall>b. ErrorDoc b \<in> set (rw_Body w') \<longrightarrow> eb_RequestID b = i"
    unfolding Let_def by (elim exE conjE) (rule that)
  have "let given = trimSpace (headerGet r ''X-Request-ID'') in
     if given \<noteq> [] then i = given
     else \<exists>res. ERand 16 res \<in> set tr \<and>
            i = (case res of Inl e \<Rightarrow> ''request-id-unavailable'' | Inr value \<Rightarrow> hexEncode value)"
    using s(1,2) by (auto simp: chosenID_def Let_def split: if_splits)
  with s show ?thesis
    by (intro exI [of _ i] exI [of _ code] exI [of _ hs] exI [of _ "t' - t"]) simp
qed

text \<open>C17. The audit trail is exact. A mutation (POST, PUT, PATCH, DELETE) whose token was verified leaves
  exactly one audit record, with the status that was sent to the client, the subject, user name and roles of the
  verified token, and the method, route and identifier of the request. Every other request leaves none.\<close>

theorem audit_exact:
  assumes "exec (NewServer x oidcVerify metrics (Some (readinessCheck ns)) (NewModelServiceStore ns) maxReplicas defaults r w)
      tr (r', w')"
    and "pristine w" and "sound_handler metrics" and "\<forall>r w. always (\<lambda>_. False) (metrics r w)"
  shows "if isAuditedMutation (rq_Method r) \<and>
         (\<exists>tok claims. EVerify tok (Inr (Inr claims)) \<in> set tr \<and> cl_Subject claims \<noteq> [])
      then \<exists>r1 tok claims code hs i. filter isAudit tr = [EOut (auditRecord r1 code)] \<and>
        rw_Sent w' = Some (code, hs) \<and> map_of hs ''X-Request-Id'' = Some i \<and> RequestIDFromContext r1 = i \<and>
        EVerify tok (Inr (Inr claims)) \<in> set tr \<and> IdentityFromContext r1 = Some (identityOf claims) \<and>
        rq_Method r1 = rq_Method r \<and> metricRoute r1 = metricRoute r
      else filter isAudit tr = []"
proof -
  from server_anatomy [OF assms(1-3)] obtain i idtr t before mid after t' w0 w1 r1 code hs where
    s: "chosenID r idtr i"
      "tr = idtr @ ENow t # before @ mid @ after @ [ENow t', EOut (requestLog (r\<lparr>rq_RequestID := Some i\<rparr>) code (t' - t))]"
      "measuredAround (r\<lparr>rq_RequestID := Some i\<rparr>) code before after"
      "exec (publicMux x oidcVerify metrics (Some (readinessCheck ns)) (NewModelServiceStore ns) maxReplicas defaults
         (r\<lparr>rq_RequestID := Some i\<rparr>) w0) mid (r1, w1)" "pristine w0" "rw_Sent w' = rw_Sent w1" "rw_Sent w' = Some (code, hs)"
      "map_of hs ''X-Request-Id'' = Some i"
    unfolding Let_def by (elim exE conjE) (rule that)
  have logs: "filter isAudit tr = filter isAudit mid"
    unfolding s(2) using chosenID_quiet [OF s(1)] measuredAround_audit [OF s(3)] by simp
  have verify: "EVerify tok v \<in> set tr \<longleftrightarrow> EVerify tok v \<in> set mid" for tok v
    using s(1,3) unfolding s(2) by (auto simp: chosenID_def measuredAround_def Let_def split: if_splits)
  have audited: "auditedAs (r\<lparr>rq_RequestID := Some i\<rparr>) mid w1" using publicMux_events [OF s(4,5) assms(4)] by simp
  show ?thesis
  proof (cases "isAuditedMutation (rq_Method r) \<and> (\<exists>tok claims. EVerify tok (Inr (Inr claims)) \<in> set tr \<and> cl_Subject claims \<noteq> [])")
    case True
    with audited obtain r2 tok claims code' where a: "filter isAudit mid = [EOut (auditRecord r2 code')]"
        "map_option fst (rw_Sent w1) = Some code'" "EVerify tok (Inr (Inr claims)) \<in> set mid"
        "IdentityFromContext r2 = Some (identityOf claims)" "wire r2 = wire r" "rq_RequestID r2 = Some i"
      by (auto simp: auditedAs_def verify)
    have "code' = code" using a(2) s(6,7) by auto
    moreover have "rq_Method r2 = rq_Method r" "metricRoute r2 = metricRoute r" "RequestIDFromContext r2 = i"
      using wire_fields [OF a(5)] a(6) by (simp_all add: metricRoute_def RequestIDFromContext_def)
    ultimately show ?thesis using True a logs s(7,8) unfolding verify
      by (auto intro!: exI [of _ r2] exI [of _ code])
  next
    case False
    with audited show ?thesis unfolding logs verify by (auto simp: auditedAs_def)
  qed
qed

section \<open>No token, no answer\<close>

lemma api_segments:
  "matchSegments [Lit ''api'', Lit ''v1''] (''/api/v1/'' @ rest) = Some ([], CHR ''/'' # rest)"
  "l \<noteq> ''api'' \<Longrightarrow> matchSegments [Lit l] (''/api/v1/'' @ rest) = None"
  by (simp_all add: firstSegment_def pathUnescape_def)

lemma publicMux_api:
  assumes "rq_EscapedPath r = ''/api/v1/'' @ rest" "cleanPath (rq_EscapedPath r) = rq_EscapedPath r"
    and "rq_RequestURI r \<noteq> ''*''"
  shows "publicMux x verify metrics checker st maxReplicas defaults r w =
    Authentication verify (AuditLogging (serveMux (protectedRoutes (newServerHandlers x st checker maxReplicas defaults))))
      (r\<lparr>rq_PathValues := []\<rparr>) w"
proof -
  let ?routes = "publicRoutes verify metrics (newServerHandlers x st checker maxReplicas defaults)"
  let ?path = "''/api/v1/'' @ rest"
  have segs: "matchSegments [Lit ''api'', Lit ''v1''] ?path = Some ([], CHR ''/'' # rest)"
      "matchSegments [Lit ''api'', Lit ''v1''] (?path @ ''/'') = Some ([], CHR ''/'' # rest @ ''/'')"
      "l \<noteq> ''api'' \<Longrightarrow> matchSegments [Lit l] ?path = None" "l \<noteq> ''api'' \<Longrightarrow> matchSegments [Lit l] (?path @ ''/'') = None" for l
    using api_segments [of rest] api_segments [of "rest @ ''/''"] api_segments(2) [of l] by simp_all
  have exact: "\<not> list_ex (\<lambda>(p, h). exactPattern p (?path @ ''/'')) ?routes"
    using segs by (simp add: publicRoutes_def exactPattern_def literalPattern_def del: matchSegments.simps)
  then have "\<not> slashRedirect ?routes ?path" by (simp add: slashRedirect_def)
  moreover have "matchRoutes ?routes ?path = Some (Authentication verify (AuditLogging (serveMux
      (protectedRoutes (newServerHandlers x st checker maxReplicas defaults)))), [])"
    using segs by (simp add: matchRoutes_def publicRoutes_def matchPattern_def literalPattern_def del: matchSegments.simps)
  ultimately show ?thesis using assms by (simp add: publicMux_def serveMux_def Let_def)
qed

text \<open>C23. A request below \<^verbatim>\<open>/api/v1/\<close> (on a clean path) whose token is missing, malformed, refused by the OIDC
  library or without a subject is answered with 401 and a Bearer challenge, whatever its method, and
  causes no call to the Kubernetes API.\<close>

theorem token_required:
  assumes "exec (NewServer x oidcVerify metrics checker st maxReplicas defaults r w) tr (r', w')"
    and "pristine w" and "sound_handler metrics"
    and "rq_EscapedPath r = ''/api/v1/'' @ rest" and "cleanPath (rq_EscapedPath r) = rq_EscapedPath r"
    and "rq_RequestURI r \<noteq> ''*''"
    and "\<forall>tok claims. EVerify tok (Inr (Inr claims)) \<in> set tr \<longrightarrow> cl_Subject claims = []"
  shows "\<exists>hs. rw_Sent w' = Some (401, hs) \<and> map_of hs ''Www-Authenticate'' = Some ''Bearer'' \<and>
    filter clusterCall tr = []"
proof -
  from server_anatomy [OF assms(1-3)] obtain i idtr t before mid after t' w0 w1 r1 code hs where
    s: "chosenID r idtr i"
      "tr = idtr @ ENow t # before @ mid @ after @ [ENow t', EOut (requestLog (r\<lparr>rq_RequestID := Some i\<rparr>) code (t' - t))]"
      "measuredAround (r\<lparr>rq_RequestID := Some i\<rparr>) code before after"
      "exec (publicMux x oidcVerify metrics checker st maxReplicas defaults
         (r\<lparr>rq_RequestID := Some i\<rparr>) w0) mid (r1, w1)" "pristine w0" "rw_Sent w' = rw_Sent w1"
    unfolding Let_def by (elim exE conjE) (rule that)
  have outer: "filter clusterCall tr = filter clusterCall mid"
    using s(1,3) unfolding s(2) by (auto simp: chosenID_def measuredAround_def Let_def split: if_splits)
  let ?r = "r\<lparr>rq_RequestID := Some i, rq_PathValues := []\<rparr>"
  have "publicMux x oidcVerify metrics checker st maxReplicas defaults (r\<lparr>rq_RequestID := Some i\<rparr>) w0 =
    Authentication oidcVerify (AuditLogging (serveMux (protectedRoutes (newServerHandlers x st checker maxReplicas defaults)))) ?r w0"
    by (rule publicMux_api [of _ rest]) (use assms(4-6) in simp_all)
  with s(4) have "exec (Authentication oidcVerify (AuditLogging (serveMux (protectedRoutes
      (newServerHandlers x st checker maxReplicas defaults)))) ?r w0) mid (r1, w1)" by simp
  then show ?thesis
  proof (cases rule: exec_Authentication)
    case (refused message)
    have "pristine (setHeader ''Content-Type'' ''application/json'' (setHeader ''WWW-Authenticate'' ''Bearer'' w0))"
      using s(5) by simp
    from write_response(3) [OF this, of 401] have "rw_Sent w1 = Some (401,
        rw_Header (setHeader ''Content-Type'' ''application/json'' (setHeader ''WWW-Authenticate'' ''Bearer'' w0)))"
      by (simp add: refused(1) writeUnauthorized_def writeError_def WriteJSON_def)
    moreover have "map_of (rw_Header (setHeader ''Content-Type'' ''application/json''
        (setHeader ''WWW-Authenticate'' ''Bearer'' w0))) ''Www-Authenticate'' = Some ''Bearer''"
      by (simp add: setHeader_def canonical_keys)
    moreover have "filter clusterCall mid = []" using refused(4) by (fastforce simp: filter_empty_conv)
    ultimately show ?thesis unfolding s(6) outer by blast
  next
    case (accepted tok claims tr1 r2)
    then have "EVerify tok (Inr (Inr claims)) \<in> set tr" using s(2) by simp
    with assms(7) accepted(2) show ?thesis by blast
  qed
qed

section \<open>Concrete requests\<close>

interpretation plainMetrics: sound_handler plainMetrics
  by (rule sound_handlerI) (simp add: plainMetrics_def good_simps)

lemma freshWriter_pristine: "pristine freshWriter"
  by (simp add: pristine_def freshWriter_def)

lemmas sample_facts = freshWriter_pristine plainMetrics.sound_handler_axioms

theorem request_accounted_witness:
  "\<exists>code hs d elapsed. rw_Sent (snd (apiResult sampleListing)) = Some (code, hs) \<and>
    filter observed (apiTrace sampleListing) =
      [EOut InFlightInc, EOut (RequestsInc ''GET'' ''/api/v1/model-services'' (showInt code)),
       EOut (DurationObserve ''GET'' ''/api/v1/model-services'' (showInt code) d), EOut InFlightDec,
       EOut (requestLog (sampleListing\<lparr>rq_RequestID := Some ''id-7''\<rparr>) code elapsed)]"
proof -
  have route: "rq_Method sampleListing = ''GET''" "metricRoute sampleListing = ''/api/v1/model-services''"
      "urlPath sampleListing \<noteq> ''/metrics''" "trimSpace (headerGet sampleListing ''X-Request-ID'') = ''id-7''"
    by code_simp+
  from request_accounted [OF exec_api sample_facts plainMetrics_silent, of sampleListing, unfolded route]
  obtain i code hs d elapsed where c: "rw_Sent (snd (apiResult sampleListing)) = Some (code, hs)"
    "filter observed (apiTrace sampleListing) =
      [EOut InFlightInc, EOut (RequestsInc ''GET'' ''/api/v1/model-services'' (showInt code)),
       EOut (DurationObserve ''GET'' ''/api/v1/model-services'' (showInt code) d), EOut InFlightDec,
       EOut (requestLog (sampleListing\<lparr>rq_RequestID := Some i\<rparr>) code elapsed)]"
    using route(3) by (elim exE conjE) (rule that, simp_all)
  have "list_all (\<lambda>e. case e of EOut (LogOut l) \<Rightarrow> map_of (le_Attrs l) ''request_id'' = Some (LStr ''id-7'') | _ \<Rightarrow> True)
      (filter observed (apiTrace sampleListing))" by code_simp
  then have "i = ''id-7''" unfolding c(2)
    by (simp add: requestLog_def logEntry_def RequestIDFromContext_def)
  with c show ?thesis by blast
qed

theorem request_id_end_to_end_witness:
  "\<exists>code hs. rw_Sent (snd (apiResult sampleListing)) = Some (code, hs) \<and> map_of hs ''X-Request-Id'' = Some ''id-7''"
proof -
  have "trimSpace (headerGet sampleListing ''X-Request-ID'') = ''id-7''" by code_simp
  with request_id_end_to_end [OF exec_api sample_facts, of sampleListing] show ?thesis by (auto simp: Let_def)
qed

abbreviation sampleMisdirected :: http_request where
  "sampleMisdirected \<equiv> apiRequest ''DELETE'' ''/api/v1/model-services'' []"

lemma verified_case:
  "(case e of EVerify tok (Inr (Inr c)) \<Rightarrow> P c | _ \<Rightarrow> False) \<longleftrightarrow> (\<exists>tok c. e = EVerify tok (Inr (Inr c)) \<and> P c)"
proof (cases e)
  case (EVerify tok v)
  then show ?thesis by (cases v; cases "projr v") auto
qed auto

theorem audit_exact_witness:
  "\<exists>r1 tok claims code hs. filter isAudit (apiTrace sampleMisdirected) = [EOut (auditRecord r1 code)] \<and>
     rw_Sent (snd (apiResult sampleMisdirected)) = Some (code, hs) \<and>
     EVerify tok (Inr (Inr claims)) \<in> set (apiTrace sampleMisdirected) \<and>
     IdentityFromContext r1 = Some (identityOf claims)"
proof -
  have "list_ex (\<lambda>e. case e of EVerify tok (Inr (Inr c)) \<Rightarrow> cl_Subject c \<noteq> [] | _ \<Rightarrow> False) (apiTrace sampleMisdirected)"
    by code_simp
  then have "\<exists>tok claims. EVerify tok (Inr (Inr claims)) \<in> set (apiTrace sampleMisdirected) \<and> cl_Subject claims \<noteq> []"
    unfolding list_ex_iff verified_case by blast
  moreover have "isAuditedMutation (rq_Method sampleMisdirected)" by code_simp
  ultimately have cond: "isAuditedMutation (rq_Method sampleMisdirected) \<and>
      (\<exists>tok claims. EVerify tok (Inr (Inr claims)) \<in> set (apiTrace sampleMisdirected) \<and> cl_Subject claims \<noteq> [])" by blast
  note audited = audit_exact [OF exec_api sample_facts plainMetrics_silent, of sampleMisdirected, unfolded if_P [OF cond]]
  from audited show ?thesis
  proof (elim exE conjE)
    fix r1 tok claims code hs
    assume "filter isAudit (apiTrace sampleMisdirected) = [EOut (auditRecord r1 code)]"
      "rw_Sent (snd (apiResult sampleMisdirected)) = Some (code, hs)"
      "EVerify tok (Inr (Inr claims)) \<in> set (apiTrace sampleMisdirected)" "IdentityFromContext r1 = Some (identityOf claims)"
    then show ?thesis
      by (intro exI [of _ r1] exI [of _ tok] exI [of _ claims] exI [of _ code] exI [of _ hs] conjI)
  qed
qed

abbreviation sampleAnonymous :: http_request where
  "sampleAnonymous \<equiv> (apiRequest ''DELETE'' ''/api/v1/model-services/fraud-model'' [])\<lparr>rq_Header := [''X-Request-Id'' \<mapsto> [''id-8'']]\<rparr>"

theorem token_required_witness:
  "\<exists>hs. rw_Sent (snd (apiResult sampleAnonymous)) = Some (401, hs) \<and> map_of hs ''Www-Authenticate'' = Some ''Bearer''"
proof -
  have path: "rq_EscapedPath sampleAnonymous = ''/api/v1/'' @ ''model-services/fraud-model''"
      "cleanPath (rq_EscapedPath sampleAnonymous) = rq_EscapedPath sampleAnonymous" "rq_RequestURI sampleAnonymous \<noteq> ''*''"
    by code_simp+
  have "list_all (\<lambda>e. case e of EVerify tok v \<Rightarrow> False | _ \<Rightarrow> True) (apiTrace sampleAnonymous)" by code_simp
  then have "\<forall>tok claims. EVerify tok (Inr (Inr claims)) \<in> set (apiTrace sampleAnonymous) \<longrightarrow> cl_Subject claims = []"
    by (fastforce simp: list_all_iff)
  from token_required [OF exec_api sample_facts path this] show ?thesis by blast
qed

end
