(* ===== verification/Startup.thy ===== *)
theory Startup
  imports Observability
begin

text \<open>
  The configuration of the REST API (\<^verbatim>\<open>internal/api/config\<close>), its logger
  (\<^verbatim>\<open>internal/api/logging\<close>) and the program \<^verbatim>\<open>cmd/platform-api\<close> that puts the server together
  and ends it. The environment is a function from names to values; an unset variable is the empty string, as
  \<^verbatim>\<open>os.Getenv\<close> returns it.
\<close>

section \<open>Configuration\<close>

definition defaultHTTPAddress :: string where [go_const]: "defaultHTTPAddress = '':8080''"
definition defaultModelServiceNamespace :: string where [go_const]: "defaultModelServiceNamespace = ''ai-platform''"
definition defaultMaxModelReplicas :: int where [go_const]: "defaultMaxModelReplicas = 10"
definition defaultOIDCIssuer :: string where
  [go_const]: "defaultOIDCIssuer = ''https://auth.ai-platform.local/realms/ai-platform''"
definition defaultOIDCAudience :: string where [go_const]: "defaultOIDCAudience = ''ai-platform-gateway''"
definition defaultOIDCCAFile :: string where
  [go_const]: "defaultOIDCCAFile = ''.local/keycloak/auth-ai-platform-root-ca.crt''"
definition defaultLogLevel :: string where [go_const]: "defaultLogLevel = ''info''"
definition defaultModelGatewayName :: string where [go_const]: "defaultModelGatewayName = ''shared-gateway''"
definition defaultModelGatewayNamespace :: string where [go_const]: "defaultModelGatewayNamespace = ''gateway-system''"
definition defaultModelGatewaySectionName :: string where
  [go_const]: "defaultModelGatewaySectionName = ''fraud-model-https''"
definition defaultModelGatewayDataPlaneNS :: string where
  [go_const]: "defaultModelGatewayDataPlaneNS = ''envoy-gateway-system''"

record Config =
  cfg_HTTPAddress :: string
  cfg_ModelServiceNamespace :: string
  cfg_MaxModelReplicas :: int
  cfg_OIDCIssuer :: string
  cfg_OIDCAudience :: string
  cfg_OIDCCAFile :: string
  cfg_LogLevel :: string
  cfg_ModelGatewayName :: string
  cfg_ModelGatewayNamespace :: string
  cfg_ModelGatewaySectionName :: string
  cfg_ModelGatewayDataPlaneNamespace :: string

type_synonym environment = "string \<Rightarrow> string"

definition envOrDefault :: "environment \<Rightarrow> string \<Rightarrow> string \<Rightarrow> string" where
  "envOrDefault env key fallback =
     (let value = trimSpace (env key) in if value = [] then fallback else value)"

text \<open>\<^verbatim>\<open>Config.Validate\<close>; \<open>None\<close> is a nil error.\<close>

definition Validate :: "Config \<Rightarrow> goerror option" where
  "Validate c =
     (if trimSpace (cfg_HTTPAddress c) = [] then Some (Errorf ''HTTP_ADDRESS must not be empty'')
      else if trimSpace (cfg_ModelServiceNamespace c) = []
      then Some (Errorf ''MODEL_SERVICE_NAMESPACE must not be empty'')
      else if cfg_MaxModelReplicas c < 1 then Some (Errorf ''MAX_MODEL_REPLICAS must be at least 1'')
      else if trimSpace (cfg_OIDCIssuer c) = [] then Some (Errorf ''OIDC_ISSUER must not be empty'')
      else if trimSpace (cfg_OIDCAudience c) = [] then Some (Errorf ''OIDC_AUDIENCE must not be empty'')
      else if trimSpace (cfg_OIDCCAFile c) = [] then Some (Errorf ''OIDC_CA_FILE must not be empty'')
      else if trimSpace (cfg_ModelGatewayName c) = [] then Some (Errorf ''MODEL_GATEWAY_NAME must not be empty'')
      else if trimSpace (cfg_ModelGatewayNamespace c) = []
      then Some (Errorf ''MODEL_GATEWAY_NAMESPACE must not be empty'')
      else if trimSpace (cfg_ModelGatewaySectionName c) = []
      then Some (Errorf ''MODEL_GATEWAY_SECTION_NAME must not be empty'')
      else if trimSpace (cfg_ModelGatewayDataPlaneNamespace c) = []
      then Some (Errorf ''MODEL_GATEWAY_DATAPLANE_NAMESPACE must not be empty'')
      else if cfg_LogLevel c \<noteq> ''debug'' \<and> cfg_LogLevel c \<noteq> ''info'' \<and> cfg_LogLevel c \<noteq> ''warn'' \<and>
              cfg_LogLevel c \<noteq> ''error''
      then Some (Errorf ''LOG_LEVEL must be one of debug, info, warn, error'')
      else None)"

definition loadedConfig :: "environment \<Rightarrow> int \<Rightarrow> Config" where
  "loadedConfig env maxReplicas =
     \<lparr>cfg_HTTPAddress = envOrDefault env ''HTTP_ADDRESS'' defaultHTTPAddress,
      cfg_ModelServiceNamespace = envOrDefault env ''MODEL_SERVICE_NAMESPACE'' defaultModelServiceNamespace,
      cfg_MaxModelReplicas = maxReplicas,
      cfg_OIDCIssuer = envOrDefault env ''OIDC_ISSUER'' defaultOIDCIssuer,
      cfg_OIDCAudience = envOrDefault env ''OIDC_AUDIENCE'' defaultOIDCAudience,
      cfg_OIDCCAFile = envOrDefault env ''OIDC_CA_FILE'' defaultOIDCCAFile,
      cfg_LogLevel = toLower (envOrDefault env ''LOG_LEVEL'' defaultLogLevel),
      cfg_ModelGatewayName = envOrDefault env ''MODEL_GATEWAY_NAME'' defaultModelGatewayName,
      cfg_ModelGatewayNamespace = envOrDefault env ''MODEL_GATEWAY_NAMESPACE'' defaultModelGatewayNamespace,
      cfg_ModelGatewaySectionName = envOrDefault env ''MODEL_GATEWAY_SECTION_NAME'' defaultModelGatewaySectionName,
      cfg_ModelGatewayDataPlaneNamespace =
        envOrDefault env ''MODEL_GATEWAY_DATAPLANE_NAMESPACE'' defaultModelGatewayDataPlaneNS\<rparr>"

definition Load :: "environment \<Rightarrow> goerror + Config" where
  "Load env =
     (let maxReplicasRaw = envOrDefault env ''MAX_MODEL_REPLICAS'' (showInt defaultMaxModelReplicas)
      in case atoi maxReplicasRaw of
           Inl e \<Rightarrow> Inl (Wrapf ''MAX_MODEL_REPLICAS must be an integer: '' e)
         | Inr maxReplicas \<Rightarrow>
             let cfg = loadedConfig env maxReplicas
             in case Validate cfg of Some e \<Rightarrow> Inl e | None \<Rightarrow> Inr cfg)"

section \<open>The logger\<close>

text \<open>The levels of \<^verbatim>\<open>log/slog\<close>; a logger writes the records at its level or above.\<close>

datatype slogLevel = LevelDebug | LevelInfo | LevelWarn | LevelError

primrec levelRank :: "slogLevel \<Rightarrow> int" where
  "levelRank LevelDebug = -4"
| "levelRank LevelInfo = 0"
| "levelRank LevelWarn = 4"
| "levelRank LevelError = 8"

text \<open>\<^verbatim>\<open>logging.New\<close>, by the minimum level of the logger it returns.\<close>

definition newLogger :: "string \<Rightarrow> goerror + slogLevel" where
  "newLogger level =
     (if level = ''debug'' then Inr LevelDebug
      else if level = ''info'' then Inr LevelInfo
      else if level = ''warn'' then Inr LevelWarn
      else if level = ''error'' then Inr LevelError
      else Inl (Errorf (''unsupported log level '' @ quoteGo level)))"

definition entryRank :: "logentry \<Rightarrow> int" where
  "entryRank l =
     (if le_Level l = ''DEBUG'' then -4 else if le_Level l = ''INFO'' then 0
      else if le_Level l = ''WARN'' then 4 else 8)"

definition written :: "slogLevel \<Rightarrow> outevent \<Rightarrow> bool" where
  "written lvl out = (case out of LogOut l \<Rightarrow> levelRank lvl \<le> entryRank l | _ \<Rightarrow> True)"

section \<open>The program\<close>

text \<open>The gateway settings of the handlers, taken from the configuration.\<close>

definition modelServiceDefaults :: "Config \<Rightarrow> ModelServiceDefaults" where
  "modelServiceDefaults cfg =
     \<lparr>df_GatewayName = cfg_ModelGatewayName cfg, df_GatewayNamespace = cfg_ModelGatewayNamespace cfg,
      df_GatewaySectionName = cfg_ModelGatewaySectionName cfg,
      df_GatewayDataPlaneNamespace = cfg_ModelGatewayDataPlaneNamespace cfg\<rparr>"

definition platformServer :: "ext \<Rightarrow> handler \<Rightarrow> Config \<Rightarrow> handler" where
  "platformServer x metrics cfg =
     NewServer x oidcVerify metrics (Some (readinessCheck (cfg_ModelServiceNamespace cfg)))
       (NewModelServiceStore (cfg_ModelServiceNamespace cfg)) (cfg_MaxModelReplicas cfg) (modelServiceDefaults cfg)"

text \<open>
  What \<^verbatim>\<open>main\<close> meets: the environment and the files, what the libraries answer that discover the OIDC
  provider (for a pool of trusted certificates and an issuer) and build the Kubernetes client, whether a signal or
  a failure of the listener ends the server, and how \<^verbatim>\<open>Shutdown\<close> and \<^verbatim>\<open>Close\<close> end. A pool of
  certificates is the list of them; \<open>ha_CertsOfPEM\<close> is the parser of \<^verbatim>\<open>AppendCertsFromPEM\<close>.
\<close>

datatype serverEnd = SignalReceived | ListenFailed goerror

record hostAnswers =
  ha_Env :: environment
  ha_ReadFile :: "string \<Rightarrow> goerror + string"
  ha_SystemCertPool :: "goerror + string list option"
  ha_CertsOfPEM :: "string \<Rightarrow> string list"
  ha_DefaultTransportOK :: bool
  ha_NewProvider :: "string list \<Rightarrow> string \<Rightarrow> goerror option"
  ha_GetConfig :: "goerror option"
  ha_AddCoreScheme :: "goerror option"
  ha_AddPlatformScheme :: "goerror option"
  ha_NewClient :: "goerror option"
  ha_End :: serverEnd
  ha_Shutdown :: "goerror option"
  ha_Close :: "goerror option"

subsection \<open>The token verifier and the Kubernetes client\<close>

text \<open>\<^verbatim>\<open>newOIDCHTTPClient\<close>, by the certificates the client it returns trusts.\<close>

definition newOIDCHTTPClient :: "hostAnswers \<Rightarrow> string \<Rightarrow> goerror + string list" where
  "newOIDCHTTPClient h caFile =
     (case ha_ReadFile h caFile of
        Inl e \<Rightarrow> Inl (Wrapf (''read OIDC CA file '' @ quoteGo caFile @ '': '') e)
      | Inr caPEM \<Rightarrow>
      (case ha_SystemCertPool h of
        Inl e \<Rightarrow> Inl (Wrapf ''load system certificate pool: '' e)
      | Inr pool \<Rightarrow>
          let rootCAs = (case pool of None \<Rightarrow> [] | Some certs \<Rightarrow> certs)
          in if ha_CertsOfPEM h caPEM = []
             then Inl (Errorf (''OIDC CA file '' @ quoteGo caFile @ '' contains no valid certificates''))
             else if \<not> ha_DefaultTransportOK h
             then Inl (Errorf ''default HTTP transport has unexpected type'')
             else Inr (rootCAs @ ha_CertsOfPEM h caPEM)))"

record OIDCVerifier =
  ov_RootCAs :: "string list"
  ov_Issuer :: string
  ov_ClientID :: string

definition NewOIDCVerifier :: "hostAnswers \<Rightarrow> string \<Rightarrow> string \<Rightarrow> string \<Rightarrow> goerror + OIDCVerifier" where
  "NewOIDCVerifier h issuer audience caFile =
     (case newOIDCHTTPClient h caFile of
        Inl e \<Rightarrow> Inl e
      | Inr rootCAs \<Rightarrow>
          (case ha_NewProvider h rootCAs issuer of
             Some e \<Rightarrow> Inl (Wrapf ''discover OIDC provider: '' e)
           | None \<Rightarrow> Inr \<lparr>ov_RootCAs = rootCAs, ov_Issuer = issuer, ov_ClientID = audience\<rparr>))"

text \<open>The client \<^verbatim>\<open>NewClient\<close> returns, by the limit on the time of its calls.\<close>

abbreviation second :: time where
  "second \<equiv> 1000000000"

record Clients =
  kc_Timeout :: time

definition NewClient :: "hostAnswers \<Rightarrow> goerror + Clients" where
  "NewClient h =
     (case ha_GetConfig h of
        Some e \<Rightarrow> Inl (Wrapf ''load Kubernetes configuration: '' e)
      | None \<Rightarrow>
      (case ha_AddCoreScheme h of
        Some e \<Rightarrow> Inl (Wrapf ''add Kubernetes core scheme: '' e)
      | None \<Rightarrow>
      (case ha_AddPlatformScheme h of
        Some e \<Rightarrow> Inl (Wrapf ''add ModelService scheme: '' e)
      | None \<Rightarrow>
      (case ha_NewClient h of
        Some e \<Rightarrow> Inl (Wrapf ''create Kubernetes client: '' e)
      | None \<Rightarrow> Inr \<lparr>kc_Timeout = 2 * second\<rparr>))))"

subsection \<open>From start to end\<close>

definition errorLog :: "string \<Rightarrow> (string \<times> logval) list \<Rightarrow> goerror \<Rightarrow> outevent" where
  "errorLog message attrs e = logEntry ''ERROR'' message (attrs @ [(''error'', LStr (errorString e))])"

text \<open>The log calls after the server has ended, and the exit code.\<close>

definition endServer :: "hostAnswers \<Rightarrow> outevent list \<times> int" where
  "endServer h =
     (case ha_End h of
        ListenFailed e \<Rightarrow> ([errorLog ''http_server_failed'' [] e], 1)
      | SignalReceived \<Rightarrow>
          ([logEntry ''INFO'' ''shutdown_signal_received'' []] @
           (case ha_Shutdown h of
              None \<Rightarrow> []
            | Some e \<Rightarrow> [errorLog ''graceful_shutdown_failed'' [] e] @
                (case ha_Close h of None \<Rightarrow> [] | Some e' \<Rightarrow> [errorLog ''forced_shutdown_failed'' [] e'])) @
           [logEntry ''INFO'' ''api_server_stopped'' []], 0))"

text \<open>The log calls of \<^verbatim>\<open>main\<close>, the configuration the server was started with if it was, and the exit code.\<close>

definition main :: "hostAnswers \<Rightarrow> outevent list \<times> Config option \<times> int" where
  "main h =
     (case Load (ha_Env h) of
        Inl e \<Rightarrow> ([errorLog ''configuration error'' [] e], None, 1)
      | Inr cfg \<Rightarrow>
      (case newLogger (cfg_LogLevel cfg) of
        Inl e \<Rightarrow> ([errorLog ''logger initialization failed'' [] e], None, 1)
      | Inr lvl \<Rightarrow>
      (case NewOIDCVerifier h (cfg_OIDCIssuer cfg) (cfg_OIDCAudience cfg) (cfg_OIDCCAFile cfg) of
        Inl e \<Rightarrow> ([errorLog ''oidc_verifier_initialization_failed''
                     [(''issuer'', LStr (cfg_OIDCIssuer cfg))] e], None, 1)
      | Inr verifier \<Rightarrow>
        let verifierReady = logEntry ''INFO'' ''oidc_verifier_initialized''
              [(''issuer'', LStr (cfg_OIDCIssuer cfg)), (''audience'', LStr (cfg_OIDCAudience cfg)),
               (''ca_file'', LStr (cfg_OIDCCAFile cfg))]
        in case NewClient h of
          Inl e \<Rightarrow> ([verifierReady, errorLog ''kubernetes_client_initialization_failed'' [] e], None, 1)
        | Inr clients \<Rightarrow>
          let clientReady = logEntry ''INFO'' ''kubernetes_client_initialized''
                [(''model_service_namespace'', LStr (cfg_ModelServiceNamespace cfg))];
              starting = logEntry ''INFO'' ''api_server_starting''
                [(''address'', LStr (cfg_HTTPAddress cfg)),
                 (''model_service_namespace'', LStr (cfg_ModelServiceNamespace cfg)),
                 (''max_model_replicas'', LInt (cfg_MaxModelReplicas cfg)),
                 (''oidc_issuer'', LStr (cfg_OIDCIssuer cfg)), (''oidc_audience'', LStr (cfg_OIDCAudience cfg))];
              (logs, code) = endServer h
          in ([verifierReady, clientReady, starting] @ logs, Some cfg, code))))"

section \<open>Trimming\<close>

lemma hasPrefix_append_mono: "hasPrefix t p \<Longrightarrow> hasPrefix (t @ u) p"
  by (auto simp: hasPrefix_iff)

lemma spaceWidth_zero: "spaceWidth s = 0 \<longleftrightarrow> find (hasPrefix s) unicodeSpaces = None"
  by (auto simp: spaceWidth_def find_Some_iff unicodeSpaces_def nth_Cons' split: option.splits)

lemma spaceWidth_prefix: "spaceWidth (t @ u) = 0 \<Longrightarrow> spaceWidth t = 0"
  by (auto simp: spaceWidth_zero find_None_iff dest: hasPrefix_append_mono)

lemma trimLeftSpace_fix: "spaceWidth (trimLeftSpace s) = 0"
proof (induction s rule: trimLeftSpace.induct)
  case (1 s)
  then show ?case by (cases "spaceWidth s = 0") (simp_all add: trimLeftSpace.simps [of s])
qed

lemma trimRightSpace_fix: "spaceSuffixWidth (trimRightSpace s) = 0"
proof (induction s rule: trimRightSpace.induct)
  case (1 s)
  then show ?case by (cases "spaceSuffixWidth s = 0") (simp_all add: trimRightSpace.simps [of s])
qed

lemma trimSpace_idem [simp]: "trimSpace (trimSpace s) = trimSpace s"
proof -
  obtain q where "trimLeftSpace s = trimSpace s @ q"
    unfolding trimSpace_def using trimRightSpace_prefix by blast
  then have "spaceWidth (trimSpace s) = 0"
    using trimLeftSpace_fix [of s] spaceWidth_prefix by metis
  then have "trimLeftSpace (trimSpace s) = trimSpace s" by (subst trimLeftSpace.simps) simp
  moreover have "spaceSuffixWidth (trimSpace s) = 0" by (simp add: trimSpace_def trimRightSpace_fix)
  then have "trimRightSpace (trimSpace s) = trimSpace s" by (subst trimRightSpace.simps) simp
  ultimately show ?thesis by (simp add: trimSpace_def [of "trimSpace s"])
qed

lemma envOrDefault_nonblank: "trimSpace fallback \<noteq> [] \<Longrightarrow> trimSpace (envOrDefault env key fallback) \<noteq> []"
  by (simp add: envOrDefault_def Let_def)

lemma defaults_nonblank:
  "trimSpace defaultHTTPAddress \<noteq> []" "trimSpace defaultModelServiceNamespace \<noteq> []" "trimSpace defaultOIDCIssuer \<noteq> []"
  "trimSpace defaultOIDCAudience \<noteq> []" "trimSpace defaultOIDCCAFile \<noteq> []" "trimSpace defaultModelGatewayName \<noteq> []"
  "trimSpace defaultModelGatewayNamespace \<noteq> []" "trimSpace defaultModelGatewaySectionName \<noteq> []"
  "trimSpace defaultModelGatewayDataPlaneNS \<noteq> []"
  by code_simp+

section \<open>Loading\<close>

lemma Validate_loaded:
  "Validate (loadedConfig env n) =
     (if n < 1 then Some (Errorf ''MAX_MODEL_REPLICAS must be at least 1'')
      else if toLower (envOrDefault env ''LOG_LEVEL'' ''info'') \<in> {''debug'', ''info'', ''warn'', ''error''} then None
      else Some (Errorf ''LOG_LEVEL must be one of debug, info, warn, error''))"
  using defaults_nonblank [THEN envOrDefault_nonblank, of env]
  by (simp add: Validate_def loadedConfig_def defaultLogLevel_def)

lemma showInt_ten: "showInt defaultMaxModelReplicas = ''10''"
  by code_simp

text \<open>C38. What \<^verbatim>\<open>Load\<close> accepts, exactly: the only settings that can be refused are the replica limit
  (not a 64-bit integer, or below 1) and the log level (in any letter case). Blank settings fall back to their
  defaults, so no check for an empty value ever fires.\<close>

theorem load_exact:
  "Load env =
     (case atoi (envOrDefault env ''MAX_MODEL_REPLICAS'' ''10'') of
        Inl e \<Rightarrow> Inl (Wrapf ''MAX_MODEL_REPLICAS must be an integer: '' e)
      | Inr n \<Rightarrow>
          if n < 1 then Inl (Errorf ''MAX_MODEL_REPLICAS must be at least 1'')
          else if toLower (envOrDefault env ''LOG_LEVEL'' ''info'') \<in> {''debug'', ''info'', ''warn'', ''error''}
          then Inr (loadedConfig env n)
          else Inl (Errorf ''LOG_LEVEL must be one of debug, info, warn, error''))"
  by (simp add: Load_def Let_def showInt_ten Validate_loaded split: sum.split)

text \<open>A configuration a server can be started with.\<close>

definition readyConfig :: "Config \<Rightarrow> bool" where
  "readyConfig c \<longleftrightarrow>
     trimSpace (cfg_HTTPAddress c) \<noteq> [] \<and> trimSpace (cfg_ModelServiceNamespace c) \<noteq> [] \<and>
     trimSpace (cfg_OIDCIssuer c) \<noteq> [] \<and> trimSpace (cfg_OIDCAudience c) \<noteq> [] \<and> trimSpace (cfg_OIDCCAFile c) \<noteq> [] \<and>
     trimSpace (cfg_ModelGatewayName c) \<noteq> [] \<and> trimSpace (cfg_ModelGatewayNamespace c) \<noteq> [] \<and>
     trimSpace (cfg_ModelGatewaySectionName c) \<noteq> [] \<and> trimSpace (cfg_ModelGatewayDataPlaneNamespace c) \<noteq> [] \<and>
     1 \<le> cfg_MaxModelReplicas c \<and> cfg_MaxModelReplicas c < 2 ^ 63"

lemma atoi_range: "atoi s = Inr n \<Longrightarrow> - (2 ^ 63) \<le> n \<and> n < 2 ^ 63"
  unfolding atoi_def Let_def by (auto split: list.splits if_splits prod.splits)

lemma Load_ready:
  assumes "Load env = Inr cfg"
  shows "readyConfig cfg" "\<exists>lvl. newLogger (cfg_LogLevel cfg) = Inr lvl"
proof -
  from assms obtain n where n: "atoi (envOrDefault env ''MAX_MODEL_REPLICAS'' (showInt defaultMaxModelReplicas)) = Inr n"
      "Validate (loadedConfig env n) = None" "cfg = loadedConfig env n"
    by (auto simp: Load_def Let_def split: sum.splits option.splits)
  have "Validate cfg = None" using n by simp
  moreover have "cfg_MaxModelReplicas cfg < 2 ^ 63" using atoi_range [OF n(1)] n(3) by (simp add: loadedConfig_def)
  ultimately show "readyConfig cfg" by (auto simp: Validate_def readyConfig_def split: if_splits)
  from \<open>Validate cfg = None\<close> show "\<exists>lvl. newLogger (cfg_LogLevel cfg) = Inr lvl"
    by (auto simp: Validate_def newLogger_def split: if_splits)
qed

lemma newOIDCHTTPClient_Inr:
  "newOIDCHTTPClient h caFile = Inr roots \<longleftrightarrow>
     (\<exists>pem pool. ha_ReadFile h caFile = Inr pem \<and> ha_SystemCertPool h = Inr pool \<and> ha_CertsOfPEM h pem \<noteq> [] \<and>
        ha_DefaultTransportOK h \<and> roots = (case pool of None \<Rightarrow> [] | Some certs \<Rightarrow> certs) @ ha_CertsOfPEM h pem)"
  by (auto simp: newOIDCHTTPClient_def Let_def split: sum.splits)

lemma NewClient_Inr:
  "NewClient h = Inr c \<longleftrightarrow>
     ha_GetConfig h = None \<and> ha_AddCoreScheme h = None \<and> ha_AddPlatformScheme h = None \<and> ha_NewClient h = None \<and>
     c = \<lparr>kc_Timeout = 2 * second\<rparr>"
  by (auto simp: NewClient_def split: option.splits)

text \<open>What a server is started with: tokens are verified for the configured issuer and audience, and the issuer is
  trusted by the certificates of the CA file and of the system.\<close>

definition trustedStart :: "hostAnswers \<Rightarrow> Config \<Rightarrow> bool" where
  "trustedStart h cfg \<longleftrightarrow>
     (\<exists>v pem pool. NewOIDCVerifier h (cfg_OIDCIssuer cfg) (cfg_OIDCAudience cfg) (cfg_OIDCCAFile cfg) = Inr v \<and>
        ov_Issuer v = cfg_OIDCIssuer cfg \<and> ov_ClientID v = cfg_OIDCAudience cfg \<and>
        ha_ReadFile h (cfg_OIDCCAFile cfg) = Inr pem \<and> ha_CertsOfPEM h pem \<noteq> [] \<and> ha_SystemCertPool h = Inr pool \<and>
        ov_RootCAs v = (case pool of None \<Rightarrow> [] | Some certs \<Rightarrow> certs) @ ha_CertsOfPEM h pem \<and>
        ha_NewProvider h (ov_RootCAs v) (cfg_OIDCIssuer cfg) = None)"

lemma NewOIDCVerifier_trusted:
  "NewOIDCVerifier h (cfg_OIDCIssuer cfg) (cfg_OIDCAudience cfg) (cfg_OIDCCAFile cfg) = Inr v \<Longrightarrow> trustedStart h cfg"
  unfolding trustedStart_def
  by (auto simp: NewOIDCVerifier_def newOIDCHTTPClient_Inr split: sum.splits option.splits)

text \<open>C39. \<^verbatim>\<open>main\<close> ends with exit code 0 exactly when a server was started and a signal, not a failure of the
  listener, ended it. A server is started only with an accepted configuration (no blank setting, a replica limit
  between 1 and the largest 64-bit integer), with a token verifier for the configured issuer and audience that
  trusts the system's certificates and those of the CA file, of which there is at least one, and with a
  Kubernetes client; otherwise the exit code is 1 and one of the three has failed. The logger never refuses the
  level of an accepted configuration.\<close>

theorem main_exit:
  "(snd (snd (main h)) = 0 \<longleftrightarrow> fst (snd (main h)) \<noteq> None \<and> ha_End h = SignalReceived) \<and>
   (case fst (snd (main h)) of
      None \<Rightarrow> snd (snd (main h)) = 1 \<and>
        ((\<exists>e. Load (ha_Env h) = Inl e) \<or>
         (\<exists>cfg e. Load (ha_Env h) = Inr cfg \<and>
            NewOIDCVerifier h (cfg_OIDCIssuer cfg) (cfg_OIDCAudience cfg) (cfg_OIDCCAFile cfg) = Inl e) \<or>
         (\<exists>e. NewClient h = Inl e))
    | Some cfg \<Rightarrow> Load (ha_Env h) = Inr cfg \<and> readyConfig cfg \<and> trustedStart h cfg \<and>
        NewClient h = Inr \<lparr>kc_Timeout = 2 * second\<rparr>)"
proof (cases "Load (ha_Env h)")
  case (Inl e)
  then show ?thesis by (simp add: main_def)
next
  case (Inr cfg)
  from Load_ready(2) [OF this] obtain lvl where lvl: "newLogger (cfg_LogLevel cfg) = Inr lvl" by blast
  note cfg = Inr lvl Load_ready(1) [OF Inr]
  show ?thesis
  proof (cases "NewOIDCVerifier h (cfg_OIDCIssuer cfg) (cfg_OIDCAudience cfg) (cfg_OIDCCAFile cfg)")
    case (Inl e)
    with cfg show ?thesis by (simp add: main_def)
  next
    case (Inr v)
    note trusted = NewOIDCVerifier_trusted [OF Inr]
    show ?thesis
    proof (cases "NewClient h")
      case (Inl e)
      with cfg Inr show ?thesis by (simp add: main_def Let_def)
    next
      case client: (Inr c)
      with cfg Inr trusted NewClient_Inr [of h c] show ?thesis
        by (auto simp: main_def Let_def endServer_def split: serverEnd.split)
    qed
  qed
qed

section \<open>The replica limit\<close>

lemma digit_no_space:
  assumes "isDigit c"
  shows "spaceWidth (c # s) = 0" "spaceSuffixWidth (s @ [c]) = 0"
proof -
  have c: "(48::nat) \<le> of_char c" "of_char c \<le> (57::nat)" using assms by (simp_all add: isDigit_def)
  have "\<not> hasPrefix (c # s) p" if "p \<in> set unicodeSpaces" for p
    using that c by (auto simp: unicodeSpaces_def)
  then show "spaceWidth (c # s) = 0" by (auto simp: spaceWidth_zero find_None_iff)
  have "\<not> hasSuffix (s @ [c]) p" if "p \<in> set unicodeSpaces" for p
  proof
    assume "hasSuffix (s @ [c]) p"
    then obtain t where "s @ [c] = t @ p" by (auto simp: hasSuffix_iff)
    moreover have "p \<noteq> [] \<and> last p \<noteq> c" using that c by (auto simp: unicodeSpaces_def)
    ultimately show False by (metis last_append last_snoc)
  qed
  then have "find (hasSuffix (s @ [c])) unicodeSpaces = None" by (auto simp: find_None_iff)
  then show "spaceSuffixWidth (s @ [c]) = 0" by (simp add: spaceSuffixWidth_def)
qed

lemma trimSpace_showNat: "trimSpace (showNat n) = showNat n"
proof -
  note digits = showNat_digits [of n]
  then obtain c s where cs: "showNat n = c # s" by (cases "showNat n") auto
  have "trimLeftSpace (showNat n) = showNat n"
    using digits cs by (subst trimLeftSpace.simps) (simp add: digit_no_space)
  moreover have "trimRightSpace (showNat n) = showNat n"
  proof (subst trimRightSpace.simps)
    have "showNat n = butlast (showNat n) @ [last (showNat n)]" "isDigit (last (showNat n))"
      using digits by (simp_all add: list_all_iff)
    then have "spaceSuffixWidth (showNat n) = 0" using digit_no_space(2) by metis
    then show "(if spaceSuffixWidth (showNat n) = 0 then showNat n
       else trimRightSpace (take (length (showNat n) - spaceSuffixWidth (showNat n)) (showNat n))) = showNat n" by simp
  qed
  ultimately show ?thesis by (simp add: trimSpace_def)
qed

text \<open>Every replica limit from 1 to the largest 64-bit integer can be configured: written in decimal into
  \<^verbatim>\<open>MAX_MODEL_REPLICAS\<close>, it is the limit of the loaded configuration.\<close>

lemma replica_limit_roundtrip:
  assumes "1 \<le> n" and "n < 2 ^ 63" and "env ''MAX_MODEL_REPLICAS'' = showInt n" and "env ''LOG_LEVEL'' = []"
  shows "map_sum id cfg_MaxModelReplicas (Load env) = Inr n"
proof -
  have "trimSpace (showInt n) = showInt n" using assms(1) by (simp add: showInt_def trimSpace_showNat)
  then have raw: "envOrDefault env ''MAX_MODEL_REPLICAS'' (showInt defaultMaxModelReplicas) = showInt n"
    using assms(3) by (simp add: envOrDefault_def Let_def)
  have level: "toLower (envOrDefault env ''LOG_LEVEL'' ''info'') = ''info''"
  proof -
    have "toLower ''info'' = ''info''" by code_simp
    with assms(4) show ?thesis by (simp add: envOrDefault_def)
  qed
  have "atoi (showInt n) = Inr n" using assms(1,2) by (intro atoi_showInt) simp_all
  then show ?thesis using assms(1)
    by (simp add: Load_def Let_def raw Validate_loaded level) (simp add: loadedConfig_def)
qed

section \<open>The audit trail and the log level\<close>

text \<open>Audit records are info records: they reach the output exactly when the configured level is debug or
  info. With the levels warn and error, which \<^verbatim>\<open>Load\<close> accepts, mutations leave no audit trail.\<close>

lemma audit_visible_levels:
  "newLogger level = Inr lvl \<Longrightarrow> written lvl (auditRecord r code) \<longleftrightarrow> level \<in> {''debug'', ''info''}"
  by (auto simp: newLogger_def written_def auditRecord_def logEntry_def entryRank_def split: if_splits)

end
