(* ===== verification/Resolve.thy ===== *)
theory Resolve
  imports KubeTypes
begin

text \<open>
  The configuration resolvers of \<^verbatim>\<open>internal/controller/modelservice_controller.go\<close>: each turns
  an optional section of the ModelService specification into a complete configuration, filling
  in the controller's defaults field by field.
\<close>

section \<open>Constants\<close>

definition modelContainerName :: string where [go_const]: "modelContainerName = ''model''"
definition httpPortName :: string where [go_const]: "httpPortName = ''http''"
definition modelStorageName :: string where [go_const]: "modelStorageName = ''model-storage''"
definition gatewayDataPlaneNamespace :: string where
  [go_const]: "gatewayDataPlaneNamespace = ''envoy-gateway-system''"
definition namespaceNameLabel :: string where
  [go_const]: "namespaceNameLabel = ''kubernetes.io/metadata.name''"
definition runtimeTmpVolumeName :: string where [go_const]: "runtimeTmpVolumeName = ''runtime-tmp''"
definition runtimeTmpMountPath :: string where [go_const]: "runtimeTmpMountPath = ''/tmp''"

definition defaultStartupPath :: string where [go_const]: "defaultStartupPath = ''/''"
definition defaultStartupFailureThreshold :: int32 where
  [go_const]: "defaultStartupFailureThreshold = 30"
definition defaultStartupPeriodSeconds :: int32 where [go_const]: "defaultStartupPeriodSeconds = 10"
definition defaultReadinessPath :: string where [go_const]: "defaultReadinessPath = ''/''"
definition defaultLivenessPath :: string where [go_const]: "defaultLivenessPath = ''/''"

definition defaultRunAsUser :: int64 where [go_const]: "defaultRunAsUser = 101"
definition defaultRunAsGroup :: int64 where [go_const]: "defaultRunAsGroup = 101"
definition defaultFSGroup :: int64 where [go_const]: "defaultFSGroup = 101"

definition defaultTerminationGracePeriodSeconds :: int64 where
  [go_const]: "defaultTerminationGracePeriodSeconds = 30"
definition defaultPreStopDelaySeconds :: int32 where [go_const]: "defaultPreStopDelaySeconds = 5"
definition defaultMinReadySeconds :: int32 where [go_const]: "defaultMinReadySeconds = 5"
definition defaultProgressDeadlineSeconds :: int32 where
  [go_const]: "defaultProgressDeadlineSeconds = 600"
definition defaultMaxUnavailable :: string where [go_const]: "defaultMaxUnavailable = ''0''"
definition defaultMaxSurge :: string where [go_const]: "defaultMaxSurge = ''1''"

definition modelServicePhaseProvisioning :: string where
  [go_const]: "modelServicePhaseProvisioning = ''Provisioning''"
definition modelServicePhaseReady :: string where [go_const]: "modelServicePhaseReady = ''Ready''"
definition modelServicePhaseFailed :: string where [go_const]: "modelServicePhaseFailed = ''Failed''"

section \<open>Backend and labels\<close>

definition backendForModelService :: "ModelService \<Rightarrow> ModelServiceBackend" where
  "backendForModelService ms =
     (if spec_Backend (ms_Spec ms) = [] then ModelServiceBackendDeployment
      else spec_Backend (ms_Spec ms))"

definition labelsForModelService :: "ModelService \<Rightarrow> labels" where
  "labelsForModelService ms =
     [''app.kubernetes.io/name'' \<mapsto> ''modelservice'',
      ''app.kubernetes.io/instance'' \<mapsto> ms_Name ms,
      ''app.kubernetes.io/managed-by'' \<mapsto> ''ai-platform-operator'']"

text \<open>A label selector selects a set of labels when every pair it asks for is there.\<close>

definition selects :: "labels \<Rightarrow> labels \<Rightarrow> bool" where
  "selects sel lbls \<longleftrightarrow> sel \<subseteq>\<^sub>m lbls"

lemma selects_refl [simp]: "selects l l"
  by (simp add: selects_def map_le_def)

lemma labels_instance:
  "labelsForModelService ms ''app.kubernetes.io/instance'' = Some (ms_Name ms)"
  by (simp add: labelsForModelService_def)

lemma labels_select_same_name:
  "selects (labelsForModelService ms) (labelsForModelService ms') \<Longrightarrow> ms_Name ms = ms_Name ms'"
proof -
  assume "selects (labelsForModelService ms) (labelsForModelService ms')"
  then have "labelsForModelService ms ''app.kubernetes.io/instance'' =
      labelsForModelService ms' ''app.kubernetes.io/instance''"
    unfolding selects_def map_le_def using labels_instance [of ms] by blast
  then show ?thesis by (simp add: labels_instance)
qed

section \<open>Resolved configurations\<close>

record resolvedHealthConfiguration =
  rh_StartupPath :: string
  rh_StartupFailureThreshold :: int32
  rh_StartupPeriodSeconds :: int32
  rh_ReadinessPath :: string
  rh_LivenessPath :: string

text \<open>\<^verbatim>\<open>if v != "" { field = v }\<close> and \<^verbatim>\<open>if v > 0 { field = v }\<close>: the two ways the code
  overrides a default.\<close>

definition overrideStr :: "string \<Rightarrow> string \<Rightarrow> string" where
  [go_fun]: "overrideStr dflt v = (if v \<noteq> [] then v else dflt)"

definition overridePos :: "'a::len word \<Rightarrow> 'a word \<Rightarrow> 'a word" where
  [go_fun]: "overridePos dflt v = (if 0 < sint v then v else dflt)"

definition overrideNonNeg :: "'a::len word \<Rightarrow> 'a word \<Rightarrow> 'a word" where
  [go_fun]: "overrideNonNeg dflt v = (if 0 \<le> sint v then v else dflt)"

lemma overridePos_pos: "0 < sint d \<Longrightarrow> 0 < sint (overridePos d v)"
  by (simp add: overridePos_def)

lemma overrideNonNeg_nonneg: "0 \<le> sint d \<Longrightarrow> 0 \<le> sint (overrideNonNeg d v)"
  by (simp add: overrideNonNeg_def)

lemma overrideStr_nonempty: "d \<noteq> [] \<Longrightarrow> overrideStr d v \<noteq> []"
  by (simp add: overrideStr_def)

definition healthForModelService :: "ModelService \<Rightarrow> resolvedHealthConfiguration" where
  "healthForModelService ms =
     (let health = \<lparr>rh_StartupPath = defaultStartupPath,
                    rh_StartupFailureThreshold = defaultStartupFailureThreshold,
                    rh_StartupPeriodSeconds = defaultStartupPeriodSeconds,
                    rh_ReadinessPath = defaultReadinessPath,
                    rh_LivenessPath = defaultLivenessPath\<rparr>
      in case spec_Health (ms_Spec ms) of
           None \<Rightarrow> health
         | Some h \<Rightarrow>
             \<lparr>rh_StartupPath = overrideStr (rh_StartupPath health) (he_StartupPath h),
              rh_StartupFailureThreshold =
                overridePos (rh_StartupFailureThreshold health) (he_StartupFailureThreshold h),
              rh_StartupPeriodSeconds =
                overridePos (rh_StartupPeriodSeconds health) (he_StartupPeriodSeconds h),
              rh_ReadinessPath = overrideStr (rh_ReadinessPath health) (he_ReadinessPath h),
              rh_LivenessPath = overrideStr (rh_LivenessPath health) (he_LivenessPath h)\<rparr>)"

definition securityForModelService :: "ModelService \<Rightarrow> ModelServiceSecurity" where
  "securityForModelService ms =
     (case spec_Security (ms_Spec ms) of
        Some s \<Rightarrow> s
      | None \<Rightarrow> \<lparr>sec_RunAsNonRoot = True, sec_RunAsUser = defaultRunAsUser,
                 sec_RunAsGroup = defaultRunAsGroup, sec_FSGroup = defaultFSGroup,
                 sec_ReadOnlyRootFilesystem = True, sec_AutomountServiceAccountToken = None\<rparr>)"

definition resolveAutomountServiceAccountToken :: "ModelService \<Rightarrow> bool" where
  "resolveAutomountServiceAccountToken ms =
     (case spec_Security (ms_Spec ms) of
        None \<Rightarrow> False
      | Some s \<Rightarrow> (case sec_AutomountServiceAccountToken s of None \<Rightarrow> False | Some b \<Rightarrow> b))"

definition containerSecurityContextForModelService :: "ModelServiceSecurity \<Rightarrow> SecurityContext" where
  "containerSecurityContextForModelService security =
     \<lparr>sc_AllowPrivilegeEscalation = Some False,
      sc_ReadOnlyRootFilesystem = Some (sec_ReadOnlyRootFilesystem security),
      sc_DropCapabilities = (if sec_RunAsNonRoot security then Some [''ALL''] else None)\<rparr>"

record resolvedRolloutConfiguration =
  rr_TerminationGracePeriodSeconds :: int64
  rr_PreStopDelaySeconds :: int32
  rr_MinReadySeconds :: int32
  rr_ProgressDeadlineSeconds :: int32
  rr_MaxUnavailable :: string
  rr_MaxSurge :: string

definition rolloutForModelService :: "ModelService \<Rightarrow> resolvedRolloutConfiguration" where
  "rolloutForModelService ms =
     (let rollout = \<lparr>rr_TerminationGracePeriodSeconds = defaultTerminationGracePeriodSeconds,
                     rr_PreStopDelaySeconds = defaultPreStopDelaySeconds,
                     rr_MinReadySeconds = defaultMinReadySeconds,
                     rr_ProgressDeadlineSeconds = defaultProgressDeadlineSeconds,
                     rr_MaxUnavailable = defaultMaxUnavailable,
                     rr_MaxSurge = defaultMaxSurge\<rparr>
      in case spec_Rollout (ms_Spec ms) of
           None \<Rightarrow> rollout
         | Some r \<Rightarrow>
             \<lparr>rr_TerminationGracePeriodSeconds =
                overridePos (rr_TerminationGracePeriodSeconds rollout)
                  (ro_TerminationGracePeriodSeconds r),
              rr_PreStopDelaySeconds =
                overrideNonNeg (rr_PreStopDelaySeconds rollout) (ro_PreStopDelaySeconds r),
              rr_MinReadySeconds =
                overrideNonNeg (rr_MinReadySeconds rollout) (ro_MinReadySeconds r),
              rr_ProgressDeadlineSeconds =
                overridePos (rr_ProgressDeadlineSeconds rollout) (ro_ProgressDeadlineSeconds r),
              rr_MaxUnavailable = overrideStr (rr_MaxUnavailable rollout) (ro_MaxUnavailable r),
              rr_MaxSurge = overrideStr (rr_MaxSurge rollout) (ro_MaxSurge r)\<rparr>)"

definition lifecycleForModelService :: "resolvedRolloutConfiguration \<Rightarrow> Lifecycle option" where
  "lifecycleForModelService rollout =
     (if sint (rr_PreStopDelaySeconds rollout) \<le> 0 then None
      else Some \<lparr>lc_PreStopCommand =
             [''/bin/sh'', ''-c'', ''sleep '' @ showInt (sint (rr_PreStopDelaySeconds rollout))]\<rparr>)"

record resolvedPodDisruptionBudgetConfiguration =
  rp_Enabled :: bool
  rp_MaxUnavailable :: string

definition podDisruptionBudgetForModelService ::
    "ModelService \<Rightarrow> resolvedPodDisruptionBudgetConfiguration" where
  "podDisruptionBudgetForModelService ms =
     (let configuration = \<lparr>rp_Enabled = True, rp_MaxUnavailable = ''1''\<rparr>
      in case spec_PodDisruptionBudget (ms_Spec ms) of
           None \<Rightarrow> configuration
         | Some p \<Rightarrow> \<lparr>rp_Enabled = pd_Enabled p,
                      rp_MaxUnavailable =
                        overrideStr (rp_MaxUnavailable configuration) (pd_MaxUnavailable p)\<rparr>)"

record resolvedNetworkPolicyConfiguration =
  rn_Enabled :: bool
  rn_AllowSameNamespaceIngress :: bool
  rn_AllowDNSEgress :: bool

definition networkPolicyForModelService :: "ModelService \<Rightarrow> resolvedNetworkPolicyConfiguration" where
  "networkPolicyForModelService ms =
     (case spec_NetworkPolicy (ms_Spec ms) of
        None \<Rightarrow> \<lparr>rn_Enabled = True, rn_AllowSameNamespaceIngress = True, rn_AllowDNSEgress = True\<rparr>
      | Some n \<Rightarrow> \<lparr>rn_Enabled = np_Enabled n,
                   rn_AllowSameNamespaceIngress = np_AllowSameNamespaceIngress n,
                   rn_AllowDNSEgress = np_AllowDNSEgress n\<rparr>)"

record resolvedExposureConfiguration =
  re_Enabled :: bool
  re_Hostname :: string
  re_PathPrefix :: string
  re_GatewayName :: string
  re_GatewayNamespace :: string
  re_GatewaySectionName :: string
  re_GatewayDataPlaneNamespace :: string

definition exposureForModelService :: "ModelService \<Rightarrow> resolvedExposureConfiguration" where
  "exposureForModelService ms =
     (let configuration = \<lparr>re_Enabled = False, re_Hostname = [], re_PathPrefix = ''/'',
                           re_GatewayName = ''shared-gateway'',
                           re_GatewayNamespace = ''gateway-system'',
                           re_GatewaySectionName = ''http'',
                           re_GatewayDataPlaneNamespace = gatewayDataPlaneNamespace\<rparr>
      in case spec_Exposure (ms_Spec ms) of
           None \<Rightarrow> configuration
         | Some e \<Rightarrow>
             \<lparr>re_Enabled = ex_Enabled e,
              re_Hostname = ex_Hostname e,
              re_PathPrefix = overrideStr (re_PathPrefix configuration) (ex_PathPrefix e),
              re_GatewayName = overrideStr (re_GatewayName configuration) (ex_GatewayName e),
              re_GatewayNamespace =
                overrideStr (re_GatewayNamespace configuration) (ex_GatewayNamespace e),
              re_GatewaySectionName =
                overrideStr (re_GatewaySectionName configuration) (ex_GatewaySectionName e),
              re_GatewayDataPlaneNamespace =
                overrideStr (re_GatewayDataPlaneNamespace configuration)
                  (ex_GatewayDataPlaneNamespace e)\<rparr>)"

definition storageEnabled :: "ModelService \<Rightarrow> bool" where
  "storageEnabled ms =
     (case spec_Storage (ms_Spec ms) of None \<Rightarrow> False | Some s \<Rightarrow> st_Enabled s)"

section \<open>What the resolvers promise\<close>

lemma default_bounds [simp]:
  "0 < sint defaultStartupFailureThreshold" "0 < sint defaultStartupPeriodSeconds"
  "0 < sint defaultTerminationGracePeriodSeconds" "0 \<le> sint defaultPreStopDelaySeconds"
  "0 \<le> sint defaultMinReadySeconds" "0 < sint defaultProgressDeadlineSeconds"
  by (simp_all add: go_const)

lemmas override_rules = overridePos_pos overrideNonNeg_nonneg overrideStr_nonempty


end
