(* ===== verification/Workloads.thy ===== *)
theory Workloads
  imports Resolve Samples
begin

text \<open>
  The desired state of the seven native objects behind a ModelService: the mutate functions
  that \<^verbatim>\<open>Reconcile\<close> and its helpers pass to \<^verbatim>\<open>controllerutil.CreateOrUpdate\<close>. Each one is
  split, as in the source, into the fields it assigns (\<open>desired\<dots>\<close>) and the final
  \<^verbatim>\<open>SetControllerReference\<close>.
\<close>

section \<open>Pods\<close>

definition httpGetProbe :: "string \<Rightarrow> int32 \<Rightarrow> int32 \<Rightarrow> int32 \<Rightarrow> int32 \<Rightarrow> Probe" where
  [go_fun]: "httpGetProbe path initialDelay period timeout failures =
     \<lparr>pb_Path = path, pb_Port = StrVal httpPortName, pb_InitialDelaySeconds = initialDelay,
      pb_PeriodSeconds = period, pb_TimeoutSeconds = timeout, pb_FailureThreshold = failures\<rparr>"

definition containerForModelService :: "ModelService \<Rightarrow> Container" where
  "containerForModelService ms =
     (let rollout = rolloutForModelService ms;
          health = healthForModelService ms;
          security = securityForModelService ms
      in \<lparr>c_Name = modelContainerName,
          c_Image = spec_Image (ms_Spec ms),
          c_ImagePullPolicy = ''IfNotPresent'',
          c_Resources = spec_Resources (ms_Spec ms),
          c_VolumeMounts = [\<lparr>vm_Name = runtimeTmpVolumeName, vm_MountPath = runtimeTmpMountPath\<rparr>],
          c_SecurityContext = Some (containerSecurityContextForModelService security),
          c_Lifecycle = lifecycleForModelService rollout,
          c_Ports = [\<lparr>cp_Name = httpPortName, cp_ContainerPort = spec_Port (ms_Spec ms),
                      cp_Protocol = ''TCP''\<rparr>],
          c_StartupProbe = Some (httpGetProbe (rh_StartupPath health) 0
            (rh_StartupPeriodSeconds health) 2 (rh_StartupFailureThreshold health)),
          c_ReadinessProbe = Some (httpGetProbe (rh_ReadinessPath health) 2 5 2 3),
          c_LivenessProbe = Some (httpGetProbe (rh_LivenessPath health) 10 10 2 3)\<rparr>)"

definition podSecurityContextForModelService :: "ModelServiceSecurity \<Rightarrow> PodSecurityContext" where
  "podSecurityContextForModelService security =
     (let psc = \<lparr>psc_RunAsNonRoot = Some (sec_RunAsNonRoot security), psc_RunAsUser = None,
                 psc_RunAsGroup = None, psc_FSGroup = Some (sec_FSGroup security),
                 psc_SeccompProfile = Some ''RuntimeDefault''\<rparr>
      in if sec_RunAsNonRoot security
         then psc\<lparr>psc_RunAsUser := Some (sec_RunAsUser security),
                  psc_RunAsGroup := Some (sec_RunAsGroup security)\<rparr>
         else psc)"

text \<open>Appending the storage mount to \<^verbatim>\<open>podSpec.Containers[0]\<close>.\<close>

definition addVolumeMount :: "VolumeMount \<Rightarrow> Container list \<Rightarrow> Container list" where
  "addVolumeMount m cs =
     (case cs of [] \<Rightarrow> [] | c # rest \<Rightarrow> c\<lparr>c_VolumeMounts := c_VolumeMounts c @ [m]\<rparr> # rest)"

definition podSpecForModelService :: "ModelService \<Rightarrow> PodSpec" where
  "podSpecForModelService ms =
     (let podSpec =
        \<lparr>ps_TerminationGracePeriodSeconds =
           Some (rr_TerminationGracePeriodSeconds (rolloutForModelService ms)),
         ps_ServiceAccountName = ms_Name ms,
         ps_AutomountServiceAccountToken = Some (resolveAutomountServiceAccountToken ms),
         ps_SecurityContext =
           Some (podSecurityContextForModelService (securityForModelService ms)),
         ps_Containers = [containerForModelService ms],
         ps_Volumes = [\<lparr>v_Name = runtimeTmpVolumeName, v_Source = EmptyDir\<rparr>]\<rparr>
      in case spec_Storage (ms_Spec ms) of
           None \<Rightarrow> podSpec
         | Some st \<Rightarrow>
             if st_Enabled st
             then podSpec
               \<lparr>ps_Containers := addVolumeMount
                  \<lparr>vm_Name = modelStorageName, vm_MountPath = st_MountPath st\<rparr>
                  (ps_Containers podSpec),
                ps_Volumes := ps_Volumes podSpec @
                  [\<lparr>v_Name = modelStorageName,
                    v_Source = PersistentVolumeClaimSource (ms_Name ms) False\<rparr>]\<rparr>
             else podSpec)"

section \<open>Desired objects\<close>

definition desiredDeployment :: "ext \<Rightarrow> ModelService \<Rightarrow> labels \<Rightarrow> Deployment \<Rightarrow> Deployment" where
  "desiredDeployment x ms lbls d =
     (let rollout = rolloutForModelService ms
      in d\<lparr>dep_Meta := (dep_Meta d)\<lparr>meta_Labels := lbls\<rparr>,
           dep_Replicas := Some (spec_Replicas (ms_Spec ms)),
           dep_Strategy :=
             \<lparr>ds_Type = ''RollingUpdate'',
              ds_MaxUnavailable = Some (x_ParseIntOrString x (rr_MaxUnavailable rollout)),
              ds_MaxSurge = Some (x_ParseIntOrString x (rr_MaxSurge rollout))\<rparr>,
           dep_MinReadySeconds := rr_MinReadySeconds rollout,
           dep_ProgressDeadlineSeconds := Some (rr_ProgressDeadlineSeconds rollout),
           dep_Selector := Some \<lparr>ls_MatchLabels = lbls\<rparr>,
           dep_TemplateLabels := lbls,
           dep_PodSpec := podSpecForModelService ms\<rparr>)"

definition desiredService :: "ModelService \<Rightarrow> labels \<Rightarrow> Service \<Rightarrow> Service" where
  "desiredService ms lbls s =
     s\<lparr>svc_Meta := (svc_Meta s)\<lparr>meta_Labels := lbls\<rparr>,
       svc_Selector := lbls,
       svc_Ports := [\<lparr>sp_Name = httpPortName, sp_Port = spec_Port (ms_Spec ms),
                      sp_TargetPort = StrVal httpPortName, sp_Protocol = ''TCP''\<rparr>],
       svc_Type := ''ClusterIP''\<rparr>"

definition desiredServiceAccount :: "ModelService \<Rightarrow> labels \<Rightarrow> ServiceAccount \<Rightarrow> ServiceAccount" where
  "desiredServiceAccount ms lbls a =
     a\<lparr>sa_Meta := (sa_Meta a)\<lparr>meta_Labels := lbls\<rparr>,
       sa_AutomountServiceAccountToken := Some (resolveAutomountServiceAccountToken ms)\<rparr>"

definition desiredPVC ::
    "ModelService \<Rightarrow> quantity \<Rightarrow> PersistentVolumeClaim \<Rightarrow> PersistentVolumeClaim" where
  "desiredPVC ms storageSize p =
     p\<lparr>pvc_Meta := (pvc_Meta p)\<lparr>meta_Labels := labelsForModelService ms\<rparr>,
       pvc_AccessModes := [''ReadWriteOnce''],
       pvc_Requests := [(''storage'', storageSize)],
       pvc_Limits := []\<rparr>"

definition desiredPDB ::
    "ModelService \<Rightarrow> labels \<Rightarrow> IntOrString \<Rightarrow> PodDisruptionBudget \<Rightarrow> PodDisruptionBudget" where
  "desiredPDB ms lbls maxUnavailable p =
     p\<lparr>pdb_Meta := (pdb_Meta p)\<lparr>meta_Labels := lbls\<rparr>,
       pdb_Selector := Some \<lparr>ls_MatchLabels = lbls\<rparr>,
       pdb_MinAvailable := None,
       pdb_MaxUnavailable := Some maxUnavailable\<rparr>"

definition networkPolicyIngressRules ::
    "ModelService \<Rightarrow> resolvedNetworkPolicyConfiguration \<Rightarrow> NetworkPolicyRule list" where
  "networkPolicyIngressRules ms configuration =
     (let exposure = exposureForModelService ms;
          peers =
            (if rn_AllowSameNamespaceIngress configuration
             then [\<lparr>npp_PodSelector = Some \<lparr>ls_MatchLabels = Map.empty\<rparr>,
                    npp_NamespaceSelector = None\<rparr>]
             else []) @
            (if re_Enabled exposure
             then [\<lparr>npp_PodSelector = None,
                    npp_NamespaceSelector = Some \<lparr>ls_MatchLabels =
                      [namespaceNameLabel \<mapsto> re_GatewayDataPlaneNamespace exposure]\<rparr>\<rparr>]
             else [])
      in if peers = [] then []
         else [\<lparr>npr_Peers = peers,
                npr_Ports = [\<lparr>npo_Protocol = Some ''TCP'',
                              npo_Port = Some (IntVal (spec_Port (ms_Spec ms)))\<rparr>]\<rparr>])"

definition networkPolicyEgressRules ::
    "resolvedNetworkPolicyConfiguration \<Rightarrow> NetworkPolicyRule list" where
  "networkPolicyEgressRules configuration =
     (if \<not> rn_AllowDNSEgress configuration then []
      else [\<lparr>npr_Peers = [\<lparr>npp_PodSelector = Some \<lparr>ls_MatchLabels = [''k8s-app'' \<mapsto> ''kube-dns'']\<rparr>,
                           npp_NamespaceSelector = Some \<lparr>ls_MatchLabels =
                             [namespaceNameLabel \<mapsto> ''kube-system'']\<rparr>\<rparr>],
             npr_Ports = [\<lparr>npo_Protocol = Some ''UDP'', npo_Port = Some (IntVal 53)\<rparr>,
                          \<lparr>npo_Protocol = Some ''TCP'', npo_Port = Some (IntVal 53)\<rparr>]\<rparr>])"

definition desiredNetworkPolicy ::
    "ModelService \<Rightarrow> labels \<Rightarrow> resolvedNetworkPolicyConfiguration \<Rightarrow> NetworkPolicy \<Rightarrow> NetworkPolicy" where
  "desiredNetworkPolicy ms lbls configuration n =
     n\<lparr>nep_Meta := (nep_Meta n)\<lparr>meta_Labels := lbls\<rparr>,
       nep_PodSelector := \<lparr>ls_MatchLabels = lbls\<rparr>,
       nep_PolicyTypes := [''Ingress'', ''Egress''],
       nep_Ingress := networkPolicyIngressRules ms configuration,
       nep_Egress := networkPolicyEgressRules configuration\<rparr>"

definition desiredHTTPRoute ::
    "ModelService \<Rightarrow> labels \<Rightarrow> resolvedExposureConfiguration \<Rightarrow> HTTPRoute \<Rightarrow> HTTPRoute" where
  "desiredHTTPRoute ms lbls exposure r =
     r\<lparr>hr_Meta := (hr_Meta r)\<lparr>meta_Labels := lbls\<rparr>,
       hr_ParentRefs := [\<lparr>pref_Name = re_GatewayName exposure,
                          pref_Namespace = Some (re_GatewayNamespace exposure),
                          pref_SectionName = Some (re_GatewaySectionName exposure)\<rparr>],
       hr_Hostnames := [re_Hostname exposure],
       hr_Rules := [\<lparr>hrr_PathMatches = [(''PathPrefix'', re_PathPrefix exposure)],
                     hrr_BackendRefs = [\<lparr>bref_Kind = Some ''Service'', bref_Name = ms_Name ms,
                                         bref_Port = Some (spec_Port (ms_Spec ms)),
                                         bref_Weight = Some 1\<rparr>]\<rparr>]\<rparr>"

section \<open>Mutate functions\<close>

definition mutateDeployment :: "ext \<Rightarrow> ModelService \<Rightarrow> labels \<Rightarrow> Deployment \<Rightarrow> goerror + Deployment" where
  "mutateDeployment x ms lbls d =
     (let d' = desiredDeployment x ms lbls d
      in mapR (\<lambda>m. d'\<lparr>dep_Meta := m\<rparr>) (x_SetControllerReference x ms (dep_Meta d')))"

definition mutateService :: "ext \<Rightarrow> ModelService \<Rightarrow> labels \<Rightarrow> Service \<Rightarrow> goerror + Service" where
  "mutateService x ms lbls s =
     (let s' = desiredService ms lbls s
      in mapR (\<lambda>m. s'\<lparr>svc_Meta := m\<rparr>) (x_SetControllerReference x ms (svc_Meta s')))"

definition mutateServiceAccount ::
    "ext \<Rightarrow> ModelService \<Rightarrow> labels \<Rightarrow> ServiceAccount \<Rightarrow> goerror + ServiceAccount" where
  "mutateServiceAccount x ms lbls a =
     (let a' = desiredServiceAccount ms lbls a
      in mapR (\<lambda>m. a'\<lparr>sa_Meta := m\<rparr>) (x_SetControllerReference x ms (sa_Meta a')))"

definition mutatePVC ::
    "ext \<Rightarrow> ModelService \<Rightarrow> quantity \<Rightarrow> PersistentVolumeClaim \<Rightarrow> goerror + PersistentVolumeClaim" where
  "mutatePVC x ms storageSize p =
     (let p' = desiredPVC ms storageSize p
      in mapR (\<lambda>m. p'\<lparr>pvc_Meta := m\<rparr>) (x_SetControllerReference x ms (pvc_Meta p')))"

definition mutatePDB ::
    "ext \<Rightarrow> ModelService \<Rightarrow> labels \<Rightarrow> IntOrString \<Rightarrow> PodDisruptionBudget \<Rightarrow>
     goerror + PodDisruptionBudget" where
  "mutatePDB x ms lbls maxUnavailable p =
     (let p' = desiredPDB ms lbls maxUnavailable p
      in mapR (\<lambda>m. p'\<lparr>pdb_Meta := m\<rparr>) (x_SetControllerReference x ms (pdb_Meta p')))"

definition mutateNetworkPolicy ::
    "ext \<Rightarrow> ModelService \<Rightarrow> labels \<Rightarrow> resolvedNetworkPolicyConfiguration \<Rightarrow> NetworkPolicy \<Rightarrow>
     goerror + NetworkPolicy" where
  "mutateNetworkPolicy x ms lbls configuration n =
     (let n' = desiredNetworkPolicy ms lbls configuration n
      in mapR (\<lambda>m. n'\<lparr>nep_Meta := m\<rparr>) (x_SetControllerReference x ms (nep_Meta n')))"

definition mutateHTTPRoute ::
    "ext \<Rightarrow> ModelService \<Rightarrow> labels \<Rightarrow> resolvedExposureConfiguration \<Rightarrow> HTTPRoute \<Rightarrow>
     goerror + HTTPRoute" where
  "mutateHTTPRoute x ms lbls exposure r =
     (let r' = desiredHTTPRoute ms lbls exposure r
      in mapR (\<lambda>m. r'\<lparr>hr_Meta := m\<rparr>) (x_SetControllerReference x ms (hr_Meta r')))"

section \<open>The contract every managed object meets\<close>

text \<open>
  A managed object is given by the assignments of its mutate function and by how its metadata
  is read and replaced. The laws say that the assignments write the labels, keep the identity of
  the object, do not look at the owner references, and are a projection. What follows from them
  (and from the documented behaviour of the owner-reference helpers) is proved once, here.
\<close>

locale managed_object =
  fixes desired :: "ext \<Rightarrow> ModelService \<Rightarrow> 'o \<Rightarrow> 'o"
    and mutate :: "ext \<Rightarrow> ModelService \<Rightarrow> 'o \<Rightarrow> goerror + 'o"
    and meta :: "'o \<Rightarrow> ObjectMeta"
    and setMeta :: "ObjectMeta \<Rightarrow> 'o \<Rightarrow> 'o"
  assumes mutate_eq: "mutate x ms obj =
      mapR (\<lambda>m. setMeta m (desired x ms obj)) (x_SetControllerReference x ms (meta (desired x ms obj)))"
    and meta_setMeta: "meta (setMeta m obj) = m"
    and setMeta_setMeta: "setMeta m (setMeta m' obj) = setMeta m obj"
    and meta_desired: "meta (desired x ms obj) = (meta obj)\<lparr>meta_Labels := labelsForModelService ms\<rparr>"
    and desired_setMeta: "desired x ms (setMeta m obj) =
      setMeta (m\<lparr>meta_Labels := labelsForModelService ms\<rparr>) (desired x ms obj)"
    and desired_desired: "desired x ms (desired x ms obj) = desired x ms obj"
begin

lemma mutate_InrE:
  assumes "mutate x ms obj = Inr obj'"
  obtains m where "x_SetControllerReference x ms (meta (desired x ms obj)) = Inr m"
    and "obj' = setMeta m (desired x ms obj)"
  using assms by (auto simp: mutate_eq mapR_eq_Inr)

lemma mutate_identity:
  assumes "ownerRefsDocumented x" "mutate x ms obj = Inr obj'"
  shows "meta_Name (meta obj') = meta_Name (meta obj)"
    and "meta_Namespace (meta obj') = meta_Namespace (meta obj)"
    and "meta_UID (meta obj') = meta_UID (meta obj)"
    and "meta_ResourceVersion (meta obj') = meta_ResourceVersion (meta obj)"
    and "meta_Labels (meta obj') = labelsForModelService ms"
    and "meta_Annotations (meta obj') = meta_Annotations (meta obj)"
  using assms(2) by (auto elim!: mutate_InrE dest: ownerRefs_fields [OF assms(1)]
      simp: meta_setMeta meta_desired)

lemma mutate_controlled:
  assumes "ownerRefsDocumented x" "mutate x ms obj = Inr obj'"
  shows "x_IsControlledBy x (meta obj') (ms_Meta ms)"
  using assms(2) by (auto elim!: mutate_InrE dest: ownerRefsD(3) [OF assms(1)] simp: meta_setMeta)

lemma mutate_idempotent:
  assumes "ownerRefsDocumented x" "mutate x ms obj = Inr obj'"
  shows "mutate x ms obj' = Inr obj'"
proof -
  from assms(2) obtain m where
    m: "x_SetControllerReference x ms (meta (desired x ms obj)) = Inr m"
    and obj': "obj' = setMeta m (desired x ms obj)"
    by (rule mutate_InrE)
  have "meta_Labels m = labelsForModelService ms"
    using ownerRefs_fields(3) [OF assms(1) m] by (simp add: meta_desired)
  then have "desired x ms obj' = obj'"
    by (simp add: obj' desired_setMeta desired_desired meta_Labels_same)
  moreover have "x_SetControllerReference x ms m = Inr m"
    using assms(1) m by (rule ownerRefsD(2))
  ultimately show ?thesis by (simp add: mutate_eq obj' meta_setMeta setMeta_setMeta)
qed

lemma mutate_fails_only_on_owner:
  "mutate x ms obj = Inl e \<longleftrightarrow> x_SetControllerReference x ms (meta (desired x ms obj)) = Inl e"
  by (simp add: mutate_eq mapR_eq_Inl)

end

interpretation dep: managed_object
  "\<lambda>x ms. desiredDeployment x ms (labelsForModelService ms)"
  "\<lambda>x ms. mutateDeployment x ms (labelsForModelService ms)"
  dep_Meta "\<lambda>m d. d\<lparr>dep_Meta := m\<rparr>"
  by unfold_locales (simp_all add: mutateDeployment_def desiredDeployment_def Let_def)

interpretation svc: managed_object
  "\<lambda>x ms. desiredService ms (labelsForModelService ms)"
  "\<lambda>x ms. mutateService x ms (labelsForModelService ms)"
  svc_Meta "\<lambda>m s. s\<lparr>svc_Meta := m\<rparr>"
  by unfold_locales (simp_all add: mutateService_def desiredService_def Let_def)

interpretation sa: managed_object
  "\<lambda>x ms. desiredServiceAccount ms (labelsForModelService ms)"
  "\<lambda>x ms. mutateServiceAccount x ms (labelsForModelService ms)"
  sa_Meta "\<lambda>m a. a\<lparr>sa_Meta := m\<rparr>"
  by unfold_locales (simp_all add: mutateServiceAccount_def desiredServiceAccount_def Let_def)

interpretation pvc: managed_object
  "\<lambda>x ms. desiredPVC ms storageSize" "\<lambda>x ms. mutatePVC x ms storageSize"
  pvc_Meta "\<lambda>m p. p\<lparr>pvc_Meta := m\<rparr>" for storageSize
  by unfold_locales (simp_all add: mutatePVC_def desiredPVC_def Let_def)

interpretation pdb: managed_object
  "\<lambda>x ms. desiredPDB ms (labelsForModelService ms) maxUnavailable"
  "\<lambda>x ms. mutatePDB x ms (labelsForModelService ms) maxUnavailable"
  pdb_Meta "\<lambda>m p. p\<lparr>pdb_Meta := m\<rparr>" for maxUnavailable
  by unfold_locales (simp_all add: mutatePDB_def desiredPDB_def Let_def)

interpretation nep: managed_object
  "\<lambda>x ms. desiredNetworkPolicy ms (labelsForModelService ms) configuration"
  "\<lambda>x ms. mutateNetworkPolicy x ms (labelsForModelService ms) configuration"
  nep_Meta "\<lambda>m n. n\<lparr>nep_Meta := m\<rparr>" for configuration
  by unfold_locales (simp_all add: mutateNetworkPolicy_def desiredNetworkPolicy_def Let_def)

interpretation route: managed_object
  "\<lambda>x ms. desiredHTTPRoute ms (labelsForModelService ms) exposure"
  "\<lambda>x ms. mutateHTTPRoute x ms (labelsForModelService ms) exposure"
  hr_Meta "\<lambda>m r. r\<lparr>hr_Meta := m\<rparr>" for exposure
  by unfold_locales (simp_all add: mutateHTTPRoute_def desiredHTTPRoute_def Let_def)

section \<open>Correctness of the desired state\<close>

lemma podSpec_container:
  "\<exists>mounts. ps_Containers (podSpecForModelService ms) =
     [(containerForModelService ms)\<lparr>c_VolumeMounts := mounts\<rparr>] \<and>
     mounts = \<lparr>vm_Name = runtimeTmpVolumeName, vm_MountPath = runtimeTmpMountPath\<rparr> #
       (case spec_Storage (ms_Spec ms) of
          Some st \<Rightarrow> if st_Enabled st then [\<lparr>vm_Name = modelStorageName, vm_MountPath = st_MountPath st\<rparr>] else []
        | None \<Rightarrow> [])"
  by (simp add: podSpecForModelService_def Let_def addVolumeMount_def containerForModelService_def
      split: option.split)

lemma podSpec_volumes:
  "ps_Volumes (podSpecForModelService ms) =
     \<lparr>v_Name = runtimeTmpVolumeName, v_Source = EmptyDir\<rparr> #
     (if storageEnabled ms
      then [\<lparr>v_Name = modelStorageName, v_Source = PersistentVolumeClaimSource (ms_Name ms) False\<rparr>]
      else [])"
  by (simp add: podSpecForModelService_def storageEnabled_def Let_def split: option.split)

text \<open>The mounts of the generated pod are consistent with its volumes: there is one container,
  volume names are distinct, every mount of the container names a declared volume, and a volume
  backed by the claim of the ModelService is there exactly when storage is enabled.\<close>

lemma pod_volumes_consistent:
  "length (ps_Containers (podSpecForModelService ms)) = 1 \<and>
   distinct (map v_Name (ps_Volumes (podSpecForModelService ms))) \<and>
   (\<forall>c \<in> set (ps_Containers (podSpecForModelService ms)).
      vm_Name ` set (c_VolumeMounts c) = v_Name ` set (ps_Volumes (podSpecForModelService ms))) \<and>
   (\<forall>v claim ro. v \<in> set (ps_Volumes (podSpecForModelService ms)) \<and>
      v_Source v = PersistentVolumeClaimSource claim ro \<longrightarrow> claim = ms_Name ms \<and> \<not> ro) \<and>
   ((\<exists>v \<in> set (ps_Volumes (podSpecForModelService ms)). v_Source v \<noteq> EmptyDir) \<longleftrightarrow>
      storageEnabled ms)"
proof -
  have "runtimeTmpVolumeName \<noteq> modelStorageName" by (simp add: go_const)
  then show ?thesis
    using podSpec_container [of ms]
    by (auto simp: podSpec_volumes storageEnabled_def split: option.split)
qed

lemma pod_volumes_consistent_sample:
  "map v_Name (ps_Volumes (podSpecForModelService sampleMS)) = [runtimeTmpVolumeName, modelStorageName] \<and>
   storageEnabled sampleMS \<and>
   (\<exists>c \<in> set (ps_Containers (podSpecForModelService sampleMS)).
      vm_Name ` set (c_VolumeMounts c) = {runtimeTmpVolumeName, modelStorageName})"
proof -
  have "storageEnabled sampleMS" by (simp add: storageEnabled_def sample_defs)
  moreover obtain c where "ps_Containers (podSpecForModelService sampleMS) = [c]"
    using podSpec_container [of sampleMS] by blast
  ultimately show ?thesis
    using pod_volumes_consistent [of sampleMS] by (auto simp: podSpec_volumes)
qed

text \<open>The name of a port resolves against the ports of a container as Kubernetes resolves the
  target port of a Service and the port of a probe.\<close>

definition resolvePort :: "Container \<Rightarrow> IntOrString \<Rightarrow> int32 option" where
  "resolvePort c p =
     (case p of IntVal n \<Rightarrow> Some n
      | StrVal nm \<Rightarrow> map_option cp_ContainerPort (find (\<lambda>q. cp_Name q = nm) (c_Ports c)))"

text \<open>C27. The generated objects fit together: the Deployment's selector, the Service's selector, the
  PodDisruptionBudget's selector and the NetworkPolicy's pod selector all select the pods of the
  Deployment's template; the Service's target port and the three probes resolve to the container
  port of the specification; the HTTPRoute sends traffic to the Service's name and port; the
  pods run under the ServiceAccount of the same name.\<close>

theorem workload_wiring:
  assumes "c \<in> set (ps_Containers (dep_PodSpec (desiredDeployment x ms (labelsForModelService ms) d)))"
  shows
   "let lbls = labelsForModelService ms;
        dep' = desiredDeployment x ms lbls d; svc' = desiredService ms lbls s;
        pdb' = desiredPDB ms lbls mu p; nep' = desiredNetworkPolicy ms lbls cfg n;
        route' = desiredHTTPRoute ms lbls exposure r;
        port = Some (spec_Port (ms_Spec ms))
    in (\<exists>sel. dep_Selector dep' = Some sel \<and> selects (ls_MatchLabels sel) (dep_TemplateLabels dep')) \<and>
       selects (svc_Selector svc') (dep_TemplateLabels dep') \<and>
       (\<exists>sel. pdb_Selector pdb' = Some sel \<and> selects (ls_MatchLabels sel) (dep_TemplateLabels dep')) \<and>
       selects (ls_MatchLabels (nep_PodSelector nep')) (dep_TemplateLabels dep') \<and>
       map (resolvePort c \<circ> sp_TargetPort) (svc_Ports svc') = [port] \<and>
       map (map_option (resolvePort c \<circ> pb_Port)) [c_StartupProbe c, c_ReadinessProbe c, c_LivenessProbe c] =
         [Some port, Some port, Some port] \<and>
       map (map (\<lambda>b. (bref_Name b, bref_Port b)) \<circ> hrr_BackendRefs) (hr_Rules route') =
         [[(ms_Name ms, port)]] \<and>
       map (Some \<circ> sp_Port) (svc_Ports svc') = [port] \<and>
       ps_ServiceAccountName (dep_PodSpec dep') = ms_Name ms"
proof -
  obtain mounts where c: "c = (containerForModelService ms)\<lparr>c_VolumeMounts := mounts\<rparr>"
    using assms podSpec_container [of ms] by (auto simp: desiredDeployment_def Let_def)
  have "resolvePort c (StrVal httpPortName) = Some (spec_Port (ms_Spec ms))"
    by (simp add: c resolvePort_def containerForModelService_def Let_def)
  moreover have "ps_ServiceAccountName (podSpecForModelService ms) = ms_Name ms"
    by (simp add: podSpecForModelService_def Let_def split: option.split)
  moreover have "map (map_option pb_Port) [c_StartupProbe c, c_ReadinessProbe c, c_LivenessProbe c] =
      replicate 3 (Some (StrVal httpPortName))"
    by (simp add: c containerForModelService_def Let_def httpGetProbe_def numeral_eq_Suc)
  ultimately show ?thesis
    by (auto simp: desiredDeployment_def desiredService_def desiredPDB_def desiredNetworkPolicy_def
        desiredHTTPRoute_def Let_def numeral_eq_Suc)
qed

theorem workload_wiring_witness:
  "let c = (containerForModelService sampleMS)\<lparr>c_VolumeMounts :=
         [\<lparr>vm_Name = runtimeTmpVolumeName, vm_MountPath = runtimeTmpMountPath\<rparr>,
          \<lparr>vm_Name = modelStorageName, vm_MountPath = ''/models''\<rparr>]\<rparr>
   in c \<in> set (ps_Containers (dep_PodSpec
          (desiredDeployment sampleExt sampleMS (labelsForModelService sampleMS) zeroDeployment))) \<and>
      map (resolvePort c \<circ> sp_TargetPort)
        (svc_Ports (desiredService sampleMS (labelsForModelService sampleMS) zeroService)) = [Some 8080]"
proof -
  let ?c = "(containerForModelService sampleMS)\<lparr>c_VolumeMounts :=
      [\<lparr>vm_Name = runtimeTmpVolumeName, vm_MountPath = runtimeTmpMountPath\<rparr>,
       \<lparr>vm_Name = modelStorageName, vm_MountPath = ''/models''\<rparr>]\<rparr>"
  have c: "?c \<in> set (ps_Containers (dep_PodSpec
      (desiredDeployment sampleExt sampleMS (labelsForModelService sampleMS) zeroDeployment)))"
    using podSpec_container [of sampleMS] by (simp add: desiredDeployment_def Let_def sample_defs)
  show ?thesis
    using c workload_wiring [OF c, where s = zeroService] by (simp add: Let_def sample_defs)
qed



section \<open>Steady state\<close>

text \<open>An object that \<open>mutate\<close> has produced is a fixpoint of it, labelled and controlled.\<close>

definition settledBy :: "ext \<Rightarrow> ModelService \<Rightarrow> ('o \<Rightarrow> goerror + 'o) \<Rightarrow> ('o \<Rightarrow> ObjectMeta) \<Rightarrow> 'o \<Rightarrow> bool" where
  "settledBy x ms mutate meta obj \<longleftrightarrow>
     (case mutate obj of
        Inl e \<Rightarrow> True
      | Inr obj' \<Rightarrow> mutate obj' = Inr obj' \<and> x_IsControlledBy x (meta obj') (ms_Meta ms) \<and>
          meta_Labels (meta obj') = labelsForModelService ms \<and>
          meta_Name (meta obj') = meta_Name (meta obj) \<and>
          meta_Namespace (meta obj') = meta_Namespace (meta obj) \<and>
          meta_UID (meta obj') = meta_UID (meta obj) \<and>
          meta_Annotations (meta obj') = meta_Annotations (meta obj))"

context managed_object
begin

lemma settled:
  assumes "ownerRefsDocumented x"
  shows "settledBy x ms (mutate x ms) meta obj"
proof (cases "mutate x ms obj")
  case (Inr obj')
  then show ?thesis
    using mutate_idempotent [OF assms Inr] mutate_controlled [OF assms Inr] mutate_identity [OF assms Inr]
    by (simp add: settledBy_def)
qed (simp add: settledBy_def)

end

text \<open>The mutate functions are projections: applied to an object they have already produced,
  each of the seven returns that object unchanged, so that a reconciliation of a cluster in the
  desired state finds nothing to update. The result carries the labels of the ModelService, keeps
  name, namespace, UID and annotations of the object, and is controlled by the ModelService.\<close>

lemma mutate_steady:
  assumes "ownerRefsDocumented x"
  shows
    "settledBy x ms (mutateDeployment x ms (labelsForModelService ms)) dep_Meta d \<and>
     settledBy x ms (mutateService x ms (labelsForModelService ms)) svc_Meta s \<and>
     settledBy x ms (mutateServiceAccount x ms (labelsForModelService ms)) sa_Meta a \<and>
     settledBy x ms (mutatePVC x ms storageSize) pvc_Meta p \<and>
     settledBy x ms (mutatePDB x ms (labelsForModelService ms) maxUnavailable) pdb_Meta b \<and>
     settledBy x ms (mutateNetworkPolicy x ms (labelsForModelService ms) configuration) nep_Meta n \<and>
     settledBy x ms (mutateHTTPRoute x ms (labelsForModelService ms) exposure) hr_Meta r"
  by (intro conjI dep.settled svc.settled sa.settled pvc.settled pdb.settled nep.settled
      route.settled assms)

lemma mutate_steady_sample:
  "ownerRefsDocumented sampleExt \<and>
   (\<exists>s'. mutateService sampleExt sampleMS (labelsForModelService sampleMS) zeroService = Inr s' \<and>
      mutateService sampleExt sampleMS (labelsForModelService sampleMS) s' = Inr s')"
proof -
  have "\<exists>s'. mutateService sampleExt sampleMS (labelsForModelService sampleMS) zeroService = Inr s'"
    by (simp add: mutateService_def desiredService_def Let_def sampleSetControllerReference_def
        controllerOf_def zeroService_def zeroMeta_def)
  then show ?thesis
    using mutate_steady [OF sampleExt_ownerRefs, where ms = sampleMS and s = zeroService]
    by (auto simp: sampleExt_ownerRefs settledBy_def)
qed

section \<open>What the generated NetworkPolicy admits\<close>

text \<open>The documented meaning of a NetworkPolicy rule, as an abstract specification: a connection is
  admitted when some peer and some port of some rule match it. A peer with a pod selector and no
  namespace selector selects pods of the policy's own namespace.\<close>

record connection =
  cn_SameNamespace :: bool
  cn_NamespaceLabels :: labels
  cn_PodLabels :: labels
  cn_Protocol :: string
  cn_Port :: int32

definition peerMatches :: "connection \<Rightarrow> NetworkPolicyPeer \<Rightarrow> bool" where
  "peerMatches c p \<longleftrightarrow>
     (case npp_NamespaceSelector p of
        None \<Rightarrow> cn_SameNamespace c | Some s \<Rightarrow> selects (ls_MatchLabels s) (cn_NamespaceLabels c)) \<and>
     (case npp_PodSelector p of
        None \<Rightarrow> True | Some s \<Rightarrow> selects (ls_MatchLabels s) (cn_PodLabels c))"

definition portMatches :: "connection \<Rightarrow> NetworkPolicyPort \<Rightarrow> bool" where
  "portMatches c q \<longleftrightarrow> npo_Protocol q = Some (cn_Protocol c) \<and> npo_Port q = Some (IntVal (cn_Port c))"

definition admits :: "NetworkPolicyRule list \<Rightarrow> connection \<Rightarrow> bool" where
  "admits rules c \<longleftrightarrow>
     list_ex (\<lambda>r. list_ex (peerMatches c) (npr_Peers r) \<and> list_ex (portMatches c) (npr_Ports r)) rules"

lemma selects_empty [simp]: "selects Map.empty l"
  by (simp add: selects_def)

lemma selects_singleton [simp]: "selects [k \<mapsto> v] l \<longleftrightarrow> l k = Some v"
  by (auto simp: selects_def map_le_def)


end
