(* ===== verification/Status.thy ===== *)
theory Status
  imports Effects Resolve Samples
begin

text \<open>
  Status reporting for the Deployment backend: \<^verbatim>\<open>updateModelServiceStatus\<close>,
  \<^verbatim>\<open>setModelServiceCondition\<close> and \<^verbatim>\<open>deploymentProgressDeadlineExceeded\<close> of
  \<^verbatim>\<open>internal/controller/modelservice_controller.go\<close>. The clock is read once per condition
  written, as \<^verbatim>\<open>metav1.Now()\<close> does.
\<close>

section \<open>The Available condition\<close>

definition sameConditionState :: "Condition \<Rightarrow> Condition \<Rightarrow> bool" where
  [go_fun]: "sameConditionState a b \<longleftrightarrow>
     cond_Status a = cond_Status b \<and> cond_Reason a = cond_Reason b \<and> cond_Message a = cond_Message b"

text \<open>The loop over the existing conditions: the first one of the same type is replaced in place,
  keeping its transition time when its state is unchanged; otherwise the new one is appended.\<close>

fun putCondition :: "Condition \<Rightarrow> Condition list \<Rightarrow> Condition list" where
  "putCondition new [] = [new]"
| "putCondition new (old # rest) =
     (if cond_Type old \<noteq> cond_Type new then old # putCondition new rest
      else (if sameConditionState old new
            then new\<lparr>cond_LastTransitionTime := cond_LastTransitionTime old\<rparr> else new) # rest)"

definition setModelServiceCondition ::
    "time \<Rightarrow> conditionStatus \<Rightarrow> string \<Rightarrow> string \<Rightarrow> ModelService \<Rightarrow> ModelService" where
  "setModelServiceCondition now status reason message ms =
     (let newCondition = \<lparr>cond_Type = ''Available'', cond_Status = status,
            cond_ObservedGeneration = ms_Generation ms, cond_LastTransitionTime = now,
            cond_Reason = reason, cond_Message = message\<rparr>
      in ms\<lparr>ms_Status := (ms_Status ms)
            \<lparr>status_Conditions := putCondition newCondition (status_Conditions (ms_Status ms))\<rparr>\<rparr>)"

definition deploymentProgressDeadlineExceeded :: "Deployment \<Rightarrow> bool" where
  "deploymentProgressDeadlineExceeded d \<longleftrightarrow>
     list_ex (\<lambda>c. dc_Type c = ''Progressing'' \<and> dc_Status c = ConditionFalse \<and>
                  dc_Reason c = ''ProgressDeadlineExceeded'') (dep_StatusConditions d)"

section \<open>Deriving the status of a ModelService from its Deployment\<close>

definition serviceEndpoint :: "ModelService \<Rightarrow> string" where
  "serviceEndpoint ms =
     ''http://'' @ ms_Name ms @ ''.'' @ ms_Namespace ms @ ''.svc.cluster.local:'' @
     showInt (sint (spec_Port (ms_Spec ms)))"

definition waitingMessage :: "int32 \<Rightarrow> int32 \<Rightarrow> string" where
  "waitingMessage readyReplicas desiredReplicas =
     ''Waiting for ready replicas: '' @ showInt (sint readyReplicas) @ '' of '' @
     showInt (sint desiredReplicas) @ '' ready''"

definition setPhase :: "string \<Rightarrow> ModelService \<Rightarrow> ModelService" where
  [go_fun]: "setPhase phase ms = ms\<lparr>ms_Status := (ms_Status ms)\<lparr>status_Phase := phase\<rparr>\<rparr>"

text \<open>The switch of \<^verbatim>\<open>updateModelServiceStatus\<close>: the phase, and the status, reason and message
  of the Available condition that each of its cases sets.\<close>

type_synonym outcome = "string \<times> conditionStatus \<times> string \<times> string"

definition deploymentOutcome :: "int32 \<Rightarrow> Deployment \<Rightarrow> outcome" where
  "deploymentOutcome desiredReplicas d =
     (if deploymentProgressDeadlineExceeded d
      then (''Degraded'', ConditionFalse, ''ProgressDeadlineExceeded'',
            ''The Deployment did not become ready before its progress deadline'')
      else if 0 < sint desiredReplicas \<and> dep_StatusReadyReplicas d = desiredReplicas \<and>
              dep_StatusAvailableReplicas d = desiredReplicas
      then (modelServicePhaseReady, ConditionTrue, ''DeploymentAvailable'', ''Model service is ready'')
      else (modelServicePhaseProvisioning, ConditionFalse, ''DeploymentNotReady'',
            waitingMessage (dep_StatusReadyReplicas d) desiredReplicas))"

text \<open>One case of such a switch: the phase is assigned and the condition is set.\<close>

definition applyOutcome :: "time \<Rightarrow> outcome \<Rightarrow> ModelService \<Rightarrow> ModelService" where
  "applyOutcome now oc ms =
     (case oc of (phase, status, reason, message) \<Rightarrow>
        setModelServiceCondition now status reason message (setPhase phase ms))"

definition withDeploymentStatus :: "time \<Rightarrow> Deployment \<Rightarrow> ModelService \<Rightarrow> ModelService" where
  "withDeploymentStatus now d ms =
     applyOutcome now (deploymentOutcome (spec_Replicas (ms_Spec ms)) d)
       (ms\<lparr>ms_Status := (ms_Status ms)
           \<lparr>status_ReadyReplicas := dep_StatusReadyReplicas d,
            status_Endpoint := serviceEndpoint ms,
            status_ObservedGeneration := ms_Generation ms\<rparr>\<rparr>)"

text \<open>\<^verbatim>\<open>if reflect.DeepEqual(previous, current) { return nil }; return r.Status().Update(...)\<close>\<close>

definition writeStatusIfChanged :: "ModelServiceStatus \<Rightarrow> ModelService \<Rightarrow> (goerror + unit) prog" where
  "writeStatusIfChanged previousStatus ms =
     (if previousStatus = ms_Status ms then Ret (Inr ())
      else bindE (objCall (OStatusUpdate (KModelService ms))) (\<lambda>_. Ret (Inr ())))"

definition updateModelServiceStatus :: "ModelService \<Rightarrow> Deployment \<Rightarrow> (goerror + unit) prog" where
  "updateModelServiceStatus ms d =
     Now (\<lambda>now. writeStatusIfChanged (ms_Status ms) (withDeploymentStatus now d ms))"

section \<open>Conditions form a map from types\<close>

text \<open>The API declares the list of conditions as a map keyed by type.\<close>

definition conditionTypesDistinct :: "ModelServiceStatus \<Rightarrow> bool" where
  "conditionTypesDistinct s \<longleftrightarrow> distinct (map cond_Type (status_Conditions s))"

definition findCondition :: "string \<Rightarrow> Condition list \<Rightarrow> Condition option" where
  "findCondition t cs = find (\<lambda>c. cond_Type c = t) cs"

lemma putCondition_types:
  "map cond_Type (putCondition new cs) =
     (if cond_Type new \<in> cond_Type ` set cs then map cond_Type cs
      else map cond_Type cs @ [cond_Type new])"
  by (induction cs) auto

lemma putCondition_other:
  "t \<noteq> cond_Type new \<Longrightarrow> findCondition t (putCondition new cs) = findCondition t cs"
  by (induction cs) (auto simp: findCondition_def)

lemma putCondition_found:
  "findCondition (cond_Type new) (putCondition new cs) =
     Some (case findCondition (cond_Type new) cs of
             None \<Rightarrow> new
           | Some old \<Rightarrow> if sameConditionState old new
                         then new\<lparr>cond_LastTransitionTime := cond_LastTransitionTime old\<rparr> else new)"
  by (induction cs) (auto simp: findCondition_def)

lemma putCondition_again:
  assumes "cond_Type b = cond_Type a" "sameConditionState a b"
    and "cond_ObservedGeneration a = cond_ObservedGeneration b"
  shows "putCondition b (putCondition a cs) = putCondition a cs"
proof -
  have eq: "b\<lparr>cond_LastTransitionTime := t\<rparr> = a\<lparr>cond_LastTransitionTime := t\<rparr>" for t
    using assms by (cases a, cases b) (auto simp: sameConditionState_def)
  have keep: "b\<lparr>cond_LastTransitionTime := cond_LastTransitionTime a\<rparr> = a"
    using eq [of "cond_LastTransitionTime a"] by simp
  show ?thesis
    by (induction cs) (use assms keep eq in \<open>auto simp: sameConditionState_def\<close>)
qed

lemma setCondition_frame [simp]:
  "ms_Meta (setModelServiceCondition now st r m ms) = ms_Meta ms"
  "ms_Spec (setModelServiceCondition now st r m ms) = ms_Spec ms"
  "status_Phase (ms_Status (setModelServiceCondition now st r m ms)) = status_Phase (ms_Status ms)"
  "status_ReadyReplicas (ms_Status (setModelServiceCondition now st r m ms)) =
     status_ReadyReplicas (ms_Status ms)"
  "status_Endpoint (ms_Status (setModelServiceCondition now st r m ms)) = status_Endpoint (ms_Status ms)"
  "status_ObservedGeneration (ms_Status (setModelServiceCondition now st r m ms)) =
     status_ObservedGeneration (ms_Status ms)"
  by (simp_all add: setModelServiceCondition_def Let_def)

text \<open>C30. Writing the Available condition is an update of one entry of a map keyed by type: types
  stay distinct, every other condition is untouched, and the entry holds the given status, reason,
  message and the current generation. Its transition time is the old one when status, reason and
  message are unchanged and the current time otherwise.\<close>

theorem set_condition_upsert:
  assumes "conditionTypesDistinct (ms_Status ms)"
  shows "let cs = status_Conditions (ms_Status ms);
             ms' = setModelServiceCondition now status reason message ms;
             cs' = status_Conditions (ms_Status ms')
         in conditionTypesDistinct (ms_Status ms') \<and>
            (\<forall>t. t \<noteq> ''Available'' \<longrightarrow> findCondition t cs' = findCondition t cs) \<and>
            (\<exists>c. findCondition ''Available'' cs' = Some c \<and> cond_Status c = status \<and>
               cond_Reason c = reason \<and> cond_Message c = message \<and>
               cond_ObservedGeneration c = ms_Generation ms \<and>
               cond_LastTransitionTime c =
                 (case findCondition ''Available'' cs of
                    Some old \<Rightarrow> if cond_Status old = status \<and> cond_Reason old = reason \<and>
                                   cond_Message old = message
                                then cond_LastTransitionTime old else now
                  | None \<Rightarrow> now))"
proof -
  let ?new = "\<lparr>cond_Type = ''Available'', cond_Status = status,
      cond_ObservedGeneration = ms_Generation ms, cond_LastTransitionTime = now,
      cond_Reason = reason, cond_Message = message\<rparr>"
  have cs': "status_Conditions (ms_Status (setModelServiceCondition now status reason message ms)) =
      putCondition ?new (status_Conditions (ms_Status ms))"
    by (simp add: setModelServiceCondition_def Let_def)
  have "conditionTypesDistinct (ms_Status (setModelServiceCondition now status reason message ms))"
    using assms by (auto simp: conditionTypesDistinct_def cs' putCondition_types)
  moreover have "findCondition t (putCondition ?new cs) = findCondition t cs"
    if "t \<noteq> ''Available''" for t cs
    using that by (simp add: putCondition_other)
  moreover note putCondition_found [of ?new "status_Conditions (ms_Status ms)"]
  ultimately show ?thesis
    by (simp add: Let_def cs' sameConditionState_def split: option.split)
qed

theorem set_condition_upsert_witness:
  "conditionTypesDistinct (ms_Status sampleMS) \<and>
   (\<exists>c. findCondition ''Available'' (status_Conditions (ms_Status
        (setModelServiceCondition 5 ConditionTrue ''R'' ''m'' sampleMS))) = Some c \<and>
      cond_LastTransitionTime c = 5)"
proof -
  have h: "conditionTypesDistinct (ms_Status sampleMS)"
    by (simp add: conditionTypesDistinct_def sample_defs)
  show ?thesis
    using h set_condition_upsert [OF h, of 5 ConditionTrue "''R''" "''m''"]
    by (auto simp: Let_def findCondition_def sample_defs)
qed

section \<open>Correctness of the reported status\<close>

abbreviation availableCondition ::
    "time \<Rightarrow> outcome \<Rightarrow> ModelService \<Rightarrow> Condition" where
  "availableCondition now oc ms \<equiv>
     \<lparr>cond_Type = ''Available'', cond_Status = fst (snd oc),
      cond_ObservedGeneration = ms_Generation ms, cond_LastTransitionTime = now,
      cond_Reason = fst (snd (snd oc)), cond_Message = snd (snd (snd oc))\<rparr>"

lemma applyOutcome_simps [simp]:
  "ms_Meta (applyOutcome now oc ms) = ms_Meta ms"
  "ms_Spec (applyOutcome now oc ms) = ms_Spec ms"
  "status_Phase (ms_Status (applyOutcome now oc ms)) = fst oc"
  "status_ReadyReplicas (ms_Status (applyOutcome now oc ms)) = status_ReadyReplicas (ms_Status ms)"
  "status_Endpoint (ms_Status (applyOutcome now oc ms)) = status_Endpoint (ms_Status ms)"
  "status_ObservedGeneration (ms_Status (applyOutcome now oc ms)) =
     status_ObservedGeneration (ms_Status ms)"
  "status_Conditions (ms_Status (applyOutcome now oc ms)) =
     putCondition (availableCondition now oc ms) (status_Conditions (ms_Status ms))"
  by (simp_all add: applyOutcome_def setPhase_def setModelServiceCondition_def Let_def
      split: prod.split)

lemma applyOutcome_available:
  "\<exists>c. findCondition ''Available'' (status_Conditions (ms_Status (applyOutcome now oc ms))) = Some c \<and>
     cond_Status c = fst (snd oc) \<and> cond_Reason c = fst (snd (snd oc)) \<and>
     cond_Message c = snd (snd (snd oc))"
  using putCondition_found [of "availableCondition now oc ms" "status_Conditions (ms_Status ms)"]
  by (simp split: option.splits)

lemma status_eqI:
  "status_Phase a = status_Phase b \<Longrightarrow> status_ReadyReplicas a = status_ReadyReplicas b \<Longrightarrow>
   status_Endpoint a = status_Endpoint b \<Longrightarrow>
   status_ObservedGeneration a = status_ObservedGeneration b \<Longrightarrow>
   status_Conditions a = status_Conditions b \<Longrightarrow> a = (b :: ModelServiceStatus)"
  by (cases a, cases b) simp

text \<open>Applying the same outcome to an object that already carries it changes nothing, at any time.\<close>

lemma applyOutcome_again:
  assumes "ms_Meta ms' = ms_Meta ms" "ms_Status ms' = ms_Status (applyOutcome now oc ms)"
  shows "ms_Status (applyOutcome later oc ms') = ms_Status ms'"
  by (rule status_eqI)
     (use assms in \<open>simp_all add: putCondition_again sameConditionState_def\<close>)

text \<open>C18. The reported phase is a function of what the Deployment reports: Degraded when its
  progress deadline is exceeded; otherwise Ready exactly when at least one replica is wanted and
  that many are both ready and available; otherwise Provisioning. The Available condition is True
  exactly in phase Ready, and the observed generation is that of the specification acted upon.\<close>

theorem deployment_phase:
  "let s = ms_Status (withDeploymentStatus now d ms); want = spec_Replicas (ms_Spec ms)
   in status_Phase s =
        (if deploymentProgressDeadlineExceeded d then ''Degraded''
         else if 0 < sint want \<and> dep_StatusReadyReplicas d = want \<and>
                 dep_StatusAvailableReplicas d = want then ''Ready''
         else ''Provisioning'') \<and>
      (\<exists>c. findCondition ''Available'' (status_Conditions s) = Some c \<and>
         (cond_Status c = ConditionTrue \<longleftrightarrow> status_Phase s = ''Ready'')) \<and>
      status_ObservedGeneration s = ms_Generation ms \<and>
      status_ReadyReplicas s = dep_StatusReadyReplicas d"
proof -
  let ?oc = "deploymentOutcome (spec_Replicas (ms_Spec ms)) d"
  let ?ms = "withDeploymentStatus now d ms"
  have phase: "status_Phase (ms_Status ?ms) = fst ?oc"
    by (simp add: withDeploymentStatus_def)
  moreover obtain c where "findCondition ''Available'' (status_Conditions (ms_Status ?ms)) = Some c"
    "cond_Status c = fst (snd ?oc)"
    unfolding withDeploymentStatus_def using applyOutcome_available by metis
  moreover have "fst (snd ?oc) = ConditionTrue \<longleftrightarrow> fst ?oc = ''Ready''"
    by (simp add: deploymentOutcome_def go_const)
  moreover have "fst ?oc = (if deploymentProgressDeadlineExceeded d then ''Degraded''
      else if 0 < sint (spec_Replicas (ms_Spec ms)) \<and>
        dep_StatusReadyReplicas d = spec_Replicas (ms_Spec ms) \<and>
        dep_StatusAvailableReplicas d = spec_Replicas (ms_Spec ms) then ''Ready''
      else ''Provisioning'')"
    by (simp add: deploymentOutcome_def go_const)
  ultimately show ?thesis
    by (simp add: Let_def) (simp add: withDeploymentStatus_def)
qed

lemma withDeploymentStatus_twice:
  "ms_Status (withDeploymentStatus later d (withDeploymentStatus now d ms)) =
     ms_Status (withDeploymentStatus now d ms)"
  by (rule status_eqI)
     (simp_all add: withDeploymentStatus_def serviceEndpoint_def putCondition_again
       sameConditionState_def)

text \<open>Status reporting is quiescent: when the stored status is the one derived from a Deployment,
  a later reconciliation that sees the same Deployment reads the clock and makes no call to the
  API server, so the operator does not keep triggering itself.\<close>

lemma status_quiescent:
  assumes "exec (updateModelServiceStatus (withDeploymentStatus now d ms) d) tr result"
  shows "(\<exists>t. tr = [ENow t]) \<and> result = Inr ()"
  using assms
  by (auto simp: updateModelServiceStatus_def writeStatusIfChanged_def exec_iffs
      withDeploymentStatus_twice)

lemma status_quiescent_run:
  "\<exists>tr result. exec (updateModelServiceStatus (withDeploymentStatus 1 zeroDeployment sampleMS)
      zeroDeployment) tr result \<and> length tr = 1 \<and> result = Inr ()"
proof -
  obtain tr result where
    h: "exec (updateModelServiceStatus (withDeploymentStatus 1 zeroDeployment sampleMS) zeroDeployment)
      tr result"
    by (rule exec_totalE)
  then show ?thesis using status_quiescent [OF h] by auto
qed

text \<open>Every call of a status update, and the fact that it only writes a changed status.\<close>

lemma exec_writeStatus:
  "exec (writeStatusIfChanged prev ms) tr result \<longleftrightarrow>
     (prev = ms_Status ms \<and> tr = [] \<and> result = Inr ()) \<or>
     (prev \<noteq> ms_Status ms \<and> (\<exists>r. tr = [EObj (OStatusUpdate (KModelService ms)) r] \<and>
        result = mapR (\<lambda>_. ()) r))"
proof (cases "prev = ms_Status ms")
  case False
  then have "exec (writeStatusIfChanged prev ms) tr result \<longleftrightarrow>
      (\<exists>r. tr = [EObj (OStatusUpdate (KModelService ms)) r] \<and>
        ((\<exists>e. r = Inl e \<and> result = Inl e) \<or> (\<exists>y. r = Inr y \<and> result = Inr ())))"
    by (auto simp: writeStatusIfChanged_def exec_bindE exec_objCall)
  also have "\<dots> \<longleftrightarrow> (\<exists>r. tr = [EObj (OStatusUpdate (KModelService ms)) r] \<and> result = mapR (\<lambda>_. ()) r)"
    by (rule ex_cong1, rule conj_cong, rule refl) (auto simp: mapR_def split: sum.splits)
  finally show ?thesis using False by simp
qed (simp add: writeStatusIfChanged_def)

end
