(* ===== verification/KServe.thy ===== *)
theory KServe
  imports Status
begin

text \<open>
  The KServe backend, \<^verbatim>\<open>internal/controller/modelservice_kserve_controller.go\<close>: the translation
  of a ModelService into an InferenceService, its server-side apply, and the mapping of the
  InferenceService's status back to the status of the ModelService.
\<close>

section \<open>The InferenceService a ModelService asks for\<close>

definition inferenceServiceGVK :: GroupVersionKind where
  "inferenceServiceGVK =
     \<lparr>gvk_Group = ''serving.kserve.io'', gvk_Version = ''v1beta1'', gvk_Kind = ''InferenceService''\<rparr>"

definition defaultKServeRuntime :: string where [go_const]: "defaultKServeRuntime = ''kserve-sklearnserver''"
definition defaultKServeModelVersion :: string where [go_const]: "defaultKServeModelVersion = ''1''"
definition defaultKServeServiceAccount :: string where
  [go_const]: "defaultKServeServiceAccount = ''kserve-model-reader''"
definition kserveFieldManager :: string where [go_const]: "kserveFieldManager = ''ai-platform-operator''"

definition newInferenceService :: "string \<Rightarrow> string \<Rightarrow> Unstructured" where
  "newInferenceService name namespace =
     \<lparr>us_GVK = inferenceServiceGVK, us_Meta = namedMeta name namespace, us_Object = []\<rparr>"

text \<open>\<^verbatim>\<open>max(modelService.Spec.Replicas, 1)\<close> on \<^verbatim>\<open>int32\<close>.\<close>

definition atLeastOne :: "int32 \<Rightarrow> int32" where
  "atLeastOne r = (if sint r < 1 then 1 else r)"

lemma atLeastOne_ge: "1 \<le> sint (atLeastOne r)"
  by (simp add: atLeastOne_def)

lemma atLeastOne_max: "sint (atLeastOne r) = max (sint r) 1"
  by (simp add: atLeastOne_def)

definition desiredInferenceServiceSpec :: "ext \<Rightarrow> ModelService \<Rightarrow> goerror + anymap" where
  "desiredInferenceServiceSpec x ms =
     (case spec_Predictor (ms_Spec ms) of
        None \<Rightarrow> Inl (Errorf ''spec.predictor is required for the KServe backend'')
      | Some predictor \<Rightarrow>
          let runtimeName = (if pr_Runtime predictor = [] then defaultKServeRuntime
                             else pr_Runtime predictor);
              modelVersion = (if mf_Version (pr_ModelFormat predictor) = []
                              then defaultKServeModelVersion else mf_Version (pr_ModelFormat predictor));
              serviceAccountName = (if pr_ServiceAccountName predictor = []
                                    then defaultKServeServiceAccount else pr_ServiceAccountName predictor);
              replicas = atLeastOne (spec_Replicas (ms_Spec ms));
              model = [(''modelFormat'', AMap [(''name'', AStr (mf_Name (pr_ModelFormat predictor))),
                                               (''version'', AStr modelVersion)]),
                       (''runtime'', AStr runtimeName),
                       (''storageUri'', AStr (pr_StorageURI predictor))];
              resources = spec_Resources (ms_Spec ms);
              withResources =
                (if 0 < length (rr_Requests resources) \<or> 0 < length (rr_Limits resources)
                 then (case x_MarshalResources x resources of
                         Inl e \<Rightarrow> Inl (Wrapf ''marshal predictor resources: '' e)
                       | Inr encoded \<Rightarrow>
                           (case x_UnmarshalMap x encoded of
                              Inl e \<Rightarrow> Inl (Wrapf ''convert predictor resources: '' e)
                            | Inr m \<Rightarrow> Inr (model @ [(''resources'', AMap m)])))
                 else Inr model)
          in mapR (\<lambda>m. [(''predictor'', AMap
                [(''serviceAccountName'', AStr serviceAccountName),
                 (''automountServiceAccountToken'', ABool False),
                 (''minReplicas'', AInt (scast replicas)),
                 (''maxReplicas'', AInt (scast replicas)),
                 (''model'', AMap m)])]) withResources)"

section \<open>Reading the status of the InferenceService\<close>

definition nestedStringOr ::
    "ext \<Rightarrow> anymap \<Rightarrow> string list \<Rightarrow> string \<Rightarrow> goerror + string" where
  "nestedStringOr x m fs context =
     (case x_NestedString x m fs of
        (v, found, Some e) \<Rightarrow> Inl (Wrapf context e) | (v, found, None) \<Rightarrow> Inr v)"

text \<open>\<open>None\<close>: no active failure. \<open>Some (reason, message)\<close>: the model failed to load.\<close>

definition inferenceServiceModelFailure ::
    "ext \<Rightarrow> anymap \<Rightarrow> goerror + (string \<times> string) option" where
  "inferenceServiceModelFailure x obj =
     bindR (nestedStringOr x obj [''status'', ''modelStatus'', ''states'', ''targetModelState'']
              ''read KServe target model state: '') (\<lambda>targetState.
     bindR (nestedStringOr x obj [''status'', ''modelStatus'', ''transitionStatus'']
              ''read KServe model transition status: '') (\<lambda>transitionStatus.
     if targetState \<noteq> ''FailedToLoad'' \<and> transitionStatus \<noteq> ''BlockedByFailedLoad'' then Inr None
     else
       bindR (nestedStringOr x obj [''status'', ''modelStatus'', ''lastFailureInfo'', ''reason'']
                ''read KServe model failure reason: '') (\<lambda>reason.
       bindR (nestedStringOr x obj [''status'', ''modelStatus'', ''lastFailureInfo'', ''message'']
                ''read KServe model failure message: '') (\<lambda>message.
       Inr (Some (reason, trimSpace message))))))"

definition kserveConditionFailed :: "string \<Rightarrow> bool" where
  "kserveConditionFailed reason =
     (let normalized = toLower reason
      in contains normalized ''failed'' \<or> contains normalized ''error'' \<or> contains normalized ''invalid'')"

definition kserveConditionMessage :: "string \<Rightarrow> string \<Rightarrow> string \<Rightarrow> string" where
  "kserveConditionMessage reason message fallback =
     (if reason \<noteq> [] \<and> message \<noteq> [] then reason @ '': '' @ message
      else if message \<noteq> [] then message
      else if reason \<noteq> [] then reason
      else fallback)"

text \<open>The loop over the conditions: items that are not maps are skipped, and so is a read error of a
  field, which leaves the field empty.\<close>

fun readyConditionIn :: "ext \<Rightarrow> anyval list \<Rightarrow> (string \<times> string \<times> string) option" where
  "readyConditionIn x [] = None"
| "readyConditionIn x (AMap condition # rest) =
     (if fst (x_NestedString x condition [''type'']) \<noteq> modelServicePhaseReady
      then readyConditionIn x rest
      else Some (fst (x_NestedString x condition [''status'']),
                 fst (x_NestedString x condition [''reason'']),
                 fst (x_NestedString x condition [''message''])))"
| "readyConditionIn x (item # rest) = readyConditionIn x rest"

definition inferenceServiceReadyCondition ::
    "ext \<Rightarrow> anymap \<Rightarrow> goerror + (string \<times> string \<times> string) option" where
  "inferenceServiceReadyCondition x obj =
     (case x_NestedSlice x obj [''status'', ''conditions''] of
        (conditions, found, Some e) \<Rightarrow> Inl (Wrapf ''read InferenceService conditions: '' e)
      | (conditions, found, None) \<Rightarrow>
          if \<not> found then Inr None else Inr (readyConditionIn x conditions))"

section \<open>Mapping it to the status of the ModelService\<close>

text \<open>The switch of \<^verbatim>\<open>updateModelServiceStatusFromInferenceService\<close>.\<close>

definition kserveOutcome ::
    "(string \<times> string) option \<Rightarrow> (string \<times> string \<times> string) option \<Rightarrow> outcome" where
  "kserveOutcome failure ready =
     (case failure of
        Some (failureReason, failureMessage) \<Rightarrow>
          (modelServicePhaseFailed, ConditionFalse, ''InferenceServiceFailed'',
           kserveConditionMessage failureReason failureMessage ''KServe model failed to load'')
      | None \<Rightarrow>
          (case ready of
             None \<Rightarrow> (modelServicePhaseProvisioning, ConditionFalse, ''InferenceServicePending'',
                      ''Waiting for KServe InferenceService status'')
           | Some (readyStatus, reason, message) \<Rightarrow>
               if readyStatus = ConditionTrue
               then (modelServicePhaseReady, ConditionTrue, ''InferenceServiceReady'',
                     kserveConditionMessage reason message ''KServe InferenceService is ready'')
               else if readyStatus = ConditionFalse \<and> kserveConditionFailed reason
               then (modelServicePhaseFailed, ConditionFalse, ''InferenceServiceFailed'',
                     kserveConditionMessage reason message ''KServe InferenceService failed'')
               else if readyStatus = ConditionFalse
               then (modelServicePhaseProvisioning, ConditionFalse, ''InferenceServiceNotReady'',
                     kserveConditionMessage reason message ''KServe InferenceService is not ready'')
               else (modelServicePhaseProvisioning, ConditionFalse, ''InferenceServiceProgressing'',
                     kserveConditionMessage reason message ''KServe InferenceService is progressing'')))"

definition withInferenceStatus :: "time \<Rightarrow> string \<Rightarrow> outcome \<Rightarrow> ModelService \<Rightarrow> ModelService" where
  "withInferenceStatus now endpoint oc ms =
     applyOutcome now oc
       (ms\<lparr>ms_Status := (ms_Status ms)
           \<lparr>status_ObservedGeneration := ms_Generation ms,
            status_ReadyReplicas :=
              (if fst oc = modelServicePhaseReady then atLeastOne (spec_Replicas (ms_Spec ms)) else 0),
            status_Endpoint := endpoint\<rparr>\<rparr>)"

definition updateModelServiceStatusFromInferenceService ::
    "ext \<Rightarrow> ModelService \<Rightarrow> Unstructured \<Rightarrow> (goerror + unit) prog" where
  "updateModelServiceStatusFromInferenceService x ms is =
     (case nestedStringOr x (us_Object is) [''status'', ''url''] ''read InferenceService status URL: '' of
        Inl e \<Rightarrow> Ret (Inl e)
      | Inr endpoint \<Rightarrow>
          (case inferenceServiceReadyCondition x (us_Object is) of
             Inl e \<Rightarrow> Ret (Inl e)
           | Inr ready \<Rightarrow>
               (case inferenceServiceModelFailure x (us_Object is) of
                  Inl e \<Rightarrow> Ret (Inl e)
                | Inr failure \<Rightarrow>
                    Now (\<lambda>now. writeStatusIfChanged (ms_Status ms)
                      (withInferenceStatus now endpoint (kserveOutcome failure ready) ms)))))"

section \<open>Reconciliation\<close>

text \<open>The InferenceService that is applied: identity, labels, the desired spec; the owner reference is set
  next. The marshalling of the apply payload has no error branch here: the object holds only strings,
  booleans, integers, lists and maps, which \<^verbatim>\<open>json.Marshal\<close> always encodes.\<close>

definition desiredInferenceService :: "ModelService \<Rightarrow> anymap \<Rightarrow> Unstructured" where
  "desiredInferenceService ms desiredSpec =
     (let is = newInferenceService (ms_Name ms) (ms_Namespace ms)
      in is\<lparr>us_Meta := (us_Meta is)\<lparr>meta_Labels := labelsForModelService ms\<rparr>,
            us_Object := [(''spec'', AMap desiredSpec)]\<rparr>)"

definition reconcileKServeModelService :: "ext \<Rightarrow> ModelService \<Rightarrow> (goerror + unit) prog" where
  "reconcileKServeModelService x ms =
     (case desiredInferenceServiceSpec x ms of
        Inl e \<Rightarrow> Ret (Inl e)
      | Inr desiredSpec \<Rightarrow>
          let is = desiredInferenceService ms desiredSpec
          in case x_SetControllerReference x ms (us_Meta is) of
               Inl e \<Rightarrow> Ret (Inl e)
             | Inr m \<Rightarrow>
                 bind (objCall (OApply (KInferenceService (is\<lparr>us_Meta := m\<rparr>)) kserveFieldManager True))
                   (\<lambda>r. case r of
                      Inl e \<Rightarrow> Ret (Inl (Wrapf ''apply KServe InferenceService: '' e))
                    | Inr applied \<Rightarrow>
                        bind (objCall (OGet InferenceServiceKind (keyOf applied)))
                          (\<lambda>r. case r of
                             Inl e \<Rightarrow> Ret (Inl (Wrapf ''read applied KServe InferenceService: '' e))
                           | Inr current \<Rightarrow>
                               updateModelServiceStatusFromInferenceService x ms
                                 (asUnstructured current))))"

section \<open>Properties of the desired InferenceService\<close>

text \<open>Reading a path of map keys in the specification.\<close>

fun specAt :: "anymap \<Rightarrow> string list \<Rightarrow> anyval option" where
  "specAt m [] = None"
| "specAt m [k] = map_of m k"
| "specAt m (k # ks) = (case map_of m k of Some (AMap m') \<Rightarrow> specAt m' ks | _ \<Rightarrow> None)"

lemma scast_int32 [simp]: "sint (scast (w :: int32) :: int64) = sint w"
  by (rule sint_up_scast) (simp add: is_up)

text \<open>The InferenceService specification of a ModelService: there is one only when the
  ModelService has a predictor; its replica bounds are equal and are the replicas of the
  ModelService, at least one, kept exact by the widening to 64 bits; the service account token is never
  mounted automatically; model name and storage location are the predictor's, and runtime, version
  and service account are the predictor's or the defaults.\<close>

lemma kserve_spec:
  assumes "desiredInferenceServiceSpec x ms = Inr spec"
  shows "\<exists>p n. spec_Predictor (ms_Spec ms) = Some p \<and>
    specAt spec [''predictor'', ''minReplicas''] = Some (AInt n) \<and>
    specAt spec [''predictor'', ''maxReplicas''] = Some (AInt n) \<and>
    sint n = max (sint (spec_Replicas (ms_Spec ms))) 1 \<and>
    specAt spec [''predictor'', ''automountServiceAccountToken''] = Some (ABool False) \<and>
    specAt spec [''predictor'', ''serviceAccountName''] =
      Some (AStr (if pr_ServiceAccountName p = [] then ''kserve-model-reader'' else pr_ServiceAccountName p)) \<and>
    specAt spec [''predictor'', ''model'', ''runtime''] =
      Some (AStr (if pr_Runtime p = [] then ''kserve-sklearnserver'' else pr_Runtime p)) \<and>
    specAt spec [''predictor'', ''model'', ''storageUri''] = Some (AStr (pr_StorageURI p)) \<and>
    specAt spec [''predictor'', ''model'', ''modelFormat'', ''name''] =
      Some (AStr (mf_Name (pr_ModelFormat p))) \<and>
    specAt spec [''predictor'', ''model'', ''modelFormat'', ''version''] =
      Some (AStr (if mf_Version (pr_ModelFormat p) = [] then ''1'' else mf_Version (pr_ModelFormat p)))"
proof -
  from assms obtain p where p: "spec_Predictor (ms_Spec ms) = Some p"
    by (auto simp: desiredInferenceServiceSpec_def split: option.splits)
  have "\<exists>extra. spec = [(''predictor'', AMap
      [(''serviceAccountName'', AStr (if pr_ServiceAccountName p = [] then defaultKServeServiceAccount
          else pr_ServiceAccountName p)),
       (''automountServiceAccountToken'', ABool False),
       (''minReplicas'', AInt (scast (atLeastOne (spec_Replicas (ms_Spec ms))))),
       (''maxReplicas'', AInt (scast (atLeastOne (spec_Replicas (ms_Spec ms))))),
       (''model'', AMap ([(''modelFormat'', AMap [(''name'', AStr (mf_Name (pr_ModelFormat p))),
          (''version'', AStr (if mf_Version (pr_ModelFormat p) = [] then defaultKServeModelVersion
             else mf_Version (pr_ModelFormat p)))]),
          (''runtime'', AStr (if pr_Runtime p = [] then defaultKServeRuntime else pr_Runtime p)),
          (''storageUri'', AStr (pr_StorageURI p))] @ extra))])]"
    using assms p
    by (auto simp: desiredInferenceServiceSpec_def Let_def mapR_def split: sum.splits if_splits)
  then show ?thesis
    using p by (elim exE, intro exI [of _ p]
      exI [of _ "scast (atLeastOne (spec_Replicas (ms_Spec ms)))"])
      (simp add: go_const atLeastOne_max)
qed

text \<open>The bound of the replicas and the defaults, evaluated.\<close>

lemma kserve_spec_sample:
  "\<exists>spec n. desiredInferenceServiceSpec sampleExt sampleKServeMS = Inr spec \<and>
     specAt spec [''predictor'', ''minReplicas''] = Some (AInt n) \<and> sint n = 1"
proof -
  have "\<exists>spec. desiredInferenceServiceSpec sampleExt sampleKServeMS = Inr spec"
    by (simp add: desiredInferenceServiceSpec_def sample_defs Let_def mapR_def)
  then obtain spec where h: "desiredInferenceServiceSpec sampleExt sampleKServeMS = Inr spec" ..
  from kserve_spec [OF h] h show ?thesis by (auto simp: sample_defs)
qed

section \<open>Properties of the reported status\<close>

text \<open>C26. The phase of a KServe ModelService: an active model failure wins over everything; then the
  Ready condition decides, a False one counting as a failure only when its reason says so. The
  Available condition is True exactly in phase Ready, and replicas are reported as ready only then.\<close>

theorem kserve_phase:
  "let oc = kserveOutcome failure ready; s = ms_Status (withInferenceStatus now endpoint oc ms)
   in status_Phase s =
        (if failure \<noteq> None then ''Failed''
         else case ready of
                None \<Rightarrow> ''Provisioning''
              | Some (st, reason, message) \<Rightarrow>
                  if st = ConditionTrue then ''Ready''
                  else if st = ConditionFalse \<and> kserveConditionFailed reason then ''Failed''
                  else ''Provisioning'') \<and>
      (\<exists>c. findCondition ''Available'' (status_Conditions s) = Some c \<and>
         (cond_Status c = ConditionTrue \<longleftrightarrow> status_Phase s = ''Ready'')) \<and>
      sint (status_ReadyReplicas s) =
        (if status_Phase s = ''Ready'' then max (sint (spec_Replicas (ms_Spec ms))) 1 else 0) \<and>
      status_Endpoint s = endpoint \<and> status_ObservedGeneration s = ms_Generation ms"
proof -
  let ?oc = "kserveOutcome failure ready"
  let ?ms = "withInferenceStatus now endpoint ?oc ms"
  have oc: "fst ?oc = (if failure \<noteq> None then ''Failed''
      else case ready of
             None \<Rightarrow> ''Provisioning''
           | Some (st, reason, message) \<Rightarrow>
               if st = ConditionTrue then ''Ready''
               else if st = ConditionFalse \<and> kserveConditionFailed reason then ''Failed''
               else ''Provisioning'')"
    and agree: "fst (snd ?oc) = ConditionTrue \<longleftrightarrow> fst ?oc = ''Ready''"
    by (auto simp: kserveOutcome_def go_const split: option.splits prod.splits)
  obtain c where "findCondition ''Available'' (status_Conditions (ms_Status ?ms)) = Some c"
    "cond_Status c = fst (snd ?oc)"
    unfolding withInferenceStatus_def using applyOutcome_available by metis
  moreover have "status_Phase (ms_Status ?ms) = fst ?oc"
    "sint (status_ReadyReplicas (ms_Status ?ms)) =
       (if fst ?oc = ''Ready'' then max (sint (spec_Replicas (ms_Spec ms))) 1 else 0)"
    "status_Endpoint (ms_Status ?ms) = endpoint"
    "status_ObservedGeneration (ms_Status ?ms) = ms_Generation ms"
    by (simp_all add: withInferenceStatus_def atLeastOne_max go_const)
  ultimately show ?thesis using agree unfolding Let_def oc [symmetric] by simp
qed

lemma withInferenceStatus_twice:
  "ms_Status (withInferenceStatus later e oc (withInferenceStatus now e oc ms)) =
     ms_Status (withInferenceStatus now e oc ms)"
  by (rule status_eqI)
     (simp_all add: withInferenceStatus_def putCondition_again sameConditionState_def)

lemma withInferenceStatus_meta [simp]: "ms_Meta (withInferenceStatus t e oc ms) = ms_Meta ms"
  by (simp add: withInferenceStatus_def)

section \<open>Executions\<close>

lemma updateFromInferenceService_exec:
  assumes "exec (updateModelServiceStatusFromInferenceService x ms is) tr y"
  obtains (unreadable) e where "tr = []" "y = Inl e"
  | (unchanged) t where "tr = [ENow t]" "y = Inr ()"
  | (written) t endpoint failure ready r where "tr = [ENow t,
        EObj (OStatusUpdate (KModelService
          (withInferenceStatus t endpoint (kserveOutcome failure ready) ms))) r]"
      "y = mapR (\<lambda>_. ()) r"
  using assms unfolding updateModelServiceStatusFromInferenceService_def
  by (auto split: sum.splits simp: exec_writeStatus elim!: exec_NowE)

lemma reconcileKServe_exec:
  assumes "exec (reconcileKServeModelService x ms) tr y"
  obtains (invalid) e where "tr = []" "y = Inl e"
  | (called) desiredSpec m r tr' where
      "desiredInferenceServiceSpec x ms = Inr desiredSpec"
      "x_SetControllerReference x ms (us_Meta (desiredInferenceService ms desiredSpec)) = Inr m"
      "tr = EObj (OApply (KInferenceService ((desiredInferenceService ms desiredSpec)\<lparr>us_Meta := m\<rparr>))
              kserveFieldManager True) r # tr'"
      "(\<exists>e. r = Inl e \<and> tr' = [] \<and> y = Inl (Wrapf ''apply KServe InferenceService: '' e)) \<or>
       (\<exists>applied. r = Inr applied \<and>
          ((\<exists>e. tr' = [EObj (OGet InferenceServiceKind (keyOf applied)) (Inl e)] \<and>
                y = Inl (Wrapf ''read applied KServe InferenceService: '' e)) \<or>
           (\<exists>current tr''. tr' = EObj (OGet InferenceServiceKind (keyOf applied)) (Inr current) # tr'' \<and>
              exec (updateModelServiceStatusFromInferenceService x ms (asUnstructured current)) tr'' y)))"
proof (cases "desiredInferenceServiceSpec x ms")
  case (Inl e)
  with assms show ?thesis by (intro invalid) (auto simp: reconcileKServeModelService_def)
next
  case (Inr desiredSpec)
  note spec = this
  show ?thesis
  proof (cases "x_SetControllerReference x ms (us_Meta (desiredInferenceService ms desiredSpec))")
    case (Inl e)
    with assms spec show ?thesis by (intro invalid) (auto simp: reconcileKServeModelService_def Let_def)
  next
    case (Inr m)
    from assms spec Inr show ?thesis
      by (simp add: reconcileKServeModelService_def Let_def exec_bind_objCall exec_case_sum)
         (elim exE conjE disjE, auto intro!: called [OF spec Inr])
  qed
qed





end
