(* ===== verification/Reconciler.thy ===== *)
theory Reconciler
  imports Workloads KServe "HOL-Library.Sublist"
begin

text \<open>
  The reconciler of \<^verbatim>\<open>internal/controller/modelservice_controller.go\<close>: \<^verbatim>\<open>Reconcile\<close> and the
  helpers that bring one object each to its desired state, with every client call they make.
  Informational log lines of the operator are left out: nothing depends on them.
\<close>

section \<open>One object at a time\<close>

text \<open>Re-reading a \<^typ>\<open>kobject\<close> as the typed variable of a given kind.\<close>

definition typedAs :: "objkind \<Rightarrow> kobject \<Rightarrow> kobject" where
  "typedAs kind k =
     (case kind of
        ServiceAccountKind \<Rightarrow> KServiceAccount (asServiceAccount k)
      | DeploymentKind \<Rightarrow> KDeployment (asDeployment k)
      | ServiceKind \<Rightarrow> KService (asService k)
      | PersistentVolumeClaimKind \<Rightarrow> KPersistentVolumeClaim (asPVC k)
      | PodDisruptionBudgetKind \<Rightarrow> KPodDisruptionBudget (asPDB k)
      | NetworkPolicyKind \<Rightarrow> KNetworkPolicy (asNetworkPolicy k)
      | HTTPRouteKind \<Rightarrow> KHTTPRoute (asHTTPRoute k)
      | InferenceServiceKind \<Rightarrow> KInferenceService (asUnstructured k)
      | ModelServiceKind \<Rightarrow> KModelService (asModelService k))"

lemma kindOf_typedAs [simp]: "kindOf (typedAs kind k) = kind"
  by (simp add: typedAs_def split: objkind.split)

lemma typedAs_same [simp]: "kindOf k = kind \<Longrightarrow> typedAs kind k = k"
  by (cases k) (auto simp: typedAs_def)

text \<open>A mutate function on one type of object, as a function on objects.\<close>

definition mutateOn ::
    "(kobject \<Rightarrow> 'o) \<Rightarrow> ('o \<Rightarrow> kobject) \<Rightarrow> ('o \<Rightarrow> goerror + 'o) \<Rightarrow> kobject \<Rightarrow> goerror + kobject" where
  "mutateOn get put f k = mapR put (f (get k))"

definition createOrUpdate ::
    "kobject \<Rightarrow> (kobject \<Rightarrow> goerror + kobject) \<Rightarrow> (goerror + unit) prog" where
  "createOrUpdate obj f = bindE (objCall (OCreateOrUpdate obj f)) (\<lambda>_. Ret (Inr ()))"

text \<open>The branch the four optional objects share: when the object is not wanted, an existing one is
  deleted, but only if this ModelService controls it.\<close>

definition deleteWhenControlled :: "ext \<Rightarrow> ModelService \<Rightarrow> objkind \<Rightarrow> (goerror + unit) prog" where
  "deleteWhenControlled x ms kind =
     bind (objCall (OGet kind (keyOfMS ms))) (\<lambda>r. case r of
        Inl e \<Rightarrow> if isNotFound e then Ret (Inr ()) else Ret (Inl e)
      | Inr existing \<Rightarrow>
          if \<not> x_IsControlledBy x (metaOf (typedAs kind existing)) (ms_Meta ms)
          then Ret (Inr ())
          else delCall (typedAs kind existing) None)"

abbreviation metaFor :: "ModelService \<Rightarrow> ObjectMeta" where
  "metaFor ms \<equiv> namedMeta (ms_Name ms) (ms_Namespace ms)"

definition reconcileServiceAccount :: "ext \<Rightarrow> ModelService \<Rightarrow> labels \<Rightarrow> (goerror + unit) prog" where
  "reconcileServiceAccount x ms lbls =
     createOrUpdate (KServiceAccount (zeroServiceAccount\<lparr>sa_Meta := metaFor ms\<rparr>))
       (mutateOn asServiceAccount KServiceAccount (mutateServiceAccount x ms lbls))"

text \<open>The Deployment, whose observed state the status is computed from, is returned.\<close>

definition reconcileDeployment :: "ext \<Rightarrow> ModelService \<Rightarrow> labels \<Rightarrow> (goerror + Deployment) prog" where
  "reconcileDeployment x ms lbls =
     bindE (objCall (OCreateOrUpdate (KDeployment (zeroDeployment\<lparr>dep_Meta := metaFor ms\<rparr>))
              (mutateOn asDeployment KDeployment (mutateDeployment x ms lbls))))
       (\<lambda>deployment. Ret (Inr (asDeployment deployment)))"

definition reconcileService :: "ext \<Rightarrow> ModelService \<Rightarrow> labels \<Rightarrow> (goerror + unit) prog" where
  "reconcileService x ms lbls =
     createOrUpdate (KService (zeroService\<lparr>svc_Meta := metaFor ms\<rparr>))
       (mutateOn asService KService (mutateService x ms lbls))"

definition reconcilePersistentVolumeClaim :: "ext \<Rightarrow> ModelService \<Rightarrow> (goerror + unit) prog" where
  "reconcilePersistentVolumeClaim x ms =
     (case spec_Storage (ms_Spec ms) of
        None \<Rightarrow> deleteWhenControlled x ms PersistentVolumeClaimKind
      | Some storage \<Rightarrow>
          if \<not> st_Enabled storage then deleteWhenControlled x ms PersistentVolumeClaimKind
          else
            (case x_ParseQuantity x (st_Size storage) of
               Inl e \<Rightarrow> Ret (Inl e)
             | Inr storageSize \<Rightarrow>
                 createOrUpdate (KPersistentVolumeClaim (zeroPVC\<lparr>pvc_Meta := metaFor ms\<rparr>))
                   (mutateOn asPVC KPersistentVolumeClaim (mutatePVC x ms storageSize))))"

definition reconcilePodDisruptionBudget :: "ext \<Rightarrow> ModelService \<Rightarrow> labels \<Rightarrow> (goerror + unit) prog" where
  "reconcilePodDisruptionBudget x ms lbls =
     (let configuration = podDisruptionBudgetForModelService ms
      in if \<not> rp_Enabled configuration then deleteWhenControlled x ms PodDisruptionBudgetKind
         else let maxUnavailable = x_ParseIntOrString x (rp_MaxUnavailable configuration)
              in createOrUpdate (KPodDisruptionBudget (zeroPDB\<lparr>pdb_Meta := metaFor ms\<rparr>))
                   (mutateOn asPDB KPodDisruptionBudget (mutatePDB x ms lbls maxUnavailable)))"

definition reconcileNetworkPolicy :: "ext \<Rightarrow> ModelService \<Rightarrow> labels \<Rightarrow> (goerror + unit) prog" where
  "reconcileNetworkPolicy x ms lbls =
     (let configuration = networkPolicyForModelService ms
      in if \<not> rn_Enabled configuration then deleteWhenControlled x ms NetworkPolicyKind
         else createOrUpdate (KNetworkPolicy (zeroNetworkPolicy\<lparr>nep_Meta := metaFor ms\<rparr>))
                (mutateOn asNetworkPolicy KNetworkPolicy (mutateNetworkPolicy x ms lbls configuration)))"

definition reconcileHTTPRoute :: "ext \<Rightarrow> ModelService \<Rightarrow> labels \<Rightarrow> (goerror + unit) prog" where
  "reconcileHTTPRoute x ms lbls =
     (let exposure = exposureForModelService ms
      in if \<not> re_Enabled exposure then deleteWhenControlled x ms HTTPRouteKind
         else if re_Hostname exposure = []
         then Ret (Inl (Errorf ''spec.exposure.hostname must be set when exposure is enabled''))
         else createOrUpdate (KHTTPRoute (zeroHTTPRoute\<lparr>hr_Meta := metaFor ms\<rparr>))
                (mutateOn asHTTPRoute KHTTPRoute (mutateHTTPRoute x ms lbls exposure)))"

section \<open>Reconcile\<close>

definition reconcileDeploymentBackend :: "ext \<Rightarrow> ModelService \<Rightarrow> (goerror + unit) prog" where
  "reconcileDeploymentBackend x ms =
     (let lbls = labelsForModelService ms in
      bindE (reconcileServiceAccount x ms lbls) (\<lambda>_.
      bindE (reconcileDeployment x ms lbls) (\<lambda>deployment.
      bindE (reconcileService x ms lbls) (\<lambda>_.
      bindE (reconcilePersistentVolumeClaim x ms) (\<lambda>_.
      bindE (reconcilePodDisruptionBudget x ms lbls) (\<lambda>_.
      bindE (reconcileNetworkPolicy x ms lbls) (\<lambda>_.
      bindE (reconcileHTTPRoute x ms lbls) (\<lambda>_.
      updateModelServiceStatus ms deployment))))))))"

definition reconcileModelService :: "ext \<Rightarrow> ModelService \<Rightarrow> (goerror + unit) prog" where
  "reconcileModelService x ms =
     (if backendForModelService ms = ModelServiceBackendKServe
      then reconcileKServeModelService x ms
      else reconcileDeploymentBackend x ms)"

definition Reconcile :: "ext \<Rightarrow> objkey \<Rightarrow> (goerror + unit) prog" where
  "Reconcile x req =
     bind (objCall (OGet ModelServiceKind req)) (\<lambda>r. case r of
        Inl e \<Rightarrow> if isNotFound e then Ret (Inr ()) else Ret (Inl e)
      | Inr obj \<Rightarrow> reconcileModelService x (asModelService obj))"

section \<open>Executions of one call\<close>

lemma exec_createOrUpdate:
  "exec (createOrUpdate obj f) tr y \<longleftrightarrow>
     (\<exists>r. tr = [EObj (OCreateOrUpdate obj f) r] \<and> y = mapR (\<lambda>_. ()) r)"
proof -
  have "exec (createOrUpdate obj f) tr y \<longleftrightarrow>
      (\<exists>r. tr = [EObj (OCreateOrUpdate obj f) r] \<and>
        ((\<exists>e. r = Inl e \<and> y = Inl e) \<or> (\<exists>z. r = Inr z \<and> y = Inr ())))"
    by (auto simp: createOrUpdate_def exec_bindE exec_objCall)
  also have "\<dots> \<longleftrightarrow> (\<exists>r. tr = [EObj (OCreateOrUpdate obj f) r] \<and> y = mapR (\<lambda>_. ()) r)"
    by (rule ex_cong1, rule conj_cong, rule refl) (auto simp: mapR_def split: sum.splits)
  finally show ?thesis .
qed

lemma exec_deleteWhenControlled:
  assumes "exec (deleteWhenControlled x ms kind) tr y"
  shows "(\<exists>r. tr = [EObj (OGet kind (keyOfMS ms)) r]) \<or>
    (\<exists>k res. tr = [EObj (OGet kind (keyOfMS ms)) (Inr k), EDel (typedAs kind k) None res] \<and>
       x_IsControlledBy x (metaOf (typedAs kind k)) (ms_Meta ms))"
proof -
  from assms obtain r tr' where tr: "tr = EObj (OGet kind (keyOfMS ms)) r # tr'"
    and rest: "exec (case r of
        Inl e \<Rightarrow> if isNotFound e then Ret (Inr ()) else Ret (Inl e)
      | Inr existing \<Rightarrow>
          if \<not> x_IsControlledBy x (metaOf (typedAs kind existing)) (ms_Meta ms) then Ret (Inr ())
          else delCall (typedAs kind existing) None) tr' y"
    unfolding deleteWhenControlled_def exec_bind_objCall by (elim exE conjE)
  from rest show ?thesis unfolding tr by (cases r) (auto simp: exec_delCall split: if_splits)
qed

section \<open>Which objects are deleted\<close>

text \<open>The kinds of object the Deployment backend wants for a ModelService, in the order it applies them.\<close>

definition wantedKinds :: "ModelService \<Rightarrow> objkind list" where
  "wantedKinds ms =
     [ServiceAccountKind, DeploymentKind, ServiceKind] @
     (if storageEnabled ms then [PersistentVolumeClaimKind] else []) @
     (if rp_Enabled (podDisruptionBudgetForModelService ms) then [PodDisruptionBudgetKind] else []) @
     (if rn_Enabled (networkPolicyForModelService ms) then [NetworkPolicyKind] else []) @
     (if re_Enabled (exposureForModelService ms) then [HTTPRouteKind] else [])"

text \<open>A deletion is justified when the object was read just before under the key of the ModelService,
  is controlled by it and is of a kind it does not want.\<close>

definition deletionsJustified :: "ext \<Rightarrow> ModelService \<Rightarrow> event list \<Rightarrow> bool" where
  "deletionsJustified x ms tr \<longleftrightarrow>
     (\<forall>obj pre res. EDel obj pre res \<in> set tr \<longrightarrow>
        kindOf obj \<notin> set (wantedKinds ms) \<and>
        x_IsControlledBy x (metaOf obj) (ms_Meta ms) \<and>
        (\<exists>before after k. obj = typedAs (kindOf obj) k \<and>
           tr = before @ EObj (OGet (kindOf obj) (keyOfMS ms)) (Inr k) # EDel obj pre res # after))"

interpretation del: trace_property "deletionsJustified x ms" for x ms
proof
  show "deletionsJustified x ms []" by (simp add: deletionsJustified_def)
next
  fix a b assume ab: "deletionsJustified x ms a" "deletionsJustified x ms b"
  have left: "\<exists>before after. a @ b = before @ u # v # after" if "\<exists>before after. a = before @ u # v # after"
    for u v using that by (elim exE) (simp, blast)
  have right: "\<exists>before after. a @ b = before @ u # v # after" if "\<exists>before after. b = before @ u # v # after"
    for u v using that by (elim exE) (simp, metis append.assoc)
  show "deletionsJustified x ms (a @ b)"
    unfolding deletionsJustified_def
  proof (intro allI impI)
    fix obj pre res assume "EDel obj pre res \<in> set (a @ b)"
    then consider "EDel obj pre res \<in> set a" | "EDel obj pre res \<in> set b" by auto
    then show "kindOf obj \<notin> set (wantedKinds ms) \<and> x_IsControlledBy x (metaOf obj) (ms_Meta ms) \<and>
        (\<exists>before after k. obj = typedAs (kindOf obj) k \<and>
           a @ b = before @ EObj (OGet (kindOf obj) (keyOfMS ms)) (Inr k) # EDel obj pre res # after)"
      by cases (use ab left right in \<open>unfold deletionsJustified_def, metis\<close>)+
  qed
qed

lemma noDeletions: "list_all (\<lambda>e. \<forall>d p r. e \<noteq> EDel d p r) tr \<Longrightarrow> deletionsJustified x ms tr"
  by (auto simp: deletionsJustified_def list_all_iff)

lemma deletion_pair:
  "\<lbrakk>kind \<notin> set (wantedKinds ms); x_IsControlledBy x (metaOf (typedAs kind k)) (ms_Meta ms)\<rbrakk> \<Longrightarrow>
   deletionsJustified x ms [EObj (OGet kind (keyOfMS ms)) (Inr k), EDel (typedAs kind k) None res]"
  unfolding deletionsJustified_def by (auto intro!: exI [of _ "[]"] exI [of _ k])

section \<open>The order of the work\<close>

text \<open>The kinds of the objects created or updated successfully, in the order of the calls.\<close>

fun appliedKinds :: "event list \<Rightarrow> objkind list" where
  "appliedKinds [] = []"
| "appliedKinds (EObj (OCreateOrUpdate obj f) (Inr r) # tr) = kindOf obj # appliedKinds tr"
| "appliedKinds (e # tr) = appliedKinds tr"

lemma appliedKinds_append [simp]: "appliedKinds (a @ b) = appliedKinds a @ appliedKinds b"
  by (induction a rule: appliedKinds.induct) auto

definition writesStatus :: "event \<Rightarrow> bool" where
  "writesStatus e \<longleftrightarrow> (\<exists>obj r. e = EObj (OStatusUpdate obj) r)"

text \<open>\<open>stage K p\<close>: the objects \<open>p\<close> applies are an initial part of \<open>K\<close>, and all of \<open>K\<close>
  when \<open>p\<close> succeeds or writes a status.\<close>

definition stage :: "objkind list \<Rightarrow> (goerror + 'a) prog \<Rightarrow> bool" where
  "stage K p \<longleftrightarrow>
     (\<forall>tr y. exec p tr y \<longrightarrow> prefix (appliedKinds tr) K \<and>
        ((\<exists>v. y = Inr v) \<or> list_ex writesStatus tr \<longrightarrow> appliedKinds tr = K))"

lemma stageI:
  assumes "\<And>tr y. exec p tr y \<Longrightarrow> prefix (appliedKinds tr) K \<and>
     ((\<exists>v. y = Inr v) \<or> list_ex writesStatus tr \<longrightarrow> appliedKinds tr = K)"
  shows "stage K p"
  using assms by (simp add: stage_def)

lemma stageD:
  assumes "stage K p" "exec p tr y"
  shows "prefix (appliedKinds tr) K"
    and "(\<exists>v. y = Inr v) \<or> list_ex writesStatus tr \<Longrightarrow> appliedKinds tr = K"
  using assms(1) [unfolded stage_def, rule_format, OF assms(2)] by simp_all

lemma stage_bindE:
  assumes "stage K p" "always (\<lambda>e. \<not> writesStatus e) p" "\<And>v. stage L (f v)"
  shows "stage (K @ L) (bindE p f)"
proof (rule stageI)
  fix tr y assume "exec (bindE p f) tr y"
  then consider e where "exec p tr (Inl e)" "y = Inl e"
    | tr1 tr2 v where "tr = tr1 @ tr2" "exec p tr1 (Inr v)" "exec (f v) tr2 y"
    unfolding exec_bindE by (elim disjE exE conjE)
  then show "prefix (appliedKinds tr) (K @ L) \<and>
      ((\<exists>v. y = Inr v) \<or> list_ex writesStatus tr \<longrightarrow> appliedKinds tr = K @ L)"
  proof cases
    case 1
    have "list_all (\<lambda>e. \<not> writesStatus e) tr" by (rule always_exec [OF 1(1) assms(2)])
    then show ?thesis
      using stageD(1) [OF assms(1) 1(1)] 1(2) by (auto simp: list_all_iff list_ex_iff prefix_def)
  next
    case 2
    have "list_all (\<lambda>e. \<not> writesStatus e) tr1" by (rule always_exec [OF 2(2) assms(2)])
    moreover have "appliedKinds tr1 = K" by (rule stageD(2) [OF assms(1) 2(2)]) simp
    ultimately show ?thesis
      using stageD [OF assms(3) 2(3)] 2(1) by (auto simp: list_all_iff list_ex_iff)
  qed
qed

section \<open>The reach of a run\<close>

primrec callKind :: "objcall \<Rightarrow> objkind" where
  "callKind (OGet kind key) = kind"
| "callKind (OCreateOrUpdate obj f) = kindOf obj"
| "callKind (OCreate obj) = kindOf obj"
| "callKind (OUpdate obj) = kindOf obj"
| "callKind (OStatusUpdate obj) = kindOf obj"
| "callKind (OApply obj owner force) = kindOf obj"

primrec callKey :: "objcall \<Rightarrow> objkey" where
  "callKey (OGet kind key) = key"
| "callKey (OCreateOrUpdate obj f) = keyOf obj"
| "callKey (OCreate obj) = keyOf obj"
| "callKey (OUpdate obj) = keyOf obj"
| "callKey (OStatusUpdate obj) = keyOf obj"
| "callKey (OApply obj owner force) = keyOf obj"

text \<open>The API server answers a call with an object of the kind and the key it was asked for.\<close>

primrec answersAsAsked :: "event \<Rightarrow> bool" where
  "answersAsAsked (EObj c r) \<longleftrightarrow> (case r of Inl e \<Rightarrow> True | Inr obj \<Rightarrow> kindOf obj = callKind c \<and> keyOf obj = callKey c)"
| "answersAsAsked (EDel d p r) \<longleftrightarrow> True"
| "answersAsAsked (EList n l r) \<longleftrightarrow> True"
| "answersAsAsked (ENow t) \<longleftrightarrow> True"
| "answersAsAsked (ERand n r) \<longleftrightarrow> True"
| "answersAsAsked (EVerify t r) \<longleftrightarrow> True"
| "answersAsAsked (EOut w) \<longleftrightarrow> True"

text \<open>A call on an object of one of some kinds under one key; reading the clock is in every scope.\<close>

primrec inScope :: "objkey \<Rightarrow> objkind set \<Rightarrow> event \<Rightarrow> bool" where
  "inScope key kinds (EObj c r) \<longleftrightarrow> callKey c = key \<and> callKind c \<in> kinds"
| "inScope key kinds (EDel d p r) \<longleftrightarrow> keyOf d = key \<and> kindOf d \<in> kinds"
| "inScope key kinds (EList n l r) \<longleftrightarrow> False"
| "inScope key kinds (ENow t) \<longleftrightarrow> True"
| "inScope key kinds (ERand n r) \<longleftrightarrow> False"
| "inScope key kinds (EVerify t r) \<longleftrightarrow> False"
| "inScope key kinds (EOut w) \<longleftrightarrow> False"

definition staysIn :: "objkey \<Rightarrow> objkind set \<Rightarrow> event list \<Rightarrow> bool" where
  "staysIn key kinds tr \<longleftrightarrow> (list_all answersAsAsked tr \<longrightarrow> list_all (inScope key kinds) tr)"

interpretation reach: trace_property "staysIn key kinds" for key kinds
  by unfold_locales (auto simp: staysIn_def)

section \<open>The optional objects\<close>

text \<open>A program that fails before making a call or makes one \<^verbatim>\<open>CreateOrUpdate\<close> for an object
  of a given kind under the key of the ModelService.\<close>

definition failsOrApplies :: "objkind \<Rightarrow> ModelService \<Rightarrow> (goerror + unit) prog \<Rightarrow> bool" where
  "failsOrApplies kind ms p \<longleftrightarrow>
     (\<exists>e. p = Ret (Inl e)) \<or>
     (\<exists>obj f. kindOf obj = kind \<and> keyOf obj = keyOfMS ms \<and> p = createOrUpdate obj f)"

lemma failsOrApplies_Ret [simp]: "failsOrApplies kind ms (Ret (Inl e))"
  by (simp add: failsOrApplies_def)

lemma failsOrApplies_createOrUpdate [simp]:
  "kindOf obj = kind \<Longrightarrow> metaOf obj = metaFor ms \<Longrightarrow> failsOrApplies kind ms (createOrUpdate obj f)"
  unfolding failsOrApplies_def
  by (intro disjI2 exI [of _ obj] exI [of _ f]) (simp add: keyOf_def keyOfMS_def)

lemma failsOrApplies_exec:
  assumes "failsOrApplies kind ms p" "exec p tr y"
  obtains (failed) e where "tr = []" "y = Inl e"
  | (applied) obj f r where "kindOf obj = kind" "keyOf obj = keyOfMS ms"
      "tr = [EObj (OCreateOrUpdate obj f) r]" "y = mapR (\<lambda>_. ()) r"
  using assms(1) unfolding failsOrApplies_def
proof (elim disjE exE conjE)
  fix e assume "p = Ret (Inl e)"
  with assms(2) show ?thesis by (intro failed) auto
next
  fix obj f assume "kindOf obj = kind" "keyOf obj = keyOfMS ms" "p = createOrUpdate obj f"
  with assms(2) show ?thesis by (auto simp: exec_createOrUpdate intro: applied)
qed

text \<open>What holds of a program by the one call it may make.\<close>

lemma failsOrApplies_deletions: "failsOrApplies kind ms p \<Longrightarrow> del.holds x ms p"
  by (rule del.holdsI) (erule (1) failsOrApplies_exec, auto simp: noDeletions)

lemma failsOrApplies_scope:
  "failsOrApplies kind ms p \<Longrightarrow> kind \<in> kinds \<Longrightarrow> reach.holds (keyOfMS ms) kinds p"
  by (rule reach.holdsI) (erule (1) failsOrApplies_exec, auto simp: staysIn_def)

lemma failsOrApplies_no_status: "failsOrApplies kind ms p \<Longrightarrow> always (\<lambda>e. \<not> writesStatus e) p"
  by (auto simp: failsOrApplies_def createOrUpdate_def writesStatus_def intro!: always_bindEI)

lemma failsOrApplies_stage: "failsOrApplies kind ms p \<Longrightarrow> stage [kind] p"
  by (rule stageI, erule (1) failsOrApplies_exec)
     (auto simp: mapR_def writesStatus_def split: sum.splits)

text \<open>
  What the four optional objects have in common: when the object is not wanted, the code is
  \<^const>\<open>deleteWhenControlled\<close>; when it is wanted, it is \<^const>\<open>failsOrApplies\<close>.
\<close>

locale optional_object =
  fixes reconcile :: "ext \<Rightarrow> ModelService \<Rightarrow> (goerror + unit) prog"
    and wanted :: "ModelService \<Rightarrow> bool"
    and kind :: objkind
  assumes unwanted: "\<not> wanted ms \<Longrightarrow> reconcile x ms = deleteWhenControlled x ms kind"
    and wanted_shape: "wanted ms \<Longrightarrow> failsOrApplies kind ms (reconcile x ms)"
    and wanted_listed: "kind \<in> set (wantedKinds ms) \<longleftrightarrow> wanted ms"
begin

lemma reconcile_cases:
  assumes "exec (reconcile x ms) tr y"
  obtains (failed) e where "wanted ms" "tr = []" "y = Inl e"
  | (applied) obj f r where "wanted ms" "kindOf obj = kind" "keyOf obj = keyOfMS ms"
      "tr = [EObj (OCreateOrUpdate obj f) r]" "y = mapR (\<lambda>_. ()) r"
  | (inspected) r where "\<not> wanted ms" "tr = [EObj (OGet kind (keyOfMS ms)) r]"
  | (deleted) k res where "\<not> wanted ms"
      "tr = [EObj (OGet kind (keyOfMS ms)) (Inr k), EDel (typedAs kind k) None res]"
      "x_IsControlledBy x (metaOf (typedAs kind k)) (ms_Meta ms)"
proof (cases "wanted ms")
  case True
  from wanted_shape [OF True, of x] assms show ?thesis
    by (cases rule: failsOrApplies_exec) (use True failed applied in auto)
next
  case False
  with assms unwanted have "exec (deleteWhenControlled x ms kind) tr y" by simp
  with False inspected deleted show ?thesis by (auto dest!: exec_deleteWhenControlled)
qed

lemma deletions: "del.holds x ms (reconcile x ms)"
proof (rule del.holdsI)
  fix tr y assume "exec (reconcile x ms) tr y"
  then show "deletionsJustified x ms tr"
    by (cases rule: reconcile_cases) (auto simp: noDeletions deletion_pair wanted_listed)
qed

lemma scope: "kind \<in> kinds \<Longrightarrow> reach.holds (keyOfMS ms) kinds (reconcile x ms)"
proof (rule reach.holdsI)
  fix tr y assume "kind \<in> kinds" "exec (reconcile x ms) tr y"
  from this(2,1) show "staysIn (keyOfMS ms) kinds tr"
    by (cases rule: reconcile_cases) (auto simp: staysIn_def)
qed

lemma no_status: "always (\<lambda>e. \<not> writesStatus e) (reconcile x ms)"
proof (cases "wanted ms")
  case True
  from wanted_shape [OF this, of x] show ?thesis
    by (auto simp: failsOrApplies_def createOrUpdate_def writesStatus_def intro!: always_bindEI)
next
  case False
  then show ?thesis
    by (auto simp: unwanted deleteWhenControlled_def writesStatus_def intro!: always_bindI
        split: sum.split)
qed

lemma one_stage: "stage (if wanted ms then [kind] else []) (reconcile x ms)"
proof (rule stageI)
  fix tr y assume ex: "exec (reconcile x ms) tr y"
  have "list_all (\<lambda>e. \<not> writesStatus e) tr" by (rule always_exec [OF ex no_status])
  with ex show "prefix (appliedKinds tr) (if wanted ms then [kind] else []) \<and>
     ((\<exists>v. y = Inr v) \<or> list_ex writesStatus tr \<longrightarrow>
        appliedKinds tr = (if wanted ms then [kind] else []))"
    by (cases rule: reconcile_cases)
       (auto simp: list_all_iff list_ex_iff mapR_def split: sum.splits)
qed

end

interpretation pvc_opt: optional_object
  reconcilePersistentVolumeClaim storageEnabled PersistentVolumeClaimKind
  by unfold_locales
     (auto simp: reconcilePersistentVolumeClaim_def storageEnabled_def wantedKinds_def
       split: option.splits sum.splits)

interpretation pdb_opt: optional_object
  "\<lambda>x ms. reconcilePodDisruptionBudget x ms (labelsForModelService ms)"
  "\<lambda>ms. rp_Enabled (podDisruptionBudgetForModelService ms)" PodDisruptionBudgetKind
  by unfold_locales
     (auto simp: reconcilePodDisruptionBudget_def Let_def wantedKinds_def)

interpretation nep_opt: optional_object
  "\<lambda>x ms. reconcileNetworkPolicy x ms (labelsForModelService ms)"
  "\<lambda>ms. rn_Enabled (networkPolicyForModelService ms)" NetworkPolicyKind
  by unfold_locales (auto simp: reconcileNetworkPolicy_def Let_def wantedKinds_def)

interpretation route_opt: optional_object
  "\<lambda>x ms. reconcileHTTPRoute x ms (labelsForModelService ms)"
  "\<lambda>ms. re_Enabled (exposureForModelService ms)" HTTPRouteKind
  by unfold_locales (auto simp: reconcileHTTPRoute_def Let_def wantedKinds_def)

section \<open>Correctness of Reconcile\<close>

lemma reconcileServiceAccount_shape:
  "failsOrApplies ServiceAccountKind ms (reconcileServiceAccount x ms lbls)"
  by (simp add: reconcileServiceAccount_def)

lemma reconcileService_shape: "failsOrApplies ServiceKind ms (reconcileService x ms lbls)"
  by (simp add: reconcileService_def)

lemma reconcileDeployment_exec:
  assumes "exec (reconcileDeployment x ms lbls) tr y"
  obtains obj f r where "kindOf obj = DeploymentKind" "keyOf obj = keyOfMS ms"
    "tr = [EObj (OCreateOrUpdate obj f) r]" "y = mapR asDeployment r"
proof -
  let ?obj = "KDeployment (zeroDeployment\<lparr>dep_Meta := metaFor ms\<rparr>)"
  let ?f = "mutateOn asDeployment KDeployment (mutateDeployment x ms lbls)"
  from assms have "\<exists>r. tr = [EObj (OCreateOrUpdate ?obj ?f) r] \<and> y = mapR asDeployment r"
    unfolding reconcileDeployment_def exec_bindE exec_objCall
    by (elim disjE exE conjE) (simp_all add: mapR_def)
  then show ?thesis by (elim exE conjE, intro that [of ?obj ?f]) (simp_all add: keyOf_def keyOfMS_def)
qed

lemma reconcileDeployment_deletions: "del.holds x' ms (reconcileDeployment x ms lbls)"
  by (rule del.holdsI) (erule reconcileDeployment_exec, auto simp: noDeletions)

lemma reconcileDeployment_scope:
  "DeploymentKind \<in> kinds \<Longrightarrow> reach.holds (keyOfMS ms) kinds (reconcileDeployment x ms lbls)"
  by (rule reach.holdsI) (erule reconcileDeployment_exec, auto simp: staysIn_def)

lemma reconcileDeployment_no_status: "always (\<lambda>e. \<not> writesStatus e) (reconcileDeployment x ms lbls)"
  by (auto simp: reconcileDeployment_def writesStatus_def intro!: always_bindEI)

lemma reconcileDeployment_stage: "stage [DeploymentKind] (reconcileDeployment x ms lbls)"
  by (rule stageI, erule reconcileDeployment_exec)
     (auto simp: mapR_def writesStatus_def split: sum.splits)

lemma updateModelServiceStatus_exec:
  assumes "exec (updateModelServiceStatus ms d) tr y"
  obtains (unchanged) t where "tr = [ENow t]" "y = Inr ()"
  | (written) t r where "tr = [ENow t, EObj (OStatusUpdate (KModelService (withDeploymentStatus t d ms))) r]"
      "y = mapR (\<lambda>_. ()) r"
  using assms unfolding updateModelServiceStatus_def
  by (elim exec_elims) (auto simp: exec_writeStatus)

lemma withDeploymentStatus_meta [simp]: "ms_Meta (withDeploymentStatus t d ms) = ms_Meta ms"
  by (simp add: withDeploymentStatus_def)

lemma updateModelServiceStatus_deletions: "del.holds x ms (updateModelServiceStatus ms d)"
  by (rule del.holdsI) (erule updateModelServiceStatus_exec, auto simp: noDeletions)

lemma updateModelServiceStatus_scope:
  "ModelServiceKind \<in> kinds \<Longrightarrow> reach.holds (keyOfMS ms) kinds (updateModelServiceStatus ms d)"
  by (rule reach.holdsI)
     (erule updateModelServiceStatus_exec, auto simp: staysIn_def keyOf_def keyOfMS_def)

lemma updateModelServiceStatus_stage: "stage [] (updateModelServiceStatus ms d)"
  by (rule stageI) (erule updateModelServiceStatus_exec, auto)

lemma deploymentBackend_deletions: "del.holds x ms (reconcileDeploymentBackend x ms)"
  unfolding reconcileDeploymentBackend_def Let_def
  by (intro del.holds_bindE failsOrApplies_deletions [OF reconcileServiceAccount_shape]
      failsOrApplies_deletions [OF reconcileService_shape] reconcileDeployment_deletions
      pvc_opt.deletions pdb_opt.deletions nep_opt.deletions route_opt.deletions
      updateModelServiceStatus_deletions)

definition deploymentBackendKinds :: "objkind set" where
  "deploymentBackendKinds = {ServiceAccountKind, DeploymentKind, ServiceKind,
     PersistentVolumeClaimKind, PodDisruptionBudgetKind, NetworkPolicyKind, HTTPRouteKind,
     ModelServiceKind}"

lemma deploymentBackend_scope:
  "reach.holds (keyOfMS ms) deploymentBackendKinds (reconcileDeploymentBackend x ms)"
  unfolding reconcileDeploymentBackend_def Let_def
  by (intro reach.holds_bindE failsOrApplies_scope [OF reconcileServiceAccount_shape]
      failsOrApplies_scope [OF reconcileService_shape] reconcileDeployment_scope
      pvc_opt.scope pdb_opt.scope nep_opt.scope route_opt.scope updateModelServiceStatus_scope)
     (simp_all add: deploymentBackendKinds_def)

lemma wantedKinds_eq:
  "wantedKinds ms = [ServiceAccountKind] @ [DeploymentKind] @ [ServiceKind] @
     (if storageEnabled ms then [PersistentVolumeClaimKind] else []) @
     (if rp_Enabled (podDisruptionBudgetForModelService ms) then [PodDisruptionBudgetKind] else []) @
     (if rn_Enabled (networkPolicyForModelService ms) then [NetworkPolicyKind] else []) @
     (if re_Enabled (exposureForModelService ms) then [HTTPRouteKind] else []) @ []"
  by (simp add: wantedKinds_def)

lemma deploymentBackend_stage: "stage (wantedKinds ms) (reconcileDeploymentBackend x ms)"
  unfolding reconcileDeploymentBackend_def Let_def wantedKinds_eq
  by (intro stage_bindE failsOrApplies_stage [OF reconcileServiceAccount_shape]
      failsOrApplies_stage [OF reconcileService_shape] reconcileDeployment_stage
      pvc_opt.one_stage pdb_opt.one_stage nep_opt.one_stage route_opt.one_stage
      failsOrApplies_no_status [OF reconcileServiceAccount_shape]
      failsOrApplies_no_status [OF reconcileService_shape] reconcileDeployment_no_status
      pvc_opt.no_status pdb_opt.no_status nep_opt.no_status route_opt.no_status
      updateModelServiceStatus_stage)

lemma kserve_deletions: "del.holds x ms (reconcileKServeModelService x ms)"
proof (rule del.holdsI)
  fix tr y assume "exec (reconcileKServeModelService x ms) tr y"
  then show "deletionsJustified x ms tr"
    by (cases rule: reconcileKServe_exec)
       (auto simp: noDeletions elim: updateFromInferenceService_exec)
qed

definition kserveBackendKinds :: "objkind set" where
  "kserveBackendKinds = {InferenceServiceKind, ModelServiceKind}"

lemma kserve_scope:
  assumes "ownerRefsDocumented x"
  shows "reach.holds (keyOfMS ms) kserveBackendKinds (reconcileKServeModelService x ms)"
proof (rule reach.holdsI)
  fix tr y assume "exec (reconcileKServeModelService x ms) tr y"
  then show "staysIn (keyOfMS ms) kserveBackendKinds tr"
  proof (cases rule: reconcileKServe_exec)
    case invalid
    then show ?thesis by (simp add: staysIn_def)
  next
    case (called desiredSpec m r tr')
    have "(meta_Namespace m, meta_Name m) = keyOfMS ms"
      using ownerRefs_fields(1,2) [OF assms called(2)]
      by (simp add: keyOfMS_def desiredInferenceService_def newInferenceService_def Let_def)
    with called(3,4) show ?thesis
      by (auto simp: staysIn_def kserveBackendKinds_def keyOf_def keyOfMS_def
          elim!: updateFromInferenceService_exec)
  qed
qed

lemma exec_Reconcile:
  assumes "exec (Reconcile x req) tr y"
  obtains (missing) e where "tr = [EObj (OGet ModelServiceKind req) (Inl e)]" "isNotFound e" "y = Inr ()"
  | (failed) e where "tr = [EObj (OGet ModelServiceKind req) (Inl e)]" "\<not> isNotFound e" "y = Inl e"
  | (found) obj tr' where "tr = EObj (OGet ModelServiceKind req) (Inr obj) # tr'"
      "exec (reconcileModelService x (asModelService obj)) tr' y"
  using assms
  by (simp add: Reconcile_def exec_bind_objCall exec_case_sum)
     (elim exE conjE disjE, auto split: if_splits)

lemma reconcileModelService_deletions: "del.holds x ms (reconcileModelService x ms)"
  by (simp add: reconcileModelService_def kserve_deletions deploymentBackend_deletions)

text \<open>C1. The operator deletes nothing it does not own and nothing that is wanted. Whatever the API
  server answers, each object a run of \<^verbatim>\<open>Reconcile\<close> deletes is of a kind the ModelService
  does not want, is controlled by it, and is the very object read by the call just before, under the
  key of the ModelService.\<close>

theorem reconcile_deletes_only_owned:
  assumes "exec (Reconcile x req) tr result" and "EDel obj pre res \<in> set tr"
  shows "\<exists>got before after k. let ms = asModelService got in
    tr = EObj (OGet ModelServiceKind req) (Inr got) #
         before @ EObj (OGet (kindOf obj) (keyOfMS ms)) (Inr k) # EDel obj pre res # after \<and>
    obj = typedAs (kindOf obj) k \<and>
    kindOf obj \<notin> set (wantedKinds ms) \<and>
    x_IsControlledBy x (metaOf obj) (ms_Meta ms)"
  using assms(1)
proof (cases rule: exec_Reconcile)
  case (found got tr')
  have "deletionsJustified x (asModelService got) tr'"
    by (rule del.holdsD [OF reconcileModelService_deletions found(2)])
  moreover have "EDel obj pre res \<in> set tr'" using assms(2) found(1) by simp
  ultimately show ?thesis unfolding deletionsJustified_def Let_def found(1) by blast
qed (use assms(2) in auto)

text \<open>C16. A run stays in its own scope. Against an API server that answers with the object it was
  asked for, every call of a run concerns the request's own namespace and name, and only kinds of
  the chosen backend: the KServe backend never touches a Deployment-backend object and the other way
  round. A missing ModelService leads to no further call.\<close>

theorem reconcile_footprint:
  assumes "exec (Reconcile x req) tr result" and "ownerRefsDocumented x"
    and "list_all answersAsAsked tr"
  shows "(\<exists>e. tr = [EObj (OGet ModelServiceKind req) (Inl e)] \<and>
            result = (if isNotFound e then Inr () else Inl e)) \<or>
    (\<exists>ms rest. tr = EObj (OGet ModelServiceKind req) (Inr (KModelService ms)) # rest \<and> keyOfMS ms = req \<and>
       list_all (inScope req (if backendForModelService ms = ''KServe''
                              then kserveBackendKinds else deploymentBackendKinds)) rest)"
  using assms(1)
proof (cases rule: exec_Reconcile)
  case (found got tr')
  with assms(3) have "kindOf got = ModelServiceKind" and key: "keyOf got = req" by auto
  then obtain ms where got: "got = KModelService ms" by (cases got) auto
  with key have "keyOfMS ms = req" by (simp add: keyOf_def keyOfMS_def)
  moreover have "staysIn (keyOfMS ms) (if backendForModelService ms = ''KServe''
      then kserveBackendKinds else deploymentBackendKinds) tr'"
    using found(2) got reach.holdsD [OF kserve_scope [OF assms(2)]]
      reach.holdsD [OF deploymentBackend_scope]
    by (simp add: reconcileModelService_def go_const split: if_splits)
  ultimately show ?thesis using found(1) got assms(3) by (simp add: staysIn_def)
qed auto

text \<open>C6. The work is done in order and completely. The objects a Deployment-backend run applies are
  an initial part of the wanted ones in their fixed order, ServiceAccount and Deployment first; a run
  that reports success, or that writes the status, has applied all of them.\<close>

theorem reconcile_order:
  assumes "exec (Reconcile x req) (EObj (OGet ModelServiceKind req) (Inr got) # tr) result"
    and "backendForModelService (asModelService got) \<noteq> ''KServe''"
  shows "prefix (appliedKinds tr) (wantedKinds (asModelService got)) \<and>
    (result = Inr () \<or> list_ex writesStatus tr \<longrightarrow>
       appliedKinds tr = wantedKinds (asModelService got))"
  using assms(1)
proof (cases rule: exec_Reconcile)
  case (found obj tr')
  then have "exec (reconcileDeploymentBackend x (asModelService got)) tr result"
    using assms(2) by (simp add: reconcileModelService_def go_const)
  from stageD [OF deploymentBackend_stage this] show ?thesis by auto
qed auto

section \<open>A concrete run\<close>

text \<open>A ModelService whose storage has been switched off while its claim still exists, and an API server
  that knows both.\<close>

definition sampleShrunkMS :: ModelService where
  "sampleShrunkMS = sampleMS\<lparr>ms_Spec := sampleSpec\<lparr>spec_Storage := None\<rparr>\<rparr>"

definition sampleClaim :: PersistentVolumeClaim where
  "sampleClaim = zeroPVC\<lparr>pvc_Meta :=
     (metaFor sampleShrunkMS)\<lparr>meta_OwnerReferences := [controllerRef sampleShrunkMS]\<rparr>\<rparr>"

definition sampleAnswer :: "objcall \<Rightarrow> goerror + kobject" where
  "sampleAnswer c =
     (case c of
        OGet kind key \<Rightarrow>
          if key \<noteq> keyOfMS sampleShrunkMS then Inl (ApiStatus ReasonNotFound ''not found'')
          else if kind = ModelServiceKind then Inr (KModelService sampleShrunkMS)
          else if kind = PersistentVolumeClaimKind then Inr (KPersistentVolumeClaim sampleClaim)
          else Inl (ApiStatus ReasonNotFound ''not found'')
      | OCreateOrUpdate obj f \<Rightarrow> Inr obj
      | OCreate obj \<Rightarrow> Inr obj
      | OUpdate obj \<Rightarrow> Inr obj
      | OStatusUpdate obj \<Rightarrow> Inr obj
      | OApply obj owner force \<Rightarrow> Inr obj)"

definition sampleWorld :: "unit world" where
  "sampleWorld = \<lparr>w_obj = (\<lambda>c s. (sampleAnswer c, s)), w_del = (\<lambda>obj p s. (None, s)),
     w_list = (\<lambda>n l s. (Inr [], s)), w_now = (\<lambda>s. (5, s)), w_rand = (\<lambda>n s. (Inr [], s)),
     w_verify = (\<lambda>t s. (Inl (Errorf ''no verifier''), s))\<rparr>"

definition sampleRun :: "event list \<times> (goerror + unit) \<times> unit" where
  "sampleRun = run sampleWorld (Reconcile sampleExt (keyOfMS sampleShrunkMS)) ()"

lemma sampleRun_exec: "exec (Reconcile sampleExt (keyOfMS sampleShrunkMS)) (fst sampleRun) (fst (snd sampleRun))"
  by (rule run_exec [of sampleWorld _ "()" _ _ "snd (snd sampleRun)"])
     (simp add: sampleRun_def prod_eq_iff)

lemma sampleWorld_simps [simp]:
  "w_obj sampleWorld c s = (sampleAnswer c, s)" "w_del sampleWorld obj p s = (None, s)"
  "w_now sampleWorld s = (5, s)"
  by (simp_all add: sampleWorld_def)

lemma sampleAnswer_simps [simp]:
  "sampleAnswer (OGet ModelServiceKind (keyOfMS sampleShrunkMS)) = Inr (KModelService sampleShrunkMS)"
  "sampleAnswer (OGet PersistentVolumeClaimKind (keyOfMS sampleShrunkMS)) =
     Inr (KPersistentVolumeClaim sampleClaim)"
  "sampleAnswer (OCreateOrUpdate obj f) = Inr obj"
  "sampleAnswer (OStatusUpdate obj) = Inr obj"
  by (simp_all add: sampleAnswer_def)

lemma sampleShrunk_facts:
  "backendForModelService sampleShrunkMS = ''Deployment''"
  "spec_Storage (ms_Spec sampleShrunkMS) = None"
  "rp_Enabled (podDisruptionBudgetForModelService sampleShrunkMS)"
  "rn_Enabled (networkPolicyForModelService sampleShrunkMS)"
  "re_Enabled (exposureForModelService sampleShrunkMS)"
  "re_Hostname (exposureForModelService sampleShrunkMS) = ''fraud-model.local''"
  "sampleIsControlledBy (pvc_Meta sampleClaim) (ms_Meta sampleShrunkMS)"
  unfolding sampleShrunkMS_def
  by code_simp+

lemmas reconcile_run_defs =
  Reconcile_def reconcileModelService_def reconcileDeploymentBackend_def
  run_bind run_bindE objCall_def createOrUpdate_def Let_def
  reconcileServiceAccount_def reconcileDeployment_def reconcileService_def
  reconcilePersistentVolumeClaim_def reconcilePodDisruptionBudget_def
  reconcileNetworkPolicy_def reconcileHTTPRoute_def deleteWhenControlled_def delCall_def
  typedAs_def updateModelServiceStatus_def writeStatusIfChanged_def

text \<open>The run deletes the claim and applies the six wanted objects.\<close>

lemma sampleRun_applied:
  "\<exists>tr. fst sampleRun = EObj (OGet ModelServiceKind (keyOfMS sampleShrunkMS))
       (Inr (KModelService sampleShrunkMS)) # tr \<and>
     appliedKinds tr = [ServiceAccountKind, DeploymentKind, ServiceKind,
       PodDisruptionBudgetKind, NetworkPolicyKind, HTTPRouteKind]"
  by (simp add: sampleRun_def reconcile_run_defs sampleShrunk_facts go_const split: if_split)

lemma sampleRun_success: "fst (snd sampleRun) = Inr ()"
  by (simp add: sampleRun_def reconcile_run_defs sampleShrunk_facts go_const split: if_split)

lemma sampleRun_deletion:
  "EDel (KPersistentVolumeClaim sampleClaim) None None \<in> set (fst sampleRun)"
  by (simp add: sampleRun_def reconcile_run_defs sampleShrunk_facts go_const split: if_split)

lemma sampleRun_answers: "list_all answersAsAsked (fst sampleRun)"
proof -
  have "keyOf (KModelService sampleShrunkMS) = keyOfMS sampleShrunkMS"
    "keyOf (KPersistentVolumeClaim sampleClaim) = keyOfMS sampleShrunkMS"
    by (simp_all add: keyOf_def keyOfMS_def sampleClaim_def)
  then show ?thesis
    by (simp add: sampleRun_def reconcile_run_defs sampleShrunk_facts go_const split: if_split)
qed

theorem reconcile_deletes_only_owned_witness:
  "kindOf (KPersistentVolumeClaim sampleClaim) \<notin> set (wantedKinds sampleShrunkMS) \<and>
   sampleIsControlledBy (pvc_Meta sampleClaim) (ms_Meta sampleShrunkMS)"
  using reconcile_deletes_only_owned [OF sampleRun_exec sampleRun_deletion] sampleRun_applied
  by (auto simp: Let_def)

theorem reconcile_footprint_witness:
  "\<exists>rest. fst sampleRun = EObj (OGet ModelServiceKind (keyOfMS sampleShrunkMS))
        (Inr (KModelService sampleShrunkMS)) # rest \<and>
     list_all (inScope (keyOfMS sampleShrunkMS) deploymentBackendKinds) rest"
  using reconcile_footprint [OF sampleRun_exec sampleExt_ownerRefs sampleRun_answers] sampleRun_applied
  by (auto simp: sampleShrunk_facts)

theorem reconcile_order_witness:
  "wantedKinds sampleShrunkMS = [ServiceAccountKind, DeploymentKind, ServiceKind,
     PodDisruptionBudgetKind, NetworkPolicyKind, HTTPRouteKind]"
proof -
  obtain tr where tr: "fst sampleRun = EObj (OGet ModelServiceKind (keyOfMS sampleShrunkMS))
       (Inr (KModelService sampleShrunkMS)) # tr"
    and kinds: "appliedKinds tr = [ServiceAccountKind, DeploymentKind, ServiceKind,
       PodDisruptionBudgetKind, NetworkPolicyKind, HTTPRouteKind]"
    using sampleRun_applied by blast
  from reconcile_order [OF sampleRun_exec [unfolded tr]] show ?thesis
    by (simp add: sampleShrunk_facts sampleRun_success kinds)
qed

end
