(* ===== verification/EndToEnd.thy ===== *)
theory EndToEnd
  imports Startup Reconciler
begin

text \<open>
  The two programs together: what the REST API lets through is what the operator can work with.
\<close>

section \<open>Failures come from calls\<close>

text \<open>The error is the answer of a call of the trace.\<close>

definition callFailed :: "goerror \<Rightarrow> event list \<Rightarrow> bool" where
  "callFailed e tr \<longleftrightarrow> (\<exists>c. EObj c (Inl e) \<in> set tr) \<or> (\<exists>obj p. EDel obj p (Some e) \<in> set tr)"

text \<open>A program that fails only when a call failed, with the error of that call.\<close>

definition blameless :: "(goerror + 'a) prog \<Rightarrow> bool" where
  "blameless p \<longleftrightarrow> (\<forall>tr e. exec p tr (Inl e) \<longrightarrow> callFailed e tr)"

lemma callFailed_append: "callFailed e (a @ b) \<longleftrightarrow> callFailed e a \<or> callFailed e b"
  by (auto simp: callFailed_def)

lemma blameless_bindE: "blameless p \<Longrightarrow> (\<And>x. blameless (f x)) \<Longrightarrow> blameless (bindE p f)"
  unfolding blameless_def exec_bindE by (auto simp: callFailed_append)

lemma blameless_Ret [simp]: "blameless (Ret (Inr y))"
  by (simp add: blameless_def)

lemma blameless_objCall: "blameless (objCall c)"
  by (auto simp: blameless_def exec_objCall callFailed_def)

lemma blameless_Now: "(\<And>t. blameless (k t)) \<Longrightarrow> blameless (Now k)"
  unfolding blameless_def exec_Now_iff callFailed_def by fastforce

lemma blameless_createOrUpdate: "blameless (createOrUpdate obj f)"
  unfolding createOrUpdate_def by (intro blameless_bindE blameless_objCall blameless_Ret)

lemma blameless_deleteWhenControlled: "blameless (deleteWhenControlled x ms kind)"
  by (auto simp: blameless_def deleteWhenControlled_def exec_bind_objCall exec_case_sum exec_if exec_delCall
      callFailed_def)

lemma blameless_status: "blameless (updateModelServiceStatus ms d)"
proof -
  have "blameless (writeStatusIfChanged s m)" for s m
    by (auto simp: writeStatusIfChanged_def intro: blameless_bindE blameless_objCall)
  then show ?thesis unfolding updateModelServiceStatus_def by (rule blameless_Now)
qed

lemma blameless_deploymentBackend:
  assumes "storageEnabled ms \<Longrightarrow> \<exists>s q. spec_Storage (ms_Spec ms) = Some s \<and> x_ParseQuantity x (st_Size s) = Inr q"
    and "re_Enabled (exposureForModelService ms) \<Longrightarrow> re_Hostname (exposureForModelService ms) \<noteq> []"
  shows "blameless (reconcileDeploymentBackend x ms)"
proof -
  have "blameless (reconcilePersistentVolumeClaim x ms)"
    using assms(1)
    by (auto simp: reconcilePersistentVolumeClaim_def storageEnabled_def blameless_deleteWhenControlled
        blameless_createOrUpdate split: option.splits)
  moreover have "blameless (reconcileHTTPRoute x ms lbls)" for lbls
    using assms(2)
    by (simp add: reconcileHTTPRoute_def Let_def blameless_deleteWhenControlled blameless_createOrUpdate)
  moreover have "blameless (reconcilePodDisruptionBudget x ms lbls)" "blameless (reconcileNetworkPolicy x ms lbls)"
      "blameless (reconcileServiceAccount x ms lbls)" "blameless (reconcileService x ms lbls)"
      "blameless (reconcileDeployment x ms lbls)" for lbls
    by (simp_all add: reconcilePodDisruptionBudget_def reconcileNetworkPolicy_def reconcileServiceAccount_def
        reconcileService_def reconcileDeployment_def Let_def blameless_deleteWhenControlled blameless_createOrUpdate
        blameless_bindE blameless_objCall)
  ultimately show ?thesis
    unfolding reconcileDeploymentBackend_def Let_def by (intro blameless_bindE blameless_status)
qed

section \<open>Validated specifications\<close>

text \<open>The specification of a ModelService read as a request has no fault.\<close>

definition validSpec :: "ext \<Rightarrow> int \<Rightarrow> string \<Rightarrow> ModelService \<Rightarrow> bool" where
  "validSpec x maxReplicas name ms \<longleftrightarrow>
     requestFaults x maxReplicas (asCreateRequest name (modelServiceToUpdateRequest ms)) = {}"

lemma single_fault: "{f. f = a \<and> P} = {} \<longleftrightarrow> \<not> P"
  by auto

lemma exposureFaults_empty:
  "exposureFaults x e = {} \<longleftrightarrow> (er_Enabled e \<longrightarrow>
     trimSpace (er_Hostname e) \<noteq> [] \<and> validHostname x (er_Hostname e) \<and>
     (er_PathPrefix e = [] \<or> hasPrefix (er_PathPrefix e) ''/''))"
  by (auto simp: exposureFaults_def)

lemma storageFaults_empty:
  "storageFaults x st = {} \<longleftrightarrow> (sr_Enabled st \<longrightarrow>
     trimSpace (sr_Size st) \<noteq> [] \<and> (\<exists>q. x_ParseQuantity x (sr_Size st) = Inr q) \<and> hasPrefix (sr_MountPath st) ''/'')"
  by (auto simp: storageFaults_def)

text \<open>A request without faults, condition by condition.\<close>

lemma faultless_iff:
  "requestFaults x m q = {} \<longleftrightarrow>
     trimSpace (cr_Name q) \<noteq> [] \<and> x_IsDNS1123Label x (cr_Name q) = [] \<and>
     1 \<le> sint (cr_Replicas q) \<and> sint (cr_Replicas q) \<le> m \<and>
     (if requestBackend q = ''Deployment''
      then trimSpace (cr_Image q) \<noteq> [] \<and> 1 \<le> sint (cr_Port q) \<and> sint (cr_Port q) \<le> 65535 \<and> cr_Predictor q = None \<and>
           exposureFaults x (cr_Exposure q) = {} \<and> storageFaults x (cr_Storage q) = {}
      else requestBackend q = ''KServe'' \<and> trimSpace (cr_Image q) = [] \<and> cr_Port q = 0 \<and>
           \<not> er_Enabled (cr_Exposure q) \<and> \<not> sr_Enabled (cr_Storage q) \<and>
           (\<exists>p. cr_Predictor q = Some p \<and> predictorFaults p = {}))"
proof -
  note faults = Collect_disj_eq Un_empty single_fault
  have backend: "backendFaults x q = {} \<longleftrightarrow>
     (if requestBackend q = ''Deployment''
      then trimSpace (cr_Image q) \<noteq> [] \<and> 1 \<le> sint (cr_Port q) \<and> sint (cr_Port q) \<le> 65535 \<and> cr_Predictor q = None \<and>
           exposureFaults x (cr_Exposure q) = {} \<and> storageFaults x (cr_Storage q) = {}
      else requestBackend q = ''KServe'' \<and> trimSpace (cr_Image q) = [] \<and> cr_Port q = 0 \<and>
           \<not> er_Enabled (cr_Exposure q) \<and> \<not> sr_Enabled (cr_Storage q) \<and>
           (\<exists>p. cr_Predictor q = Some p \<and> predictorFaults p = {}))"
  proof (cases "requestBackend q = ''Deployment''")
    case True
    show ?thesis unfolding backendFaults_def if_P [OF True] faults by simp
  next
    case False
    show ?thesis
    proof (cases "requestBackend q = ''KServe''")
      case True
      show ?thesis
        unfolding backendFaults_def if_not_P [OF False] if_P [OF True] faults
        by (cases "cr_Predictor q") (simp_all add: True)
    next
      case other: False
      with False show ?thesis unfolding backendFaults_def by simp
    qed
  qed
  show ?thesis unfolding requestFaults_def faults backend by (simp only: de_Morgan_conj de_Morgan_disj not_not conj_assoc)
qed

lemma validSpec_deployment:
  assumes "validSpec x maxReplicas name ms" "backendForModelService ms \<noteq> ''KServe''"
  shows "storageEnabled ms \<Longrightarrow> \<exists>s q. spec_Storage (ms_Spec ms) = Some s \<and> x_ParseQuantity x (st_Size s) = Inr q"
    and "re_Enabled (exposureForModelService ms) \<Longrightarrow> re_Hostname (exposureForModelService ms) \<noteq> []"
proof -
  let ?q = "asCreateRequest name (modelServiceToUpdateRequest ms)"
  have b: "requestBackend ?q = backendForModelService ms"
    by (simp add: requestBackend_def asCreateRequest_def modelServiceToUpdateRequest_def backendForModelService_def Let_def go_const)
  have "exposureFaults x (cr_Exposure ?q) = {} \<and> storageFaults x (cr_Storage ?q) = {}"
    using assms by (auto simp: validSpec_def faultless_iff b split: if_splits)
  then show "storageEnabled ms \<Longrightarrow> \<exists>s q. spec_Storage (ms_Spec ms) = Some s \<and> x_ParseQuantity x (st_Size s) = Inr q"
    and "re_Enabled (exposureForModelService ms) \<Longrightarrow> re_Hostname (exposureForModelService ms) \<noteq> []"
    by (auto simp: exposureFaults_empty storageFaults_empty asCreateRequest_def modelServiceToUpdateRequest_def Let_def
        storageEnabled_def exposureForModelService_def split: option.splits)
qed

lemma validSpec_kserve:
  assumes "validSpec x maxReplicas name ms" "backendForModelService ms = ''KServe''"
    and "rr_Requests (spec_Resources (ms_Spec ms)) = []" "rr_Limits (spec_Resources (ms_Spec ms)) = []"
  shows "\<exists>spec. desiredInferenceServiceSpec x ms = Inr spec"
proof -
  let ?q = "asCreateRequest name (modelServiceToUpdateRequest ms)"
  have b: "requestBackend ?q = backendForModelService ms"
    by (simp add: requestBackend_def asCreateRequest_def modelServiceToUpdateRequest_def backendForModelService_def Let_def go_const)
  have "\<exists>p. cr_Predictor ?q = Some p"
    using assms by (auto simp: validSpec_def faultless_iff b)
  then obtain p where "spec_Predictor (ms_Spec ms) = Some p"
    by (auto simp: asCreateRequest_def modelServiceToUpdateRequest_def Let_def)
  with assms(3,4) show ?thesis by (simp add: desiredInferenceServiceSpec_def Let_def)
qed

lemma validSpec_inNamespace [simp]: "validSpec x maxReplicas name (inNamespace ns ms) = validSpec x maxReplicas name ms"
  by (simp add: validSpec_def modelServiceToUpdateRequest_def)

section \<open>What the API writes\<close>

text \<open>The specification a faultless request becomes, read back, is faultless.\<close>

lemma created_valid:
  assumes "requestFaults x maxReplicas q = {}"
  shows "validSpec x maxReplicas (cr_Name q) (createRequestToModelService q defaults)"
proof -
  let ?q = "asCreateRequest (cr_Name q) (modelServiceToUpdateRequest (createRequestToModelService q defaults))"
  have b: "requestBackend ?q = requestBackend q"
    by (auto simp: requestBackend_def asCreateRequest_def modelServiceToUpdateRequest_def createRequestToModelService_def
        Let_def go_const)
  show ?thesis
    using assms unfolding validSpec_def faultless_iff b
    by (auto simp: exposureFaults_empty storageFaults_empty predictorFaults_def asCreateRequest_def
        modelServiceToUpdateRequest_def createRequestToModelService_def enabledExposure_def
        requestPredictorToModelService_def zeroExposureRequest_def zeroStorageRequest_def requestBackend_def Let_def go_const
        split: if_splits)
qed

lemma updated_valid:
  assumes "requestFaults x maxReplicas (asCreateRequest name q) = {}"
  shows "validSpec x maxReplicas name (applyUpdateRequest ms q defaults)"
proof -
  let ?q = "asCreateRequest name (modelServiceToUpdateRequest (applyUpdateRequest ms q defaults))"
  have b: "requestBackend ?q = requestBackend (asCreateRequest name q)"
    by (auto simp: requestBackend_def asCreateRequest_def modelServiceToUpdateRequest_def applyUpdateRequest_def
        Let_def go_const)
  show ?thesis
    using assms unfolding validSpec_def faultless_iff b
    by (auto simp: exposureFaults_empty storageFaults_empty predictorFaults_def asCreateRequest_def
        modelServiceToUpdateRequest_def applyUpdateRequest_def enabledExposure_def requestPredictorToModelService_def
        zeroExposure_def zeroStorage_def requestBackend_def Let_def go_const split: if_splits)
qed

text \<open>The ModelService a write call carries.\<close>

definition writtenModel :: "event \<Rightarrow> ModelService option" where
  "writtenModel e =
     (case e of
        EObj (OCreate (KModelService ms)) res \<Rightarrow> Some ms
      | EObj (OUpdate (KModelService ms)) res \<Rightarrow> Some ms
      | _ \<Rightarrow> None)"

lemma writtenModel_isWrite: "writtenModel e = Some ms \<Longrightarrow> isWrite e"
  by (auto simp: writtenModel_def split: event.splits objcall.splits)

lemma api_writes_valid:
  assumes "exec (h r w) tr w'" "e \<in> set tr" "writtenModel e = Some new"
    and "h \<in> {createServeHTTP x (NewModelServiceStore ns) maxReplicas defaults,
               updateServeHTTP x (NewModelServiceStore ns) maxReplicas defaults,
               patchServeHTTP x (NewModelServiceStore ns) maxReplicas defaults}"
  shows "\<exists>name. validSpec x maxReplicas name new"
proof -
  note wr = writtenModel_isWrite [OF assms(3)]
  from assms(4) consider
      (create) "h = createServeHTTP x (NewModelServiceStore ns) maxReplicas defaults"
    | (update) "h = updateServeHTTP x (NewModelServiceStore ns) maxReplicas defaults"
    | (patch) "h = patchServeHTTP x (NewModelServiceStore ns) maxReplicas defaults" by blast
  then show ?thesis
  proof cases
    case create
    from assms(1) [unfolded create] show ?thesis
    proof (cases rule: k8s.exec_create)
      case (attempted request rest res logs)
      then have "new = inNamespace ns (createRequestToModelService request defaults)"
        using assms(2,3) wr by (auto simp: writtenModel_def dest: logs_no_write)
      moreover have "requestFaults x maxReplicas request = {}"
        using attempted(3) faultsOf_validateCreate [of x request maxReplicas] by simp
      ultimately show ?thesis by (intro exI [of _ "cr_Name request"]) (simp add: created_valid)
    qed (use assms(2) wr in auto)
  next
    case update
    from assms(1) [unfolded update] show ?thesis
    proof (cases rule: k8s.exec_update)
      case (attempted request rest request' obj res logs)
      then have "new = inNamespace ns (applyUpdateRequest (asModelService obj) request' defaults)"
        using assms(2,3) wr by (auto simp: writtenModel_def dest: logs_no_write)
      moreover have "requestFaults x maxReplicas (asCreateRequest (pathValue r ''name'') request') = {}"
        using attempted(5) faultsOf_validateCreate [of x _ maxReplicas]
        by (metis ValidateUpdateModelService_def image_empty list.set(1))
      ultimately show ?thesis by (intro exI [of _ "pathValue r ''name''"]) (simp add: updated_valid)
    qed (use assms(2) wr in auto)
  next
    case patch
    from assms(1) [unfolded patch] show ?thesis
    proof (cases rule: k8s.exec_patch)
      case (attempted request rest obj res logs)
      then have "new = inNamespace ns (applyPatchRequest (asModelService obj) request defaults)"
        using assms(2,3) wr by (auto simp: writtenModel_def dest: logs_no_write)
      moreover have "validSpec x maxReplicas (pathValue r ''name'') (applyPatchRequest (asModelService obj) request defaults)"
        using attempted(6) faultsOf_validateCreate [of x _ maxReplicas]
        unfolding validSpec_def by (metis ValidateUpdateModelService_def image_empty list.set(1))
      ultimately show ?thesis by auto
    qed (use assms(2) wr in auto)
  qed
qed

text \<open>C15. The API and the operator fit together: a ModelService the API writes, by POST, PUT or PATCH, never makes
  the reconciliation fail by itself. With the Deployment backend every error a run of the operator on it
  returns is the answer of one of its API calls (so the branches for a missing hostname and an
  unreadable storage size are not taken); with the KServe backend, and without resource requirements, which
  the API can not set, its InferenceService can be built.\<close>

theorem api_models_reconcile:
  assumes "exec (h r w) tr w'" and "e \<in> set tr" and "writtenModel e = Some new"
    and "h \<in> {createServeHTTP x (NewModelServiceStore ns) maxReplicas defaults,
               updateServeHTTP x (NewModelServiceStore ns) maxReplicas defaults,
               patchServeHTTP x (NewModelServiceStore ns) maxReplicas defaults}"
  shows "if backendForModelService new = ''KServe''
    then rr_Requests (spec_Resources (ms_Spec new)) = [] \<and> rr_Limits (spec_Resources (ms_Spec new)) = [] \<longrightarrow>
         (\<exists>spec. desiredInferenceServiceSpec x new = Inr spec)
    else \<forall>run failure. exec (reconcileModelService x new) run (Inl failure) \<longrightarrow>
         (\<exists>c. EObj c (Inl failure) \<in> set run) \<or> (\<exists>obj p. EDel obj p (Some failure) \<in> set run)"
proof -
  obtain name where valid: "validSpec x maxReplicas name new" using api_writes_valid [OF assms] by blast
  show ?thesis
  proof (cases "backendForModelService new = ''KServe''")
    case True
    then show ?thesis using validSpec_kserve [OF valid] by simp
  next
    case False
    have "blameless (reconcileModelService x new)"
      using blameless_deploymentBackend [OF validSpec_deployment [OF valid False]] False
      by (simp add: reconcileModelService_def go_const)
    then show ?thesis using False by (simp add: blameless_def callFailed_def)
  qed
qed

theorem api_models_reconcile_witness:
  "\<exists>new. \<forall>run failure. exec (reconcileModelService sampleExt new) run (Inl failure) \<longrightarrow>
     (\<exists>c. EObj c (Inl failure) \<in> set run) \<or> (\<exists>obj p. EDel obj p (Some failure) \<in> set run)"
proof -
  let ?new = "inNamespace ''ai-platform'' (createRequestToModelService
      (zeroCreateRequest\<lparr>cr_Name := ''fraud-model'', cr_Image := ''nginx'', cr_Replicas := 2, cr_Port := 8080\<rparr>) sampleDefaults)"
  have "backendForModelService ?new \<noteq> ''KServe''"
    by (simp add: backendForModelService_def createRequestToModelService_def zeroCreateRequest_def go_const)
  with api_models_reconcile [where h = "createServeHTTP sampleExt (NewModelServiceStore ''ai-platform'') 10 sampleDefaults"
      and r = "sampleHttpRequest ''POST'' sampleCreateBody" and w = freshWriter and new = ?new and x = sampleExt
      and ns = "''ai-platform''" and maxReplicas = 10 and defaults = sampleDefaults,
      OF sample_execs(3) sampleCreate_writes]
  show ?thesis by (intro exI [of _ ?new]) (simp add: writtenModel_def)
qed

end
