(* ===== verification/JsonFuel.thy ===== *)
theory JsonFuel
  imports Decode
begin

text \<open>
  The scanner makes progress, so its fuel is enough for every input: with more of it the result is the same.
\<close>

section \<open>Progress\<close>

text \<open>A scan that succeeds consumes at least one byte.\<close>

lemma skipSpaces_le: "length (skipSpaces s) \<le> length s"
  by (simp add: skipSpaces_def length_dropWhile_le)

lemma skipSpaces_Cons_le: "skipSpaces s = c # t \<Longrightarrow> length t < length s"
  using skipSpaces_le [of s] by simp

lemma scanHex_progress: "scanHex n s = Scanned hs rest \<Longrightarrow> length s = n + length rest"
  by (induction n s arbitrary: hs rule: scanHex.induct) (auto split: if_splits scan.splits)

lemma scanString_progress: "scanString s = Scanned raw rest \<Longrightarrow> length rest < length s"
proof (induction s arbitrary: raw rest rule: scanString.induct)
  case (2 c s)
  show ?case
  proof (cases "c = CHR 0x22 \<or> byteOf c < 32 \<or> c \<noteq> CHR 0x5C")
    case True
    with 2 show ?thesis by (auto split: if_splits scan.splits simp: less_SucI)
  next
    case False
    with 2(4) obtain e s' where s: "s = e # s'" by (cases s) auto
    show ?thesis
    proof (cases "simpleEscape e \<noteq> None")
      case True
      with False 2(1) 2(4) s show ?thesis by (auto split: scan.splits simp: less_SucI)
    next
      case esc: False
      with False 2(4) s have u: "e = CHR ''u''" by (auto split: if_splits)
      with False 2(4) s esc obtain hs r1 raw' where "scanHex 4 s' = Scanned hs r1" "scanString (drop 4 s') = Scanned raw' rest"
        by (auto split: scan.splits)
      with False 2(2) s esc u have "length rest < length (drop 4 s')" by auto
      then show ?thesis using s by simp
    qed
  qed
qed simp

lemma scanDigits1_progress: "scanDigits1 s = Scanned ds rest \<Longrightarrow> length rest < length s"
  using length_dropWhile_le [of isDigit "tl s"]
  by (auto simp: scanDigits1_def split: list.splits if_splits)

lemma scanFraction_le: "scanFraction s = Scanned f rest \<Longrightarrow> length rest \<le> length s"
  by (auto simp: scanFraction_def split: list.splits if_splits scan.splits dest!: scanDigits1_progress)

lemma scanExponent_le: "scanExponent s = Scanned f rest \<Longrightarrow> length rest \<le> length s"
  by (auto simp: scanExponent_def Let_def split: list.splits if_splits scan.splits dest!: scanDigits1_progress)

lemma scanNumber_progress: "scanNumber s = Scanned v rest \<Longrightarrow> length rest < length s"
  by (auto simp: scanNumber_def Let_def split: list.splits if_splits scan.splits prod.splits
      dest!: scanDigits1_progress scanFraction_le scanExponent_le)

lemma scanLiteral_progress: "scanLiteral w v s = Scanned v' rest \<Longrightarrow> w \<noteq> [] \<Longrightarrow> length rest < length s"
  by (auto simp: scanLiteral_def hasPrefix_iff split: if_splits)

lemma expectByte_progress: "expectByte c s = Scanned u rest \<Longrightarrow> length rest < length s"
  by (auto simp: expectByte_def split: list.splits if_splits dest: skipSpaces_Cons_le)

lemma scan_progress:
  "scanValue n d s = Scanned v rest \<Longrightarrow> length rest < length s"
  "scanElements n d s = Scanned vs rest \<Longrightarrow> length rest < length s"
  "scanMembers n d s = Scanned ms rest \<Longrightarrow> length rest < length s"
proof (induction n d s and n d s and n d s arbitrary: v rest and vs rest and ms rest
    rule: scanValue_scanElements_scanMembers.induct)
  case (2 n d s)
  then obtain c t where ct: "skipSpaces s = c # t" by (auto split: list.splits)
  note t = skipSpaces_Cons_le [OF ct] and le = skipSpaces_le [of s]
  consider "c = CHR 0x7B" | "c = CHR 0x5B" | "c = CHR 0x22"
    | "c = CHR ''-'' \<or> isDigit c" | "c \<notin> {CHR 0x7B, CHR 0x5B, CHR 0x22, CHR ''-''}" "\<not> isDigit c" by blast
  then show ?case
  proof cases
    case 1
    with 2 ct t show ?thesis
      by (fastforce split: if_splits list.splits scan.splits dest: skipSpaces_Cons_le)
  next
    case 2
    with "2.IH" "2.prems" ct t show ?thesis
      by (fastforce split: if_splits list.splits scan.splits dest: skipSpaces_Cons_le)
  next
    case 3
    with "2.prems" ct t show ?thesis by (fastforce split: scan.splits dest: scanString_progress)
  next
    case 4
    then have "c \<noteq> CHR 0x7B \<and> c \<noteq> CHR 0x5B \<and> c \<noteq> CHR 0x22" by (auto simp: isDigit_def)
    with 4 "2.prems" ct have "scanNumber (c # t) = Scanned v rest" by auto
    with ct le show ?thesis using scanNumber_progress by fastforce
  next
    case 5
    with "2.prems" ct have "\<exists>w v'. w \<noteq> [] \<and> scanLiteral w v' (c # t) = Scanned v rest"
      by (auto split: if_splits)
    with ct le show ?thesis using scanLiteral_progress by fastforce
  qed
next
  case (4 n d s)
  then show ?case by (fastforce split: if_splits list.splits scan.splits dest: skipSpaces_Cons_le)
next
  case (6 n d s)
  then show ?case
    by (fastforce split: if_splits list.splits scan.splits
        dest: skipSpaces_Cons_le scanString_progress expectByte_progress)
qed simp_all

section \<open>The fuel is enough\<close>

lemma scan_fuel:
  "2 * length s + 1 \<le> n \<Longrightarrow> 2 * length s + 1 \<le> m \<Longrightarrow> scanValue n d s = scanValue m d s"
  "2 * length s + 2 \<le> n \<Longrightarrow> 2 * length s + 2 \<le> m \<Longrightarrow> scanElements n d s = scanElements m d s"
  "2 * length s + 2 \<le> n \<Longrightarrow> 2 * length s + 2 \<le> m \<Longrightarrow> scanMembers n d s = scanMembers m d s"
proof (induction n d s and n d s and n d s arbitrary: m and m and m
    rule: scanValue_scanElements_scanMembers.induct)
  case (2 n d s)
  from 2(4) obtain m' where m: "m = Suc m'" by (cases m) simp_all
  show ?case
  proof (cases "skipSpaces s")
    case (Cons c t)
    note t = skipSpaces_Cons_le [OF Cons]
    have members: "scanMembers n (d + 1) t = scanMembers m' (d + 1) t"
      if "c = CHR 0x7B" "\<not> maxNestingDepth < d + 1" "skipSpaces t = e # u" "e \<noteq> CHR 0x7D" for e u
      using 2(1) [OF Cons that, of m'] 2(3,4) t m by simp
    have elements: "scanElements n (d + 1) t = scanElements m' (d + 1) t"
      if "c = CHR 0x5B" "\<not> maxNestingDepth < d + 1" "skipSpaces t = e # u" "e \<noteq> CHR 0x5D" for e u
      using 2(2) [OF Cons _ that, of m'] 2(3,4) t m that(1) by simp
    consider "c = CHR 0x7B" | "c = CHR 0x5B" | "c \<noteq> CHR 0x7B" "c \<noteq> CHR 0x5B" by blast
    then show ?thesis
    proof cases
      case 1
      then show ?thesis using Cons m members
        by (cases "skipSpaces t"; cases "maxNestingDepth < d + 1") (simp_all del: One_nat_def)
    next
      case 2
      then show ?thesis using Cons m elements
        by (cases "skipSpaces t"; cases "maxNestingDepth < d + 1") (simp_all del: One_nat_def)
    next
      case 3
      then show ?thesis by (simp only: m scanValue.simps(2) Cons list.case if_False)
    qed
  qed (simp add: m)
next
  case (4 n d s)
  from 4(4) obtain m' where m: "m = Suc m'" by (cases m) simp_all
  have v: "scanValue n d s = scanValue m' d s" using 4(1) [of m'] 4(3,4) m by simp
  show ?case
  proof (cases "scanValue n d s")
    case (Scanned v t)
    note t = scan_progress(1) [OF Scanned]
    show ?thesis
    proof (cases "skipSpaces t")
      case (Cons c u)
      from skipSpaces_Cons_le [OF this] t have "length u < length s" by simp
      then have "c = CHR '','' \<Longrightarrow> scanElements n d u = scanElements m' d u"
        using 4(2) [OF Scanned Cons] 4(3,4) m by simp
      then show ?thesis using Scanned Cons v m by simp
    qed (use Scanned v m in simp)
  qed (use v m in simp_all)
next
  case (6 n d s)
  from 6(4) obtain m' where m: "m = Suc m'" by (cases m) simp_all
  show ?case
  proof (cases "expectByte (CHR 0x22) s")
    case one: (Scanned q t)
    show ?thesis
    proof (cases "scanString t")
      case two: (Scanned raw u)
      show ?thesis
      proof (cases "expectByte (CHR '':'') u")
        case three: (Scanned q' w)
        have w: "length w < length s"
          using expectByte_progress [OF one] scanString_progress [OF two] expectByte_progress [OF three] by simp
        have v: "scanValue n d w = scanValue m' d w" using 6(1) [OF one two three, of m'] 6(3,4) w m by simp
        show ?thesis
        proof (cases "scanValue n d w")
          case four: (Scanned v y)
          note y = scan_progress(1) [OF four]
          show ?thesis
          proof (cases "skipSpaces y")
            case (Cons c z)
            from skipSpaces_Cons_le [OF this] y w have "length z < length s" by simp
            then have "c = CHR '','' \<Longrightarrow> scanMembers n d z = scanMembers m' d z"
              using 6(2) [OF one two three four Cons] 6(3,4) m by simp
            then show ?thesis using one two three four Cons v m by simp
          qed (use one two three four v m in simp)
        qed (use one two three v m in simp_all)
      qed (use one two m in simp_all)
    qed (use one m in simp_all)
  qed (simp_all add: m)
qed simp_all

end
