(* ===== verification/JsonGrammar.thy ===== *)
theory JsonGrammar
  imports Decode
begin

text \<open>
  The grammar of RFC 8259 as a relation between values and texts, and the strictness of request decoding: a
  body a handler accepts is one text of that grammar, within the size limit, for null or for an object all of
  whose keys name a field of the request type.
\<close>

section \<open>The grammar\<close>

definition spaces :: "string \<Rightarrow> bool" where
  "spaces s \<longleftrightarrow> list_all isJsonSpace s"

text \<open>The content of a string literal: no quote, no control byte, and only the escapes of the grammar.\<close>

inductive stringContent :: "string \<Rightarrow> bool" where
  content_empty: "stringContent []"
| content_byte: "c \<noteq> CHR 0x22 \<Longrightarrow> c \<noteq> CHR 0x5C \<Longrightarrow> \<not> byteOf c < 32 \<Longrightarrow> stringContent s \<Longrightarrow> stringContent (c # s)"
| content_escape: "simpleEscape e \<noteq> None \<Longrightarrow> stringContent s \<Longrightarrow> stringContent (CHR 0x5C # e # s)"
| content_unicode: "hex4 hs \<noteq> None \<Longrightarrow> stringContent s \<Longrightarrow> stringContent (CHR 0x5C # CHR ''u'' # hs @ s)"

definition digits1 :: "string \<Rightarrow> bool" where
  "digits1 s \<longleftrightarrow> s \<noteq> [] \<and> list_all isDigit s"

definition fractionText :: "string \<Rightarrow> bool" where
  "fractionText frac \<longleftrightarrow> frac = [] \<or> (\<exists>fs. frac = CHR ''.'' # fs \<and> digits1 fs)"

definition exponentText :: "string \<Rightarrow> bool" where
  "exponentText ex \<longleftrightarrow>
     ex = [] \<or>
     (\<exists>e sg es. ex = e # sg @ es \<and> e \<in> {CHR ''e'', CHR ''E''} \<and> sg \<in> {[], ''+'', ''-''} \<and> digits1 es)"

definition numberText :: "string \<Rightarrow> bool" where
  "numberText n \<longleftrightarrow>
     (\<exists>sign ds frac ex.
        n = sign @ ds @ frac @ ex \<and> sign \<in> {[], ''-''} \<and>
        (ds = ''0'' \<or> digits1 ds \<and> hd ds \<noteq> CHR ''0'') \<and>
        fractionText frac \<and> exponentText ex)"

text \<open>A value with the white space before it; the elements of an array and the members of an object up to and
  including the closing bracket.\<close>

inductive valueText :: "jvalue \<Rightarrow> string \<Rightarrow> bool"
  and elementsText :: "jvalue list \<Rightarrow> string \<Rightarrow> bool"
  and membersText :: "(string \<times> jvalue) list \<Rightarrow> string \<Rightarrow> bool" where
  text_null: "spaces ws \<Longrightarrow> valueText JNull (ws @ ''null'')"
| text_true: "spaces ws \<Longrightarrow> valueText (JBool True) (ws @ ''true'')"
| text_false: "spaces ws \<Longrightarrow> valueText (JBool False) (ws @ ''false'')"
| text_number: "spaces ws \<Longrightarrow> numberText n \<Longrightarrow> valueText (JNum n) (ws @ n)"
| text_string: "spaces ws \<Longrightarrow> stringContent raw \<Longrightarrow> valueText (JStr (unquote raw)) (ws @ CHR 0x22 # raw @ [CHR 0x22])"
| text_empty_array: "spaces ws \<Longrightarrow> spaces ws' \<Longrightarrow> valueText (JArr []) (ws @ CHR 0x5B # ws' @ [CHR 0x5D])"
| text_array: "spaces ws \<Longrightarrow> elementsText vs p \<Longrightarrow> valueText (JArr vs) (ws @ CHR 0x5B # p)"
| text_empty_object: "spaces ws \<Longrightarrow> spaces ws' \<Longrightarrow> valueText (JObj []) (ws @ CHR 0x7B # ws' @ [CHR 0x7D])"
| text_object: "spaces ws \<Longrightarrow> membersText ms p \<Longrightarrow> valueText (JObj ms) (ws @ CHR 0x7B # p)"
| text_last_element: "valueText v p \<Longrightarrow> spaces ws \<Longrightarrow> elementsText [v] (p @ ws @ [CHR 0x5D])"
| text_element: "valueText v p \<Longrightarrow> spaces ws \<Longrightarrow> elementsText vs q \<Longrightarrow> elementsText (v # vs) (p @ ws @ CHR '','' # q)"
| text_last_member:
    "spaces ws \<Longrightarrow> stringContent raw \<Longrightarrow> spaces ws' \<Longrightarrow> valueText v p \<Longrightarrow> spaces ws'' \<Longrightarrow>
     membersText [(unquote raw, v)] (ws @ CHR 0x22 # raw @ CHR 0x22 # ws' @ CHR '':'' # p @ ws'' @ [CHR 0x7D])"
| text_member:
    "spaces ws \<Longrightarrow> stringContent raw \<Longrightarrow> spaces ws' \<Longrightarrow> valueText v p \<Longrightarrow> spaces ws'' \<Longrightarrow> membersText ms q \<Longrightarrow>
     membersText ((unquote raw, v) # ms)
       (ws @ CHR 0x22 # raw @ CHR 0x22 # ws' @ CHR '':'' # p @ ws'' @ CHR '','' # q)"

section \<open>The scanner reads the grammar\<close>

text \<open>The scanner passes errors on: a value comes out exactly when every part gave one.\<close>

lemma scan_case [simp]:
  "(case x of ScanError \<Rightarrow> ScanError | ScanMore \<Rightarrow> ScanMore | Scanned a r \<Rightarrow> f a r) = Scanned v rest \<longleftrightarrow>
   (\<exists>a r. x = Scanned a r \<and> f a r = Scanned v rest)"
  by (cases x) simp_all

lemma list_scan_case [simp]:
  "(case xs of [] \<Rightarrow> ScanMore | c # t \<Rightarrow> f c t) = Scanned v rest \<longleftrightarrow> (\<exists>c t. xs = c # t \<and> f c t = Scanned v rest)"
  by (cases xs) simp_all

lemma skipSpaces_split:
  assumes "skipSpaces s = t"
  obtains ws where "spaces ws" "s = ws @ t"
  using assms takeWhile_dropWhile_id [of isJsonSpace s]
  by (metis list_all_iff set_takeWhileD skipSpaces_def spaces_def)

lemma scanHex_content: "scanHex n s = Scanned hs rest \<Longrightarrow> s = hs @ rest \<and> length hs = n \<and> (\<forall>c \<in> set hs. hexVal c \<noteq> None)"
  by (induction n s arbitrary: hs rule: scanHex.induct) (auto split: if_splits scan.splits)

lemma hex4_of_scan:
  assumes "scanHex 4 s = Scanned hs rest"
  shows "hex4 hs \<noteq> None \<and> s = hs @ rest \<and> drop 4 s = rest"
proof -
  note h = scanHex_content [OF assms]
  then obtain a b c d where "hs = [a, b, c, d]"
    by (auto simp: length_Suc_conv numeral_eq_Suc)
  with h show ?thesis by auto
qed

lemma scanString_content: "scanString s = Scanned raw rest \<Longrightarrow> stringContent raw \<and> s = raw @ CHR 0x22 # rest"
proof (induction s arbitrary: raw rest rule: scanString.induct)
  case (2 c s)
  consider "c = CHR 0x22" | "c \<noteq> CHR 0x22" "byteOf c < 32" | "c \<noteq> CHR 0x22" "\<not> byteOf c < 32" "c \<noteq> CHR 0x5C"
    | "c = CHR 0x5C" by blast
  then show ?case
  proof cases
    case 1
    with 2(4) show ?thesis by (auto intro: stringContent.intros)
  next
    case 3
    with 2(3,4) show ?thesis by (auto split: scan.splits intro: stringContent.intros)
  next
    case 4
    with 2(4) obtain e s' where s: "s = e # s'" by (cases s) auto
    show ?thesis
    proof (cases "simpleEscape e")
      case (Some b)
      with 4 2(1) [of e s'] 2(4) s show ?thesis by (auto split: scan.splits intro: stringContent.intros)
    next
      case None
      with 4 2(4) s have u: "e = CHR ''u''" by (auto split: if_splits)
      with 4 2(4) s None obtain hs r1 raw' where
        h: "scanHex 4 s' = Scanned hs r1" "scanString (drop 4 s') = Scanned raw' rest" "raw = c # e # hs @ raw'"
        by (auto split: scan.splits)
      note x = hex4_of_scan [OF h(1)]
      have "stringContent raw' \<and> drop 4 s' = raw' @ CHR 0x22 # rest"
        using 2(2) [OF _ _ 4 s _ u h(1,2)] 4 None by simp
      with x h(3) u 4 s show ?thesis by (auto intro: stringContent.intros)
    qed
  qed (use 2 in simp)
qed simp

lemma scanDigits1_content:
  "scanDigits1 s = Scanned ds rest \<Longrightarrow> digits1 ds \<and> s = ds @ rest"
  by (auto simp: scanDigits1_def digits1_def list_all_iff dest: set_takeWhileD split: list.splits if_splits)

lemma scanFraction_content:
  "scanFraction s = Scanned f rest \<Longrightarrow> fractionText f \<and> s = f @ rest"
  by (auto simp: scanFraction_def fractionText_def split: list.splits if_splits scan.splits dest!: scanDigits1_content)

lemma scanExponent_content:
  "scanExponent s = Scanned x rest \<Longrightarrow> exponentText x \<and> s = x @ rest"
proof -
  assume a: "scanExponent s = Scanned x rest"
  show ?thesis
  proof (cases "\<exists>e t. s = e # t \<and> (e = CHR ''e'' \<or> e = CHR ''E'')")
    case False
    with a show ?thesis by (auto simp: scanExponent_def exponentText_def split: list.splits)
  next
    case True
    then obtain e t where s: "s = e # t" and e: "e \<in> {CHR ''e'', CHR ''E''}" by auto
    define sg where "sg = (case t of [] \<Rightarrow> [] | d # v \<Rightarrow> if d = CHR ''+'' \<or> d = CHR ''-'' then [d] else [])"
    define u where "u = (case t of [] \<Rightarrow> [] | d # v \<Rightarrow> if d = CHR ''+'' \<or> d = CHR ''-'' then v else t)"
    have pair: "(case t of [] \<Rightarrow> ([], []) | d # v \<Rightarrow> if d = CHR ''+'' \<or> d = CHR ''-'' then ([d], v) else ([], t)) = (sg, u)"
      and t: "t = sg @ u" and sg: "sg \<in> {[], ''+'', ''-''}"
      by (auto simp: sg_def u_def split: list.split)
    from a e obtain es where es: "scanDigits1 u = Scanned es rest" "x = e # sg @ es"
      by (auto simp: scanExponent_def s pair)
    from scanDigits1_content [OF es(1)] es(2) e sg s t show ?thesis by (auto simp: exponentText_def)
  qed
qed

lemma scanNumber_content:
  assumes "scanNumber s = Scanned v rest"
  shows "\<exists>n. v = JNum n \<and> numberText n \<and> s = n @ rest"
proof -
  define sign where "sign = (case s of [] \<Rightarrow> [] | c # u \<Rightarrow> if c = CHR ''-'' then [c] else [])"
  define t where "t = (case s of [] \<Rightarrow> [] | c # u \<Rightarrow> if c = CHR ''-'' then u else s)"
  have pair: "(case s of [] \<Rightarrow> ([], []) | c # u \<Rightarrow> if c = CHR ''-'' then ([c], u) else ([], s)) = (sign, t)"
    and s: "s = sign @ t" and sign: "sign \<in> {[], ''-''}"
    by (auto simp: sign_def t_def split: list.split)
  from assms obtain ds0 rest0 where d0: "scanDigits1 t = Scanned ds0 rest0"
    by (auto simp: scanNumber_def pair split: scan.splits)
  define ds where "ds = (if hd ds0 = CHR ''0'' then ''0'' else ds0)"
  define u where "u = (if hd ds0 = CHR ''0'' then tl t else rest0)"
  have pair': "(if hd ds0 = CHR ''0'' then (''0'', tl t) else (ds0, rest0)) = (ds, u)"
    by (simp add: ds_def u_def)
  from scanDigits1_content [OF d0] have t: "t = ds @ u" and ds: "ds = ''0'' \<or> digits1 ds \<and> hd ds \<noteq> CHR ''0''"
    by (auto simp: ds_def u_def digits1_def neq_Nil_conv)
  from assms d0 obtain frac w ex where f: "scanFraction u = Scanned frac w" and e: "scanExponent w = Scanned ex rest"
    and v: "v = JNum (sign @ ds @ frac @ ex)"
    by (auto simp: scanNumber_def pair pair' split: scan.splits)
  have "numberText (sign @ ds @ frac @ ex)"
    unfolding numberText_def using sign ds scanFraction_content [OF f] scanExponent_content [OF e] by blast
  then show ?thesis
    using v s t scanFraction_content [OF f] scanExponent_content [OF e] by auto
qed

lemma scanLiteral_content: "scanLiteral w v s = Scanned v' rest \<Longrightarrow> v' = v \<and> s = w @ rest"
  by (auto simp: scanLiteral_def hasPrefix_iff split: if_splits)

lemma expectByte_content:
  assumes "expectByte c s = Scanned x rest"
  obtains ws where "spaces ws" "s = ws @ c # rest"
  using assms by (auto simp: expectByte_def split: list.splits if_splits elim: skipSpaces_split)

text \<open>One step of each scanning function, given that the recursive calls are right.\<close>

lemma scanObject_step:
  assumes "\<And>s ms rest. scanMembers n (d + 1) s = Scanned ms rest \<Longrightarrow> \<exists>p. membersText ms p \<and> s = p @ rest"
    and "scanValue (Suc n) d s = Scanned v rest" and "skipSpaces s = CHR 0x7B # t"
  shows "\<exists>p. valueText v p \<and> s = p @ rest"
proof -
  from skipSpaces_split [OF assms(3)] obtain ws where ws: "spaces ws" "s = ws @ CHR 0x7B # t" .
  from assms(2,3) obtain e u where eu: "skipSpaces t = e # u" by (auto split: if_splits)
  from skipSpaces_split [OF eu] obtain ws' where ws': "spaces ws'" "t = ws' @ e # u" .
  show ?thesis
  proof (cases "e = CHR 0x7D")
    case True
    with assms(2,3) eu have "v = JObj []" "rest = u" by (simp_all split: if_splits)
    with True ws ws' show ?thesis using text_empty_object [of ws ws'] by fastforce
  next
    case False
    with assms(2,3) eu obtain ms where ms: "scanMembers n (d + 1) t = Scanned ms rest" "v = JObj ms"
      by (auto split: if_splits)
    from assms(1) [OF ms(1)] obtain p where "membersText ms p" "t = p @ rest" by blast
    with ms(2) ws show ?thesis using text_object [of ws ms p] by fastforce
  qed
qed

lemma scanArray_step:
  assumes "\<And>s vs rest. scanElements n (d + 1) s = Scanned vs rest \<Longrightarrow> \<exists>p. elementsText vs p \<and> s = p @ rest"
    and "scanValue (Suc n) d s = Scanned v rest" and "skipSpaces s = CHR 0x5B # t"
  shows "\<exists>p. valueText v p \<and> s = p @ rest"
proof -
  from skipSpaces_split [OF assms(3)] obtain ws where ws: "spaces ws" "s = ws @ CHR 0x5B # t" .
  from assms(2,3) obtain e u where eu: "skipSpaces t = e # u" by (auto split: if_splits)
  from skipSpaces_split [OF eu] obtain ws' where ws': "spaces ws'" "t = ws' @ e # u" .
  show ?thesis
  proof (cases "e = CHR 0x5D")
    case True
    with assms(2,3) eu have "v = JArr []" "rest = u" by (simp_all split: if_splits)
    with True ws ws' show ?thesis using text_empty_array [of ws ws'] by fastforce
  next
    case False
    with assms(2,3) eu obtain vs where vs: "scanElements n (d + 1) t = Scanned vs rest" "v = JArr vs"
      by (auto split: if_splits)
    from assms(1) [OF vs(1)] obtain p where "elementsText vs p" "t = p @ rest" by blast
    with vs(2) ws show ?thesis using text_array [of ws vs p] by fastforce
  qed
qed

lemma scanScalar_step:
  assumes "scanValue (Suc n) d s = Scanned v rest" and "skipSpaces s = c # t" and "c \<noteq> CHR 0x7B" "c \<noteq> CHR 0x5B"
  shows "\<exists>p. valueText v p \<and> s = p @ rest"
proof -
  from skipSpaces_split [OF assms(2)] obtain ws where ws: "spaces ws" "s = ws @ c # t" .
  consider "c = CHR 0x22" | "c \<noteq> CHR 0x22" "c = CHR ''-'' \<or> isDigit c"
    | "c \<noteq> CHR 0x22" "c \<noteq> CHR ''-''" "\<not> isDigit c" by blast
  then show ?thesis
  proof cases
    case 1
    with assms obtain raw where raw: "scanString t = Scanned raw rest" "v = JStr (unquote raw)" by auto
    from scanString_content [OF raw(1)] 1 raw(2) ws show ?thesis using text_string [of ws raw] by fastforce
  next
    case 2
    with assms have "scanNumber (c # t) = Scanned v rest" by (simp split: if_splits)
    from scanNumber_content [OF this] ws show ?thesis by (metis append.assoc text_number)
  next
    case 3
    with assms consider "scanLiteral ''true'' (JBool True) (c # t) = Scanned v rest"
      | "scanLiteral ''false'' (JBool False) (c # t) = Scanned v rest" | "scanLiteral ''null'' JNull (c # t) = Scanned v rest"
      by (simp split: if_splits)
    then show ?thesis
    proof cases
      case 1
      from scanLiteral_content [OF this] ws text_true [of ws] show ?thesis by fastforce
    next
      case 2
      from scanLiteral_content [OF this] ws text_false [of ws] show ?thesis by fastforce
    next
      case 3
      from scanLiteral_content [OF this] ws text_null [of ws] show ?thesis by fastforce
    qed
  qed
qed

lemma scanElements_step:
  assumes "\<And>s v rest. scanValue n d s = Scanned v rest \<Longrightarrow> \<exists>p. valueText v p \<and> s = p @ rest"
    and "\<And>s vs rest. scanElements n d s = Scanned vs rest \<Longrightarrow> \<exists>p. elementsText vs p \<and> s = p @ rest"
    and "scanElements (Suc n) d s = Scanned vs rest"
  shows "\<exists>p. elementsText vs p \<and> s = p @ rest"
proof -
  from assms(3) obtain v t c u where v: "scanValue n d s = Scanned v t" and cu: "skipSpaces t = c # u" by auto
  from assms(1) [OF v] obtain p where p: "valueText v p" "s = p @ t" by blast
  from skipSpaces_split [OF cu] obtain ws where ws: "spaces ws" "t = ws @ c # u" .
  show ?thesis
  proof (cases "c = CHR 0x5D")
    case True
    with assms(3) v cu have "vs = [v]" "rest = u" by simp_all
    with True p ws show ?thesis using text_last_element [of v p ws] by fastforce
  next
    case False
    with assms(3) v cu obtain vs' where vs: "c = CHR '',''" "scanElements n d u = Scanned vs' rest" "vs = v # vs'"
      by (auto split: if_splits)
    from assms(2) [OF vs(2)] obtain q where "elementsText vs' q" "u = q @ rest" by blast
    with vs p ws show ?thesis using text_element [of v p ws vs' q] by fastforce
  qed
qed

lemma scanMembers_step:
  assumes "\<And>s v rest. scanValue n d s = Scanned v rest \<Longrightarrow> \<exists>p. valueText v p \<and> s = p @ rest"
    and "\<And>s ms rest. scanMembers n d s = Scanned ms rest \<Longrightarrow> \<exists>p. membersText ms p \<and> s = p @ rest"
    and "scanMembers (Suc n) d s = Scanned ms rest"
  shows "\<exists>p. membersText ms p \<and> s = p @ rest"
proof -
  from assms(3) obtain q1 t raw u q2 w v y c z where one: "expectByte (CHR 0x22) s = Scanned q1 t"
    and two: "scanString t = Scanned raw u" and three: "expectByte (CHR '':'') u = Scanned q2 w"
    and four: "scanValue n d w = Scanned v y" and cz: "skipSpaces y = c # z"
    by (auto simp only: scanMembers.simps scan_case list_scan_case)
  from expectByte_content [OF one] obtain ws where ws: "spaces ws" "s = ws @ CHR 0x22 # t" .
  from expectByte_content [OF three] obtain ws' where ws': "spaces ws'" "u = ws' @ CHR '':'' # w" .
  from assms(1) [OF four] obtain p where p: "valueText v p" "w = p @ y" by blast
  from skipSpaces_split [OF cz] obtain ws'' where ws'': "spaces ws''" "y = ws'' @ c # z" .
  note raw = scanString_content [OF two]
  show ?thesis
  proof (cases "c = CHR 0x7D")
    case True
    with assms(3) one two three four cz have "ms = [(unquote raw, v)]" "rest = z" by simp_all
    with True ws ws' ws'' p raw show ?thesis using text_last_member [of ws raw ws' v p ws''] by fastforce
  next
    case False
    with assms(3) one two three four cz obtain ms' where
      ms: "c = CHR '',''" "scanMembers n d z = Scanned ms' rest" "ms = (unquote raw, v) # ms'"
      by (auto split: if_splits)
    from assms(2) [OF ms(2)] obtain q where "membersText ms' q" "z = q @ rest" by blast
    with ms ws ws' ws'' p raw show ?thesis using text_member [of ws raw ws' v p ws'' ms' q] by fastforce
  qed
qed

lemma scan_sound:
  "(\<forall>d s v rest. scanValue n d s = Scanned v rest \<longrightarrow> (\<exists>p. valueText v p \<and> s = p @ rest)) \<and>
   (\<forall>d s vs rest. scanElements n d s = Scanned vs rest \<longrightarrow> (\<exists>p. elementsText vs p \<and> s = p @ rest)) \<and>
   (\<forall>d s ms rest. scanMembers n d s = Scanned ms rest \<longrightarrow> (\<exists>p. membersText ms p \<and> s = p @ rest))"
proof (induction n)
  case (Suc n)
  have "\<exists>p. valueText v p \<and> s = p @ rest" if a: "scanValue (Suc n) d s = Scanned v rest" for d s v rest
  proof -
    from a obtain c t where ct: "skipSpaces s = c # t" by (auto simp only: scanValue.simps list_scan_case)
    consider "c = CHR 0x7B" | "c = CHR 0x5B" | "c \<noteq> CHR 0x7B" "c \<noteq> CHR 0x5B" by blast
    then show ?thesis
    proof cases
      case 1
      with a ct Suc show ?thesis by (intro scanObject_step [of n d s v rest t]) blast+
    next
      case 2
      with a ct Suc show ?thesis by (intro scanArray_step [of n d s v rest t]) blast+
    next
      case 3
      with a ct show ?thesis by (intro scanScalar_step)
    qed
  qed
  moreover have "\<exists>p. elementsText vs p \<and> s = p @ rest" if "scanElements (Suc n) d s = Scanned vs rest" for d s vs rest
    by (rule scanElements_step [OF _ _ that]) (use Suc in blast)+
  moreover have "\<exists>p. membersText ms p \<and> s = p @ rest" if "scanMembers (Suc n) d s = Scanned ms rest" for d s ms rest
    by (rule scanMembers_step [OF _ _ that]) (use Suc in blast)+
  ultimately show ?case by blast
qed simp

section \<open>Every text of the grammar is read\<close>

text \<open>The nesting of arrays and objects in a value; the scanner admits \<^const>\<open>maxNestingDepth\<close> levels.\<close>

fun depth :: "jvalue \<Rightarrow> nat"
  and depthElements :: "jvalue list \<Rightarrow> nat"
  and depthMembers :: "(string \<times> jvalue) list \<Rightarrow> nat" where
  "depth (JArr vs) = Suc (depthElements vs)"
| "depth (JObj ms) = Suc (depthMembers ms)"
| "depth _ = 0"
| "depthElements [] = 0"
| "depthElements (v # vs) = max (depth v) (depthElements vs)"
| "depthMembers [] = 0"
| "depthMembers ((k, v) # ms) = max (depth v) (depthMembers ms)"

lemma skipSpaces_simps [simp]:
  "skipSpaces [] = []" "skipSpaces (c # s) = (if isJsonSpace c then skipSpaces s else c # s)"
  by (simp_all add: skipSpaces_def)

lemma skipSpaces_spaces [simp]: "spaces ws \<Longrightarrow> skipSpaces (ws @ s) = skipSpaces s"
  by (induction ws) (simp_all add: spaces_def)

lemma space_simps [simp]:
  "\<not> isJsonSpace (CHR 0x22)" "\<not> isJsonSpace (CHR 0x5B)" "\<not> isJsonSpace (CHR 0x5D)" "\<not> isJsonSpace (CHR 0x7B)"
  "\<not> isJsonSpace (CHR 0x7D)" "\<not> isJsonSpace (CHR '','')" "\<not> isJsonSpace (CHR '':'')" "\<not> isJsonSpace (CHR ''n'')"
  "\<not> isJsonSpace (CHR ''t'')" "\<not> isJsonSpace (CHR ''f'')"
  by (simp_all add: isJsonSpace_def)

text \<open>What may follow a number without being taken as a part of it.\<close>

definition endsNumber :: "string \<Rightarrow> bool" where
  "endsNumber s \<longleftrightarrow> (case s of [] \<Rightarrow> True | c # _ \<Rightarrow> \<not> isDigit c \<and> c \<noteq> CHR ''.'' \<and> c \<noteq> CHR ''e'' \<and> c \<noteq> CHR ''E'')"

lemma ends_simps [simp]: "endsNumber (CHR 0x5D # s)" "endsNumber (CHR 0x7D # s)" "endsNumber (CHR '','' # s)" "endsNumber []"
  by (simp_all add: endsNumber_def isDigit_def)

lemma ends_spaces: "spaces ws \<Longrightarrow> endsNumber s \<Longrightarrow> endsNumber (ws @ s)"
  by (cases ws) (auto simp: endsNumber_def spaces_def isJsonSpace_def isDigit_def)

subsection \<open>Strings and numbers\<close>

lemma hex4_shape: "hex4 hs \<noteq> None \<Longrightarrow> \<exists>a b c d. hs = [a, b, c, d] \<and> (\<forall>x \<in> set hs. hexVal x \<noteq> None)"
  by (cases hs rule: hex4.cases) (auto split: option.splits)

lemma scanHex_hex4:
  assumes "hex4 hs \<noteq> None"
  shows "scanHex 4 (hs @ s) = Scanned hs s" "drop 4 (hs @ s) = s"
proof -
  from hex4_shape [OF assms] obtain a b c d where hs: "hs = [a, b, c, d]" "\<forall>x \<in> set hs. hexVal x \<noteq> None" by blast
  then have "scanHex (Suc (Suc (Suc (Suc 0)))) (hs @ s) = Scanned hs s" by simp
  then show "scanHex 4 (hs @ s) = Scanned hs s" by (simp add: numeral_eq_Suc)
  show "drop 4 (hs @ s) = s" using hs(1) by simp
qed

lemma simpleEscape_u [simp]: "simpleEscape (CHR ''u'') = None"
  by (simp add: simpleEscape_def)

lemma scanString_text: "stringContent raw \<Longrightarrow> scanString (raw @ CHR 0x22 # rest) = Scanned raw rest"
proof (induction rule: stringContent.induct)
  case (content_unicode hs s)
  then show ?case using scanHex_hex4 [OF content_unicode(1), of "s @ CHR 0x22 # rest"] by simp
qed auto

lemma scanDigits1_text:
  assumes "digits1 ds" "case rest of [] \<Rightarrow> True | c # _ \<Rightarrow> \<not> isDigit c"
  shows "scanDigits1 (ds @ rest) = Scanned ds rest"
proof -
  have "takeWhile isDigit rest = []" "dropWhile isDigit rest = rest"
    using assms(2) by (auto split: list.splits)
  with assms(1) show ?thesis
    by (cases ds) (auto simp: scanDigits1_def digits1_def list_all_iff takeWhile_append dropWhile_append)
qed

lemma scanExponent_text:
  assumes "exponentText ex" and "endsNumber rest"
  shows "scanExponent (ex @ rest) = Scanned ex rest"
  using assms(1) unfolding exponentText_def
proof (elim disjE exE conjE)
  assume "ex = []"
  with assms(2) show ?thesis by (auto simp: scanExponent_def endsNumber_def split: list.splits)
next
  fix e sg es
  assume h: "ex = e # sg @ es" "e \<in> {CHR ''e'', CHR ''E''}" "sg \<in> {[], ''+'', ''-''}" "digits1 es"
  then obtain c t where es: "es = c # t" "isDigit c" by (cases es) (auto simp: digits1_def)
  have pair: "(case sg @ es @ rest of [] \<Rightarrow> ([], []) | d # v \<Rightarrow> if d = CHR ''+'' \<or> d = CHR ''-'' then ([d], v)
      else ([], sg @ es @ rest)) = (sg, es @ rest)"
    using h(3) es by (auto simp: isDigit_def)
  have "scanDigits1 (es @ rest) = Scanned es rest"
    using h(4) assms(2) by (intro scanDigits1_text) (auto simp: endsNumber_def split: list.splits)
  with h(1,2) pair show ?thesis by (auto simp: scanExponent_def)
qed

lemma scanFraction_text:
  assumes "fractionText frac" and "case rest of [] \<Rightarrow> True | c # _ \<Rightarrow> \<not> isDigit c \<and> c \<noteq> CHR ''.''"
  shows "scanFraction (frac @ rest) = Scanned frac rest"
  using assms(1) unfolding fractionText_def
proof (elim disjE exE conjE)
  assume "frac = []"
  with assms(2) show ?thesis by (auto simp: scanFraction_def split: list.splits)
next
  fix fs
  assume "frac = CHR ''.'' # fs" "digits1 fs"
  moreover have "scanDigits1 (fs @ rest) = Scanned fs rest" if "digits1 fs"
    using that assms(2) by (intro scanDigits1_text) (auto split: list.splits)
  ultimately show ?thesis by (simp add: scanFraction_def)
qed

lemma scanNumber_text:
  assumes "numberText n" "endsNumber rest"
  shows "scanNumber (n @ rest) = Scanned (JNum n) rest"
proof -
  from assms(1) obtain sign ds frac ex where n: "n = sign @ ds @ frac @ ex" and sign: "sign \<in> {[], ''-''}"
    and ds: "ds = ''0'' \<or> digits1 ds \<and> hd ds \<noteq> CHR ''0''" and frac: "fractionText frac" and ex: "exponentText ex"
    unfolding numberText_def by blast
  have digits: "digits1 ds" using ds by (auto simp: digits1_def isDigit_def)
  then obtain c t where ct: "ds = c # t" "isDigit c" by (cases ds) (auto simp: digits1_def)
  have exd: "case ex @ rest of [] \<Rightarrow> True | c # _ \<Rightarrow> \<not> isDigit c \<and> c \<noteq> CHR ''.''"
    using ex assms(2) by (auto simp: exponentText_def endsNumber_def isDigit_def split: list.splits)
  then have frd: "case frac @ ex @ rest of [] \<Rightarrow> True | c # _ \<Rightarrow> \<not> isDigit c"
    using frac by (auto simp: fractionText_def isDigit_def split: list.splits)
  have e: "scanExponent (ex @ rest) = Scanned ex rest" using ex assms(2) by (rule scanExponent_text)
  have f: "scanFraction (frac @ ex @ rest) = Scanned frac (ex @ rest)"
    using frac exd by (rule scanFraction_text)
  have d: "scanDigits1 (ds @ frac @ ex @ rest) = Scanned ds (frac @ ex @ rest)"
    using digits frd by (rule scanDigits1_text)
  have pair: "(case n @ rest of [] \<Rightarrow> ([], []) | c # u \<Rightarrow> if c = CHR ''-'' then ([c], u) else ([], n @ rest)) =
      (sign, ds @ frac @ ex @ rest)"
    using sign ct by (auto simp: n isDigit_def)
  have pair': "(if hd ds = CHR ''0'' then (''0'', tl (ds @ frac @ ex @ rest)) else (ds, frac @ ex @ rest)) =
      (ds, frac @ ex @ rest)"
    using ds by auto
  show ?thesis unfolding scanNumber_def pair by (simp add: d pair' f e n)
qed

subsection \<open>Values\<close>

lemma number_start:
  assumes "c = CHR ''-'' \<or> isDigit c"
  shows "\<not> isJsonSpace c" "c \<notin> {CHR 0x5B, CHR 0x5D, CHR 0x7B, CHR 0x7D, CHR 0x22}"
  using assms by (auto simp: isJsonSpace_def isDigit_def)

lemma numberText_start: "numberText n \<Longrightarrow> \<exists>c t. n = c # t \<and> (c = CHR ''-'' \<or> isDigit c)"
  by (auto simp: numberText_def digits1_def isDigit_def neq_Nil_conv)

text \<open>The first byte after white space tells a value from a closing bracket.\<close>

lemma text_start:
  "valueText v p \<Longrightarrow> skipSpaces (p @ rest) \<noteq> [] \<and> hd (skipSpaces (p @ rest)) \<notin> {CHR 0x5D, CHR 0x7D}"
  "elementsText vs p \<Longrightarrow> skipSpaces (p @ rest) \<noteq> [] \<and> hd (skipSpaces (p @ rest)) \<noteq> CHR 0x5D"
  "membersText ms p \<Longrightarrow> skipSpaces (p @ rest) \<noteq> [] \<and> hd (skipSpaces (p @ rest)) \<noteq> CHR 0x7D"
proof (induction arbitrary: rest and rest and rest rule: valueText_elementsText_membersText.inducts)
  case (text_number ws n)
  from numberText_start [OF this(2)] obtain c t where "n = c # t" "c = CHR ''-'' \<or> isDigit c" by blast
  with number_start [of c] text_number(1) show ?case by auto
qed simp_all

lemma scan_complete:
  "valueText v p \<Longrightarrow> endsNumber rest \<Longrightarrow> d + depth v \<le> maxNestingDepth \<Longrightarrow> length p < n \<Longrightarrow>
     scanValue n d (p @ rest) = Scanned v rest"
  "elementsText vs p \<Longrightarrow> d + depthElements vs \<le> maxNestingDepth \<Longrightarrow> length p < n \<Longrightarrow>
     scanElements n d (p @ rest) = Scanned vs rest"
  "membersText ms p \<Longrightarrow> d + depthMembers ms \<le> maxNestingDepth \<Longrightarrow> length p < n \<Longrightarrow>
     scanMembers n d (p @ rest) = Scanned ms rest"
proof (induction arbitrary: n d rest and n d rest and n d rest rule: valueText_elementsText_membersText.inducts)
  case (text_number ws k)
  from numberText_start [OF this(2)] obtain c t where ct: "k = c # t" "c = CHR ''-'' \<or> isDigit c" by blast
  from text_number(5) obtain m where n: "n = Suc m" by (cases n) auto
  with ct(2) number_start [OF ct(2)] scanNumber_text [OF text_number(2,3)] text_number(1) show ?case
    by (simp add: ct(1))
next
  case (text_array ws vs p)
  from text_array.prems(3) obtain m where n: "n = Suc m" by (cases n) auto
  from text_start(2) [OF text_array.hyps(2), of rest] obtain c t where ct: "skipSpaces (p @ rest) = c # t" "c \<noteq> CHR 0x5D"
    by (cases "skipSpaces (p @ rest)") auto
  have "scanElements m (d + 1) (p @ rest) = Scanned vs rest" using text_array.IH [of "d + 1" m rest] text_array.prems(2,3) n by simp
  with ct text_array.hyps(1) text_array.prems(2) show ?case by (simp add: n)
next
  case (text_object ws ms p)
  from text_object.prems(3) obtain m where n: "n = Suc m" by (cases n) auto
  from text_start(3) [OF text_object.hyps(2), of rest] obtain c t where ct: "skipSpaces (p @ rest) = c # t" "c \<noteq> CHR 0x7D"
    by (cases "skipSpaces (p @ rest)") auto
  have "scanMembers m (d + 1) (p @ rest) = Scanned ms rest" using text_object.IH [of "d + 1" m rest] text_object.prems(2,3) n by simp
  with ct text_object.hyps(1) text_object.prems(2) show ?case by (simp add: n)
next
  case (text_last_element v p ws)
  from text_last_element.prems(2) obtain m where n: "n = Suc m" by (cases n) auto
  have "scanValue m d (p @ ws @ CHR 0x5D # rest) = Scanned v (ws @ CHR 0x5D # rest)"
    using text_last_element n by (intro text_last_element.IH) (simp_all add: ends_spaces)
  with text_last_element.hyps(2) show ?case by (simp add: n)
next
  case (text_element v p ws vs q)
  from text_element.prems(2) obtain m where n: "n = Suc m" by (cases n) auto
  have "scanValue m d (p @ ws @ CHR '','' # q @ rest) = Scanned v (ws @ CHR '','' # q @ rest)"
    using text_element n by (intro text_element.IH(1)) (simp_all add: ends_spaces)
  moreover have "scanElements m d (q @ rest) = Scanned vs rest"
    using text_element.prems n by (intro text_element.IH(2)) simp_all
  ultimately show ?case using text_element.hyps(2) by (simp add: n)
next
  case (text_last_member ws raw ws' v p ws'')
  from text_last_member.prems(2) obtain m where n: "n = Suc m" by (cases n) auto
  have "scanValue m d (p @ ws'' @ CHR 0x7D # rest) = Scanned v (ws'' @ CHR 0x7D # rest)"
    using text_last_member n by (intro text_last_member.IH) (simp_all add: ends_spaces)
  with text_last_member.hyps show ?case by (simp add: n expectByte_def scanString_text)
next
  case (text_member ws raw ws' v p ws'' ms q)
  from text_member.prems(2) obtain m where n: "n = Suc m" by (cases n) auto
  have "scanValue m d (p @ ws'' @ CHR '','' # q @ rest) = Scanned v (ws'' @ CHR '','' # q @ rest)"
    using text_member n by (intro text_member.IH(1)) (simp_all add: ends_spaces)
  moreover have "scanMembers m d (q @ rest) = Scanned ms rest"
    using text_member.prems n by (intro text_member.IH(2)) simp_all
  ultimately show ?case using text_member.hyps by (simp add: n expectByte_def scanString_text)
next
  case (text_string ws raw)
  from text_string(5) obtain m where n: "n = Suc m" by (cases n) auto
  with text_string show ?case by (simp add: scanString_text)
qed (auto simp: scanLiteral_def isDigit_def gr0_conv_Suc less_Suc_eq_0_disj dest!: less_imp_Suc_add)

lemma scalar_depth:
  "scanNumber s = Scanned v rest \<Longrightarrow> depth v = 0"
  "scanLiteral w u s = Scanned v rest \<Longrightarrow> depth v = depth u"
  by (auto dest: scanNumber_content scanLiteral_content)

lemma scan_depth:
  "scanValue n d s = Scanned v rest \<Longrightarrow> d \<le> maxNestingDepth \<Longrightarrow> d + depth v \<le> maxNestingDepth"
  "scanElements n d s = Scanned vs rest \<Longrightarrow> d \<le> maxNestingDepth \<Longrightarrow> d + depthElements vs \<le> maxNestingDepth"
  "scanMembers n d s = Scanned ms rest \<Longrightarrow> d \<le> maxNestingDepth \<Longrightarrow> d + depthMembers ms \<le> maxNestingDepth"
proof (induction n d s and n d s and n d s arbitrary: v rest and vs rest and ms rest
    rule: scanValue_scanElements_scanMembers.induct)
  case (2 n d s)
  from "2.prems"(1) obtain c t where ct: "skipSpaces s = c # t" by (auto simp only: scanValue.simps list_scan_case)
  consider "c = CHR 0x7B" | "c = CHR 0x5B" | "c \<noteq> CHR 0x7B" "c \<noteq> CHR 0x5B" by blast
  then show ?case
  proof cases
    case 1
    with "2.prems" ct obtain e u where "\<not> maxNestingDepth < d + 1" "skipSpaces t = e # u"
      by (auto split: if_splits)
    with "2.IH"(1) [OF ct 1] "2.prems" 1 ct show ?thesis by (fastforce split: if_splits)
  next
    case 2
    with "2.prems" ct obtain e u where "\<not> maxNestingDepth < d + 1" "skipSpaces t = e # u"
      by (auto split: if_splits)
    with "2.IH"(2) [OF ct _ 2] "2.prems" 2 ct show ?thesis by (fastforce split: if_splits)
  next
    case 3
    with "2.prems" ct show ?thesis by (auto split: if_splits simp: scalar_depth)
  qed
next
  case (4 n d s)
  from "4.prems"(1) obtain v t c u where v: "scanValue n d s = Scanned v t" and cu: "skipSpaces t = c # u"
    by (auto simp only: scanElements.simps scan_case list_scan_case)
  with "4.IH"(1) [OF v] "4.IH"(2) [OF v cu] "4.prems" show ?case by (auto split: if_splits)
next
  case (6 n d s)
  from "6.prems"(1) obtain q1 t raw u q2 w v y c z where one: "expectByte (CHR 0x22) s = Scanned q1 t"
    and two: "scanString t = Scanned raw u" and three: "expectByte (CHR '':'') u = Scanned q2 w"
    and four: "scanValue n d w = Scanned v y" and cz: "skipSpaces y = c # z"
    by (auto simp only: scanMembers.simps scan_case list_scan_case)
  with "6.IH"(1) [OF one two three four] "6.IH"(2) [OF one two three four cz] "6.prems" show ?case
    by (auto split: if_splits)
qed simp_all

text \<open>So the scanner decides the grammar, up to the white space and the nesting limit.\<close>

lemma scanText_iff:
  assumes "spaces ws"
  shows "scanText (p @ ws) = Scanned v ws \<longleftrightarrow> valueText v p \<and> depth v \<le> maxNestingDepth"
proof
  assume a: "scanText (p @ ws) = Scanned v ws"
  from scan_sound a obtain q where "valueText v q" "p @ ws = q @ ws" unfolding scanText_def by blast
  with a scan_depth(1) [of _ 0] show "valueText v p \<and> depth v \<le> maxNestingDepth"
    by (fastforce simp: scanText_def simp del: scanValue.simps)
next
  assume "valueText v p \<and> depth v \<le> maxNestingDepth"
  then show "scanText (p @ ws) = Scanned v ws"
    unfolding scanText_def using ends_spaces [OF assms, of "[]"]
    by (intro scan_complete(1)) auto
qed

end
