(* ===== verification/JsonPrint.thy ===== *)
theory JsonPrint
  imports JsonGrammar
begin

text \<open>
  A printer of JSON documents, as a client of the API has one. What it prints is a text of the grammar for the
  document, so the scanner reads it back: any document of well-formed UTF-8 strings and integers.
\<close>

section \<open>Quoting\<close>

definition hexDigit :: "nat \<Rightarrow> char" where
  "hexDigit n = char_of (if n < 10 then 48 + n else 87 + n)"

definition quoteByte :: "char \<Rightarrow> string" where
  "quoteByte c =
     (if c = CHR 0x22 \<or> c = CHR 0x5C then [CHR 0x5C, c]
      else if byteOf c < 32
      then CHR 0x5C # ''u00'' @ [hexDigit (byteOf c div 16), hexDigit (byteOf c mod 16)]
      else [c])"

definition quote :: "string \<Rightarrow> string" where
  "quote s = concat (map quoteByte s)"

lemma quote_simps [simp]: "quote [] = []" "quote (c # s) = quoteByte c @ quote s" "quote (s @ t) = quote s @ quote t"
  by (simp_all add: quote_def)

lemma hexVal_hexDigit: "n < 16 \<Longrightarrow> hexVal (hexDigit n) = Some n"
  by (auto simp: hexVal_def hexDigit_def isDigit_def digitVal_def)

lemma hexVal_zero [simp]: "hexVal (CHR ''0'') = Some 0"
  by (simp add: hexVal_def isDigit_def digitVal_def)

lemma simpleEscape_simps [simp]:
  "simpleEscape (CHR 0x22) = Some (CHR 0x22)" "simpleEscape (CHR 0x5C) = Some (CHR 0x5C)"
  by (simp_all add: simpleEscape_def)

lemma hex4_byte: "m < 16 \<Longrightarrow> n < 16 \<Longrightarrow> hex4 [CHR ''0'', CHR ''0'', hexDigit m, hexDigit n] = Some (16 * m + n)"
  by (simp add: hexVal_hexDigit)

lemma content_quoteByte:
  assumes "stringContent s"
  shows "stringContent (quoteByte c @ s)"
proof -
  consider (esc) "c = CHR 0x22 \<or> c = CHR 0x5C" | (ctrl) "c \<noteq> CHR 0x22" "c \<noteq> CHR 0x5C" "byteOf c < 32"
    | (plain) "c \<noteq> CHR 0x22" "c \<noteq> CHR 0x5C" "\<not> byteOf c < 32" by blast
  then show ?thesis
  proof cases
    case esc
    then have "quoteByte c = [CHR 0x5C, c]" "simpleEscape c \<noteq> None" by (auto simp: quoteByte_def)
    with assms show ?thesis by (simp add: content_escape)
  next
    case ctrl
    then have "hex4 [CHR ''0'', CHR ''0'', hexDigit (byteOf c div 16), hexDigit (byteOf c mod 16)] \<noteq> None"
      by (simp add: hex4_byte del: hex4.simps)
    from content_unicode [OF this assms] ctrl show ?thesis by (simp add: quoteByte_def)
  next
    case plain
    then have "quoteByte c = [c]" by (simp add: quoteByte_def)
    with plain assms show ?thesis by (simp add: content_byte)
  qed
qed

lemma content_quote: "stringContent (quote s)"
  by (induction s) (simp_all add: content_empty content_quoteByte)

section \<open>Well-formed UTF-8\<close>

function validUTF8 :: "string \<Rightarrow> bool" where
  "validUTF8 [] \<longleftrightarrow> True"
| "validUTF8 (c # s) \<longleftrightarrow>
     (if runeWidth (c # s) = 0 then False else validUTF8 (drop (runeWidth (c # s)) (c # s)))"
  by pat_completeness auto
termination
  by (relation "measure length") (auto simp del: drop.simps)

declare validUTF8.simps(2) [simp del]

text \<open>A rune is one ASCII byte, or two to four bytes that are not ASCII, whatever follows it.\<close>

definition rune :: "string \<Rightarrow> bool" where
  "rune r \<longleftrightarrow> r \<noteq> [] \<and> (\<forall>u. runeWidth (r @ u) = length r) \<and>
     ((\<exists>c. r = [c] \<and> byteOf c < 128) \<or> (\<forall>c \<in> set r. 128 \<le> byteOf c))"

lemma rune_one: "byteOf a < 128 \<Longrightarrow> rune [a]"
  by (simp add: rune_def runeWidth_def)

lemma rune_two: "194 \<le> byteOf a \<Longrightarrow> byteOf a < 224 \<Longrightarrow> isCont b \<Longrightarrow> rune [a, b]"
  by (simp add: rune_def runeWidth_def isCont_def)

lemma rune_three:
  "224 \<le> byteOf a \<Longrightarrow> byteOf a < 240 \<Longrightarrow> isCont b \<Longrightarrow> isCont c \<Longrightarrow> (byteOf a = 224 \<longrightarrow> 160 \<le> byteOf b) \<Longrightarrow>
   (byteOf a = 237 \<longrightarrow> byteOf b < 160) \<Longrightarrow> rune [a, b, c]"
  by (simp add: rune_def runeWidth_def isCont_def)

lemma rune_four:
  "240 \<le> byteOf a \<Longrightarrow> byteOf a < 245 \<Longrightarrow> isCont b \<Longrightarrow> isCont c \<Longrightarrow> isCont d \<Longrightarrow> (byteOf a = 240 \<longrightarrow> 144 \<le> byteOf b) \<Longrightarrow>
   (byteOf a = 244 \<longrightarrow> byteOf b < 144) \<Longrightarrow> rune [a, b, c, d]"
  by (simp add: rune_def runeWidth_def isCont_def)

lemma rune_split:
  assumes "runeWidth (a # s) \<noteq> 0"
  shows "\<exists>r t. a # s = r @ t \<and> rune r"
proof -
  consider "byteOf a < 128" | "194 \<le> byteOf a" "byteOf a < 224" | "224 \<le> byteOf a" "byteOf a < 240"
    | "240 \<le> byteOf a" "byteOf a < 245"
    | "\<not> byteOf a < 128" "\<not> (194 \<le> byteOf a \<and> byteOf a < 224)" "\<not> (224 \<le> byteOf a \<and> byteOf a < 240)"
      "\<not> (240 \<le> byteOf a \<and> byteOf a < 245)"
    by linarith
  then show ?thesis
  proof cases
    case 1
    then show ?thesis using rune_one [of a] by - (rule exI [of _ "[a]"], rule exI [of _ s], simp)
  next
    case 2
    then have "\<not> byteOf a < 128" by simp
    with 2 assms obtain b t where "s = b # t" "isCont b"
      by (auto simp: runeWidth_def split: list.splits if_splits)
    with 2 show ?thesis using rune_two [of a b] by - (rule exI [of _ "[a, b]"], rule exI [of _ t], simp)
  next
    case 3
    then have "\<not> byteOf a < 128" "\<not> byteOf a < 224" by simp_all
    with 3 assms obtain b c t where "s = b # c # t" "isCont b" "isCont c"
      "byteOf a = 224 \<longrightarrow> 160 \<le> byteOf b" "byteOf a = 237 \<longrightarrow> byteOf b < 160"
      by (simp add: runeWidth_def split: list.splits if_splits)
    with 3 show ?thesis using rune_three [of a b c] by - (rule exI [of _ "[a, b, c]"], rule exI [of _ t], simp)
  next
    case 4
    then have "\<not> byteOf a < 128" "\<not> byteOf a < 224" "\<not> byteOf a < 240" by simp_all
    with 4 assms obtain b c d t where "s = b # c # d # t" "isCont b" "isCont c" "isCont d"
      "byteOf a = 240 \<longrightarrow> 144 \<le> byteOf b" "byteOf a = 244 \<longrightarrow> byteOf b < 144"
      by (simp add: runeWidth_def split: list.splits if_splits)
    with 4 show ?thesis using rune_four [of a b c d] by - (rule exI [of _ "[a, b, c, d]"], rule exI [of _ t], simp)
  next
    case 5
    with assms show ?thesis by (simp add: runeWidth_def)
  qed
qed

lemma quote_high: "\<forall>c \<in> set r. 128 \<le> byteOf c \<Longrightarrow> quote r = r"
proof (induction r)
  case (Cons c r)
  then have "c \<noteq> CHR 0x22" "c \<noteq> CHR 0x5C" "\<not> byteOf c < 32" by auto
  with Cons show ?case by (simp add: quoteByte_def)
qed simp

lemma unquote_rune:
  assumes "rune r" "hd r \<noteq> CHR 0x5C"
  shows "unquote (r @ u) = r @ unquote u"
proof (cases r)
  case (Cons a t)
  from assms(1) have "runeWidth (r @ u) = length r" by (simp add: rune_def)
  with Cons have "runeWidth (a # t @ u) = length (a # t)" by simp
  with Cons assms(2) show ?thesis by (simp add: unquote.simps(2))
qed (use assms in \<open>simp add: rune_def\<close>)

lemma unquote_ascii:
  assumes "byteOf c < 128"
  shows "unquote (quoteByte c @ u) = c # unquote u"
proof -
  consider (esc) "c = CHR 0x22 \<or> c = CHR 0x5C" | (ctrl) "c \<noteq> CHR 0x22" "c \<noteq> CHR 0x5C" "byteOf c < 32"
    | (plain) "c \<noteq> CHR 0x22" "c \<noteq> CHR 0x5C" "\<not> byteOf c < 32" by blast
  then show ?thesis
  proof cases
    case esc
    then show ?thesis by (auto simp: quoteByte_def unquote.simps(2))
  next
    case ctrl
    define m n where "m = byteOf c div 16" and "n = byteOf c mod 16"
    have "m < 2" "n < 16" using ctrl by (simp_all add: m_def n_def)
    then have "hex4 [CHR ''0'', CHR ''0'', hexDigit m, hexDigit n] = Some (16 * m + n)"
      by (simp add: hex4_byte del: hex4.simps)
    also have "16 * m + n = byteOf c" by (simp add: m_def n_def)
    finally have h: "hex4 [CHR ''0'', CHR ''0'', hexDigit m, hexDigit n] = Some (byteOf c)" .
    have "quoteByte c = [CHR 0x5C, CHR ''u'', CHR ''0'', CHR ''0'', hexDigit m, hexDigit n]"
      using ctrl by (simp add: quoteByte_def m_def n_def)
    then show ?thesis using h ctrl
      by (simp add: unquote.simps(2) isHighSurrogate_def encodeRune_def del: hex4.simps)
  next
    case plain
    then have "quoteByte c = [c]" by (simp add: quoteByte_def)
    with plain assms show ?thesis using unquote_rune [OF rune_one [OF assms], of u] by simp
  qed
qed

lemma unquote_quote: "validUTF8 s \<Longrightarrow> unquote (quote s) = s"
proof (induction s rule: validUTF8.induct)
  case (2 c s)
  then have w: "runeWidth (c # s) \<noteq> 0" by (simp add: validUTF8.simps(2) split: if_splits)
  from rune_split [OF this] obtain r t where r: "c # s = r @ t" "rune r" by blast
  from r(2) have "runeWidth (r @ t) = length r" by (simp add: rune_def)
  with r(1) have "drop (runeWidth (c # s)) (c # s) = t" by simp
  with 2 w have IH: "unquote (quote t) = t" by (simp add: validUTF8.simps(2))
  from r(2) consider d where "r = [d]" "byteOf d < 128" | "\<forall>c \<in> set r. 128 \<le> byteOf c" by (auto simp: rune_def)
  then show ?case
  proof cases
    case (1 d)
    with r(1) IH show ?thesis by (simp add: unquote_ascii)
  next
    case high: 2
    with r(2) have "hd r \<noteq> CHR 0x5C" by (cases r) (auto simp: rune_def)
    from unquote_rune [OF r(2) this] IH show ?thesis unfolding r(1) by (simp add: quote_high [OF high])
  qed
qed simp

section \<open>Integers\<close>

lemma showNat_leading: "hd (showNat n) = CHR ''0'' \<Longrightarrow> n = 0"
proof (induction n rule: showNat.induct)
  case (1 n)
  show ?case
  proof (cases "n < 10")
    case True
    with "1.prems" have "digitChar n = CHR ''0''" by (simp add: showNat.simps)
    with True have "digitVal (CHR ''0'') = n" using digitChar_props(2) by metis
    then show ?thesis by (simp add: digitVal_def)
  next
    case False
    moreover from False "1.prems" have "hd (showNat (n div 10)) = CHR ''0''"
      using showNat_digits [of "n div 10"] by (simp add: showNat.simps [of n])
    ultimately show ?thesis using "1.IH" by simp
  qed
qed

lemma numberText_showInt: "numberText (showInt i)"
proof -
  have "digits1 (showNat n) \<and> (showNat n = ''0'' \<or> hd (showNat n) \<noteq> CHR ''0'')" for n
    using showNat_digits [of n] showNat_leading [of n]
    by (auto simp: digits1_def showNat.simps [of 0] digitChar_def)
  moreover have "fractionText []" "exponentText []" by (simp_all add: fractionText_def exponentText_def)
  ultimately show ?thesis
    unfolding numberText_def showInt_def
    by (intro exI [of _ "if i < 0 then ''-'' else []"] exI [of _ "showNat (nat \<bar>i\<bar>)"] exI [of _ "[]"]) auto
qed

section \<open>Documents\<close>

fun printJson :: "jvalue \<Rightarrow> string"
  and printElements :: "jvalue list \<Rightarrow> string"
  and printMembers :: "(string \<times> jvalue) list \<Rightarrow> string" where
  "printJson JNull = ''null''"
| "printJson (JBool b) = (if b then ''true'' else ''false'')"
| "printJson (JNum n) = n"
| "printJson (JStr s) = CHR 0x22 # quote s @ [CHR 0x22]"
| "printJson (JArr vs) = CHR 0x5B # printElements vs"
| "printJson (JObj ms) = CHR 0x7B # printMembers ms"
| "printElements [] = [CHR 0x5D]"
| "printElements (v # vs) = printJson v @ (if vs = [] then [CHR 0x5D] else CHR '','' # printElements vs)"
| "printMembers [] = [CHR 0x7D]"
| "printMembers ((k, v) # ms) =
     CHR 0x22 # quote k @ CHR 0x22 # CHR '':'' # printJson v @ (if ms = [] then [CHR 0x7D] else CHR '','' # printMembers ms)"

text \<open>The documents the printer is for: integers and well-formed strings.\<close>

fun printable :: "jvalue \<Rightarrow> bool"
  and printableElements :: "jvalue list \<Rightarrow> bool"
  and printableMembers :: "(string \<times> jvalue) list \<Rightarrow> bool" where
  "printable (JNum n) \<longleftrightarrow> (\<exists>i. n = showInt i)"
| "printable (JStr s) \<longleftrightarrow> validUTF8 s"
| "printable (JArr vs) \<longleftrightarrow> printableElements vs"
| "printable (JObj ms) \<longleftrightarrow> printableMembers ms"
| "printable _ \<longleftrightarrow> True"
| "printableElements [] \<longleftrightarrow> True"
| "printableElements (v # vs) \<longleftrightarrow> printable v \<and> printableElements vs"
| "printableMembers [] \<longleftrightarrow> True"
| "printableMembers ((k, v) # ms) \<longleftrightarrow> validUTF8 k \<and> printable v \<and> printableMembers ms"

lemma spaces_Nil [simp]: "spaces []"
  by (simp add: spaces_def)

lemma text_of_string: "validUTF8 s \<Longrightarrow> valueText (JStr s) (CHR 0x22 # quote s @ [CHR 0x22])"
  using text_string [of "[]" "quote s"] by (simp add: content_quote unquote_quote)

lemma text_of_member:
  assumes "validUTF8 k" "valueText v p"
  shows "membersText [(k, v)] (CHR 0x22 # quote k @ CHR 0x22 # CHR '':'' # p @ [CHR 0x7D])"
    "membersText ms q \<Longrightarrow> membersText ((k, v) # ms) (CHR 0x22 # quote k @ CHR 0x22 # CHR '':'' # p @ CHR '','' # q)"
  using text_last_member [of "[]" "quote k" "[]" v p "[]"] text_member [of "[]" "quote k" "[]" v p "[]" ms q] assms
  by (simp_all add: content_quote unquote_quote)

lemma print_text:
  "printable v \<Longrightarrow> valueText v (printJson v)"
  "printableElements vs \<Longrightarrow> vs \<noteq> [] \<Longrightarrow> elementsText vs (printElements vs)"
  "printableMembers ms \<Longrightarrow> ms \<noteq> [] \<Longrightarrow> membersText ms (printMembers ms)"
proof (induction v and vs and ms rule: printJson_printElements_printMembers.induct)
  case (5 vs)
  then show ?case using text_empty_array [of "[]" "[]"] text_array [of "[]" vs] by (cases "vs = []") auto
next
  case (6 ms)
  then show ?case using text_empty_object [of "[]" "[]"] text_object [of "[]" ms] by (cases "ms = []") auto
next
  case (8 v vs)
  then show ?case
    using text_last_element [of v "printJson v" "[]"] text_element [of v "printJson v" "[]" vs] by (cases "vs = []") auto
next
  case (10 k v ms)
  then show ?case using text_of_member [of k v "printJson v"] by (cases "ms = []") auto
qed (use text_null [of "[]"] text_true [of "[]"] text_false [of "[]"] text_number [of "[]"] numberText_showInt text_of_string
    in auto)

lemma scanText_print: "printable v \<Longrightarrow> depth v \<le> maxNestingDepth \<Longrightarrow> scanText (printJson v) = Scanned v []"
  using scanText_iff [of "[]" "printJson v" v] print_text(1) by simp

end
