(* ===== verification/Bodies.thy ===== *)
theory Bodies
  imports JsonFuel JsonPrint
begin

text \<open>
  Request bodies: which bodies the handlers accept, stated with the grammar instead of the scanner, the
  independence of the answer from the scanner's fuel, and the round trip of the three request types through
  the JSON document their struct tags describe.
\<close>

section \<open>Accepted bodies\<close>

lemma decodeRequest_scanned:
  assumes "length body \<le> maxRequestBodyBytes" "scanText body = Scanned v rest"
  shows "decodeRequest f zero body False = (case f v zero of None \<Rightarrow> Malformed | Some q \<Rightarrow> Decoded q rest)"
  using assms by (simp add: decodeRequest_def decodeScanned_def)

lemma decodeScanned_Decoded:
  "decodeScanned f zero tooLong fails sc = Decoded q rest \<Longrightarrow> \<exists>v. sc = Scanned v rest \<and> f v zero = Some q"
  by (auto simp: decodeScanned_def split: scan.splits if_splits option.splits)

lemma skipSpaces_all: "skipSpaces s = [] \<longleftrightarrow> spaces s"
  by (simp add: skipSpaces_def spaces_def list_all_iff dropWhile_eq_Nil_conv)

text \<open>A key names a field when the two agree after folding.\<close>

definition knownKey :: "(string \<times> 'r setter) list \<Rightarrow> string \<Rightarrow> bool" where
  "knownKey fs key \<longleftrightarrow> list_ex (\<lambda>(n, _). foldName n = foldName key) fs"

lemma findField_knownKey: "findField fs key \<noteq> None \<longleftrightarrow> knownKey fs key"
proof
  show "findField fs key \<noteq> None \<Longrightarrow> knownKey fs key"
    by (fastforce simp: findField_def knownKey_def list_ex_iff find_Some_iff in_set_conv_nth split: option.splits)
next
  assume "knownKey fs key"
  then have "find (\<lambda>(n, _). foldName n = foldName key) fs \<noteq> None"
    by (auto simp: knownKey_def list_ex_iff find_None_iff)
  then show "findField fs key \<noteq> None" by (auto simp: findField_def split: option.splits)
qed

lemma decodeMembers_known: "decodeMembers fs ms r = Some q \<Longrightarrow> list_all (\<lambda>(k, _). knownKey fs k) ms"
  by (induction fs ms r rule: decodeMembers.induct)
    (auto split: option.splits simp flip: findField_knownKey)

lemma decodeStruct_Some:
  "decodeStruct fs v zero = Some q \<longleftrightarrow>
     v = JNull \<and> q = zero \<or>
     (\<exists>ms. v = JObj ms \<and> list_all (\<lambda>(k, _). knownKey fs k) ms \<and> decodeMembers fs ms zero = Some q)"
  by (auto simp: decodeStruct_def decodeMembers_known split: jvalue.splits)

text \<open>C12. A handler accepts a body exactly when it can be read to its end, is not larger than one mebibyte, and
  is one JSON text of RFC 8259 followed by white space only, nested at most 10000 deep, which is null, for the
  zero request, or an object all of whose keys name fields of the request type and whose members decode to the
  request. A body with a second value, an unknown field or any malformed part is never accepted, and every other
  one is.\<close>

theorem body_accepted_iff:
  "(\<exists>rest. decodeRequest (decodeStruct fs) zero body fails = Decoded q rest \<and> ensureSingleJSONValue body fails rest) \<longleftrightarrow>
   length body \<le> maxRequestBodyBytes \<and> \<not> fails \<and>
   (\<exists>v p ws. body = p @ ws \<and> spaces ws \<and> valueText v p \<and> depth v \<le> maxNestingDepth \<and>
      (v = JNull \<and> q = zero \<or>
       (\<exists>ms. v = JObj ms \<and> list_all (\<lambda>(k, _). knownKey fs k) ms \<and> decodeMembers fs ms zero = Some q)))"
  (is "?accepted \<longleftrightarrow> ?text")
proof
  assume ?accepted
  then obtain rest where d: "decodeRequest (decodeStruct fs) zero body fails = Decoded q rest"
    and e: "spaces rest" "length body \<le> maxRequestBodyBytes" "\<not> fails"
    by (auto simp: ensureSingleJSONValue_def skipSpaces_all)
  from decodeScanned_Decoded [OF d [unfolded decodeRequest_def]] e(2) obtain v where
    v: "scanText body = Scanned v rest" "decodeStruct fs v zero = Some q" by auto
  with scan_sound obtain p where "body = p @ rest" unfolding scanText_def by blast
  with v e scanText_iff [OF e(1), of p v] show ?text unfolding decodeStruct_Some by blast
next
  assume ?text
  then obtain v p ws where t: "length body \<le> maxRequestBodyBytes" "\<not> fails" "body = p @ ws" "spaces ws" "valueText v p"
    "depth v \<le> maxNestingDepth" and q: "decodeStruct fs v zero = Some q"
    unfolding decodeStruct_Some by blast
  then have "scanText body = Scanned v ws" using scanText_iff by blast
  with t q have "decodeRequest (decodeStruct fs) zero body fails = Decoded q ws"
    by (simp add: decodeRequest_scanned)
  with t show ?accepted by (auto simp: ensureSingleJSONValue_def skipSpaces_all)
qed



section \<open>Round trips\<close>

text \<open>The documents of the request types, by the struct tags of \<^verbatim>\<open>internal/api/request\<close>: a field with
  \<^verbatim>\<open>omitempty\<close> is left out when it is empty.\<close>

definition docMember :: "string \<Rightarrow> ('a \<Rightarrow> jvalue) \<Rightarrow> 'a \<Rightarrow> (string \<times> jvalue) list" where
  "docMember key f a = [(key, f a)]"

definition docString :: "string \<Rightarrow> string \<Rightarrow> (string \<times> jvalue) list" where
  "docString key s = [(key, JStr s)]"

definition docStringOmit :: "string \<Rightarrow> string \<Rightarrow> (string \<times> jvalue) list" where
  "docStringOmit key s = (if s = [] then [] else [(key, JStr s)])"

definition docInt :: "string \<Rightarrow> int32 \<Rightarrow> (string \<times> jvalue) list" where
  "docInt key w = [(key, JNum (showInt (sint w)))]"

definition docIntOmit :: "string \<Rightarrow> int32 \<Rightarrow> (string \<times> jvalue) list" where
  "docIntOmit key w = (if w = 0 then [] else docInt key w)"

definition docPtrOmit :: "('a \<Rightarrow> (string \<times> jvalue) list) \<Rightarrow> 'a option \<Rightarrow> (string \<times> jvalue) list" where
  "docPtrOmit f p = (case p of None \<Rightarrow> [] | Some a \<Rightarrow> f a)"

definition predictorDoc :: "PredictorRequest \<Rightarrow> jvalue" where
  "predictorDoc p = JObj
        ([(''modelFormat'', JObj (docString ''name'' (mfr_Name (prq_ModelFormat p)) @
              docString ''version'' (mfr_Version (prq_ModelFormat p))))] @
         docString ''runtime'' (prq_Runtime p) @ docString ''storageUri'' (prq_StorageURI p) @
         docString ''serviceAccountName'' (prq_ServiceAccountName p))"

definition exposureDoc :: "ExposureRequest \<Rightarrow> jvalue" where
  "exposureDoc e = JObj (docMember ''enabled'' JBool (er_Enabled e) @ docStringOmit ''hostname'' (er_Hostname e) @
        docStringOmit ''pathPrefix'' (er_PathPrefix e))"

definition storageDoc :: "StorageRequest \<Rightarrow> jvalue" where
  "storageDoc t = JObj (docMember ''enabled'' JBool (sr_Enabled t) @ docStringOmit ''size'' (sr_Size t) @
        docStringOmit ''mountPath'' (sr_MountPath t))"

definition createDoc :: "CreateModelServiceRequest \<Rightarrow> jvalue" where
  "createDoc q = JObj
     (docString ''name'' (cr_Name q) @ docStringOmit ''backend'' (cr_Backend q) @ docStringOmit ''image'' (cr_Image q) @
      docInt ''replicas'' (cr_Replicas q) @ docIntOmit ''port'' (cr_Port q) @ docPtrOmit (docMember ''predictor'' predictorDoc) (cr_Predictor q) @
      docMember ''exposure'' exposureDoc (cr_Exposure q) @ docMember ''storage'' storageDoc (cr_Storage q))"

definition updateDoc :: "UpdateModelServiceRequest \<Rightarrow> jvalue" where
  "updateDoc q = JObj
     (docStringOmit ''backend'' (ur_Backend q) @ docStringOmit ''image'' (ur_Image q) @
      docInt ''replicas'' (ur_Replicas q) @ docIntOmit ''port'' (ur_Port q) @ docPtrOmit (docMember ''predictor'' predictorDoc) (ur_Predictor q) @
      docMember ''exposure'' exposureDoc (ur_Exposure q) @ docMember ''storage'' storageDoc (ur_Storage q))"

definition patchExposureDoc :: "PatchExposureRequest \<Rightarrow> jvalue" where
  "patchExposureDoc e = JObj (docPtrOmit (docMember ''enabled'' JBool) (pe_Enabled e) @
        docPtrOmit (docString ''hostname'') (pe_Hostname e) @ docPtrOmit (docString ''pathPrefix'') (pe_PathPrefix e))"

definition patchStorageDoc :: "PatchStorageRequest \<Rightarrow> jvalue" where
  "patchStorageDoc t = JObj (docPtrOmit (docMember ''enabled'' JBool) (pst_Enabled t) @
        docPtrOmit (docString ''size'') (pst_Size t) @ docPtrOmit (docString ''mountPath'') (pst_MountPath t))"

definition patchDoc :: "PatchModelServiceRequest \<Rightarrow> jvalue" where
  "patchDoc q = JObj
     (docPtrOmit (docString ''backend'') (pa_Backend q) @ docPtrOmit (docString ''image'') (pa_Image q) @
      docPtrOmit (docInt ''replicas'') (pa_Replicas q) @ docPtrOmit (docInt ''port'') (pa_Port q) @
      docPtrOmit (docMember ''predictor'' predictorDoc) (pa_Predictor q) @ docPtrOmit (docMember ''exposure'' patchExposureDoc) (pa_Exposure q) @
      docPtrOmit (docMember ''storage'' patchStorageDoc) (pa_Storage q))"

lemmas doc_defs = docMember_def docString_def docStringOmit_def docInt_def docIntOmit_def docPtrOmit_def predictorDoc_def
  exposureDoc_def storageDoc_def createDoc_def updateDoc_def patchExposureDoc_def patchStorageDoc_def patchDoc_def

lemma decodeInt32_showInt: "decodeInt32 (JNum (showInt (sint w))) old = Some w"
proof -
  have "atoi (showInt (sint w)) = Inr (sint w)" using sint_int32_bounds [of w] by (intro atoi_showInt) simp_all
  with sint_int32_bounds [of w] show ?thesis by simp
qed

text \<open>An exact key is found by its name; one step of decoding a member.\<close>

lemma findField_exact:
  "findField ((n, f) # fs) key = (if n = key then Some f else
     case find (\<lambda>(n, _). n = key) fs of
       Some (_, g) \<Rightarrow> Some g
     | None \<Rightarrow> (case find (\<lambda>(n, _). foldName n = foldName key) ((n, f) # fs) of Some (_, g) \<Rightarrow> Some g | None \<Rightarrow> None))"
  by (simp add: findField_def)

lemma decodeMembers_append:
  "decodeMembers fs (ms @ ms') r = (case decodeMembers fs ms r of None \<Rightarrow> None | Some r' \<Rightarrow> decodeMembers fs ms' r')"
  by (induction fs ms r rule: decodeMembers.induct) (auto split: option.splits)

lemma decodeMembers_docs:
  "findField fs key = Some f \<Longrightarrow> decodeMembers fs (docMember key g a) r = f (g a) r"
  "findField fs key = Some f \<Longrightarrow> decodeMembers fs (docString key s) r = f (JStr s) r"
  "findField fs key = Some f \<Longrightarrow> decodeMembers fs (docStringOmit key s) r = (if s = [] then Some r else f (JStr s) r)"
  "findField fs key = Some f \<Longrightarrow> decodeMembers fs (docInt key w) r = f (JNum (showInt (sint w))) r"
  "findField fs key = Some f \<Longrightarrow> decodeMembers fs (docIntOmit key w) r =
     (if w = 0 then Some r else f (JNum (showInt (sint w))) r)"
  "decodeMembers fs (docPtrOmit h p) r = (case p of None \<Rightarrow> Some r | Some b \<Rightarrow> decodeMembers fs (h b) r)"
  by (simp_all add: doc_defs(1-6) split: option.splits)

lemma decodeStruct_JObj: "decodeStruct fs (JObj ms) r = decodeMembers fs ms r"
  by (simp add: decodeStruct_def)

lemma decodePtr_not_null: "v \<noteq> JNull \<Longrightarrow> decodePtr zero f v None = map_option Some (f v zero)"
  by (simp add: decodePtr_def)

lemmas decode_doc_simps = decodeMembers_append decodeMembers_docs decodeStruct_JObj decodePtr_not_null decodeInt32_showInt

lemmas lookup_simps = findField_exact field_def

lemma find_modelFormatFields [simp]:
  "findField modelFormatFields ''name'' = Some (\<lambda>v r. map_option (\<lambda>a. r\<lparr>mfr_Name := a\<rparr>) (decodeString v (mfr_Name r)))"
  "findField modelFormatFields ''version'' = Some (\<lambda>v r. map_option (\<lambda>a. r\<lparr>mfr_Version := a\<rparr>) (decodeString v (mfr_Version r)))"
  by (simp_all add: modelFormatFields_def lookup_simps)

lemma find_predictorFields [simp]:
  "findField predictorFields ''modelFormat'' = Some (\<lambda>v r. map_option (\<lambda>a. r\<lparr>prq_ModelFormat := a\<rparr>) (decodeStruct modelFormatFields v (prq_ModelFormat r)))"
  "findField predictorFields ''runtime'' = Some (\<lambda>v r. map_option (\<lambda>a. r\<lparr>prq_Runtime := a\<rparr>) (decodeString v (prq_Runtime r)))"
  "findField predictorFields ''storageUri'' = Some (\<lambda>v r. map_option (\<lambda>a. r\<lparr>prq_StorageURI := a\<rparr>) (decodeString v (prq_StorageURI r)))"
  "findField predictorFields ''serviceAccountName'' = Some (\<lambda>v r. map_option (\<lambda>a. r\<lparr>prq_ServiceAccountName := a\<rparr>) (decodeString v (prq_ServiceAccountName r)))"
  by (simp_all add: predictorFields_def lookup_simps)

lemma find_exposureFields [simp]:
  "findField exposureFields ''enabled'' = Some (\<lambda>v r. map_option (\<lambda>a. r\<lparr>er_Enabled := a\<rparr>) (decodeBool v (er_Enabled r)))"
  "findField exposureFields ''hostname'' = Some (\<lambda>v r. map_option (\<lambda>a. r\<lparr>er_Hostname := a\<rparr>) (decodeString v (er_Hostname r)))"
  "findField exposureFields ''pathPrefix'' = Some (\<lambda>v r. map_option (\<lambda>a. r\<lparr>er_PathPrefix := a\<rparr>) (decodeString v (er_PathPrefix r)))"
  by (simp_all add: exposureFields_def lookup_simps)

lemma find_storageFields [simp]:
  "findField storageFields ''enabled'' = Some (\<lambda>v r. map_option (\<lambda>a. r\<lparr>sr_Enabled := a\<rparr>) (decodeBool v (sr_Enabled r)))"
  "findField storageFields ''size'' = Some (\<lambda>v r. map_option (\<lambda>a. r\<lparr>sr_Size := a\<rparr>) (decodeString v (sr_Size r)))"
  "findField storageFields ''mountPath'' = Some (\<lambda>v r. map_option (\<lambda>a. r\<lparr>sr_MountPath := a\<rparr>) (decodeString v (sr_MountPath r)))"
  by (simp_all add: storageFields_def lookup_simps)

lemma find_createFields [simp]:
  "findField createFields ''name'' = Some (\<lambda>v r. map_option (\<lambda>a. r\<lparr>cr_Name := a\<rparr>) (decodeString v (cr_Name r)))"
  "findField createFields ''backend'' = Some (\<lambda>v r. map_option (\<lambda>a. r\<lparr>cr_Backend := a\<rparr>) (decodeString v (cr_Backend r)))"
  "findField createFields ''image'' = Some (\<lambda>v r. map_option (\<lambda>a. r\<lparr>cr_Image := a\<rparr>) (decodeString v (cr_Image r)))"
  "findField createFields ''replicas'' = Some (\<lambda>v r. map_option (\<lambda>a. r\<lparr>cr_Replicas := a\<rparr>) (decodeInt32 v (cr_Replicas r)))"
  "findField createFields ''port'' = Some (\<lambda>v r. map_option (\<lambda>a. r\<lparr>cr_Port := a\<rparr>) (decodeInt32 v (cr_Port r)))"
  "findField createFields ''predictor'' = Some (\<lambda>v r. map_option (\<lambda>a. r\<lparr>cr_Predictor := a\<rparr>) (decodePtr zeroPredictorRequest (decodeStruct predictorFields) v (cr_Predictor r)))"
  "findField createFields ''exposure'' = Some (\<lambda>v r. map_option (\<lambda>a. r\<lparr>cr_Exposure := a\<rparr>) (decodeStruct exposureFields v (cr_Exposure r)))"
  "findField createFields ''storage'' = Some (\<lambda>v r. map_option (\<lambda>a. r\<lparr>cr_Storage := a\<rparr>) (decodeStruct storageFields v (cr_Storage r)))"
  by (simp_all add: createFields_def lookup_simps)

lemma find_updateFields [simp]:
  "findField updateFields ''backend'' = Some (\<lambda>v r. map_option (\<lambda>a. r\<lparr>ur_Backend := a\<rparr>) (decodeString v (ur_Backend r)))"
  "findField updateFields ''image'' = Some (\<lambda>v r. map_option (\<lambda>a. r\<lparr>ur_Image := a\<rparr>) (decodeString v (ur_Image r)))"
  "findField updateFields ''replicas'' = Some (\<lambda>v r. map_option (\<lambda>a. r\<lparr>ur_Replicas := a\<rparr>) (decodeInt32 v (ur_Replicas r)))"
  "findField updateFields ''port'' = Some (\<lambda>v r. map_option (\<lambda>a. r\<lparr>ur_Port := a\<rparr>) (decodeInt32 v (ur_Port r)))"
  "findField updateFields ''predictor'' = Some (\<lambda>v r. map_option (\<lambda>a. r\<lparr>ur_Predictor := a\<rparr>) (decodePtr zeroPredictorRequest (decodeStruct predictorFields) v (ur_Predictor r)))"
  "findField updateFields ''exposure'' = Some (\<lambda>v r. map_option (\<lambda>a. r\<lparr>ur_Exposure := a\<rparr>) (decodeStruct exposureFields v (ur_Exposure r)))"
  "findField updateFields ''storage'' = Some (\<lambda>v r. map_option (\<lambda>a. r\<lparr>ur_Storage := a\<rparr>) (decodeStruct storageFields v (ur_Storage r)))"
  by (simp_all add: updateFields_def lookup_simps)

lemma find_patchExposureFields [simp]:
  "findField patchExposureFields ''enabled'' = Some (\<lambda>v r. map_option (\<lambda>a. r\<lparr>pe_Enabled := a\<rparr>) (decodePtr False decodeBool v (pe_Enabled r)))"
  "findField patchExposureFields ''hostname'' = Some (\<lambda>v r. map_option (\<lambda>a. r\<lparr>pe_Hostname := a\<rparr>) (decodePtr [] decodeString v (pe_Hostname r)))"
  "findField patchExposureFields ''pathPrefix'' = Some (\<lambda>v r. map_option (\<lambda>a. r\<lparr>pe_PathPrefix := a\<rparr>) (decodePtr [] decodeString v (pe_PathPrefix r)))"
  by (simp_all add: patchExposureFields_def lookup_simps)

lemma find_patchStorageFields [simp]:
  "findField patchStorageFields ''enabled'' = Some (\<lambda>v r. map_option (\<lambda>a. r\<lparr>pst_Enabled := a\<rparr>) (decodePtr False decodeBool v (pst_Enabled r)))"
  "findField patchStorageFields ''size'' = Some (\<lambda>v r. map_option (\<lambda>a. r\<lparr>pst_Size := a\<rparr>) (decodePtr [] decodeString v (pst_Size r)))"
  "findField patchStorageFields ''mountPath'' = Some (\<lambda>v r. map_option (\<lambda>a. r\<lparr>pst_MountPath := a\<rparr>) (decodePtr [] decodeString v (pst_MountPath r)))"
  by (simp_all add: patchStorageFields_def lookup_simps)

lemma find_patchFields [simp]:
  "findField patchFields ''backend'' = Some (\<lambda>v r. map_option (\<lambda>a. r\<lparr>pa_Backend := a\<rparr>) (decodePtr [] decodeString v (pa_Backend r)))"
  "findField patchFields ''image'' = Some (\<lambda>v r. map_option (\<lambda>a. r\<lparr>pa_Image := a\<rparr>) (decodePtr [] decodeString v (pa_Image r)))"
  "findField patchFields ''replicas'' = Some (\<lambda>v r. map_option (\<lambda>a. r\<lparr>pa_Replicas := a\<rparr>) (decodePtr 0 decodeInt32 v (pa_Replicas r)))"
  "findField patchFields ''port'' = Some (\<lambda>v r. map_option (\<lambda>a. r\<lparr>pa_Port := a\<rparr>) (decodePtr 0 decodeInt32 v (pa_Port r)))"
  "findField patchFields ''predictor'' = Some (\<lambda>v r. map_option (\<lambda>a. r\<lparr>pa_Predictor := a\<rparr>) (decodePtr zeroPredictorRequest (decodeStruct predictorFields) v (pa_Predictor r)))"
  "findField patchFields ''exposure'' = Some (\<lambda>v r. map_option (\<lambda>a. r\<lparr>pa_Exposure := a\<rparr>) (decodePtr \<lparr>pe_Enabled = None, pe_Hostname = None, pe_PathPrefix = None\<rparr> (decodeStruct patchExposureFields) v (pa_Exposure r)))"
  "findField patchFields ''storage'' = Some (\<lambda>v r. map_option (\<lambda>a. r\<lparr>pa_Storage := a\<rparr>) (decodePtr \<lparr>pst_Enabled = None, pst_Size = None, pst_MountPath = None\<rparr> (decodeStruct patchStorageFields) v (pa_Storage r)))"
  by (simp_all add: patchFields_def lookup_simps)

lemma decode_parts:
  "decodeStruct exposureFields (exposureDoc e) zeroExposureRequest = Some e"
  "decodeStruct storageFields (storageDoc t) zeroStorageRequest = Some t"
  "decodeStruct predictorFields (predictorDoc p) zeroPredictorRequest = Some p"
  "decodeStruct patchExposureFields (patchExposureDoc pe) \<lparr>pe_Enabled = None, pe_Hostname = None, pe_PathPrefix = None\<rparr> = Some pe"
  "decodeStruct patchStorageFields (patchStorageDoc pt) \<lparr>pst_Enabled = None, pst_Size = None, pst_MountPath = None\<rparr> = Some pt"
      apply (simp add: exposureDoc_def decode_doc_simps zeroExposureRequest_def)
     apply (simp add: storageDoc_def decode_doc_simps zeroStorageRequest_def)
    apply (simp add: predictorDoc_def decode_doc_simps zeroPredictorRequest_def)
   apply (simp add: patchExposureDoc_def decode_doc_simps split: option.split)
  apply (simp add: patchStorageDoc_def decode_doc_simps split: option.split)
  done

lemma doc_not_null [simp]:
  "predictorDoc p \<noteq> JNull" "patchExposureDoc pe \<noteq> JNull" "patchStorageDoc pt \<noteq> JNull"
  by (simp_all add: predictorDoc_def patchExposureDoc_def patchStorageDoc_def)

lemma decode_createDoc: "decodeStruct createFields (createDoc q) zeroCreateRequest = Some q"
  by (simp add: createDoc_def decode_doc_simps decode_parts zeroCreateRequest_def del: decodeInt32.simps split: option.split)

lemma decode_updateDoc: "decodeStruct updateFields (updateDoc q) zeroUpdateRequest = Some q"
  by (simp add: updateDoc_def decode_doc_simps decode_parts zeroUpdateRequest_def del: decodeInt32.simps split: option.split)

lemma decode_patchDoc: "decodeStruct patchFields (patchDoc q) zeroPatchRequest = Some q"
  by (simp add: patchDoc_def decode_doc_simps decode_parts zeroPatchRequest_def del: decodeInt32.simps split: option.split)

lemma depthMembers_append: "depthMembers (ms @ ms') = max (depthMembers ms) (depthMembers ms')"
  by (induction ms rule: list.induct) auto

lemma depthMembers_docs:
  "depthMembers (docMember key f a) = depth (f a)" "depthMembers (docString key s) = 0"
  "depthMembers (docStringOmit key s) = 0" "depthMembers (docInt key w) = 0" "depthMembers (docIntOmit key w) = 0"
  "depthMembers (docPtrOmit h p) = (case p of None \<Rightarrow> 0 | Some b \<Rightarrow> depthMembers (h b))"
  by (simp_all add: doc_defs(1-6) split: option.splits)

lemma part_depth:
  "depth (predictorDoc p) = 2" "depth (exposureDoc e) = 1" "depth (storageDoc t) = 1"
  "depth (patchExposureDoc pe) = 1" "depth (patchStorageDoc pt) = 1"
  by (simp_all add: predictorDoc_def exposureDoc_def storageDoc_def patchExposureDoc_def patchStorageDoc_def
      depthMembers_append depthMembers_docs split: option.split)

lemma doc_depth:
  "depth (createDoc c) \<le> maxNestingDepth" "depth (updateDoc u) \<le> maxNestingDepth" "depth (patchDoc p) \<le> maxNestingDepth"
  by (simp_all add: createDoc_def updateDoc_def patchDoc_def depthMembers_append depthMembers_docs part_depth
      maxNestingDepth_def split: option.split)

lemma document_accepted:
  assumes "printable v" "depth v \<le> maxNestingDepth" "length (printJson v) \<le> maxRequestBodyBytes"
    and "decodeStruct fs v zero = Some q"
  shows "decodeRequest (decodeStruct fs) zero (printJson v) False = Decoded q [] \<and>
    ensureSingleJSONValue (printJson v) False []"
  using assms(3,4)
  by (simp add: ensureSingleJSONValue_def decodeRequest_scanned [OF assms(3) scanText_print [OF assms(1,2)]])

text \<open>C34. What a client means is what the handlers get: the JSON document of a create, update or patch request,
  printed by the struct tags, decodes to that request and is accepted as a single value, for every request whose
  strings are well-formed UTF-8 and whose document is within the size limit. In particular no field is confused
  with another and the fields left out by \<^verbatim>\<open>omitempty\<close> come back empty.\<close>

theorem request_roundtrip:
  assumes "list_all printable [createDoc c, updateDoc u, patchDoc p]"
    and "list_all (\<lambda>v. length (printJson v) \<le> maxRequestBodyBytes) [createDoc c, updateDoc u, patchDoc p]"
  shows
    "(decodeRequest (decodeStruct createFields) zeroCreateRequest (printJson (createDoc c)) False = Decoded c [] \<and>
      ensureSingleJSONValue (printJson (createDoc c)) False []) \<and>
     (decodeRequest (decodeStruct updateFields) zeroUpdateRequest (printJson (updateDoc u)) False = Decoded u [] \<and>
      ensureSingleJSONValue (printJson (updateDoc u)) False []) \<and>
     (decodeRequest (decodeStruct patchFields) zeroPatchRequest (printJson (patchDoc p)) False = Decoded p [] \<and>
      ensureSingleJSONValue (printJson (patchDoc p)) False [])"
proof -
  from assms have "printable (createDoc c)" "printable (updateDoc u)" "printable (patchDoc p)"
    "length (printJson (createDoc c)) \<le> maxRequestBodyBytes" "length (printJson (updateDoc u)) \<le> maxRequestBodyBytes"
    "length (printJson (patchDoc p)) \<le> maxRequestBodyBytes" by simp_all
  from document_accepted [OF this(1) doc_depth(1) this(4) decode_createDoc]
    document_accepted [OF this(2) doc_depth(2) this(5) decode_updateDoc]
    document_accepted [OF this(3) doc_depth(3) this(6) decode_patchDoc]
  show ?thesis by blast
qed

theorem request_roundtrip_witness:
  "decodeRequest (decodeStruct createFields) zeroCreateRequest
     (printJson (createDoc (zeroCreateRequest\<lparr>cr_Name := ''fraud'', cr_Replicas := 2\<rparr>))) False =
   Decoded (zeroCreateRequest\<lparr>cr_Name := ''fraud'', cr_Replicas := 2\<rparr>) []"
proof -
  define c where "c = zeroCreateRequest\<lparr>cr_Name := ''fraud'', cr_Replicas := 2\<rparr>"
  have printable: "list_all printable [createDoc c, updateDoc zeroUpdateRequest, patchDoc zeroPatchRequest]"
    by (auto simp: c_def doc_defs zeroCreateRequest_def zeroUpdateRequest_def zeroPatchRequest_def zeroExposureRequest_def
        zeroStorageRequest_def validUTF8.simps runeWidth_def)
  have "showInt (sint (2 :: int32)) = ''2''" "showInt (sint (0 :: int32)) = ''0''" by code_simp+
  then have "list_all (\<lambda>v. length (printJson v) \<le> maxRequestBodyBytes)
      [createDoc c, updateDoc zeroUpdateRequest, patchDoc zeroPatchRequest]"
    by (simp add: c_def doc_defs zeroCreateRequest_def zeroUpdateRequest_def zeroPatchRequest_def zeroExposureRequest_def
        zeroStorageRequest_def maxRequestBodyBytes_def quoteByte_def)
  from request_roundtrip [OF printable this] show ?thesis unfolding c_def by blast
qed

end
