(* ===== verification/Atomicity.thy ===== *)
theory Atomicity
  imports Mutations
begin

text \<open>
  The mutating handlers under concurrency. A handler reads an object and writes it in a second call, while other
  clients (the operator's status updates, kubectl, a GitOps controller, other requests) work on the same objects.
  The theorems state that it still takes effect as one atomic operation on the collection of ModelServices, or
  not at all: no update is lost.

  What they assume of the API server is the relation \<open>served\<close> between the events of an execution and the states
  of the server: a read returns the stored object; a creation succeeds only when there is none; an update or a
  deletion that names a resource version succeeds only when it is the stored one, a conflict leaves everything as
  it is, and every write gives the object a version it has never had. A write that fails for another reason may
  have taken place. The specification is stored as the defaulting of the resource definition completes it, a
  parameter here.
\<close>

section \<open>The API server\<close>

abbreviation version :: "ModelService \<Rightarrow> string" where
  "version ms \<equiv> meta_ResourceVersion (ms_Meta ms)"

text \<open>The stored objects, and every version an object has had.\<close>

record server =
  srv_Objects :: "objkey \<Rightarrow> ModelService option"
  srv_Versions :: "objkey \<times> string \<Rightarrow> ModelService option"

definition persist :: "objkey \<Rightarrow> ModelService \<Rightarrow> server \<Rightarrow> server \<Rightarrow> bool" where
  "persist key ms s s' \<longleftrightarrow>
     keyOfMS ms = key \<and> version ms \<noteq> [] \<and> srv_Versions s (key, version ms) = None \<and>
     s' = s\<lparr>srv_Objects := (srv_Objects s)(key \<mapsto> ms),
            srv_Versions := (srv_Versions s)((key, version ms) \<mapsto> ms)\<rparr>"

definition erase :: "objkey \<Rightarrow> server \<Rightarrow> server \<Rightarrow> bool" where
  "erase key s s' \<longleftrightarrow> s' = s\<lparr>srv_Objects := (srv_Objects s)(key := None)\<rparr>"

text \<open>What other clients may do between two calls.\<close>

definition otherWrite :: "server \<Rightarrow> server \<Rightarrow> bool" where
  "otherWrite s s' \<longleftrightarrow> (\<exists>key ms. persist key ms s s') \<or> (\<exists>key. erase key s s')"

abbreviation meanwhile :: "server \<Rightarrow> server \<Rightarrow> bool" where
  "meanwhile \<equiv> otherWrite\<^sup>*\<^sup>*"

definition created :: "(ModelServiceSpec \<Rightarrow> ModelServiceSpec) \<Rightarrow> ModelService \<Rightarrow> ModelService \<Rightarrow> server \<Rightarrow> server \<Rightarrow> bool" where
  "created dflt ms ms' s s' \<longleftrightarrow>
     srv_Objects s (keyOfMS ms) = None \<and> ms_Spec ms' = dflt (ms_Spec ms) \<and> persist (keyOfMS ms) ms' s s'"

definition updated :: "(ModelServiceSpec \<Rightarrow> ModelServiceSpec) \<Rightarrow> ModelService \<Rightarrow> ModelService \<Rightarrow> server \<Rightarrow> server \<Rightarrow> bool" where
  "updated dflt ms ms' s s' \<longleftrightarrow>
     (\<exists>old. srv_Objects s (keyOfMS ms) = Some old \<and> (version ms \<noteq> [] \<longrightarrow> version old = version ms) \<and>
        ms_Status ms' = ms_Status old) \<and>
     ms_Spec ms' = dflt (ms_Spec ms) \<and> persist (keyOfMS ms) ms' s s'"

definition satisfies :: "Preconditions option \<Rightarrow> ModelService \<Rightarrow> bool" where
  "satisfies pre ms \<longleftrightarrow>
     (case pre of
        None \<Rightarrow> True
      | Some p \<Rightarrow>
          (pre_UID p \<noteq> None \<longrightarrow> pre_UID p = Some (meta_UID (ms_Meta ms))) \<and>
          (pre_ResourceVersion p \<noteq> None \<longrightarrow> pre_ResourceVersion p = Some (version ms)))"

text \<open>A deleted object is gone, or marked for deletion when it has finalizers.\<close>

definition removed :: "objkey \<Rightarrow> ModelService \<Rightarrow> server \<Rightarrow> server \<Rightarrow> bool" where
  "removed key old s s' \<longleftrightarrow>
     srv_Objects s key = Some old \<and>
     (erase key s s' \<or>
      (\<exists>ms'. meta_UID (ms_Meta ms') = meta_UID (ms_Meta old) \<and> ms_Spec ms' = ms_Spec old \<and>
         meta_DeletionTimestamp (ms_Meta ms') \<noteq> None \<and> persist key ms' s s'))"

definition objAnswer ::
    "(ModelServiceSpec \<Rightarrow> ModelServiceSpec) \<Rightarrow> objcall \<Rightarrow> goerror + kobject \<Rightarrow> server \<Rightarrow> server \<Rightarrow> bool" where
  "objAnswer dflt c res s s' \<longleftrightarrow>
     (case c of
        OGet kind key \<Rightarrow>
          s' = s \<and>
          (kind = ModelServiceKind \<longrightarrow>
             (case res of
                Inr obj \<Rightarrow> \<exists>ms. obj = KModelService ms \<and> srv_Objects s key = Some ms
              | Inl e \<Rightarrow> isNotFound e \<longrightarrow> srv_Objects s key = None))
      | OCreate (KModelService ms) \<Rightarrow>
          (case res of
             Inr obj \<Rightarrow> \<exists>ms'. obj = KModelService ms' \<and> created dflt ms ms' s s'
           | Inl e \<Rightarrow> s' = s \<or> \<not> isAlreadyExists e \<and> (\<exists>ms'. created dflt ms ms' s s'))
      | OUpdate (KModelService ms) \<Rightarrow>
          (case res of
             Inr obj \<Rightarrow> \<exists>ms'. obj = KModelService ms' \<and> updated dflt ms ms' s s'
           | Inl e \<Rightarrow> s' = s \<or> \<not> isConflict e \<and> (\<exists>ms'. updated dflt ms ms' s s'))
      | _ \<Rightarrow> meanwhile s s')"

definition delAnswer :: "kobject \<Rightarrow> Preconditions option \<Rightarrow> goerror option \<Rightarrow> server \<Rightarrow> server \<Rightarrow> bool" where
  "delAnswer obj pre res s s' \<longleftrightarrow>
     (case obj of
        KModelService ms \<Rightarrow>
          (case res of
             None \<Rightarrow> \<exists>old. satisfies pre old \<and> removed (keyOfMS ms) old s s'
           | Some e \<Rightarrow>
               s' = s \<and> (isNotFound e \<longrightarrow> srv_Objects s (keyOfMS ms) = None) \<or>
               \<not> isNotFound e \<and> \<not> isConflict e \<and> (\<exists>old. satisfies pre old \<and> removed (keyOfMS ms) old s s'))
      | _ \<Rightarrow> meanwhile s s')"

definition storedIn :: "string \<Rightarrow> server \<Rightarrow> ModelService set" where
  "storedIn ns s = {ms. \<exists>name. srv_Objects s (ns, name) = Some ms}"

definition answers :: "(ModelServiceSpec \<Rightarrow> ModelServiceSpec) \<Rightarrow> event \<Rightarrow> server \<Rightarrow> server \<Rightarrow> bool" where
  "answers dflt ev s s' \<longleftrightarrow>
     (case ev of
        EObj c res \<Rightarrow> objAnswer dflt c res s s'
      | EDel obj pre res \<Rightarrow> delAnswer obj pre res s s'
      | EList ns limit res \<Rightarrow>
          s' = s \<and> (\<forall>items. limit = None \<longrightarrow> res = Inr items \<longrightarrow> distinct items \<and> set items = storedIn ns s)
      | _ \<Rightarrow> s' = s)"

text \<open>An execution against the server, with other clients before, between and after its calls.\<close>

inductive served :: "(ModelServiceSpec \<Rightarrow> ModelServiceSpec) \<Rightarrow> server \<Rightarrow> event list \<Rightarrow> server \<Rightarrow> bool"
  for dflt where
  served_end: "meanwhile s s' \<Longrightarrow> served dflt s [] s'"
| served_event: "meanwhile s a \<Longrightarrow> answers dflt ev a b \<Longrightarrow> served dflt b tr s' \<Longrightarrow> served dflt s (ev # tr) s'"

inductive_simps served_Nil_iff: "served dflt s [] s'"
inductive_simps served_Cons_iff: "served dflt s (ev # tr) s'"

section \<open>Versions\<close>

text \<open>A server whose objects are the newest of their versions.\<close>

definition wellVersioned :: "server \<Rightarrow> bool" where
  "wellVersioned s \<longleftrightarrow>
     (\<forall>key ms. srv_Objects s key = Some ms \<longrightarrow>
        keyOfMS ms = key \<and> version ms \<noteq> [] \<and> srv_Versions s (key, version ms) = Some ms)"

lemma wellVersionedD:
  "wellVersioned s \<Longrightarrow> srv_Objects s key = Some ms \<Longrightarrow>
     keyOfMS ms = key \<and> version ms \<noteq> [] \<and> srv_Versions s (key, version ms) = Some ms"
  unfolding wellVersioned_def by blast

lemma wellVersionedI:
  "(\<And>key ms. srv_Objects s key = Some ms \<Longrightarrow>
     keyOfMS ms = key \<and> version ms \<noteq> [] \<and> srv_Versions s (key, version ms) = Some ms) \<Longrightarrow> wellVersioned s"
  unfolding wellVersioned_def by blast

lemma persist_versions:
  assumes "persist key ms s s'"
  shows "wellVersioned s \<Longrightarrow> wellVersioned s'" "srv_Versions s \<subseteq>\<^sub>m srv_Versions s'"
proof -
  note p = assms [unfolded persist_def]
  show "wellVersioned s'" if w: "wellVersioned s"
  proof (rule wellVersionedI)
    fix k m assume "srv_Objects s' k = Some m"
    with p wellVersionedD [OF w, of k m]
    show "keyOfMS m = k \<and> version m \<noteq> [] \<and> srv_Versions s' (k, version m) = Some m"
      by (cases "k = key") auto
  qed
  show "srv_Versions s \<subseteq>\<^sub>m srv_Versions s'" using p by (auto simp: map_le_def)
qed

lemma erase_versions:
  assumes "erase key s s'"
  shows "wellVersioned s \<Longrightarrow> wellVersioned s'" "srv_Versions s \<subseteq>\<^sub>m srv_Versions s'"
proof -
  note e = assms [unfolded erase_def]
  show "wellVersioned s'" if w: "wellVersioned s"
    by (rule wellVersionedI) (use e wellVersionedD [OF w] in \<open>simp split: if_splits\<close>)
  show "srv_Versions s \<subseteq>\<^sub>m srv_Versions s'" using e by simp
qed

lemma otherWrite_versions:
  assumes "otherWrite s s'"
  shows "wellVersioned s \<Longrightarrow> wellVersioned s'" "srv_Versions s \<subseteq>\<^sub>m srv_Versions s'"
  using assms persist_versions erase_versions unfolding otherWrite_def by blast+

lemma meanwhile_versions:
  assumes "meanwhile s s'"
  shows "wellVersioned s \<Longrightarrow> wellVersioned s'" "srv_Versions s \<subseteq>\<^sub>m srv_Versions s'"
  using assms by (induction rule: rtranclp_induct) (auto dest: otherWrite_versions intro: map_le_trans)

text \<open>An object that is still stored under the version read has not changed.\<close>

lemma same_version:
  assumes "wellVersioned a" "meanwhile a b" "srv_Objects a key = Some ms" "srv_Objects b key = Some old"
    and "version old = version ms"
  shows "old = ms"
proof -
  from wellVersionedD [OF assms(1,3)] have "srv_Versions a (key, version ms) = Some ms" by simp
  with meanwhile_versions(2) [OF assms(2)] have "srv_Versions b (key, version ms) = Some ms"
    by (metis domI map_le_def)
  moreover from wellVersionedD [OF meanwhile_versions(1) [OF assms(2,1)] assms(4)] assms(5)
  have "srv_Versions b (key, version ms) = Some old" by simp
  ultimately show ?thesis by simp
qed

lemma served_silent: "served dflt s tr s' \<Longrightarrow> list_all isLog tr \<Longrightarrow> meanwhile s s'"
  by (induction rule: served.induct) (auto simp: answers_def isLog_def)

text \<open>Reads and logs change nothing.\<close>

lemma served_reads:
  "served dflt s tr s' \<Longrightarrow> \<forall>e\<in>set tr. \<not> isWrite e \<Longrightarrow> meanwhile s s'"
proof (induction rule: served.induct)
  case (served_event s a ev b tr s')
  then have "b = a" by (auto simp: answers_def objAnswer_def isWrite_def split: event.splits objcall.splits)
  with served_event show ?case by auto
qed

section \<open>The operations of the collection\<close>

text \<open>One operation, with other clients before and after it.\<close>

definition atomically :: "(server \<Rightarrow> server \<Rightarrow> bool) \<Rightarrow> server \<Rightarrow> server \<Rightarrow> bool" where
  "atomically op s s' \<longleftrightarrow> (\<exists>a b. meanwhile s a \<and> op a b \<and> meanwhile b s')"

lemma atomicallyI: "meanwhile s a \<Longrightarrow> meanwhile a b \<Longrightarrow> op b c \<Longrightarrow> meanwhile c s' \<Longrightarrow> atomically op s s'"
  unfolding atomically_def by (meson rtranclp_trans)

definition replaceOp ::
    "(ModelServiceSpec \<Rightarrow> ModelServiceSpec) \<Rightarrow> objkey \<Rightarrow> (ModelService \<Rightarrow> ModelServiceSpec \<Rightarrow> bool) \<Rightarrow>
     server \<Rightarrow> server \<Rightarrow> bool" where
  "replaceOp dflt key allowed s s' \<longleftrightarrow>
     (\<exists>ms ms' spec. srv_Objects s key = Some ms \<and> allowed ms spec \<and> ms_Spec ms' = dflt spec \<and>
        ms_Status ms' = ms_Status ms \<and> persist key ms' s s')"

text \<open>What a PUT and a PATCH may replace: a ModelService that is not managed by GitOps, by a valid specification.\<close>

definition allowedPut ::
    "ext \<Rightarrow> int \<Rightarrow> ModelServiceDefaults \<Rightarrow> string \<Rightarrow> UpdateModelServiceRequest \<Rightarrow> ModelService \<Rightarrow> ModelServiceSpec \<Rightarrow> bool" where
  "allowedPut x maxReplicas defaults name request ms spec \<longleftrightarrow>
     \<not> gitOpsManaged ms \<and>
     (\<exists>request'. request' = (if ur_Backend request = [] then request\<lparr>ur_Backend :=
          normalizedModelServiceBackend (spec_Backend (ms_Spec ms))\<rparr> else request) \<and>
        ur_Backend request' = normalizedModelServiceBackend (spec_Backend (ms_Spec ms)) \<and>
        requestFaults x maxReplicas (asCreateRequest name request') = {} \<and>
        spec = ms_Spec (applyUpdateRequest ms request' defaults))"

definition allowedPatch ::
    "ext \<Rightarrow> int \<Rightarrow> ModelServiceDefaults \<Rightarrow> string \<Rightarrow> PatchModelServiceRequest \<Rightarrow> ModelService \<Rightarrow> ModelServiceSpec \<Rightarrow> bool" where
  "allowedPatch x maxReplicas defaults name request ms spec \<longleftrightarrow>
     \<not> gitOpsManaged ms \<and> hasPatchFields request \<and> spec = ms_Spec (applyPatchRequest ms request defaults) \<and>
     requestFaults x maxReplicas (asCreateRequest name
       (modelServiceToUpdateRequest (applyPatchRequest ms request defaults))) = {}"

definition createOp ::
    "(ModelServiceSpec \<Rightarrow> ModelServiceSpec) \<Rightarrow> objkey \<Rightarrow> ModelServiceSpec \<Rightarrow> server \<Rightarrow> server \<Rightarrow> bool" where
  "createOp dflt key spec s s' \<longleftrightarrow>
     srv_Objects s key = None \<and> (\<exists>ms'. ms_Spec ms' = dflt spec \<and> persist key ms' s s')"

definition deleteOp :: "objkey \<Rightarrow> server \<Rightarrow> server \<Rightarrow> bool" where
  "deleteOp key s s' \<longleftrightarrow> (\<exists>ms. \<not> gitOpsManaged ms \<and> removed key ms s s')"

section \<open>Writes take effect at one moment\<close>

lemma served_get:
  assumes "served dflt s0 (EObj (OGet ModelServiceKind key) (Inr obj) # tr) s1"
  obtains a ms where "meanwhile s0 a" "obj = KModelService ms" "srv_Objects a key = Some ms" "served dflt a tr s1"
  using assms by (auto simp: served_Cons_iff answers_def objAnswer_def)

text \<open>A read followed by an update with the version read: the object is still the one that was read when the
  update takes place.\<close>

lemma commit_update:
  assumes w: "wellVersioned s0" and logs: "list_all isLog logs"
    and tr: "served dflt s0 (EObj (OGet ModelServiceKind key) (Inr obj) # EObj (OUpdate (KModelService new)) res # logs) s1"
    and new: "version new = version (asModelService obj)" "keyOfMS (asModelService obj) = key \<Longrightarrow> keyOfMS new = key"
    and allowed: "allowed (asModelService obj) (ms_Spec new)"
  shows "(\<exists>e. res = Inl e) \<and> meanwhile s0 s1 \<or>
    (\<forall>e. res = Inl e \<longrightarrow> \<not> isConflict e) \<and> atomically (replaceOp dflt key allowed) s0 s1"
proof -
  from tr obtain a ms where a: "meanwhile s0 a" "obj = KModelService ms" "srv_Objects a key = Some ms"
    and rest: "served dflt a (EObj (OUpdate (KModelService new)) res # logs) s1" by (rule served_get)
  from rest obtain b c where b: "meanwhile a b" and up: "objAnswer dflt (OUpdate (KModelService new)) res b c"
    and c: "served dflt c logs s1" by (auto simp: served_Cons_iff answers_def)
  note wa = meanwhile_versions(1) [OF a(1) w] and c1 = served_silent [OF c logs]
  from wellVersionedD [OF wa a(3)] new a(2) have key: "keyOfMS new = key" "version new \<noteq> []" "version new = version ms"
    by simp_all
  have effect: "atomically (replaceOp dflt key allowed) s0 s1" if "updated dflt new ms' b c" for ms'
  proof -
    from that key obtain old where "srv_Objects b key = Some old" "version old = version ms"
      "ms_Status ms' = ms_Status old" by (auto simp: updated_def)
    with same_version [OF wa b a(3)] have "srv_Objects b key = Some ms" "ms_Status ms' = ms_Status ms" by auto
    with that key(1) allowed a(2) have "replaceOp dflt key allowed b c"
      by (auto simp: updated_def replaceOp_def)
    then show ?thesis by (rule atomicallyI [OF a(1) b _ c1])
  qed
  from up show ?thesis
  proof (cases res)
    case (Inl e)
    with up effect have "c = b \<or> \<not> isConflict e \<and> atomically (replaceOp dflt key allowed) s0 s1"
      by (auto simp: objAnswer_def)
    with Inl a(1) b c1 show ?thesis by (auto intro: rtranclp_trans)
  next
    case (Inr o')
    with up effect show ?thesis by (auto simp: objAnswer_def)
  qed
qed

section \<open>The handlers are atomic\<close>

text \<open>How a handler ends: with the status of success its operation has taken place, with 503 (the API server
  could not be reached, or failed) it may have, with any other status it has not.\<close>

definition settled :: "rw \<Rightarrow> int \<Rightarrow> bool \<Rightarrow> bool \<Rightarrow> bool" where
  "settled w' ok done unchanged \<longleftrightarrow>
     (\<exists>code. answered w' code \<and>
        (if code = ok then done else if code = 503 then done \<or> unchanged else unchanged))"

lemma settled_error:
  assumes "errorResponse codes w w'" "pristine w" "0 \<notin> codes" "ok \<notin> codes"
    and "unchanged \<or> codes \<subseteq> {503} \<and> done"
  shows "settled w' ok done unchanged"
proof -
  from errorResponse_answered [OF assms(1-3)] obtain code where "code \<in> codes" "answered w' code" by blast
  with assms(4,5) show ?thesis unfolding settled_def by (intro exI [of _ code]) auto
qed

lemma settled_ok: "answered w' ok \<Longrightarrow> done \<Longrightarrow> settled w' ok done unchanged"
  unfolding settled_def by auto

lemma settled_update:
  assumes "pristine w"
    and "(\<exists>e. res = Inl e) \<and> unchanged \<or> (\<forall>e. res = Inl e \<longrightarrow> \<not> isConflict e) \<and> done"
    and "(\<exists>e. res = Inl e \<and> errorResponse (if isConflict e then {409} else {503}) w w') \<or>
       (\<exists>o'. res = Inr o' \<and> w' = WriteJSON 200 (ModelDoc (modelServiceToResponse (asModelService o'))) w)"
  shows "settled w' 200 done unchanged"
  using assms(3)
proof (elim disjE exE conjE)
  fix e assume "res = Inl e" "errorResponse (if isConflict e then {409} else {503}) w w'"
  with assms(1,2) show ?thesis
    by (intro settled_error [where w = w and codes = "if isConflict e then {409} else {503}"]) (auto split: if_splits)
next
  fix o' assume "res = Inr o'" "w' = WriteJSON 200 (ModelDoc (modelServiceToResponse (asModelService o'))) w"
  with assms(1,2) WriteJSON_answered [OF assms(1), of 200] show ?thesis by (intro settled_ok) auto
qed

lemma faultless_update:
  "ValidateUpdateModelService x name request maxReplicas = [] \<Longrightarrow> requestFaults x maxReplicas (asCreateRequest name request) = {}"
  using faultsOf_validateCreate [of x "asCreateRequest name request" maxReplicas]
  by (simp add: ValidateUpdateModelService_def)


text \<open>C9. A PATCH is atomic in the same sense: with 200, the patch was applied, at one moment, to the ModelService
  stored at that moment, and the result as a whole was valid.\<close>

theorem patch_atomic:
  assumes "pristine w" and "wellVersioned s0"
    and "exec (patchServeHTTP x (NewModelServiceStore ns) maxReplicas defaults r w) tr w'"
    and "served dflt s0 tr s1"
  shows "settled w' 200
    (\<exists>request rest.
       decodeRequest (decodeStruct patchFields) zeroPatchRequest (rq_Body r) (rq_BodyFails r) = Decoded request rest \<and>
       atomically (replaceOp dflt (ns, pathValue r ''name'')
         (allowedPatch x maxReplicas defaults (pathValue r ''name'') request)) s0 s1)
    (meanwhile s0 s1)"
  using assms(3)
proof (cases rule: k8s.exec_patch)
  case refused
  then show ?thesis using served_reads [OF assms(4)] by (intro settled_error [OF refused(2) assms(1)]) auto
next
  case (attempted request rest obj res logs)
  let ?new = "inNamespace ns (applyPatchRequest (asModelService obj) request defaults)"
  have allowed: "allowedPatch x maxReplicas defaults (pathValue r ''name'') request (asModelService obj) (ms_Spec ?new)"
    unfolding allowedPatch_def using attempted(2,3) faultless_update [OF attempted(6)] by simp
  have "version ?new = version (asModelService obj)" "keyOfMS (asModelService obj) = (ns, pathValue r ''name'') \<Longrightarrow>
      keyOfMS ?new = (ns, pathValue r ''name'')"
    by (simp_all add: applyPatchRequest_simps inNamespace_def keyOfMS_def)
  from commit_update [where allowed = "allowedPatch x maxReplicas defaults (pathValue r ''name'') request",
      OF assms(2) attempted(8) assms(4) [unfolded attempted(7)] this allowed] attempted(1)
  show ?thesis by (intro settled_update [OF assms(1) _ attempted(9)]) blast
qed



section \<open>The theorems apply\<close>

text \<open>A server with one ModelService, and the answers it gives when nobody else writes.\<close>

definition sampleKey :: objkey where
  "sampleKey = (''ai-platform'', ''fraud-model'')"

definition sampleState :: server where
  "sampleState = \<lparr>srv_Objects = [sampleKey \<mapsto> sampleMS], srv_Versions = [(sampleKey, ''7'') \<mapsto> sampleMS]\<rparr>"

definition emptyState :: server where
  "emptyState = \<lparr>srv_Objects = Map.empty, srv_Versions = Map.empty\<rparr>"

definition nextVersion :: "ModelService \<Rightarrow> ModelService" where
  "nextVersion ms = ms\<lparr>ms_Meta := (ms_Meta ms)\<lparr>meta_ResourceVersion := ''8''\<rparr>\<rparr>"

definition versionServer :: "unit world" where
  "versionServer = sampleServer\<lparr>w_obj := \<lambda>c s. (case c of
     OCreate obj \<Rightarrow> Inr (KModelService (nextVersion (asModelService obj)))
   | OUpdate obj \<Rightarrow> Inr (KModelService (nextVersion (asModelService obj)))
   | _ \<Rightarrow> sampleServerAnswer c, s)\<rparr>"

lemma versionServer_simps [simp]:
  "w_obj versionServer (OGet kind key) s = (Inr (KModelService sampleMS), s)"
  "w_obj versionServer (OCreate (KModelService ms)) s = (Inr (KModelService (nextVersion ms)), s)"
  "w_obj versionServer (OUpdate (KModelService ms)) s = (Inr (KModelService (nextVersion ms)), s)"
  "w_del versionServer obj pre s = (None, s)"
  by (simp_all add: versionServer_def)

lemma sampleState_wellVersioned: "wellVersioned sampleState"
  by (rule wellVersionedI)
    (auto simp: sampleState_def sampleKey_def sample_defs keyOfMS_def split: if_splits)

lemma nextVersion_simps [simp]:
  "version (nextVersion ms) = ''8''" "keyOfMS (nextVersion ms) = keyOfMS ms" "ms_Spec (nextVersion ms) = ms_Spec ms"
  "ms_Status (nextVersion ms) = ms_Status ms"
  by (simp_all add: nextVersion_def keyOfMS_def)

text \<open>Reading the ModelService and writing it back is served.\<close>

lemma served_sample_update:
  assumes "keyOfMS ms = sampleKey" "version ms = ''7''" "ms_Status ms = ms_Status sampleMS"
  shows "\<exists>s1. served id sampleState [EObj (OGet ModelServiceKind sampleKey) (Inr (KModelService sampleMS)),
      EObj (OUpdate (KModelService ms)) (Inr (KModelService (nextVersion ms)))] s1"
proof -
  let ?s1 = "sampleState\<lparr>srv_Objects := (srv_Objects sampleState)(sampleKey \<mapsto> nextVersion ms),
      srv_Versions := (srv_Versions sampleState)((sampleKey, ''8'') \<mapsto> nextVersion ms)\<rparr>"
  have "objAnswer id (OUpdate (KModelService ms)) (Inr (KModelService (nextVersion ms))) sampleState ?s1"
    using assms by (simp add: objAnswer_def updated_def persist_def) (simp add: sampleState_def sample_defs)
  then have "answers id (EObj (OUpdate (KModelService ms)) (Inr (KModelService (nextVersion ms)))) sampleState ?s1"
    by (simp add: answers_def)
  moreover have "answers id (EObj (OGet ModelServiceKind sampleKey) (Inr (KModelService sampleMS))) sampleState sampleState"
    by (simp add: answers_def objAnswer_def) (simp add: sampleState_def)
  ultimately show ?thesis by (meson rtranclp.rtrancl_refl served_end served_event)
qed

lemma served_sample_delete:
  "\<exists>s1. served id sampleState (EObj (OGet ModelServiceKind sampleKey) (Inr (KModelService sampleMS)) #
      EDel (KModelService (inNamespace ''ai-platform'' sampleMS)) (Some (deletePreconditions sampleMS)) None # [EOut (LogOut l)]) s1"
proof -
  let ?s1 = "sampleState\<lparr>srv_Objects := (srv_Objects sampleState)(sampleKey := None)\<rparr>"
  have "keyOfMS (inNamespace ''ai-platform'' sampleMS) = sampleKey"
    by (simp add: keyOfMS_def sampleKey_def sample_defs)
  moreover have "satisfies (Some (deletePreconditions sampleMS)) sampleMS" "srv_Objects sampleState sampleKey = Some sampleMS"
    by (simp_all add: satisfies_def deletePreconditions_def sampleState_def)
  ultimately have "answers id (EDel (KModelService (inNamespace ''ai-platform'' sampleMS))
      (Some (deletePreconditions sampleMS)) None) sampleState ?s1"
    by (auto simp: answers_def delAnswer_def removed_def erase_def)
  moreover have "answers id (EObj (OGet ModelServiceKind sampleKey) (Inr (KModelService sampleMS))) sampleState sampleState"
    by (simp add: answers_def objAnswer_def) (simp add: sampleState_def)
  moreover have "answers id (EOut (LogOut l)) ?s1 ?s1" by (simp add: answers_def)
  ultimately show ?thesis by (meson rtranclp.rtrancl_refl served_end served_event)
qed

lemma served_sample_create:
  assumes "keyOfMS ms = sampleKey"
  shows "\<exists>s1. served id emptyState [EObj (OCreate (KModelService ms)) (Inr (KModelService (nextVersion ms)))] s1"
proof -
  let ?s1 = "emptyState\<lparr>srv_Objects := (srv_Objects emptyState)(sampleKey \<mapsto> nextVersion ms),
      srv_Versions := (srv_Versions emptyState)((sampleKey, ''8'') \<mapsto> nextVersion ms)\<rparr>"
  have "answers id (EObj (OCreate (KModelService ms)) (Inr (KModelService (nextVersion ms)))) emptyState ?s1"
    using assms by (simp add: answers_def objAnswer_def created_def persist_def) (simp add: emptyState_def)
  then show ?thesis by (meson rtranclp.rtrancl_refl served_end served_event)
qed

lemma run_sampleUpdate:
  "\<exists>ms. run versionServer sampleUpdate () =
     ([EObj (OGet ModelServiceKind sampleKey) (Inr (KModelService sampleMS)),
       EObj (OUpdate (KModelService ms)) (Inr (KModelService (nextVersion ms)))],
      WriteJSON 200 (ModelDoc (modelServiceToResponse (nextVersion ms))) freshWriter, ()) \<and>
     keyOfMS ms = sampleKey \<and> version ms = ''7'' \<and> ms_Status ms = ms_Status sampleMS"
  by (simp add: sampleUpdate_def updateServeHTTP_def updateLoaded_def storeUpdated_def sample_run_defs
      sample_valid zeroUpdate_backend sampleKey_def)
    (simp add: applyUpdateRequest_def inNamespace_def keyOfMS_def sample_defs)

lemma run_samplePatch:
  "\<exists>ms. run versionServer samplePatch () =
     ([EObj (OGet ModelServiceKind sampleKey) (Inr (KModelService sampleMS)),
       EObj (OUpdate (KModelService ms)) (Inr (KModelService (nextVersion ms)))],
      WriteJSON 200 (ModelDoc (modelServiceToResponse (nextVersion ms))) freshWriter, ()) \<and>
     keyOfMS ms = sampleKey \<and> version ms = ''7'' \<and> ms_Status ms = ms_Status sampleMS"
  by (simp add: samplePatch_def patchServeHTTP_def patchLoaded_def storeUpdated_def sample_run_defs
      sample_valid hasPatchFields_def patchBackendDetails_def sampleKey_def)
    (simp add: zeroPatchRequest_def inNamespace_def keyOfMS_def applyPatchRequest_simps sample_defs)

lemma run_sampleCreate:
  "\<exists>ms. run versionServer sampleCreate () =
     ([EObj (OCreate (KModelService ms)) (Inr (KModelService (nextVersion ms)))],
      WriteJSON 201 (ModelDoc (modelServiceToResponse (nextVersion ms))) freshWriter, ()) \<and> keyOfMS ms = sampleKey"
  by (simp add: sampleCreate_def createServeHTTP_def createDecoded_def sample_run_defs sample_valid)
    (simp add: createRequestToModelService_def inNamespace_def keyOfMS_def sampleKey_def)

lemma run_sampleDelete:
  "\<exists>l. run versionServer sampleDelete () =
     ([EObj (OGet ModelServiceKind sampleKey) (Inr (KModelService sampleMS)),
       EDel (KModelService (inNamespace ''ai-platform'' sampleMS)) (Some (deletePreconditions sampleMS)) None,
       EOut (LogOut l)], writeHeader 204 freshWriter, ())"
  by (simp add: sampleDelete_def deleteServeHTTP_def deleteLoaded_def sample_run_defs logEntry_def sampleKey_def)

lemma fresh_pristine: "pristine freshWriter"
  by (simp add: pristine_def freshWriter_def)

lemma settled_success:
  assumes "settled w' ok done unchanged" "answered w' ok"
  shows "done"
  using assms by (auto simp: settled_def answered_def)


theorem patch_atomic_witness:
  "\<exists>request s1. atomically (replaceOp id sampleKey (allowedPatch sampleExt 10 sampleDefaults ''fraud-model'' request)) sampleState s1"
proof -
  from run_samplePatch obtain ms where run: "run versionServer samplePatch () =
     ([EObj (OGet ModelServiceKind sampleKey) (Inr (KModelService sampleMS)),
       EObj (OUpdate (KModelService ms)) (Inr (KModelService (nextVersion ms)))],
      WriteJSON 200 (ModelDoc (modelServiceToResponse (nextVersion ms))) freshWriter, ())"
    and ms: "keyOfMS ms = sampleKey" "version ms = ''7''" "ms_Status ms = ms_Status sampleMS" by blast
  from served_sample_update [OF ms] obtain s1 where s1: "served id sampleState
      [EObj (OGet ModelServiceKind sampleKey) (Inr (KModelService sampleMS)),
       EObj (OUpdate (KModelService ms)) (Inr (KModelService (nextVersion ms)))] s1" ..
  have "answered (WriteJSON 200 (ModelDoc (modelServiceToResponse (nextVersion ms))) freshWriter) 200"
    using WriteJSON_answered [OF fresh_pristine] by simp
  from settled_success [OF patch_atomic [OF fresh_pristine sampleState_wellVersioned
        run_exec [OF run, unfolded samplePatch_def] s1] this]
  show ?thesis by (auto simp: sampleKey_def)
qed



end
