(* ===== verification/Reads.thy ===== *)
theory Reads
  imports Atomicity
begin

text \<open>
  The reading handlers under concurrency: what a client is shown is what was stored at one moment of the request,
  and reading changes nothing.
\<close>

definition atSomeMoment :: "(server \<Rightarrow> bool) \<Rightarrow> server \<Rightarrow> server \<Rightarrow> bool" where
  "atSomeMoment P s0 s1 \<longleftrightarrow> (\<exists>s. meanwhile s0 s \<and> P s \<and> meanwhile s s1)"

text \<open>200 with the document of a stored object, 404 when there is none.\<close>

definition displays :: "rw \<Rightarrow> payload option \<Rightarrow> bool" where
  "displays w' doc \<longleftrightarrow>
     (case doc of
        Some d \<Rightarrow> answered w' 200 \<and> rw_Body w' = [d]
      | None \<Rightarrow> answered w' 404 \<and> (\<exists>b. rw_Body w' = [ErrorDoc b]))"

text \<open>The API server could not be read, and the client is told so.\<close>

definition unavailable :: "event list \<Rightarrow> rw \<Rightarrow> bool" where
  "unavailable tr w' \<longleftrightarrow> answered w' 503 \<and>
     ((\<exists>e kind key. \<not> isNotFound e \<and> EObj (OGet kind key) (Inl e) \<in> set tr) \<or> (\<exists>e ns. EList ns None (Inl e) \<in> set tr))"

lemma displays_error: "pristine w \<Longrightarrow> displays (writeError 404 c m d r w) None" "pristine w \<Longrightarrow> answered (writeError 503 c m d r w) 503"
  using WriteJSON_answered [of w 404] WriteJSON_answered [of w 503] by (auto simp: displays_def writeError_def)

lemma displays_doc: "pristine w \<Longrightarrow> displays (WriteJSON 200 d w) (Some d)"
  using WriteJSON_answered [of w 200 d] by (simp add: displays_def)

text \<open>What the two handlers of one object have in common.\<close>

lemma read_one:
  assumes w: "pristine w" and tr: "served dflt s0 tr s1"
    and ex: "exec (bind (sto_Get (NewModelServiceStore ns) name) (\<lambda>res. case res of
        Inl e \<Rightarrow> getFailed event message name e r w
      | Inr ms \<Rightarrow> Ret (WriteJSON 200 (doc ms) w))) tr w'"
  shows "unavailable tr w' \<and> meanwhile s0 s1 \<or>
    atSomeMoment (\<lambda>s. displays w' (map_option doc (srv_Objects s (ns, name)))) s0 s1"
proof -
  from ex obtain res tr' where tr': "tr = EObj (OGet ModelServiceKind (ns, name)) res # tr'"
    and rest: "exec (case mapR asModelService res of Inl e \<Rightarrow> getFailed event message name e r w
      | Inr ms \<Rightarrow> Ret (WriteJSON 200 (doc ms) w)) tr' w'"
    unfolding exec_bind k8s.get_exec by auto
  from tr tr' obtain a where a: "meanwhile s0 a" and ans: "objAnswer dflt (OGet ModelServiceKind (ns, name)) res a a"
    and b: "served dflt a tr' s1" by (auto simp: served_Cons_iff answers_def objAnswer_def)
  show ?thesis
  proof (cases res)
    case (Inl e)
    with rest have failed: "exec (getFailed event message name e r w) tr' w'" by simp
    note b1 = served_silent [OF b exec_getFailed(1) [OF failed]]
    show ?thesis
    proof (cases "isNotFound e")
      case True
      with ans Inl have "srv_Objects a (ns, name) = None" by (simp add: objAnswer_def)
      with True failed displays_error(1) [OF w] a b1 show ?thesis
        by (auto simp: atSomeMoment_def getFailed_def intro!: exI [of _ a])
    next
      case False
      with failed displays_error(2) [OF w] have "answered w' 503" by (auto simp: getFailed_def exec_Emit_iff)
      with False Inl tr' have "unavailable tr w'" unfolding unavailable_def by auto
      with a b1 show ?thesis by (auto intro: rtranclp_trans)
    qed
  next
    case (Inr obj)
    with ans obtain ms where ms: "obj = KModelService ms" "srv_Objects a (ns, name) = Some ms"
      by (auto simp: objAnswer_def)
    with rest Inr have "w' = WriteJSON 200 (doc ms) w" "tr' = []" by simp_all
    with ms a b displays_doc [OF w] show ?thesis
      by (auto simp: atSomeMoment_def served_Nil_iff intro!: exI [of _ a])
  qed
qed

lemma exec_list:
  assumes "exec (listServeHTTP (NewModelServiceStore ns) r w) tr w'" "rq_Method r = ''GET''"
  obtains (listed) items where "tr = [EList ns None (Inr items)]"
      "w' = WriteJSON 200 (ListDoc \<lparr>lr_Items = map modelServiceToSummary items, lr_Count = int (length items)\<rparr>) w"
  | (failed) e l where "tr = [EList ns None (Inl e), EOut l]"
      "w' = writeError 503 codeKubernetesUnavailable ''unable to list ModelServices'' [] r w"
  using assms unfolding listServeHTTP_def exec_bind
  by (auto simp: exec_bind k8s.list_exec exec_Emit_iff Let_def logEntry_def)

lemma read_list:
  assumes w: "pristine w" and tr: "served dflt s0 tr s1" and m: "rq_Method r = ''GET''"
    and ex: "exec (listServeHTTP (NewModelServiceStore ns) r w) tr w'"
  shows "unavailable tr w' \<and> meanwhile s0 s1 \<or>
    atSomeMoment (\<lambda>s. \<exists>items. distinct items \<and> set items = storedIn ns s \<and>
      displays w' (Some (ListDoc \<lparr>lr_Items = map modelServiceToSummary items, lr_Count = int (length items)\<rparr>))) s0 s1"
  using ex m
proof (cases rule: exec_list)
  case (listed items)
  from tr listed(1) obtain a where "meanwhile s0 a" "distinct items" "set items = storedIn ns a" "meanwhile a s1"
    by (auto simp: served_Cons_iff served_Nil_iff answers_def)
  with listed(2) displays_doc [OF w] show ?thesis unfolding atSomeMoment_def by blast
next
  case (failed e l)
  then have "unavailable tr w'" using displays_error(2) [OF w] by (auto simp: unavailable_def)
  moreover have "meanwhile s0 s1" by (rule served_reads [OF tr]) (simp add: failed(1) isWrite_def)
  ultimately show ?thesis by blast
qed


text \<open>The sample object is read while nobody else is active.\<close>

lemma sample_read:
  fixes r defines "r \<equiv> sampleHttpRequest ''GET'' []"
  shows "exec (getServeHTTP (NewModelServiceStore ''ai-platform'') r freshWriter)
      [EObj (OGet ModelServiceKind sampleKey) (Inr (KModelService sampleMS))]
      (WriteJSON 200 (ModelDoc (modelServiceToResponse sampleMS)) freshWriter)"
    and "rq_Method r = ''GET''" "pathValue r ''name'' = ''fraud-model''"
proof -
  show m: "rq_Method r = ''GET''" "pathValue r ''name'' = ''fraud-model''" by (simp_all add: r_def sampleHttpRequest_def pathValue_def)
  show "exec (getServeHTTP (NewModelServiceStore ''ai-platform'') r freshWriter)
      [EObj (OGet ModelServiceKind sampleKey) (Inr (KModelService sampleMS))]
      (WriteJSON 200 (ModelDoc (modelServiceToResponse sampleMS)) freshWriter)"
proof -
    let ?e = "EObj (OGet ModelServiceKind sampleKey) (Inr (KModelService sampleMS))"
    have "exec (sto_Get (NewModelServiceStore ''ai-platform'') ''fraud-model'') [?e] (Inr sampleMS)"
      unfolding k8s.get_exec sampleKey_def by (rule exI [of _ "Inr (KModelService sampleMS)"]) simp
    note get = exec_bind_append [OF this, of _ "[]", simplified]
    show ?thesis using m unfolding getServeHTTP_def by simp (rule get, simp)
  qed
qed

lemma served_sample_read:
  "served id sampleState [EObj (OGet ModelServiceKind sampleKey) (Inr (KModelService sampleMS))] sampleState"
proof -
  have "answers id (EObj (OGet ModelServiceKind sampleKey) (Inr (KModelService sampleMS))) sampleState sampleState"
    by (simp add: answers_def objAnswer_def) (simp add: sampleState_def)
  then show ?thesis by (meson rtranclp.rtrancl_refl served_end served_event)
qed


end
