(* ===== verification/Manager.thy ===== *)
theory Manager
  imports Reconciler
begin

text \<open>
  The operator's program \<^verbatim>\<open>cmd/main.go\<close> and \<^verbatim>\<open>SetupWithManager\<close> of the controller: the options of the
  manager and of its two servers from the command line, the kinds the controller watches, and the order in which
  the program is put together. The parsed flags and what the libraries answer are inputs.
\<close>

section \<open>The command line\<close>

record managerFlags =
  fl_MetricsAddr :: string
  fl_ProbeAddr :: string
  fl_EnableLeaderElection :: bool
  fl_SecureMetrics :: bool
  fl_WebhookCertPath :: string
  fl_WebhookCertName :: string
  fl_WebhookCertKey :: string
  fl_MetricsCertPath :: string
  fl_MetricsCertName :: string
  fl_MetricsCertKey :: string
  fl_EnableHTTP2 :: bool

definition defaultFlags :: managerFlags where
  "defaultFlags =
     \<lparr>fl_MetricsAddr = ''0'', fl_ProbeAddr = '':8082'', fl_EnableLeaderElection = False, fl_SecureMetrics = True,
      fl_WebhookCertPath = [], fl_WebhookCertName = ''tls.crt'', fl_WebhookCertKey = ''tls.key'',
      fl_MetricsCertPath = [], fl_MetricsCertName = ''tls.crt'', fl_MetricsCertKey = ''tls.key'',
      fl_EnableHTTP2 = False\<rparr>"

section \<open>The servers of the manager\<close>

text \<open>A TLS configuration, by the protocols it offers; an option changes it.\<close>

record tlsConfig =
  tls_NextProtos :: "string list"

type_synonym tlsOpt = "tlsConfig \<Rightarrow> tlsConfig"

definition disableHTTP2 :: tlsOpt where
  "disableHTTP2 c = c\<lparr>tls_NextProtos := [''http/1.1'']\<rparr>"

definition tlsOpts :: "managerFlags \<Rightarrow> tlsOpt list" where
  "tlsOpts fl = (if \<not> fl_EnableHTTP2 fl then [disableHTTP2] else [])"

record webhookOptions =
  wo_TLSOpts :: "tlsOpt list"
  wo_CertDir :: string
  wo_CertName :: string
  wo_KeyName :: string

definition webhookServerOptions :: "managerFlags \<Rightarrow> webhookOptions" where
  "webhookServerOptions fl =
     (let opts = \<lparr>wo_TLSOpts = tlsOpts fl, wo_CertDir = [], wo_CertName = [], wo_KeyName = []\<rparr>
      in if 0 < length (fl_WebhookCertPath fl)
         then opts\<lparr>wo_CertDir := fl_WebhookCertPath fl, wo_CertName := fl_WebhookCertName fl,
                   wo_KeyName := fl_WebhookCertKey fl\<rparr>
         else opts)"

text \<open>\<open>mo_FilterProvider\<close>: whether the endpoint asks for authentication and authorization.\<close>

record metricsOptions =
  mo_BindAddress :: string
  mo_SecureServing :: bool
  mo_TLSOpts :: "tlsOpt list"
  mo_FilterProvider :: bool
  mo_CertDir :: string
  mo_CertName :: string
  mo_KeyName :: string

definition metricsServerOptions :: "managerFlags \<Rightarrow> metricsOptions" where
  "metricsServerOptions fl =
     (let opts = \<lparr>mo_BindAddress = fl_MetricsAddr fl, mo_SecureServing = fl_SecureMetrics fl, mo_TLSOpts = tlsOpts fl,
            mo_FilterProvider = False, mo_CertDir = [], mo_CertName = [], mo_KeyName = []\<rparr>;
          opts = (if fl_SecureMetrics fl then opts\<lparr>mo_FilterProvider := True\<rparr> else opts)
      in if 0 < length (fl_MetricsCertPath fl)
         then opts\<lparr>mo_CertDir := fl_MetricsCertPath fl, mo_CertName := fl_MetricsCertName fl,
                   mo_KeyName := fl_MetricsCertKey fl\<rparr>
         else opts)"

record managerOptions =
  mg_Metrics :: metricsOptions
  mg_WebhookServer :: webhookOptions
  mg_HealthProbeBindAddress :: string
  mg_LeaderElection :: bool
  mg_LeaderElectionID :: string

definition managerOptionsFor :: "managerFlags \<Rightarrow> managerOptions" where
  "managerOptionsFor fl =
     \<lparr>mg_Metrics = metricsServerOptions fl, mg_WebhookServer = webhookServerOptions fl,
      mg_HealthProbeBindAddress = fl_ProbeAddr fl, mg_LeaderElection = fl_EnableLeaderElection fl,
      mg_LeaderElectionID = ''c745de53.anselem.dev''\<rparr>"

section \<open>The controller\<close>

text \<open>What \<^verbatim>\<open>SetupWithManager\<close> builds: the kind the controller is for, the kinds whose objects lead back to their
  owner, and its name.\<close>

record controllerSetup =
  cs_For :: objkind
  cs_Owns :: "objkind list"
  cs_Named :: string

definition SetupWithManager :: controllerSetup where
  "SetupWithManager =
     \<lparr>cs_For = ModelServiceKind,
      cs_Owns = [ServiceAccountKind, DeploymentKind, ServiceKind, PersistentVolumeClaimKind,
        PodDisruptionBudgetKind, NetworkPolicyKind, HTTPRouteKind,
        kindOf (KInferenceService (newInferenceService [] []))],
      cs_Named = ''modelservice''\<rparr>"

section \<open>The program\<close>

text \<open>What the program meets: whether the schemes can be registered, the cluster configuration found, the manager
  built, the controller and the two checks added, and how the manager ends.\<close>

record managerHost =
  mh_Schemes :: "goerror option"
  mh_GetConfig :: "goerror option"
  mh_NewManager :: "goerror option"
  mh_Setup :: "goerror option"
  mh_AddHealthz :: "goerror option"
  mh_AddReadyz :: "goerror option"
  mh_Start :: "goerror option"

text \<open>The messages of its own log lines at error level, the manager and the controller it starts, and the exit
  code. \<^verbatim>\<open>utilruntime.Must\<close> panics, which ends a Go program with code 2; \<^verbatim>\<open>GetConfigOrDie\<close> exits with 1.\<close>

definition operatorMain ::
    "managerFlags \<Rightarrow> managerHost \<Rightarrow> string list \<times> (managerOptions \<times> controllerSetup) option \<times> int" where
  "operatorMain fl h =
     (if mh_Schemes h \<noteq> None then ([], None, 2)
      else if mh_GetConfig h \<noteq> None then ([], None, 1)
      else if mh_NewManager h \<noteq> None then ([''Failed to start manager''], None, 1)
      else if mh_Setup h \<noteq> None then ([''Failed to create controller''], None, 1)
      else if mh_AddHealthz h \<noteq> None then ([''Failed to set up health check''], None, 1)
      else if mh_AddReadyz h \<noteq> None then ([''Failed to set up ready check''], None, 1)
      else if mh_Start h \<noteq> None
      then ([''Failed to run manager''], Some (managerOptionsFor fl, SetupWithManager), 1)
      else ([], Some (managerOptionsFor fl, SetupWithManager), 0))"

text \<open>The configuration a list of options makes of another.\<close>

definition applyTLS :: "tlsOpt list \<Rightarrow> tlsConfig \<Rightarrow> tlsConfig" where
  "applyTLS opts c = foldl (\<lambda>c f. f c) c opts"

text \<open>C40. The operator starts its manager only when everything before has succeeded, always with the ModelService
  controller, and ends with 0 exactly when the manager it started ends without an error. The manager's metrics
  endpoint asks for authentication and authorization exactly when it is served over HTTPS; unless
  \<^verbatim>\<open>--enable-http2\<close> is given, neither the metrics nor the webhook server offers anything but HTTP/1.1, whatever
  else their TLS configuration says.\<close>

theorem operator_program:
  "(snd (snd (operatorMain fl h)) = 0 \<longleftrightarrow> fst (snd (operatorMain fl h)) \<noteq> None \<and> mh_Start h = None) \<and>
   (case fst (snd (operatorMain fl h)) of
      None \<Rightarrow> snd (snd (operatorMain fl h)) \<in> {1, 2} \<and>
        [mh_Schemes h, mh_GetConfig h, mh_NewManager h, mh_Setup h, mh_AddHealthz h, mh_AddReadyz h] \<noteq> replicate 6 None
    | Some (opts, setup) \<Rightarrow>
        setup = SetupWithManager \<and>
        [mh_Schemes h, mh_GetConfig h, mh_NewManager h, mh_Setup h, mh_AddHealthz h, mh_AddReadyz h] = replicate 6 None \<and>
        mo_FilterProvider (mg_Metrics opts) = mo_SecureServing (mg_Metrics opts) \<and>
        tls_NextProtos (applyTLS (mo_TLSOpts (mg_Metrics opts)) c) =
          (if fl_EnableHTTP2 fl then tls_NextProtos c else [''http/1.1'']) \<and>
        tls_NextProtos (applyTLS (wo_TLSOpts (mg_WebhookServer opts)) c) =
          (if fl_EnableHTTP2 fl then tls_NextProtos c else [''http/1.1'']))"
proof -
  have servers: "mo_FilterProvider (mg_Metrics (managerOptionsFor fl)) = mo_SecureServing (mg_Metrics (managerOptionsFor fl))"
    "mo_TLSOpts (mg_Metrics (managerOptionsFor fl)) = tlsOpts fl"
    "wo_TLSOpts (mg_WebhookServer (managerOptionsFor fl)) = tlsOpts fl"
    by (simp_all add: managerOptionsFor_def metricsServerOptions_def webhookServerOptions_def Let_def)
  have protos: "tls_NextProtos (applyTLS (tlsOpts fl) c) = (if fl_EnableHTTP2 fl then tls_NextProtos c else [''http/1.1''])"
    by (simp add: tlsOpts_def applyTLS_def disableHTTP2_def)
  show ?thesis
    by (simp add: operatorMain_def servers protos numeral_eq_Suc)
qed

section \<open>Everything a run touches is watched\<close>

definition watchedKinds :: "objkind set" where
  "watchedKinds = insert (cs_For SetupWithManager) (set (cs_Owns SetupWithManager))"

lemma watchedKinds_eq: "watchedKinds = deploymentBackendKinds \<union> kserveBackendKinds"
  by (auto simp: watchedKinds_def SetupWithManager_def deploymentBackendKinds_def kserveBackendKinds_def)

lemma inScope_mono: "inScope key kinds e \<Longrightarrow> kinds \<subseteq> kinds' \<Longrightarrow> inScope key kinds' e"
  by (cases e) auto

lemma inScope_watched:
  assumes "staysIn key kinds tr" "list_all answersAsAsked tr" "kinds \<subseteq> watchedKinds"
  shows "list_all (inScope key watchedKinds) tr"
  using assms unfolding staysIn_def by (auto simp: list_all_iff intro: inScope_mono)

text \<open>C37. The controller's watches are complete and exact. Every call of a run of \<^verbatim>\<open>Reconcile\<close> concerns an object under
  the key of the request whose kind \<^verbatim>\<open>SetupWithManager\<close> watches, so a change to anything a run reads or writes
  leads to another run; and a kind is watched only when one of the two backends handles it.\<close>

theorem watches_complete:
  assumes "exec (Reconcile x req) tr result" and "ownerRefsDocumented x" and "list_all answersAsAsked tr"
  shows "list_all (inScope req (insert (cs_For SetupWithManager) (set (cs_Owns SetupWithManager)))) tr \<and>
    insert (cs_For SetupWithManager) (set (cs_Owns SetupWithManager)) = deploymentBackendKinds \<union> kserveBackendKinds"
proof -
  have own: "ModelServiceKind \<in> watchedKinds" by (simp add: watchedKinds_def SetupWithManager_def)
  have "list_all (inScope req watchedKinds) tr"
    using assms(1)
  proof (cases rule: exec_Reconcile)
    case (found got tr')
    with assms(3) have "kindOf got = ModelServiceKind" and key: "keyOf got = req" by auto
    then obtain ms where got: "got = KModelService ms" by (cases got) auto
    with key have ms: "keyOfMS ms = req" by (simp add: keyOf_def keyOfMS_def)
    have "staysIn (keyOfMS ms) deploymentBackendKinds tr' \<or> staysIn (keyOfMS ms) kserveBackendKinds tr'"
      using found(2) got reach.holdsD [OF kserve_scope [OF assms(2)]] reach.holdsD [OF deploymentBackend_scope]
      by (auto simp: reconcileModelService_def go_const split: if_splits)
    moreover have "list_all answersAsAsked tr'" using assms(3) found(1) by simp
    ultimately have "list_all (inScope req watchedKinds) tr'"
      using inScope_watched watchedKinds_eq ms by blast
    with found(1) own show ?thesis by simp
  qed (use own in auto)
  then show ?thesis using watchedKinds_eq by (simp add: watchedKinds_def)
qed

theorem watches_complete_witness:
  "list_all (inScope (keyOfMS sampleShrunkMS) (insert (cs_For SetupWithManager) (set (cs_Owns SetupWithManager)))) (fst sampleRun)"
  using watches_complete [OF sampleRun_exec sampleExt_ownerRefs sampleRun_answers] by blast

end
