(* ===== verification/Convergence.thy ===== *)
theory Convergence
  imports Reconciler
begin

text \<open>
  Convergence of the Deployment backend. In a quiet cluster one successful run of \<^verbatim>\<open>Reconcile\<close> reaches a
  fixpoint: the wanted objects exist and are controlled by the ModelService, the optional ones that are not wanted
  are gone unless somebody else controls them, and a further run finds nothing to write, or only a status to report
  when the Deployment has made progress in between.

  The cluster is a world \<open>W\<close> with a view \<open>objs\<close> of the stored objects by kind and key; \<open>quietCluster\<close> says how it
  answers the calls of the operator, as the API server and \<^verbatim>\<open>CreateOrUpdate\<close> document them when no other
  client interferes. The server and the controllers behind it may fill and change the fields they maintain (identity
  and version in the metadata, the status of a Deployment, the address of a Service, the volume of a claim) when an
  object is written and between the runs. Writes may fail, and then change nothing. A deletion that succeeds removes
  the object; finalizers are not modelled.
\<close>

section \<open>The cluster\<close>

type_synonym index = "objkind \<times> objkey"

abbreviation indexOf :: "kobject \<Rightarrow> index" where
  "indexOf obj \<equiv> (kindOf obj, keyOf obj)"

type_synonym stored = "index \<Rightarrow> kobject option"

text \<open>An object with the fields that the cluster maintains taken from another one.\<close>

definition servedMeta :: "ObjectMeta \<Rightarrow> ObjectMeta \<Rightarrow> ObjectMeta" where
  "servedMeta n m = m\<lparr>meta_UID := meta_UID n, meta_ResourceVersion := meta_ResourceVersion n,
     meta_Generation := meta_Generation n\<rparr>"

primrec served :: "kobject \<Rightarrow> kobject \<Rightarrow> kobject" where
  "served n (KServiceAccount a) = KServiceAccount (a\<lparr>sa_Meta := servedMeta (metaOf n) (sa_Meta a)\<rparr>)"
| "served n (KDeployment d) = KDeployment (d\<lparr>dep_Meta := servedMeta (metaOf n) (dep_Meta d),
     dep_RevisionHistoryLimit := dep_RevisionHistoryLimit (asDeployment n),
     dep_StatusReadyReplicas := dep_StatusReadyReplicas (asDeployment n),
     dep_StatusAvailableReplicas := dep_StatusAvailableReplicas (asDeployment n),
     dep_StatusConditions := dep_StatusConditions (asDeployment n)\<rparr>)"
| "served n (KService s) = KService (s\<lparr>svc_Meta := servedMeta (metaOf n) (svc_Meta s),
     svc_ClusterIP := svc_ClusterIP (asService n)\<rparr>)"
| "served n (KPersistentVolumeClaim p) = KPersistentVolumeClaim (p\<lparr>pvc_Meta := servedMeta (metaOf n) (pvc_Meta p),
     pvc_StorageClassName := pvc_StorageClassName (asPVC n), pvc_VolumeName := pvc_VolumeName (asPVC n)\<rparr>)"
| "served n (KPodDisruptionBudget b) = KPodDisruptionBudget (b\<lparr>pdb_Meta := servedMeta (metaOf n) (pdb_Meta b)\<rparr>)"
| "served n (KNetworkPolicy p) = KNetworkPolicy (p\<lparr>nep_Meta := servedMeta (metaOf n) (nep_Meta p)\<rparr>)"
| "served n (KHTTPRoute r) = KHTTPRoute (r\<lparr>hr_Meta := servedMeta (metaOf n) (hr_Meta r)\<rparr>)"
| "served n (KInferenceService u) = KInferenceService (u\<lparr>us_Meta := servedMeta (metaOf n) (us_Meta u)\<rparr>)"
| "served n (KModelService m) = KModelService (m\<lparr>ms_Meta :=
     (ms_Meta m)\<lparr>meta_ResourceVersion := meta_ResourceVersion (metaOf n)\<rparr>\<rparr>)"

definition servedAs :: "kobject \<Rightarrow> kobject \<Rightarrow> bool" where
  "servedAs k k' \<longleftrightarrow> k' = served k' k"

definition drifts :: "stored \<Rightarrow> stored \<Rightarrow> bool" where
  "drifts m m' \<longleftrightarrow> (\<forall>i. rel_option servedAs (m i) (m' i))"

abbreviation current :: "stored \<Rightarrow> kobject \<Rightarrow> kobject" where
  "current m obj \<equiv> (case m (indexOf obj) of Some cur \<Rightarrow> cur | None \<Rightarrow> obj)"

text \<open>What a write leaves: nothing changed when it failed, the object as the cluster serves it otherwise.\<close>

definition written :: "stored \<Rightarrow> kobject \<Rightarrow> goerror + kobject \<Rightarrow> stored \<Rightarrow> bool" where
  "written m k r m' \<longleftrightarrow>
     (case r of Inl e \<Rightarrow> m' = m | Inr k' \<Rightarrow> servedAs k k' \<and> m' = m(indexOf k \<mapsto> k'))"

text \<open>
  \<^verbatim>\<open>CreateOrUpdate\<close> reads the object, lets the caller mutate it (or the given one, when there is none), and
  writes the outcome unless it is what it has read.
\<close>

definition createdOrUpdated ::
    "kobject \<Rightarrow> (kobject \<Rightarrow> goerror + kobject) \<Rightarrow> stored \<Rightarrow> goerror + kobject \<Rightarrow> stored \<Rightarrow> bool" where
  "createdOrUpdated obj f m r m' \<longleftrightarrow>
     (case f (current m obj) of
        Inl e \<Rightarrow> r = Inl e \<and> m' = m
      | Inr k \<Rightarrow> if m (indexOf obj) = Some k then r = Inr k \<and> m' = m else written m k r m')"

definition quietCluster :: "'s world \<Rightarrow> ('s \<Rightarrow> stored) \<Rightarrow> bool" where
  "quietCluster W objs \<longleftrightarrow>
     (\<forall>kind key s r s'. w_obj W (OGet kind key) s = (r, s') \<longrightarrow> objs s' = objs s \<and>
        (case objs s (kind, key) of Some k \<Rightarrow> r = Inr k | None \<Rightarrow> \<exists>e. r = Inl e \<and> isNotFound e)) \<and>
     (\<forall>obj f s r s'. w_obj W (OCreateOrUpdate obj f) s = (r, s') \<longrightarrow> createdOrUpdated obj f (objs s) r (objs s')) \<and>
     (\<forall>obj s r s'. w_obj W (OStatusUpdate obj) s = (r, s') \<longrightarrow> written (objs s) obj r (objs s')) \<and>
     (\<forall>obj pre s r s'. w_del W obj pre s = (r, s') \<longrightarrow>
        objs s' = (if r = None then (objs s)(indexOf obj := None) else objs s)) \<and>
     (\<forall>s t s'. w_now W s = (t, s') \<longrightarrow> objs s' = objs s)"

lemma quietD:
  assumes "quietCluster W objs"
  shows "w_obj W (OGet kind key) s = (r, s') \<Longrightarrow> objs s' = objs s \<and>
      (case objs s (kind, key) of Some k \<Rightarrow> r = Inr k | None \<Rightarrow> \<exists>e. r = Inl e \<and> isNotFound e)"
    and "w_obj W (OCreateOrUpdate obj f) s = (r, s') \<Longrightarrow> createdOrUpdated obj f (objs s) r (objs s')"
    and "w_obj W (OStatusUpdate obj) s = (r, s') \<Longrightarrow> written (objs s) obj r (objs s')"
    and "w_del W obj pre s = (dr, s') \<Longrightarrow>
      objs s' = (if dr = None then (objs s)(indexOf obj := None) else objs s)"
    and "w_now W s = (t, s') \<Longrightarrow> objs s' = objs s"
  using assms unfolding quietCluster_def by (meson)+

definition wellTyped :: "stored \<Rightarrow> bool" where
  "wellTyped m \<longleftrightarrow> (\<forall>i k. m i = Some k \<longrightarrow> indexOf k = i)"

lemma wellTypedD: "wellTyped m \<Longrightarrow> m i = Some k \<Longrightarrow> indexOf k = i"
  unfolding wellTyped_def by blast

lemma wellTyped_update: "wellTyped m \<Longrightarrow> indexOf k = i \<Longrightarrow> wellTyped (m(i \<mapsto> k))"
  unfolding wellTyped_def by auto

lemma wellTyped_delete: "wellTyped m \<Longrightarrow> wellTyped (m(i := None))"
  unfolding wellTyped_def by (metis fun_upd_apply option.distinct(1))

lemma indexOf_current:
  assumes "wellTyped m"
  shows "indexOf (current m obj) = indexOf obj"
proof (cases "m (indexOf obj)")
  case (Some k)
  from wellTypedD [OF assms this] Some show ?thesis by (simp only: option.case)
qed simp

text \<open>
  What the owner-reference helpers look at, by their documentation: the key and the UID of the owner, the key and
  the owner references of the object.
\<close>

definition ownerRefsLocal :: "ext \<Rightarrow> bool" where
  "ownerRefsLocal x \<longleftrightarrow>
     (\<forall>ms ms' m m'. keyOfMS ms = keyOfMS ms' \<longrightarrow> meta_UID (ms_Meta ms) = meta_UID (ms_Meta ms') \<longrightarrow>
        meta_Name m = meta_Name m' \<longrightarrow> meta_Namespace m = meta_Namespace m' \<longrightarrow>
        meta_OwnerReferences m = meta_OwnerReferences m' \<longrightarrow>
        mapR meta_OwnerReferences (x_SetControllerReference x ms m) =
        mapR meta_OwnerReferences (x_SetControllerReference x ms' m')) \<and>
     (\<forall>m m' owner owner'. meta_OwnerReferences m = meta_OwnerReferences m' \<longrightarrow>
        meta_UID owner = meta_UID owner' \<longrightarrow> x_IsControlledBy x m owner = x_IsControlledBy x m' owner')"

section \<open>What the cluster maintains does not matter\<close>

lemma servedMeta_fields [simp]:
  "meta_Name (servedMeta n m) = meta_Name m" "meta_Namespace (servedMeta n m) = meta_Namespace m"
  "meta_Labels (servedMeta n m) = meta_Labels m" "meta_Annotations (servedMeta n m) = meta_Annotations m"
  "meta_OwnerReferences (servedMeta n m) = meta_OwnerReferences m"
  by (simp_all add: servedMeta_def)

lemma servedMeta_labels:
  "m\<lparr>meta_Labels := l\<rparr> = m \<Longrightarrow> (servedMeta n m)\<lparr>meta_Labels := l\<rparr> = servedMeta n m"
  by (cases m) (simp add: servedMeta_def)

lemma served_fields:
  "kindOf (served n k) = kindOf k" "keyOf (served n k) = keyOf k"
  "meta_OwnerReferences (metaOf (served n k)) = meta_OwnerReferences (metaOf k)"
  by (cases k; simp add: keyOf_def)+

lemma servedAs_fields:
  assumes "servedAs k k'"
  shows "kindOf k' = kindOf k" "keyOf k' = keyOf k"
    "meta_OwnerReferences (metaOf k') = meta_OwnerReferences (metaOf k)"
  using assms served_fields [of k' k] by (simp_all add: servedAs_def)

lemma servedAs_refl: "servedAs k k"
  by (cases k) (simp_all add: servedAs_def servedMeta_def)

lemma drifts_refl: "drifts m m"
  by (simp add: drifts_def option.rel_refl servedAs_refl)

lemma drifts_wellTyped:
  assumes "drifts m m'" "wellTyped m"
  shows "wellTyped m'"
  unfolding wellTyped_def
proof (intro allI impI)
  fix i k' assume "m' i = Some k'"
  with assms(1) obtain k where "m i = Some k" "servedAs k k'"
    unfolding drifts_def by (metis option_rel_Some2)
  with wellTypedD [OF assms(2)] servedAs_fields show "indexOf k' = i" by metis
qed

lemma ownerRefs_local:
  assumes "ownerRefsDocumented x" "ownerRefsLocal x"
  shows "keyOfMS ms = keyOfMS ms' \<Longrightarrow> meta_UID (ms_Meta ms) = meta_UID (ms_Meta ms') \<Longrightarrow>
      x_SetControllerReference x ms = x_SetControllerReference x ms'"
    and "x_SetControllerReference x ms m = Inr m \<Longrightarrow> x_SetControllerReference x ms (servedMeta n m) = Inr (servedMeta n m)"
    and "meta_OwnerReferences a = meta_OwnerReferences b \<Longrightarrow> meta_UID owner = meta_UID owner' \<Longrightarrow>
      x_IsControlledBy x a owner = x_IsControlledBy x b owner'"
proof -
  note refs = ownerRefsD(1) [OF assms(1)]
  have loc: "mapR meta_OwnerReferences (x_SetControllerReference x ms m) =
      mapR meta_OwnerReferences (x_SetControllerReference x ms' m')"
    if "keyOfMS ms = keyOfMS ms'" "meta_UID (ms_Meta ms) = meta_UID (ms_Meta ms')" "meta_Name m = meta_Name m'"
      "meta_Namespace m = meta_Namespace m'" "meta_OwnerReferences m = meta_OwnerReferences m'" for ms ms' m m'
    using assms(2) that unfolding ownerRefsLocal_def by blast
  have same: "x_SetControllerReference x ms m = x_SetControllerReference x ms' m"
    if "keyOfMS ms = keyOfMS ms'" "meta_UID (ms_Meta ms) = meta_UID (ms_Meta ms')" for m ms ms'
    using loc [OF that refl refl refl, of m] refs [of ms m] refs [of ms' m]
    by (cases "x_SetControllerReference x ms m"; cases "x_SetControllerReference x ms' m") (auto simp: mapR_def)
  then show "keyOfMS ms = keyOfMS ms' \<Longrightarrow> meta_UID (ms_Meta ms) = meta_UID (ms_Meta ms') \<Longrightarrow>
      x_SetControllerReference x ms = x_SetControllerReference x ms'" by blast
  show "x_SetControllerReference x ms (servedMeta n m) = Inr (servedMeta n m)" if "x_SetControllerReference x ms m = Inr m"
    using loc [OF refl refl, of "servedMeta n m" m ms] that refs [of ms "servedMeta n m"]
    by (cases "x_SetControllerReference x ms (servedMeta n m)") (auto simp: mapR_def)
  show "x_IsControlledBy x a owner = x_IsControlledBy x b owner'"
    if "meta_OwnerReferences a = meta_OwnerReferences b" "meta_UID owner = meta_UID owner'"
    using assms(2) that unfolding ownerRefsLocal_def by blast
qed

text \<open>The state a mutate function brings an object to: applying it again changes nothing, also after the cluster has
  changed the fields it maintains, and the object is controlled by the ModelService.\<close>

definition steady :: "ext \<Rightarrow> ModelService \<Rightarrow> kobject \<Rightarrow> (kobject \<Rightarrow> goerror + kobject) \<Rightarrow> bool" where
  "steady x ms obj f \<longleftrightarrow>
     (\<forall>k k'. indexOf k = indexOf obj \<longrightarrow> f k = Inr k' \<longrightarrow>
        indexOf k' = indexOf obj \<and> f k' = Inr k' \<and> x_IsControlledBy x (metaOf k') (ms_Meta ms)) \<and>
     (\<forall>k k'. indexOf k = indexOf obj \<longrightarrow> f k = Inr k \<longrightarrow> servedAs k k' \<longrightarrow> f k' = Inr k')"

text \<open>
  A managed object as it is stored. The additional law says that the assignments of its mutate function do not
  touch the fields the cluster maintains.
\<close>

locale stored_object = managed_object desired mutate meta setMeta
  for desired :: "ext \<Rightarrow> ModelService \<Rightarrow> 'o \<Rightarrow> 'o" and mutate meta setMeta +
  fixes kind :: objkind and get :: "kobject \<Rightarrow> 'o" and put :: "'o \<Rightarrow> kobject"
  assumes kind_put: "kindOf (put obj) = kind"
    and meta_put: "metaOf (put obj) = meta obj"
    and get_put: "get (put obj) = obj"
    and put_get: "kindOf k = kind \<Longrightarrow> put (get k) = k"
    and setMeta_meta: "setMeta (meta obj) obj = obj"
    and meta_served: "meta (get (served n (put obj))) = servedMeta (metaOf n) (meta obj)"
    and desired_served: "desired x ms obj = obj \<Longrightarrow>
      desired x ms (get (served n (put obj))) = get (served n (put obj))"
begin

lemma mutate_fixpoint:
  assumes "ownerRefsDocumented x"
  shows "mutate x ms obj = Inr obj \<longleftrightarrow>
    desired x ms obj = obj \<and> x_SetControllerReference x ms (meta obj) = Inr (meta obj)"
proof
  assume "mutate x ms obj = Inr obj"
  then obtain m where m: "x_SetControllerReference x ms (meta (desired x ms obj)) = Inr m"
    and obj: "obj = setMeta m (desired x ms obj)" by (rule mutate_InrE)
  have "meta_Labels m = labelsForModelService ms"
    using ownerRefs_fields(3) [OF assms m] by (simp add: meta_desired)
  then have "desired x ms (setMeta m (desired x ms obj)) = setMeta m (desired x ms obj)"
    by (simp add: desired_setMeta desired_desired meta_Labels_same)
  then have d: "desired x ms obj = obj" by (simp flip: obj)
  from obj have "meta obj = m" by (metis meta_setMeta)
  with d m show "desired x ms obj = obj \<and> x_SetControllerReference x ms (meta obj) = Inr (meta obj)" by simp
next
  assume "desired x ms obj = obj \<and> x_SetControllerReference x ms (meta obj) = Inr (meta obj)"
  then show "mutate x ms obj = Inr obj" by (simp add: mutate_eq mapR_def setMeta_meta)
qed

lemma steady_mutate:
  assumes "ownerRefsDocumented x" "ownerRefsLocal x" "kindOf obj = kind"
  shows "steady x ms obj (mutateOn get put (mutate x ms))"
  unfolding steady_def
proof (intro conjI allI impI)
  fix k k' assume k: "indexOf k = indexOf obj" and "mutateOn get put (mutate x ms) k = Inr k'"
  then obtain o' where o': "mutate x ms (get k) = Inr o'" and k': "k' = put o'"
    by (auto simp: mutateOn_def mapR_eq_Inr)
  have "metaOf k = meta (get k)" using k assms(3) put_get [of k] meta_put [of "get k"] by simp
  then have "keyOf k' = keyOf k" by (simp add: k' keyOf_def meta_put mutate_identity(1,2) [OF assms(1) o'])
  with k assms(3) show "indexOf k' = indexOf obj" by (simp add: k' kind_put)
  show "mutateOn get put (mutate x ms) k' = Inr k'"
    by (simp add: k' mutateOn_def get_put mutate_idempotent [OF assms(1) o'] mapR_def)
  show "x_IsControlledBy x (metaOf k') (ms_Meta ms)"
    by (simp add: k' meta_put mutate_controlled [OF assms(1) o'])
next
  fix k k' assume k: "indexOf k = indexOf obj" and fix_k: "mutateOn get put (mutate x ms) k = Inr k"
    and k': "servedAs k k'"
  then have put: "put (get k) = k" using assms(3) by (simp add: put_get)
  with fix_k have "mutate x ms (get k) = Inr (get k)"
    by (auto simp: mutateOn_def mapR_eq_Inr) (metis get_put)
  then have f: "desired x ms (get k) = get k" "x_SetControllerReference x ms (meta (get k)) = Inr (meta (get k))"
    by (simp_all add: mutate_fixpoint [OF assms(1)])
  have served_k: "served k' (put (get k)) = k'" using k' put by (simp add: servedAs_def)
  have "mutate x ms (get k') = Inr (get k')"
    using desired_served [OF f(1), of k'] meta_served [of k' "get k"] ownerRefs_local(2) [OF assms(1,2) f(2)]
    by (simp add: mutate_fixpoint [OF assms(1)] served_k)
  moreover have "put (get k') = k'" using servedAs_fields(1) [OF k'] k assms(3) by (simp add: put_get)
  ultimately show "mutateOn get put (mutate x ms) k' = Inr k'" by (simp add: mutateOn_def mapR_def)
qed

end

text \<open>The seven objects. A fixpoint of the assignments stays one: they set every field they mention.\<close>

interpretation dep_st: stored_object
  "\<lambda>x ms. desiredDeployment x ms (labelsForModelService ms)"
  "\<lambda>x ms. mutateDeployment x ms (labelsForModelService ms)"
  dep_Meta "\<lambda>m d. d\<lparr>dep_Meta := m\<rparr>" DeploymentKind asDeployment KDeployment
proof unfold_locales
  fix x ms obj n assume "desiredDeployment x ms (labelsForModelService ms) obj = obj"
  then show "desiredDeployment x ms (labelsForModelService ms) (asDeployment (served n (KDeployment obj))) =
      asDeployment (served n (KDeployment obj))"
    by (cases obj) (simp add: desiredDeployment_def Let_def servedMeta_labels)
qed (auto simp: asDeployment_def split: kobject.splits)

interpretation svc_st: stored_object
  "\<lambda>x ms. desiredService ms (labelsForModelService ms)"
  "\<lambda>x ms. mutateService x ms (labelsForModelService ms)"
  svc_Meta "\<lambda>m s. s\<lparr>svc_Meta := m\<rparr>" ServiceKind asService KService
proof unfold_locales
  fix x ms obj n assume "desiredService ms (labelsForModelService ms) obj = obj"
  then show "desiredService ms (labelsForModelService ms) (asService (served n (KService obj))) =
      asService (served n (KService obj))"
    by (cases obj) (simp add: desiredService_def Let_def servedMeta_labels)
qed (auto simp: asService_def split: kobject.splits)

interpretation sa_st: stored_object
  "\<lambda>x ms. desiredServiceAccount ms (labelsForModelService ms)"
  "\<lambda>x ms. mutateServiceAccount x ms (labelsForModelService ms)"
  sa_Meta "\<lambda>m a. a\<lparr>sa_Meta := m\<rparr>" ServiceAccountKind asServiceAccount KServiceAccount
proof unfold_locales
  fix x ms obj n assume "desiredServiceAccount ms (labelsForModelService ms) obj = obj"
  then show "desiredServiceAccount ms (labelsForModelService ms) (asServiceAccount (served n (KServiceAccount obj))) =
      asServiceAccount (served n (KServiceAccount obj))"
    by (cases obj) (simp add: desiredServiceAccount_def Let_def servedMeta_labels)
qed (auto simp: asServiceAccount_def split: kobject.splits)

interpretation pvc_st: stored_object
  "\<lambda>x ms. desiredPVC ms storageSize"
  "\<lambda>x ms. mutatePVC x ms storageSize"
  pvc_Meta "\<lambda>m p. p\<lparr>pvc_Meta := m\<rparr>" PersistentVolumeClaimKind asPVC KPersistentVolumeClaim for storageSize
proof unfold_locales
  fix x ms obj n assume "desiredPVC ms storageSize obj = obj"
  then show "desiredPVC ms storageSize (asPVC (served n (KPersistentVolumeClaim obj))) =
      asPVC (served n (KPersistentVolumeClaim obj))"
    by (cases obj) (simp add: desiredPVC_def Let_def servedMeta_labels)
qed (auto simp: asPVC_def split: kobject.splits)

interpretation pdb_st: stored_object
  "\<lambda>x ms. desiredPDB ms (labelsForModelService ms) maxUnavailable"
  "\<lambda>x ms. mutatePDB x ms (labelsForModelService ms) maxUnavailable"
  pdb_Meta "\<lambda>m p. p\<lparr>pdb_Meta := m\<rparr>" PodDisruptionBudgetKind asPDB KPodDisruptionBudget for maxUnavailable
proof unfold_locales
  fix x ms obj n assume "desiredPDB ms (labelsForModelService ms) maxUnavailable obj = obj"
  then show "desiredPDB ms (labelsForModelService ms) maxUnavailable (asPDB (served n (KPodDisruptionBudget obj))) =
      asPDB (served n (KPodDisruptionBudget obj))"
    by (cases obj) (simp add: desiredPDB_def Let_def servedMeta_labels)
qed (auto simp: asPDB_def split: kobject.splits)

interpretation nep_st: stored_object
  "\<lambda>x ms. desiredNetworkPolicy ms (labelsForModelService ms) configuration"
  "\<lambda>x ms. mutateNetworkPolicy x ms (labelsForModelService ms) configuration"
  nep_Meta "\<lambda>m n. n\<lparr>nep_Meta := m\<rparr>" NetworkPolicyKind asNetworkPolicy KNetworkPolicy for configuration
proof unfold_locales
  fix x ms obj n assume "desiredNetworkPolicy ms (labelsForModelService ms) configuration obj = obj"
  then show "desiredNetworkPolicy ms (labelsForModelService ms) configuration (asNetworkPolicy (served n (KNetworkPolicy obj))) =
      asNetworkPolicy (served n (KNetworkPolicy obj))"
    by (cases obj) (simp add: desiredNetworkPolicy_def Let_def servedMeta_labels)
qed (auto simp: asNetworkPolicy_def split: kobject.splits)

interpretation route_st: stored_object
  "\<lambda>x ms. desiredHTTPRoute ms (labelsForModelService ms) exposure"
  "\<lambda>x ms. mutateHTTPRoute x ms (labelsForModelService ms) exposure"
  hr_Meta "\<lambda>m r. r\<lparr>hr_Meta := m\<rparr>" HTTPRouteKind asHTTPRoute KHTTPRoute for exposure
proof unfold_locales
  fix x ms obj n assume "desiredHTTPRoute ms (labelsForModelService ms) exposure obj = obj"
  then show "desiredHTTPRoute ms (labelsForModelService ms) exposure (asHTTPRoute (served n (KHTTPRoute obj))) =
      asHTTPRoute (served n (KHTTPRoute obj))"
    by (cases obj) (simp add: desiredHTTPRoute_def Let_def servedMeta_labels)
qed (auto simp: asHTTPRoute_def split: kobject.splits)

section \<open>Settling\<close>

text \<open>An event that changes nothing: a read, or a \<^verbatim>\<open>CreateOrUpdate\<close> that finds the object as it wants it.\<close>

definition idle :: "stored \<Rightarrow> event \<Rightarrow> bool" where
  "idle m e \<longleftrightarrow>
     (case e of
        EObj (OGet kind key) r \<Rightarrow> True
      | EObj (OCreateOrUpdate obj f) r \<Rightarrow> (\<exists>k. m (indexOf obj) = Some k \<and> f k = Inr k \<and> r = Inr k)
      | ENow t \<Rightarrow> True
      | _ \<Rightarrow> False)"

text \<open>
  A piece of the reconciliation settles a part \<open>I\<close> of the cluster. When it succeeds it has changed nothing else,
  has left that part good, and has returned the value \<open>val\<close> of the cluster. In a cluster that is good already it
  succeeds and is idle. What is good depends on the part only, and not on the fields the cluster maintains.
\<close>

definition settles ::
    "'s world \<Rightarrow> ('s \<Rightarrow> stored) \<Rightarrow> index set \<Rightarrow> (stored \<Rightarrow> bool) \<Rightarrow> (stored \<Rightarrow> 'v) \<Rightarrow> (goerror + 'v) prog \<Rightarrow> bool" where
  "settles W objs I good val p \<longleftrightarrow>
     (\<forall>s tr v s'. wellTyped (objs s) \<longrightarrow> run W p s = (tr, Inr v, s') \<longrightarrow>
        (\<forall>i. i \<notin> I \<longrightarrow> objs s' i = objs s i) \<and> wellTyped (objs s') \<and> good (objs s') \<and> v = val (objs s')) \<and>
     (\<forall>s. wellTyped (objs s) \<longrightarrow> good (objs s) \<longrightarrow>
        (\<exists>tr s'. run W p s = (tr, Inr (val (objs s)), s') \<and> objs s' = objs s \<and> list_all (idle (objs s)) tr)) \<and>
     (\<forall>m m'. (\<forall>i\<in>I. m i = m' i) \<longrightarrow> val m = val m') \<and>
     (\<forall>m m'. (\<forall>i\<in>I. rel_option servedAs (m i) (m' i)) \<longrightarrow> wellTyped m \<longrightarrow> good m \<longrightarrow> good m')"

lemma settlesI:
  assumes "\<And>s tr v s'. wellTyped (objs s) \<Longrightarrow> run W p s = (tr, Inr v, s') \<Longrightarrow>
      (\<forall>i. i \<notin> I \<longrightarrow> objs s' i = objs s i) \<and> wellTyped (objs s') \<and> good (objs s') \<and> v = val (objs s')"
    and "\<And>s. wellTyped (objs s) \<Longrightarrow> good (objs s) \<Longrightarrow>
      \<exists>tr s'. run W p s = (tr, Inr (val (objs s)), s') \<and> objs s' = objs s \<and> list_all (idle (objs s)) tr"
    and "\<And>m m'. (\<forall>i\<in>I. m i = m' i) \<Longrightarrow> val m = val m'"
    and "\<And>m m'. (\<forall>i\<in>I. rel_option servedAs (m i) (m' i)) \<Longrightarrow> wellTyped m \<Longrightarrow> good m \<Longrightarrow> good m'"
  shows "settles W objs I good val p"
  using assms unfolding settles_def by blast

lemma settlesD:
  assumes "settles W objs I good val p" "wellTyped (objs s)" "run W p s = (tr, Inr v, s')"
  shows "i \<notin> I \<Longrightarrow> objs s' i = objs s i" "wellTyped (objs s')" "good (objs s')" "v = val (objs s')"
  using assms unfolding settles_def by blast+

lemma settles_idle:
  assumes "settles W objs I good val p" "wellTyped (objs s)" "good (objs s)"
  obtains tr s' where "run W p s = (tr, Inr (val (objs s)), s')" "objs s' = objs s" "list_all (idle (objs s)) tr"
  using assms unfolding settles_def by blast

lemma settles_drift:
  "settles W objs I good val p \<Longrightarrow> \<forall>i\<in>I. rel_option servedAs (m i) (m' i) \<Longrightarrow> wellTyped m \<Longrightarrow> good m \<Longrightarrow> good m'"
  unfolding settles_def by blast

lemma settles_local:
  assumes "settles W objs I good val p" "\<forall>i\<in>I. m i = m' i"
  shows "wellTyped m \<Longrightarrow> good m \<Longrightarrow> good m'" "val m = val m'"
  using settles_drift [OF assms(1), of m m'] assms by (simp_all add: option.rel_refl servedAs_refl settles_def)

lemma settles_bindE:
  assumes p: "settles W objs I good val p" and q: "\<And>v. settles W objs J good' (val' v) (q v)"
    and disj: "I \<inter> J = {}"
  shows "settles W objs (I \<union> J) (\<lambda>m. good m \<and> good' m) (\<lambda>m. val' (val m) m) (bindE p q)"
proof (rule settlesI)
  fix s tr w s2
  assume s: "wellTyped (objs s)" and "run W (bindE p q) s = (tr, Inr w, s2)"
  then obtain tr1 v s1 tr2 where r1: "run W p s = (tr1, Inr v, s1)" and r2: "run W (q v) s1 = (tr2, Inr w, s2)"
    by (auto simp: run_bindE Let_def split: prod.splits sum.splits)
  note d1 = settlesD [OF p s r1] and d2 = settlesD [OF q settlesD(2) [OF p s r1] r2]
  have same: "\<forall>i\<in>I. objs s1 i = objs s2 i" using disj d2(1) by (metis IntI empty_iff)
  with settles_local(1) [OF p same d1(2,3)] d1 d2
  show "(\<forall>i. i \<notin> I \<union> J \<longrightarrow> objs s2 i = objs s i) \<and> wellTyped (objs s2) \<and> (good (objs s2) \<and> good' (objs s2)) \<and>
      w = val' (val (objs s2)) (objs s2)"
    using settles_local(2) [OF p same] by simp
next
  fix s assume s: "wellTyped (objs s)" and g: "good (objs s) \<and> good' (objs s)"
  let ?v = "val (objs s)"
  from settles_idle [OF p s] g obtain tr1 s1 where
    r1: "run W p s = (tr1, Inr ?v, s1)" "objs s1 = objs s" "list_all (idle (objs s)) tr1" by blast
  from settles_idle [OF q, of s1 ?v] r1(2) s g obtain tr2 s2 where
    r2: "run W (q ?v) s1 = (tr2, Inr (val' ?v (objs s)), s2)" "objs s2 = objs s" "list_all (idle (objs s)) tr2" by auto
  from r1 r2 have "run W (bindE p q) s = (tr1 @ tr2, Inr (val' ?v (objs s)), s2)" by (simp add: run_bindE)
  with r1 r2 show "\<exists>tr s'. run W (bindE p q) s = (tr, Inr (val' ?v (objs s)), s') \<and> objs s' = objs s \<and>
      list_all (idle (objs s)) tr" by simp
next
  fix m m' :: stored assume same: "\<forall>i\<in>I \<union> J. m i = m' i"
  then show "val' (val m) m = val' (val m') m'"
    using settles_local(2) [OF p, of m m'] settles_local(2) [OF q, of m m' "val m"] by auto
next
  fix m m' assume "\<forall>i\<in>I \<union> J. rel_option servedAs (m i) (m' i)" "wellTyped m" "good m \<and> good' m"
  then show "good m' \<and> good' m'" using settles_drift [OF p, of m m'] settles_drift [OF q, of m m'] by auto
qed

lemma settles_Ret: "settles W objs {} (\<lambda>_. True) (\<lambda>_. v) (Ret (Inr v))"
  by (rule settlesI) auto

lemma settles_failing: "settles W objs I (\<lambda>_. False) val0 (Ret (Inl e))" if "\<And>m m'. val0 m = val0 m'"
  by (rule settlesI) (use that in auto)

section \<open>The pieces\<close>

lemma run_objCall: "run W (objCall c) s = ([EObj c (fst (w_obj W c s))], w_obj W c s)"
  by (simp add: objCall_def Let_def split: prod.split)

lemma run_applyThen:
  "run W (bindE (objCall c) (\<lambda>k. Ret (Inr (g k)))) s =
     ([EObj c (fst (w_obj W c s))], mapR g (fst (w_obj W c s)), snd (w_obj W c s))"
  by (simp add: run_bindE run_objCall mapR_def Let_def split: prod.split sum.split)

text \<open>The object is there, as it is wanted, and controlled.\<close>

definition present :: "ext \<Rightarrow> ModelService \<Rightarrow> index \<Rightarrow> (kobject \<Rightarrow> goerror + kobject) \<Rightarrow> stored \<Rightarrow> bool" where
  "present x ms i f m \<longleftrightarrow> (\<exists>k. m i = Some k \<and> f k = Inr k \<and> x_IsControlledBy x (metaOf k) (ms_Meta ms))"

definition absent :: "ext \<Rightarrow> ModelService \<Rightarrow> index \<Rightarrow> stored \<Rightarrow> bool" where
  "absent x ms i m \<longleftrightarrow> (\<forall>k. m i = Some k \<longrightarrow> \<not> x_IsControlledBy x (metaOf k) (ms_Meta ms))"

lemma createdOrUpdated_settled:
  assumes s: "wellTyped m" and f: "steady x ms obj f" and c: "createdOrUpdated obj f m (Inr k) m'"
    and x: "ownerRefsDocumented x" "ownerRefsLocal x"
  shows "m' = m(indexOf obj \<mapsto> k)" "indexOf k = indexOf obj" "f k = Inr k" "x_IsControlledBy x (metaOf k) (ms_Meta ms)"
proof -
  from c obtain k0 where k0: "f (current m obj) = Inr k0" by (auto simp: createdOrUpdated_def split: sum.splits)
  with f indexOf_current [OF s, of obj] have
    f0: "indexOf k0 = indexOf obj" "f k0 = Inr k0" "x_IsControlledBy x (metaOf k0) (ms_Meta ms)"
    unfolding steady_def by blast+
  have "servedAs k0 k \<and> m' = m(indexOf obj \<mapsto> k)"
  proof (cases "m (indexOf obj) = Some k0")
    case True
    with c k0 have "k = k0" "m' = m" by (simp_all add: createdOrUpdated_def)
    with True show ?thesis by (simp add: servedAs_refl fun_upd_idem)
  next
    case False
    with c k0 f0(1) show ?thesis by (simp add: createdOrUpdated_def written_def)
  qed
  then have k: "servedAs k0 k" and m': "m' = m(indexOf obj \<mapsto> k)" by blast+
  from m' show "m' = m(indexOf obj \<mapsto> k)" .
  from servedAs_fields(1,2) [OF k] f0(1) show "indexOf k = indexOf obj" by simp
  from f f0 k show "f k = Inr k" unfolding steady_def by blast
  from ownerRefs_local(3) [OF x servedAs_fields(3) [OF k] refl] f0(3)
  show "x_IsControlledBy x (metaOf k) (ms_Meta ms)" by simp
qed

lemma settles_apply:
  assumes quiet: "quietCluster W objs" and f: "steady x ms obj f" and x: "ownerRefsDocumented x" "ownerRefsLocal x"
  shows "settles W objs {indexOf obj} (present x ms (indexOf obj) f) (\<lambda>m. g (the (m (indexOf obj))))
    (bindE (objCall (OCreateOrUpdate obj f)) (\<lambda>k. Ret (Inr (g k))))"
proof (rule settlesI)
  fix s tr v s'
  assume s: "wellTyped (objs s)"
    and r: "run W (bindE (objCall (OCreateOrUpdate obj f)) (\<lambda>k. Ret (Inr (g k)))) s = (tr, Inr v, s')"
  then obtain k where k: "w_obj W (OCreateOrUpdate obj f) s = (Inr k, s')" "v = g k"
    by (auto simp: run_applyThen mapR_eq_Inr prod_eq_iff)
  note settled = createdOrUpdated_settled [OF s f quietD(2) [OF quiet k(1)] x]
  with k wellTyped_update [OF s settled(2)]
  show "(\<forall>i. i \<notin> {indexOf obj} \<longrightarrow> objs s' i = objs s i) \<and> wellTyped (objs s') \<and>
      present x ms (indexOf obj) f (objs s') \<and> v = g (the (objs s' (indexOf obj)))"
    by (simp add: present_def)
next
  fix s assume "present x ms (indexOf obj) f (objs s)"
  then obtain k where k: "objs s (indexOf obj) = Some k" "f k = Inr k" by (auto simp: present_def)
  obtain r s' where call: "w_obj W (OCreateOrUpdate obj f) s = (r, s')" by fastforce
  from quietD(2) [OF quiet this] k have "r = Inr k" "objs s' = objs s" by (simp_all add: createdOrUpdated_def)
  with k call show "\<exists>tr s'. run W (bindE (objCall (OCreateOrUpdate obj f)) (\<lambda>k. Ret (Inr (g k)))) s =
      (tr, Inr (g (the (objs s (indexOf obj)))), s') \<and> objs s' = objs s \<and> list_all (idle (objs s)) tr"
    by (simp add: run_applyThen idle_def)
next
  fix m m' :: stored
  assume "\<forall>i\<in>{indexOf obj}. rel_option servedAs (m i) (m' i)" and m: "wellTyped m" "present x ms (indexOf obj) f m"
  then obtain k k' where k: "m (indexOf obj) = Some k" "f k = Inr k" "x_IsControlledBy x (metaOf k) (ms_Meta ms)"
    and k': "m' (indexOf obj) = Some k'" "servedAs k k'" by (auto simp: present_def option_rel_Some1)
  from f k(2) k'(2) wellTypedD [OF m(1) k(1)] have "f k' = Inr k'" unfolding steady_def by blast
  moreover have "x_IsControlledBy x (metaOf k') (ms_Meta ms)"
    using ownerRefs_local(3) [OF x servedAs_fields(3) [OF k'(2)] refl] k(3) by simp
  ultimately show "present x ms (indexOf obj) f m'" using k'(1) by (auto simp: present_def)
qed simp

lemma run_deleteWhenControlled:
  assumes s: "wellTyped (objs s)" and quiet: "quietCluster W objs"
    and g: "w_obj W (OGet kind (keyOfMS ms)) s = (r, s1)"
  shows "objs s1 = objs s \<and> run W (deleteWhenControlled x ms kind) s =
      (case objs s (kind, keyOfMS ms) of
         Some k \<Rightarrow>
           if x_IsControlledBy x (metaOf k) (ms_Meta ms)
           then ([EObj (OGet kind (keyOfMS ms)) r, EDel k None (fst (w_del W k None s1))],
                 (case fst (w_del W k None s1) of None \<Rightarrow> Inr () | Some e \<Rightarrow> Inl e), snd (w_del W k None s1))
           else ([EObj (OGet kind (keyOfMS ms)) r], Inr (), s1)
       | None \<Rightarrow> ([EObj (OGet kind (keyOfMS ms)) r], Inr (), s1))"
proof (cases "objs s (kind, keyOfMS ms)")
  case None
  with quietD(1) [OF quiet g] obtain e where "r = Inl e" "isNotFound e" "objs s1 = objs s" by auto
  with None g show ?thesis by (subst deleteWhenControlled_def, subst run_bind) (simp add: run_objCall)
next
  case (Some k)
  with quietD(1) [OF quiet g] have "r = Inr k" "objs s1 = objs s" by auto
  moreover from wellTypedD [OF s Some] have "typedAs kind k = k" by simp
  ultimately show ?thesis using Some g
    by (subst deleteWhenControlled_def, subst run_bind) (simp add: run_objCall delCall_def Let_def split: prod.split)
qed

lemma settles_delete:
  assumes quiet: "quietCluster W objs" and x: "ownerRefsDocumented x" "ownerRefsLocal x"
  shows "settles W objs {(kind, keyOfMS ms)} (absent x ms (kind, keyOfMS ms)) (\<lambda>_. ()) (deleteWhenControlled x ms kind)"
proof (rule settlesI)
  fix s tr s' and v :: unit
  assume s: "wellTyped (objs s)" and r: "run W (deleteWhenControlled x ms kind) s = (tr, Inr v, s')"
  let ?i = "(kind, keyOfMS ms)"
  obtain res s1 where g: "w_obj W (OGet kind (keyOfMS ms)) s = (res, s1)" by fastforce
  note delete = run_deleteWhenControlled [OF s quiet g, of x]
  have "objs s' = (objs s)(?i := None) \<or> absent x ms ?i (objs s) \<and> objs s' = objs s"
  proof (cases "\<exists>k. objs s ?i = Some k \<and> x_IsControlledBy x (metaOf k) (ms_Meta ms)")
    case True
    then obtain k where k: "objs s ?i = Some k" "x_IsControlledBy x (metaOf k) (ms_Meta ms)" by blast
    from wellTypedD [OF s k(1)] have "indexOf k = ?i" .
    with delete r k quietD(4) [OF quiet, of k None s1 "fst (w_del W k None s1)" "snd (w_del W k None s1)"]
    show ?thesis by (auto split: option.splits)
  next
    case False
    with delete r show ?thesis by (auto simp: absent_def split: option.splits)
  qed
  with s wellTyped_delete [OF s, of ?i] show "(\<forall>i. i \<notin> {?i} \<longrightarrow> objs s' i = objs s i) \<and> wellTyped (objs s') \<and>
      absent x ms ?i (objs s') \<and> v = ()" by (auto simp: absent_def)
next
  fix s assume s: "wellTyped (objs s)" and a: "absent x ms (kind, keyOfMS ms) (objs s)"
  obtain res s1 where g: "w_obj W (OGet kind (keyOfMS ms)) s = (res, s1)" by fastforce
  from run_deleteWhenControlled [OF s quiet g, of x] a
  show "\<exists>tr s'. run W (deleteWhenControlled x ms kind) s = (tr, Inr (), s') \<and> objs s' = objs s \<and>
      list_all (idle (objs s)) tr"
    by (auto simp: absent_def idle_def split: option.splits)
next
  fix m m' :: stored
  assume "\<forall>i\<in>{(kind, keyOfMS ms)}. rel_option servedAs (m i) (m' i)" "absent x ms (kind, keyOfMS ms) m"
  then show "absent x ms (kind, keyOfMS ms) m'"
    using ownerRefs_local(3) [OF x servedAs_fields(3) refl] by (auto simp: absent_def option_rel_Some2)
qed simp

section \<open>The seven objects\<close>

lemma settles_createOrUpdate:
  assumes "quietCluster W objs" "steady x ms obj f" "ownerRefsDocumented x" "ownerRefsLocal x"
  shows "settles W objs {indexOf obj} (present x ms (indexOf obj) f) (\<lambda>_. ()) (createOrUpdate obj f)"
  using settles_apply [OF assms, where g = "\<lambda>_. ()"] by (simp add: createOrUpdate_def)

lemma bindE_assoc: "bindE (bindE p f) g = bindE p (\<lambda>v. bindE (f v) g)"
  by (auto simp: bindE_def intro!: arg_cong [where f = "bind p"] split: sum.split)

text \<open>What \<^verbatim>\<open>Reconcile\<close> does before it reports the status.\<close>

definition prepare :: "ext \<Rightarrow> ModelService \<Rightarrow> (goerror + Deployment) prog" where
  "prepare x ms =
     (let lbls = labelsForModelService ms in
      bindE (reconcileServiceAccount x ms lbls) (\<lambda>_.
      bindE (reconcileDeployment x ms lbls) (\<lambda>deployment.
      bindE (reconcileService x ms lbls) (\<lambda>_.
      bindE (reconcilePersistentVolumeClaim x ms) (\<lambda>_.
      bindE (reconcilePodDisruptionBudget x ms lbls) (\<lambda>_.
      bindE (reconcileNetworkPolicy x ms lbls) (\<lambda>_.
      bindE (reconcileHTTPRoute x ms lbls) (\<lambda>_. Ret (Inr deployment)))))))))"

lemma backend_prepare: "reconcileDeploymentBackend x ms = bindE (prepare x ms) (updateModelServiceStatus ms)"
  by (simp add: reconcileDeploymentBackend_def prepare_def Let_def bindE_assoc)

text \<open>An object of the backend is settled: there and controlled when it is wanted, not controlled otherwise.\<close>

definition kindSettled :: "ext \<Rightarrow> ModelService \<Rightarrow> stored \<Rightarrow> objkind \<Rightarrow> bool" where
  "kindSettled x ms m kind \<longleftrightarrow>
     (if kind \<in> set (wantedKinds ms)
      then \<exists>k. m (kind, keyOfMS ms) = Some k \<and> x_IsControlledBy x (metaOf k) (ms_Meta ms)
      else absent x ms (kind, keyOfMS ms) m)"

text \<open>A piece that settles the object of one kind.\<close>

definition settlesKind :: "'s world \<Rightarrow> ('s \<Rightarrow> stored) \<Rightarrow> ext \<Rightarrow> ModelService \<Rightarrow> objkind \<Rightarrow> (stored \<Rightarrow> bool) \<Rightarrow>
    (stored \<Rightarrow> 'v) \<Rightarrow> (goerror + 'v) prog \<Rightarrow> bool" where
  "settlesKind W objs x ms kind good val p \<longleftrightarrow>
     settles W objs {(kind, keyOfMS ms)} good val p \<and> (\<forall>m. good m \<longrightarrow> kindSettled x ms m kind)"

abbreviation newObject :: "ModelService \<Rightarrow> kobject \<Rightarrow> objkind \<Rightarrow> bool" where
  "newObject ms obj kind \<equiv> kindOf obj = kind \<and> keyOf obj = keyOfMS ms"

lemma settlesKind_apply:
  assumes "quietCluster W objs" "ownerRefsDocumented x" "ownerRefsLocal x" "steady x ms obj f"
    and "newObject ms obj kind" "kind \<in> set (wantedKinds ms)"
  shows "\<exists>good. settlesKind W objs x ms kind good (\<lambda>_. ()) (createOrUpdate obj f)"
  using settles_createOrUpdate [OF assms(1,4,2,3)] assms(5,6)
  by (intro exI [of _ "present x ms (indexOf obj) f"]) (auto simp: settlesKind_def kindSettled_def present_def)

lemma settlesKind_delete:
  assumes "quietCluster W objs" "ownerRefsDocumented x" "ownerRefsLocal x" "kind \<notin> set (wantedKinds ms)"
  shows "\<exists>good. settlesKind W objs x ms kind good (\<lambda>_. ()) (deleteWhenControlled x ms kind)"
  using settles_delete [OF assms(1-3)] assms(4)
  by (intro exI [of _ "absent x ms (kind, keyOfMS ms)"]) (simp add: settlesKind_def kindSettled_def)

lemma settlesKind_failing: "\<exists>good. settlesKind W objs x ms kind good (\<lambda>_. ()) (Ret (Inl e))"
  by (intro exI [of _ "\<lambda>_. False"]) (simp add: settlesKind_def settles_failing)

lemma wanted_iff:
  "ServiceAccountKind \<in> set (wantedKinds ms)" "DeploymentKind \<in> set (wantedKinds ms)" "ServiceKind \<in> set (wantedKinds ms)"
  "PersistentVolumeClaimKind \<in> set (wantedKinds ms) \<longleftrightarrow> storageEnabled ms"
  "PodDisruptionBudgetKind \<in> set (wantedKinds ms) \<longleftrightarrow> rp_Enabled (podDisruptionBudgetForModelService ms)"
  "NetworkPolicyKind \<in> set (wantedKinds ms) \<longleftrightarrow> rn_Enabled (networkPolicyForModelService ms)"
  "HTTPRouteKind \<in> set (wantedKinds ms) \<longleftrightarrow> re_Enabled (exposureForModelService ms)"
  by (auto simp: wantedKinds_def)

lemma keyOf_new: "metaOf k = metaFor ms \<Longrightarrow> keyOf k = keyOfMS ms"
  by (simp add: keyOf_def keyOfMS_def)

lemmas settlesKind_rules = settlesKind_apply settlesKind_delete settlesKind_failing

lemma pieces:
  assumes q: "quietCluster W objs" and x: "ownerRefsDocumented x" "ownerRefsLocal x"
  shows "\<exists>good. settlesKind W objs x ms ServiceAccountKind good (\<lambda>_. ()) (reconcileServiceAccount x ms (labelsForModelService ms))"
    and "\<exists>good. settlesKind W objs x ms ServiceKind good (\<lambda>_. ()) (reconcileService x ms (labelsForModelService ms))"
    and "\<exists>good. settlesKind W objs x ms PersistentVolumeClaimKind good (\<lambda>_. ()) (reconcilePersistentVolumeClaim x ms)"
    and "\<exists>good. settlesKind W objs x ms PodDisruptionBudgetKind good (\<lambda>_. ()) (reconcilePodDisruptionBudget x ms (labelsForModelService ms))"
    and "\<exists>good. settlesKind W objs x ms NetworkPolicyKind good (\<lambda>_. ()) (reconcileNetworkPolicy x ms (labelsForModelService ms))"
    and "\<exists>good. settlesKind W objs x ms HTTPRouteKind good (\<lambda>_. ()) (reconcileHTTPRoute x ms (labelsForModelService ms))"
  unfolding reconcileServiceAccount_def reconcileService_def reconcilePersistentVolumeClaim_def
    reconcilePodDisruptionBudget_def reconcileNetworkPolicy_def reconcileHTTPRoute_def Let_def
  by (auto intro!: settlesKind_apply [OF q x] settlesKind_delete [OF q x] settlesKind_failing
      sa_st.steady_mutate svc_st.steady_mutate pvc_st.steady_mutate pdb_st.steady_mutate nep_st.steady_mutate
      route_st.steady_mutate x keyOf_new simp: wanted_iff storageEnabled_def split: option.split sum.split)

lemma deployment_piece:
  assumes q: "quietCluster W objs" and x: "ownerRefsDocumented x" "ownerRefsLocal x"
  shows "\<exists>good. settlesKind W objs x ms DeploymentKind good (\<lambda>m. asDeployment (the (m (DeploymentKind, keyOfMS ms))))
    (reconcileDeployment x ms (labelsForModelService ms))"
proof -
  let ?obj = "KDeployment (zeroDeployment\<lparr>dep_Meta := metaFor ms\<rparr>)"
    and ?f = "mutateOn asDeployment KDeployment (mutateDeployment x ms (labelsForModelService ms))"
  have key: "keyOf ?obj = keyOfMS ms" by (simp add: keyOf_new)
  have "settles W objs {indexOf ?obj} (present x ms (indexOf ?obj) ?f) (\<lambda>m. asDeployment (the (m (indexOf ?obj))))
      (reconcileDeployment x ms (labelsForModelService ms))"
    unfolding reconcileDeployment_def by (intro settles_apply q x dep_st.steady_mutate) simp
  then show ?thesis
    by (intro exI [of _ "present x ms (indexOf ?obj) ?f"])
       (auto simp: settlesKind_def kindSettled_def present_def key wanted_iff)
qed

abbreviation ownedKinds :: "objkind set" where
  "ownedKinds \<equiv> {ServiceAccountKind, DeploymentKind, ServiceKind, PersistentVolumeClaimKind,
     PodDisruptionBudgetKind, NetworkPolicyKind, HTTPRouteKind}"

lemma settlesD_kind:
  "settlesKind W objs x ms kind good val p \<Longrightarrow> settles W objs {(kind, keyOfMS ms)} good val p"
  "settlesKind W objs x ms kind good val p \<Longrightarrow> good m \<Longrightarrow> kindSettled x ms m kind"
  by (simp_all add: settlesKind_def)

lemma prepare_settles:
  assumes "quietCluster W objs" "ownerRefsDocumented x" "ownerRefsLocal x"
  obtains good where "settles W objs (ownedKinds \<times> {keyOfMS ms}) good
      (\<lambda>m. asDeployment (the (m (DeploymentKind, keyOfMS ms)))) (prepare x ms)"
    and "\<And>m kind. good m \<Longrightarrow> kind \<in> ownedKinds \<Longrightarrow> kindSettled x ms m kind"
proof -
  from pieces [OF assms, of ms] deployment_piece [OF assms, of ms] obtain g1 g2 g3 g4 g5 g6 g7 where
    g: "settlesKind W objs x ms ServiceAccountKind g1 (\<lambda>_. ()) (reconcileServiceAccount x ms (labelsForModelService ms))"
      "settlesKind W objs x ms ServiceKind g3 (\<lambda>_. ()) (reconcileService x ms (labelsForModelService ms))"
      "settlesKind W objs x ms PersistentVolumeClaimKind g4 (\<lambda>_. ()) (reconcilePersistentVolumeClaim x ms)"
      "settlesKind W objs x ms PodDisruptionBudgetKind g5 (\<lambda>_. ()) (reconcilePodDisruptionBudget x ms (labelsForModelService ms))"
      "settlesKind W objs x ms NetworkPolicyKind g6 (\<lambda>_. ()) (reconcileNetworkPolicy x ms (labelsForModelService ms))"
      "settlesKind W objs x ms HTTPRouteKind g7 (\<lambda>_. ()) (reconcileHTTPRoute x ms (labelsForModelService ms))"
      "settlesKind W objs x ms DeploymentKind g2 (\<lambda>m. asDeployment (the (m (DeploymentKind, keyOfMS ms))))
        (reconcileDeployment x ms (labelsForModelService ms))"
    by (elim exE) blast
  let ?good = "\<lambda>m. g1 m \<and> g2 m \<and> g3 m \<and> g4 m \<and> g5 m \<and> g6 m \<and> g7 m \<and> True"
  have chain: "settles W objs ({(ServiceAccountKind, keyOfMS ms)} \<union> ({(DeploymentKind, keyOfMS ms)} \<union>
      ({(ServiceKind, keyOfMS ms)} \<union> ({(PersistentVolumeClaimKind, keyOfMS ms)} \<union> ({(PodDisruptionBudgetKind, keyOfMS ms)} \<union>
      ({(NetworkPolicyKind, keyOfMS ms)} \<union> ({(HTTPRouteKind, keyOfMS ms)} \<union> {})))))))
      ?good (\<lambda>m. asDeployment (the (m (DeploymentKind, keyOfMS ms)))) (prepare x ms)"
    unfolding prepare_def Let_def
    by (rule settles_bindE [OF g(1) [THEN settlesD_kind(1)]], rule settles_bindE [OF g(7) [THEN settlesD_kind(1)]],
        rule settles_bindE [OF g(2) [THEN settlesD_kind(1)]], rule settles_bindE [OF g(3) [THEN settlesD_kind(1)]],
        rule settles_bindE [OF g(4) [THEN settlesD_kind(1)]], rule settles_bindE [OF g(5) [THEN settlesD_kind(1)]],
        rule settles_bindE [OF g(6) [THEN settlesD_kind(1)]], rule settles_Ret) simp_all
  show thesis
  proof (rule that)
    show "settles W objs (ownedKinds \<times> {keyOfMS ms}) ?good
        (\<lambda>m. asDeployment (the (m (DeploymentKind, keyOfMS ms)))) (prepare x ms)"
      by (rule chain [THEN back_subst [of "\<lambda>I. settles W objs I ?good _ _"]]) auto
    show "kindSettled x ms m kind" if "?good m" "kind \<in> ownedKinds" for m kind
      using that g [THEN settlesD_kind(2)] by blast
  qed
qed

section \<open>The next run sees the same ModelService\<close>

text \<open>What the backend looks at in a ModelService: its specification, its key and its UID.\<close>

definition sameModel :: "ModelService \<Rightarrow> ModelService \<Rightarrow> bool" where
  "sameModel ms ms' \<longleftrightarrow> ms_Spec ms' = ms_Spec ms \<and> ms_Name ms' = ms_Name ms \<and> ms_Namespace ms' = ms_Namespace ms \<and>
     meta_UID (ms_Meta ms') = meta_UID (ms_Meta ms)"

lemma sameModel_resolved:
  assumes "sameModel ms ms'"
  shows "labelsForModelService ms' = labelsForModelService ms" "backendForModelService ms' = backendForModelService ms"
    "podSpecForModelService ms' = podSpecForModelService ms" "rolloutForModelService ms' = rolloutForModelService ms"
    "resolveAutomountServiceAccountToken ms' = resolveAutomountServiceAccountToken ms"
    "podDisruptionBudgetForModelService ms' = podDisruptionBudgetForModelService ms"
    "networkPolicyForModelService ms' = networkPolicyForModelService ms"
    "exposureForModelService ms' = exposureForModelService ms" "keyOfMS ms' = keyOfMS ms"
    "wantedKinds ms' = wantedKinds ms"
proof -
  from assms have ms: "ms_Spec ms' = ms_Spec ms" "ms_Name ms' = ms_Name ms" "ms_Namespace ms' = ms_Namespace ms"
    by (simp_all add: sameModel_def)
  show l: "labelsForModelService ms' = labelsForModelService ms" by (simp add: labelsForModelService_def ms)
  show "backendForModelService ms' = backendForModelService ms" by (simp add: backendForModelService_def ms)
  show r: "rolloutForModelService ms' = rolloutForModelService ms" by (simp add: rolloutForModelService_def ms)
  have h: "healthForModelService ms' = healthForModelService ms" by (simp add: healthForModelService_def ms)
  have s: "securityForModelService ms' = securityForModelService ms" by (simp add: securityForModelService_def ms)
  show a: "resolveAutomountServiceAccountToken ms' = resolveAutomountServiceAccountToken ms"
    by (simp add: resolveAutomountServiceAccountToken_def s ms)
  have c: "containerForModelService ms' = containerForModelService ms" by (simp add: containerForModelService_def r h s ms)
  show "podSpecForModelService ms' = podSpecForModelService ms" unfolding podSpecForModelService_def r s a ms c ..
  show p: "podDisruptionBudgetForModelService ms' = podDisruptionBudgetForModelService ms"
    by (simp add: podDisruptionBudgetForModelService_def ms)
  show n: "networkPolicyForModelService ms' = networkPolicyForModelService ms"
    by (simp add: networkPolicyForModelService_def ms)
  show e: "exposureForModelService ms' = exposureForModelService ms" by (simp add: exposureForModelService_def ms)
  show "keyOfMS ms' = keyOfMS ms" by (simp add: keyOfMS_def ms)
  show "wantedKinds ms' = wantedKinds ms" by (simp add: wantedKinds_def storageEnabled_def p n e ms)
qed

lemma sameModel_prepare:
  assumes "sameModel ms ms'" "ownerRefsDocumented x" "ownerRefsLocal x"
  shows "prepare x ms' = prepare x ms"
proof -
  note eq = sameModel_resolved [OF assms(1)]
  from assms(1) have ms: "ms_Spec ms' = ms_Spec ms" "ms_Name ms' = ms_Name ms" "ms_Namespace ms' = ms_Namespace ms"
    by (simp_all add: sameModel_def)
  have own: "x_SetControllerReference x ms' = x_SetControllerReference x ms"
    using assms(1) ownerRefs_local(1) [OF assms(2,3), of ms' ms] eq(9) by (simp add: sameModel_def)
  have ctrl: "x_IsControlledBy x m (ms_Meta ms') = x_IsControlledBy x m (ms_Meta ms)" for m
    by (rule ownerRefs_local(3) [OF assms(2,3) refl]) (use assms(1) in \<open>simp add: sameModel_def\<close>)
  have del: "deleteWhenControlled x ms' kind = deleteWhenControlled x ms kind" for kind
    unfolding deleteWhenControlled_def eq(9) ctrl ..
  have mut: "mutateServiceAccount x ms' lbls = mutateServiceAccount x ms lbls"
    "mutateDeployment x ms' lbls = mutateDeployment x ms lbls" "mutateService x ms' lbls = mutateService x ms lbls"
    "mutatePVC x ms' size = mutatePVC x ms size" "mutatePDB x ms' lbls mu = mutatePDB x ms lbls mu"
    "mutateNetworkPolicy x ms' lbls c = mutateNetworkPolicy x ms lbls c"
    "mutateHTTPRoute x ms' lbls ex = mutateHTTPRoute x ms lbls ex" for lbls size mu c ex
    by (rule ext, simp add: mutateServiceAccount_def desiredServiceAccount_def mutateDeployment_def
        desiredDeployment_def mutateService_def desiredService_def mutatePVC_def desiredPVC_def mutatePDB_def
        desiredPDB_def mutateNetworkPolicy_def desiredNetworkPolicy_def networkPolicyIngressRules_def
        mutateHTTPRoute_def desiredHTTPRoute_def Let_def own eq ms)+
  show ?thesis
    unfolding prepare_def reconcileServiceAccount_def reconcileDeployment_def reconcileService_def
      reconcilePersistentVolumeClaim_def reconcilePodDisruptionBudget_def reconcileNetworkPolicy_def
      reconcileHTTPRoute_def mut del eq ms ..
qed

text \<open>A status that has been derived from a Deployment is the one derived again, at any time.\<close>

lemma status_current:
  assumes "sameModel ms ms'" "ms_Generation ms' = ms_Generation ms"
    and "ms_Status ms' = ms_Status (withDeploymentStatus now d ms)"
  shows "ms_Status (withDeploymentStatus later d ms') = ms_Status ms'"
  by (rule status_eqI)
     (use assms in \<open>simp_all add: withDeploymentStatus_def serviceEndpoint_def putCondition_again
       sameConditionState_def sameModel_def\<close>)

section \<open>Two runs\<close>

lemma run_Reconcile:
  assumes "quietCluster W objs" "objs s (ModelServiceKind, req) = Some (KModelService ms)"
    and "backendForModelService ms \<noteq> ''KServe''"
  obtains s0 where "objs s0 = objs s" and "run W (Reconcile x req) s =
    (let (tr, r, s') = run W (reconcileDeploymentBackend x ms) s0
     in (EObj (OGet ModelServiceKind req) (Inr (KModelService ms)) # tr, r, s'))"
proof -
  obtain r s0 where g: "w_obj W (OGet ModelServiceKind req) s = (r, s0)" by fastforce
  with quietD(1) [OF assms(1) g] assms(2) have "r = Inr (KModelService ms)" "objs s0 = objs s" by auto
  with g assms(3) show thesis
    by (intro that [of s0])
       (simp_all add: Reconcile_def run_bind run_objCall reconcileModelService_def go_const split: prod.split)
qed

lemma run_status:
  assumes "quietCluster W objs"
  obtains (current) now s' where "run W (updateModelServiceStatus ms d) s = ([ENow now], Inr (), s')"
      "objs s' = objs s" "ms_Status (withDeploymentStatus now d ms) = ms_Status ms"
  | (changed) now res s' where "run W (updateModelServiceStatus ms d) s =
        ([ENow now, EObj (OStatusUpdate (KModelService (withDeploymentStatus now d ms))) res], mapR (\<lambda>_. ()) res, s')"
      "written (objs s) (KModelService (withDeploymentStatus now d ms)) res (objs s')"
      "ms_Status (withDeploymentStatus now d ms) \<noteq> ms_Status ms"
proof -
  obtain now s1 where now: "w_now W s = (now, s1)" by fastforce
  let ?ms = "withDeploymentStatus now d ms"
  obtain res s' where w: "w_obj W (OStatusUpdate (KModelService ?ms)) s1 = (res, s')" by fastforce
  note quiet = quietD(5) [OF assms now] quietD(3) [OF assms w]
  show thesis
  proof (cases "ms_Status ms = ms_Status ?ms")
    case True
    with now quiet(1) show ?thesis
      by (intro current [of now s1]) (simp_all add: updateModelServiceStatus_def writeStatusIfChanged_def)
  next
    case False
    with now w quiet show ?thesis
      by (intro changed [of now res s'])
         (simp_all add: updateModelServiceStatus_def writeStatusIfChanged_def run_applyThen)
  qed
qed

abbreviation deploymentIn :: "ModelService \<Rightarrow> stored \<Rightarrow> Deployment" where
  "deploymentIn ms m \<equiv> asDeployment (the (m (DeploymentKind, keyOfMS ms)))"

text \<open>The stored ModelService is the one given, with the status derived from a Deployment.\<close>

definition reported :: "ModelService \<Rightarrow> Deployment \<Rightarrow> stored \<Rightarrow> bool" where
  "reported ms d m \<longleftrightarrow> (\<exists>ms' now. m (ModelServiceKind, keyOfMS ms) = Some (KModelService ms') \<and> sameModel ms ms' \<and>
     ms_Generation ms' = ms_Generation ms \<and> ms_Status ms' = ms_Status (withDeploymentStatus now d ms))"

lemma sameModel_status:
  "sameModel ms (withDeploymentStatus now d ms)" "ms_Generation (withDeploymentStatus now d ms) = ms_Generation ms"
  by (simp_all add: withDeploymentStatus_def sameModel_def)

lemma sameModel_trans: "sameModel a b \<Longrightarrow> sameModel b c \<Longrightarrow> sameModel a c"
  by (simp add: sameModel_def)

lemma servedAs_ModelService:
  assumes "servedAs (KModelService ms) k"
  obtains ms' where "k = KModelService ms'" "sameModel ms ms'" "ms_Generation ms' = ms_Generation ms"
    "ms_Status ms' = ms_Status ms"
  using assms that by (auto simp: servedAs_def sameModel_def)

lemma first_status:
  assumes quiet: "quietCluster W objs" and ms: "wellTyped (objs s)" "objs s (ModelServiceKind, keyOfMS ms) = Some (KModelService ms)"
    and r: "run W (updateModelServiceStatus ms d) s = (tr, Inr (), s')"
  shows "reported ms d (objs s') \<and> wellTyped (objs s') \<and> (\<forall>i. i \<noteq> (ModelServiceKind, keyOfMS ms) \<longrightarrow> objs s' i = objs s i)"
proof (cases rule: run_status [OF quiet, of ms d s])
  case (1 now s1)
  with r ms show ?thesis by (auto simp: reported_def sameModel_def intro!: exI [of _ now])
next
  case (2 now res s1)
  let ?ms = "withDeploymentStatus now d ms"
  from 2(1) r have res: "mapR (\<lambda>_. ()) res = Inr ()" "s1 = s'" by simp_all
  then obtain k where "res = Inr k" by (auto simp: mapR_eq_Inr)
  with 2(2) res(2) have k: "servedAs (KModelService ?ms) k" "objs s' = (objs s)(indexOf (KModelService ?ms) \<mapsto> k)"
    by (simp_all add: written_def)
  have i: "indexOf (KModelService ?ms) = (ModelServiceKind, keyOfMS ms)"
    using sameModel_status(1) [of ms now d] by (simp add: keyOf_def keyOfMS_def sameModel_def)
  from servedAs_ModelService [OF k(1)] obtain ms' where ms': "k = KModelService ms'" "sameModel ?ms ms'"
    "ms_Generation ms' = ms_Generation ?ms" "ms_Status ms' = ms_Status ?ms" .
  have "sameModel ms ms'" "ms_Generation ms' = ms_Generation ms"
    using sameModel_trans [OF sameModel_status(1) ms'(2)] ms'(3) sameModel_status(2) by simp_all
  moreover have "indexOf k = (ModelServiceKind, keyOfMS ms)" using servedAs_fields(1,2) [OF k(1)] i by simp
  note wellTyped_update [OF ms(1) this]
  moreover have "objs s' = (objs s)((ModelServiceKind, keyOfMS ms) \<mapsto> k)" using k(2) unfolding i .
  ultimately show ?thesis using ms'(1,4) by (auto simp: reported_def)
qed

text \<open>One successful run settles the cluster.\<close>

lemma first_run:
  assumes quiet: "quietCluster W objs" and p: "settles W objs (ownedKinds \<times> {keyOfMS ms}) good (deploymentIn ms) (prepare x ms)"
    and ms: "wellTyped (objs s)" "objs s (ModelServiceKind, keyOfMS ms) = Some (KModelService ms)"
    and b: "backendForModelService ms \<noteq> ''KServe''" and r: "run W (Reconcile x (keyOfMS ms)) s = (tr, Inr (), s')"
  shows "wellTyped (objs s')" "good (objs s')" "reported ms (deploymentIn ms (objs s')) (objs s')"
proof -
  from run_Reconcile [OF quiet ms(2) b, of x] obtain s0 where s0: "objs s0 = objs s"
    and "run W (Reconcile x (keyOfMS ms)) s = (let (tr, r, s') = run W (reconcileDeploymentBackend x ms) s0
      in (EObj (OGet ModelServiceKind (keyOfMS ms)) (Inr (KModelService ms)) # tr, r, s'))" .
  with r obtain tr1 where "run W (reconcileDeploymentBackend x ms) s0 = (tr1, Inr (), s')"
    by (auto split: prod.splits)
  then obtain tr2 d s1 tr3 where r1: "run W (prepare x ms) s0 = (tr2, Inr d, s1)"
    and r2: "run W (updateModelServiceStatus ms d) s1 = (tr3, Inr (), s')"
    by (auto simp: backend_prepare run_bindE Let_def split: prod.splits sum.splits)
  from s0 ms(1) have "wellTyped (objs s0)" by simp
  note d1 = settlesD [OF p this r1]
  have "objs s1 (ModelServiceKind, keyOfMS ms) = Some (KModelService ms)" using d1(1) s0 ms(2) by simp
  note d2 = first_status [OF quiet d1(2) this r2]
  then have same: "\<forall>i\<in>ownedKinds \<times> {keyOfMS ms}. objs s1 i = objs s' i" by (metis SigmaE Pair_inject insertE objkind.distinct singletonD)
  note loc = settles_local [OF p same]
  from d2 show "wellTyped (objs s')" by blast
  from loc(1) [OF d1(2,3)] show "good (objs s')" .
  from d2 d1(4) loc(2) show "reported ms (deploymentIn ms (objs s')) (objs s')" by simp
qed

text \<open>A run in a settled cluster.\<close>

lemma later_run:
  assumes quiet: "quietCluster W objs" and x: "ownerRefsDocumented x" "ownerRefsLocal x"
    and p: "settles W objs (ownedKinds \<times> {keyOfMS ms}) good (deploymentIn ms) (prepare x ms)"
    and s: "wellTyped (objs s)" "good (objs s)" "reported ms d (objs s)" and b: "backendForModelService ms \<noteq> ''KServe''"
  obtains tr r s' where "run W (Reconcile x (keyOfMS ms)) s = (tr, r, s')"
    and "list_all (\<lambda>e. idle (objs s) e \<or> writesStatus e) tr"
    and "\<forall>i. i \<noteq> (ModelServiceKind, keyOfMS ms) \<longrightarrow> objs s' i = objs s i"
    and "\<forall>e. r = Inl e \<longrightarrow> (\<exists>obj. EObj (OStatusUpdate obj) (Inl e) \<in> set tr)"
    and "d = deploymentIn ms (objs s) \<Longrightarrow> r = Inr () \<and> objs s' = objs s \<and> list_all (idle (objs s)) tr"
proof -
  from s(3) obtain ms' now where ms': "objs s (ModelServiceKind, keyOfMS ms) = Some (KModelService ms')"
      "sameModel ms ms'" "ms_Generation ms' = ms_Generation ms" "ms_Status ms' = ms_Status (withDeploymentStatus now d ms)"
    by (auto simp: reported_def)
  note eq = sameModel_resolved [OF ms'(2)]
  from b eq(2) have "backendForModelService ms' \<noteq> ''KServe''" by simp
  from run_Reconcile [OF quiet ms'(1) this, of x] obtain s0 where s0: "objs s0 = objs s" and
    run: "run W (Reconcile x (keyOfMS ms)) s = (let (tr, r, s') = run W (reconcileDeploymentBackend x ms') s0
      in (EObj (OGet ModelServiceKind (keyOfMS ms)) (Inr (KModelService ms')) # tr, r, s'))" .
  let ?d = "deploymentIn ms (objs s)" and ?get = "EObj (OGet ModelServiceKind (keyOfMS ms)) (Inr (KModelService ms'))"
  from settles_idle [OF p, of s0] s0 s(1,2) obtain tr1 s1 where
    r1: "run W (prepare x ms) s0 = (tr1, Inr ?d, s1)" "objs s1 = objs s" "list_all (idle (objs s)) tr1" by auto
  have idle1: "list_all (idle (objs s)) (?get # tr1)" using r1(3) by (simp add: idle_def)
  then have weak: "list_all (\<lambda>e. idle (objs s) e \<or> writesStatus e) (?get # tr1)"
    by (rule list.pred_mono_strong) simp
  have i: "indexOf (KModelService (withDeploymentStatus t ?d ms')) = (ModelServiceKind, keyOfMS ms)" for t
    using sameModel_status(1) [of ms' t ?d] ms'(2) by (simp add: keyOf_def keyOfMS_def sameModel_def)
  show thesis
  proof (cases rule: run_status [OF quiet, of ms' ?d s1])
    case (1 t s2)
    with run r1 s0 have r: "run W (Reconcile x (keyOfMS ms)) s = (?get # tr1 @ [ENow t], Inr (), s2)"
      by (simp add: backend_prepare run_bindE sameModel_prepare [OF ms'(2) x])
    show ?thesis by (rule that [OF r]) (use 1(2) r1(2) idle1 weak in \<open>simp_all add: idle_def\<close>)
  next
    case (2 t res s2)
    with run r1 s0 have r: "run W (Reconcile x (keyOfMS ms)) s = (?get # tr1 @ [ENow t,
        EObj (OStatusUpdate (KModelService (withDeploymentStatus t ?d ms'))) res], mapR (\<lambda>_. ()) res, s2)"
      by (simp add: backend_prepare run_bindE sameModel_prepare [OF ms'(2) x])
    have "d \<noteq> ?d" using 2(3) status_current [OF ms'(2,3,4), of t] by auto
    then show ?thesis
      by (intro that [OF r])
         (use 2(2) r1(2) weak i in \<open>auto simp: idle_def writesStatus_def written_def mapR_eq_Inl split: sum.splits\<close>)
  qed
qed

lemma reported_drift:
  assumes "reported ms d m" "drifts m m'"
  shows "reported ms d m'"
proof -
  from assms(1) obtain ms' now where ms': "m (ModelServiceKind, keyOfMS ms) = Some (KModelService ms')"
      "sameModel ms ms'" "ms_Generation ms' = ms_Generation ms" "ms_Status ms' = ms_Status (withDeploymentStatus now d ms)"
    by (auto simp: reported_def)
  with assms(2) obtain k where k: "m' (ModelServiceKind, keyOfMS ms) = Some k" "servedAs (KModelService ms') k"
    unfolding drifts_def by (metis option_rel_Some1)
  from servedAs_ModelService [OF k(2)] k(1) ms' sameModel_trans [OF ms'(2)] show ?thesis
    unfolding reported_def by metis
qed


section \<open>A concrete cluster\<close>

text \<open>A cluster that stores what it is given, with the ModelService of the sample run and its left-over claim.\<close>

definition clusterAnswer :: "objcall \<Rightarrow> stored \<Rightarrow> (goerror + kobject) \<times> stored" where
  "clusterAnswer c m =
     (case c of
        OGet kind key \<Rightarrow>
          (case m (kind, key) of Some k \<Rightarrow> (Inr k, m) | None \<Rightarrow> (Inl (ApiStatus ReasonNotFound ''not found''), m))
      | OCreateOrUpdate obj f \<Rightarrow>
          (case f (current m obj) of
             Inl e \<Rightarrow> (Inl e, m)
           | Inr k \<Rightarrow> (Inr k, if m (indexOf obj) = Some k then m else m(indexOf k \<mapsto> k)))
      | OStatusUpdate obj \<Rightarrow> (Inr obj, m(indexOf obj \<mapsto> obj))
      | _ \<Rightarrow> (Inl (Errorf ''not supported''), m))"

definition clusterWorld :: "stored world" where
  "clusterWorld = \<lparr>w_obj = clusterAnswer, w_del = (\<lambda>obj p m. (None, m(indexOf obj := None))),
     w_list = (\<lambda>n l m. (Inr [], m)), w_now = (\<lambda>m. (5, m)), w_rand = (\<lambda>n m. (Inr [], m)),
     w_verify = (\<lambda>t m. (Inl (Errorf ''no verifier''), m))\<rparr>"

lemma clusterWorld_simps [simp]:
  "w_obj clusterWorld c m = clusterAnswer c m" "w_del clusterWorld obj p m = (None, m(indexOf obj := None))"
  "w_now clusterWorld m = (5, m)"
  by (simp_all add: clusterWorld_def)

lemma clusterWorld_quiet: "quietCluster clusterWorld (\<lambda>m. m)"
  by (auto simp: quietCluster_def clusterAnswer_def createdOrUpdated_def written_def servedAs_refl isNotFound_def
      split: option.splits sum.splits if_splits)

definition clusterState :: stored where
  "clusterState = [(ModelServiceKind, keyOfMS sampleShrunkMS) \<mapsto> KModelService sampleShrunkMS,
     (PersistentVolumeClaimKind, keyOfMS sampleShrunkMS) \<mapsto> KPersistentVolumeClaim sampleClaim]"

lemma sample_local: "ownerRefsLocal sampleExt"
  by (auto simp: ownerRefsLocal_def sampleSetControllerReference_def sampleIsControlledBy_def controllerOf_def
      controllerRef_def keyOfMS_def mapR_def split: option.splits)

lemma clusterState_wellTyped: "wellTyped clusterState"
  by (auto simp: wellTyped_def clusterState_def keyOf_def keyOfMS_def sampleClaim_def split: if_splits)

text \<open>A new object can always be taken over.\<close>

context stored_object
begin

lemma sample_new:
  assumes "meta_OwnerReferences (meta obj) = []"
  obtains k where "mutateOn get put (mutate sampleExt ms) (put obj) = Inr k" "kindOf k = kind" "keyOf k = keyOf (put obj)"
proof -
  have "meta_OwnerReferences (meta (desired sampleExt ms obj)) = []" using assms by (simp add: meta_desired)
  then obtain k where k: "mutateOn get put (mutate sampleExt ms) (put obj) = Inr k"
    by (auto simp: mutateOn_def get_put mutate_eq mapR_def sampleSetControllerReference_def controllerOf_def)
  have "steady sampleExt ms (put obj) (mutateOn get put (mutate sampleExt ms))"
    by (rule steady_mutate [OF sampleExt_ownerRefs sample_local kind_put])
  with k have "indexOf k = indexOf (put obj)" unfolding steady_def by blast
  then show thesis by (intro that [OF k]) (simp_all add: kind_put)
qed

end

lemma cluster_run:
  obtains tr s1 where "run clusterWorld (Reconcile sampleExt (keyOfMS sampleShrunkMS)) clusterState = (tr, Inr (), s1)"
proof -
  let ?ms = sampleShrunkMS and ?key = "keyOfMS sampleShrunkMS"
  obtain a where a: "mutateOn asServiceAccount KServiceAccount (mutateServiceAccount sampleExt ?ms (labelsForModelService ?ms))
      (KServiceAccount (zeroServiceAccount\<lparr>sa_Meta := metaFor ?ms\<rparr>)) = Inr a" "kindOf a = ServiceAccountKind" "keyOf a = ?key"
    by (rule sa_st.sample_new [of "zeroServiceAccount\<lparr>sa_Meta := metaFor ?ms\<rparr>" ?ms]) (simp_all add: keyOf_new)
  obtain d where d: "mutateOn asDeployment KDeployment (mutateDeployment sampleExt ?ms (labelsForModelService ?ms))
      (KDeployment (zeroDeployment\<lparr>dep_Meta := metaFor ?ms\<rparr>)) = Inr d" "kindOf d = DeploymentKind" "keyOf d = ?key"
    by (rule dep_st.sample_new [of "zeroDeployment\<lparr>dep_Meta := metaFor ?ms\<rparr>" ?ms]) (simp_all add: keyOf_new)
  obtain v where v: "mutateOn asService KService (mutateService sampleExt ?ms (labelsForModelService ?ms))
      (KService (zeroService\<lparr>svc_Meta := metaFor ?ms\<rparr>)) = Inr v" "kindOf v = ServiceKind" "keyOf v = ?key"
    by (rule svc_st.sample_new [of "zeroService\<lparr>svc_Meta := metaFor ?ms\<rparr>" ?ms]) (simp_all add: keyOf_new)
  obtain b where b: "mutateOn asPDB KPodDisruptionBudget (mutatePDB sampleExt ?ms (labelsForModelService ?ms)
      (sampleParseIntOrString (rp_MaxUnavailable (podDisruptionBudgetForModelService ?ms))))
      (KPodDisruptionBudget (zeroPDB\<lparr>pdb_Meta := metaFor ?ms\<rparr>)) = Inr b" "kindOf b = PodDisruptionBudgetKind" "keyOf b = ?key"
    by (rule pdb_st.sample_new [of "zeroPDB\<lparr>pdb_Meta := metaFor ?ms\<rparr>"]) (simp_all add: keyOf_new)
  obtain n where n: "mutateOn asNetworkPolicy KNetworkPolicy (mutateNetworkPolicy sampleExt ?ms (labelsForModelService ?ms)
      (networkPolicyForModelService ?ms)) (KNetworkPolicy (zeroNetworkPolicy\<lparr>nep_Meta := metaFor ?ms\<rparr>)) = Inr n"
      "kindOf n = NetworkPolicyKind" "keyOf n = ?key"
    by (rule nep_st.sample_new [of "zeroNetworkPolicy\<lparr>nep_Meta := metaFor ?ms\<rparr>"]) (simp_all add: keyOf_new)
  obtain h where h: "mutateOn asHTTPRoute KHTTPRoute (mutateHTTPRoute sampleExt ?ms (labelsForModelService ?ms)
      (exposureForModelService ?ms)) (KHTTPRoute (zeroHTTPRoute\<lparr>hr_Meta := metaFor ?ms\<rparr>)) = Inr h"
      "kindOf h = HTTPRouteKind" "keyOf h = ?key"
    by (rule route_st.sample_new [of "zeroHTTPRoute\<lparr>hr_Meta := metaFor ?ms\<rparr>"]) (simp_all add: keyOf_new)
  have "fst (snd (run clusterWorld (Reconcile sampleExt ?key) clusterState)) = Inr ()"
    by (simp add: reconcile_run_defs clusterState_def clusterAnswer_def sampleShrunk_facts go_const a d v b n h keyOf_new
        split: if_split)
  then show thesis by (intro that) (simp add: prod_eq_iff)
qed


end
