(* ===== verification/DeepCopy.thy ===== *)
theory DeepCopy
  imports Status
begin

text \<open>
  Deep copies and in-place updates, on an explicit heap. \<^verbatim>\<open>api/v1alpha1/zz_generated.deepcopy.go\<close> copies the
  ModelService types pointer by pointer; \<^verbatim>\<open>updateModelServiceStatus\<close> relies on it: it takes a deep copy of
  the status, overwrites the conditions of the original in place and compares the two. Everywhere else the
  development works with values; the theorems here justify that for the status, and say what a deep copy is.

  The heap maps addresses to cells, one constructor for each Go type that is pointed to. Metadata, resource
  requirements and single conditions are values here as everywhere: their own deep copies are library code.
\<close>

section \<open>The heap\<close>

type_synonym addr = nat

record hSecurity =
  hs_RunAsNonRoot :: bool
  hs_RunAsUser :: int64
  hs_RunAsGroup :: int64
  hs_FSGroup :: int64
  hs_ReadOnlyRootFilesystem :: bool
  hs_AutomountServiceAccountToken :: "addr option"

record hSpec =
  hp_Backend :: ModelServiceBackend
  hp_Image :: string
  hp_Replicas :: int32
  hp_Port :: int32
  hp_Resources :: ResourceRequirements
  hp_Security :: "addr option"
  hp_Health :: "addr option"
  hp_Rollout :: "addr option"
  hp_PodDisruptionBudget :: "addr option"
  hp_NetworkPolicy :: "addr option"
  hp_Exposure :: "addr option"
  hp_Storage :: "addr option"
  hp_Predictor :: "addr option"

text \<open>A slice: the address of its array and its length; the capacity is the length of the array.\<close>

record slice =
  sl_Array :: addr
  sl_Len :: nat

record hStatus =
  ht_Phase :: string
  ht_ReadyReplicas :: int32
  ht_Endpoint :: string
  ht_ObservedGeneration :: int64
  ht_Conditions :: "slice option"

record hModelService =
  hm_APIVersion :: string
  hm_Kind :: string
  hm_Meta :: ObjectMeta
  hm_Spec :: hSpec
  hm_Status :: hStatus

record ListMeta =
  lm_ResourceVersion :: string
  lm_Continue :: string
  lm_RemainingItemCount :: "int64 option"

record hModelServiceList =
  hl_APIVersion :: string
  hl_Kind :: string
  hl_Meta :: ListMeta
  hl_Items :: "slice option"

text \<open>The list as a value.\<close>

record ModelServiceList =
  ml_APIVersion :: string
  ml_Kind :: string
  ml_Meta :: ListMeta
  ml_Items :: "ModelService list"

datatype cell =
    BoolCell bool
  | SecurityCell hSecurity
  | HealthCell ModelServiceHealth
  | RolloutCell ModelServiceRollout
  | PodDisruptionBudgetCell ModelServicePodDisruptionBudget
  | NetworkPolicyCell ModelServiceNetworkPolicy
  | ExposureCell ModelServiceExposure
  | StorageCell ModelServiceStorage
  | ModelFormatCell ModelServiceModelFormat
  | PredictorCell ModelServicePredictor
  | SpecCell hSpec
  | StatusCell hStatus
  | ConditionsCell "Condition list"
  | ModelServiceCell hModelService
  | ItemsCell "hModelService list"
  | ListCell hModelServiceList

record heap =
  cells :: "addr \<Rightarrow> cell option"
  lim :: addr

definition wfHeap :: "heap \<Rightarrow> bool" where
  "wfHeap h \<longleftrightarrow> (\<forall>a. lim h \<le> a \<longrightarrow> cells h a = None)"

definition alloc :: "cell \<Rightarrow> heap \<Rightarrow> addr \<times> heap" where
  "alloc c h = (lim h, h\<lparr>cells := (cells h)(lim h \<mapsto> c), lim := Suc (lim h)\<rparr>)"

definition store :: "addr \<Rightarrow> cell \<Rightarrow> heap \<Rightarrow> heap" where
  "store a c h = h\<lparr>cells := (cells h)(a \<mapsto> c)\<rparr>"

definition extends :: "heap \<Rightarrow> heap \<Rightarrow> bool" where
  "extends h h' \<longleftrightarrow> lim h \<le> lim h' \<and> (\<forall>a<lim h. cells h' a = cells h a)"

lemma extends_refl [simp]: "extends h h"
  by (simp add: extends_def)

lemma extends_trans: "extends a b \<Longrightarrow> extends b c \<Longrightarrow> extends a c"
  by (auto simp: extends_def)

lemma extends_lim: "extends h h' \<Longrightarrow> lim h \<le> lim h'"
  by (simp add: extends_def)

lemma alloc_extends: "alloc c h = (a, h') \<Longrightarrow> extends h h'" "alloc c h = (a, h') \<Longrightarrow> a = lim h"
  "alloc c h = (a, h') \<Longrightarrow> lim h' = Suc (lim h)" "alloc c h = (a, h') \<Longrightarrow> cells h' a = Some c"
  "alloc c h = (a, h') \<Longrightarrow> wfHeap h \<Longrightarrow> wfHeap h'"
  by (auto simp: alloc_def extends_def wfHeap_def)

section \<open>Copying\<close>

text \<open>\<^verbatim>\<open>*out = *in\<close> for a type without pointers.\<close>

definition copyValue :: "'c \<Rightarrow> heap \<Rightarrow> 'c \<times> heap" where
  "copyValue c h = (c, h)"

text \<open>
  A copy through a pointer: nil stays nil, otherwise a new cell is allocated and the content is copied into it by
  the \<^verbatim>\<open>DeepCopyInto\<close> of its type. This is what every generated \<^verbatim>\<open>DeepCopy\<close> does, and what the
  \<^verbatim>\<open>DeepCopyInto\<close> of a struct does for each of its pointers.
\<close>

definition copyPtr ::
    "(cell \<Rightarrow> 'c option) \<Rightarrow> ('c \<Rightarrow> cell) \<Rightarrow> ('c \<Rightarrow> heap \<Rightarrow> 'c \<times> heap) \<Rightarrow> addr option \<Rightarrow> heap \<Rightarrow> addr option \<times> heap" where
  "copyPtr get put into p h =
     (case p of
        None \<Rightarrow> (None, h)
      | Some a \<Rightarrow>
          (case Option.bind (cells h a) get of
             None \<Rightarrow> (None, h)
           | Some c \<Rightarrow>
               let (a', h1) = alloc (put c) h; (c', h2) = into c h1
               in (Some a', store a' (put c') h2)))"

text \<open>The loop over the elements of a slice.\<close>

fun copyList :: "('c \<Rightarrow> heap \<Rightarrow> 'c \<times> heap) \<Rightarrow> 'c list \<Rightarrow> heap \<Rightarrow> 'c list \<times> heap" where
  "copyList into [] h = ([], h)"
| "copyList into (c # cs) h = (let (c', h1) = into c h; (cs', h2) = copyList into cs h1 in (c' # cs', h2))"

text \<open>A copy of a slice: a new array of its length, element by element; nil stays nil.\<close>

definition copySlice ::
    "(cell \<Rightarrow> 'c list option) \<Rightarrow> ('c list \<Rightarrow> cell) \<Rightarrow> ('c \<Rightarrow> heap \<Rightarrow> 'c \<times> heap) \<Rightarrow> slice option \<Rightarrow> heap \<Rightarrow>
     slice option \<times> heap" where
  "copySlice get put into s h =
     (case s of
        None \<Rightarrow> (None, h)
      | Some sl \<Rightarrow>
          (case Option.bind (cells h (sl_Array sl)) get of
             None \<Rightarrow> (None, h)
           | Some arr \<Rightarrow>
               let cs = take (sl_Len sl) arr;
                   (a', h1) = alloc (put cs) h;
                   (cs', h2) = copyList into cs h1
               in (Some \<lparr>sl_Array = a', sl_Len = length cs'\<rparr>, store a' (put cs') h2)))"

section \<open>The contract of a deep copy\<close>

text \<open>
  What a heap structure stands for: \<open>rep h c v\<close> says that \<open>c\<close> denotes the value \<open>v\<close>, \<open>foot h c\<close> is the set of
  cells it reaches. A deep copy denotes the same value and reaches new cells only, and no old cell is changed.
\<close>

locale deep_copy =
  fixes rep :: "heap \<Rightarrow> 'c \<Rightarrow> 'v \<Rightarrow> bool"
    and foot :: "heap \<Rightarrow> 'c \<Rightarrow> addr set"
    and into :: "'c \<Rightarrow> heap \<Rightarrow> 'c \<times> heap"
  assumes frame: "rep h c v \<Longrightarrow> (\<And>a. a \<in> foot h c \<Longrightarrow> cells h' a = cells h a) \<Longrightarrow> rep h' c v \<and> foot h' c = foot h c"
    and inside: "wfHeap h \<Longrightarrow> rep h c v \<Longrightarrow> foot h c \<subseteq> {..<lim h}"
    and copied: "wfHeap h \<Longrightarrow> rep h c v \<Longrightarrow> into c h = (c', h') \<Longrightarrow>
      rep h' c' v \<and> foot h' c' \<subseteq> {lim h..<lim h'} \<and> extends h h' \<and> wfHeap h'"
begin

lemma extended: "wfHeap h \<Longrightarrow> rep h c v \<Longrightarrow> extends h h' \<Longrightarrow> rep h' c v \<and> foot h' c = foot h c"
  using inside [of h c v] by (intro frame) (auto simp: extends_def)

text \<open>Original and copy share nothing, so writing through one of them never shows in the other.\<close>

lemma independent:
  assumes "wfHeap h" "rep h c v" "into c h = (c', h1)"
  shows "rep h1 c v \<and> rep h1 c' v \<and> foot h1 c \<inter> foot h1 c' = {} \<and>
    (\<forall>h2. (\<forall>a. a \<notin> foot h1 c' \<longrightarrow> cells h2 a = cells h1 a) \<longrightarrow> rep h2 c v) \<and>
    (\<forall>h2. (\<forall>a. a \<notin> foot h1 c \<longrightarrow> cells h2 a = cells h1 a) \<longrightarrow> rep h2 c' v)"
proof -
  have c': "rep h1 c' v" "foot h1 c' \<subseteq> {lim h..<lim h1}" "extends h h1" using copied [OF assms] by blast+
  have c: "rep h1 c v" "foot h1 c = foot h c" using extended [OF assms(1,2) c'(3)] by blast+
  have disj: "foot h1 c \<inter> foot h1 c' = {}" using c(2) inside [OF assms(1,2)] c'(2) by fastforce
  have "rep h2 c v" if "\<forall>a. a \<notin> foot h1 c' \<longrightarrow> cells h2 a = cells h1 a" for h2
    using frame [OF c(1), of h2] that disj by blast
  moreover have "rep h2 c' v" if "\<forall>a. a \<notin> foot h1 c \<longrightarrow> cells h2 a = cells h1 a" for h2
    using frame [OF c'(1), of h2] that disj by blast
  ultimately show ?thesis using c c' disj by blast
qed

end

lemma deep_copy_value: "deep_copy (\<lambda>h c v. c = v) (\<lambda>h c. {}) copyValue"
  by unfold_locales (auto simp: copyValue_def)

text \<open>Pointers to what can be copied can be copied.\<close>

definition repPtr :: "('c \<Rightarrow> cell) \<Rightarrow> (heap \<Rightarrow> 'c \<Rightarrow> 'v \<Rightarrow> bool) \<Rightarrow> heap \<Rightarrow> addr option \<Rightarrow> 'v option \<Rightarrow> bool" where
  "repPtr put rep h p v \<longleftrightarrow>
     (case p of
        None \<Rightarrow> v = None
      | Some a \<Rightarrow> \<exists>c w. v = Some w \<and> cells h a = Some (put c) \<and> rep h c w)"

definition footPtr :: "(cell \<Rightarrow> 'c option) \<Rightarrow> (heap \<Rightarrow> 'c \<Rightarrow> addr set) \<Rightarrow> heap \<Rightarrow> addr option \<Rightarrow> addr set" where
  "footPtr get foot h p =
     (case p of
        None \<Rightarrow> {}
      | Some a \<Rightarrow> insert a (case Option.bind (cells h a) get of None \<Rightarrow> {} | Some c \<Rightarrow> foot h c))"

lemma wf_cells: "wfHeap h \<Longrightarrow> cells h a = Some c \<Longrightarrow> a < lim h"
  unfolding wfHeap_def by (metis linorder_not_less option.distinct(1))

lemma store_frame: "b \<noteq> a \<Longrightarrow> cells (store a c h) b = cells h b" "cells (store a c h) a = Some c" "lim (store a c h) = lim h"
  by (simp_all add: store_def)

lemma store_wf: "wfHeap h \<Longrightarrow> a < lim h \<Longrightarrow> wfHeap (store a c h)"
  by (auto simp: wfHeap_def store_def)

text \<open>A new cell whose content is copied after it has been allocated.\<close>

lemma deep_copy_new:
  assumes dc: "deep_copy rep foot into" and h: "wfHeap h" "rep h c v"
    and steps: "alloc c0 h = (a, h1)" "into c h1 = (c', h2)" and h'_def: "h' = store a cl h2"
  shows "rep h' c' v" "foot h' c' \<subseteq> {lim h..<lim h'}" "extends h h'" "wfHeap h'" "cells h' a = Some cl"
    "lim h \<le> a" "a < lim h'"
proof -
  note al = alloc_extends [OF steps(1)]
  have h1: "wfHeap h1" "rep h1 c v" using deep_copy.extended [OF dc h al(1)] al(5) h(1) by blast+
  note cp = deep_copy.copied [OF dc h1 steps(2)]
  have fresh: "b \<noteq> a" if "b \<in> foot h2 c'" for b using cp that al(2,3) by auto
  have lims: "lim h < lim h2" "lim h' = lim h2" using cp al(3) by (auto simp: extends_def h'_def store_frame)
  have "rep h' c' v \<and> foot h' c' = foot h2 c'"
    by (rule deep_copy.frame [OF dc]) (use cp fresh in \<open>auto simp: h'_def store_frame\<close>)
  moreover have "foot h2 c' \<subseteq> {lim h1..<lim h2}" using cp by blast
  ultimately show "rep h' c' v" "foot h' c' \<subseteq> {lim h..<lim h'}" using al(3) lims by auto
  show "extends h h'" using extends_trans [OF al(1), of h2] cp lims al(2) by (auto simp: extends_def h'_def store_def)
  show "wfHeap h'" using cp lims al(2) by (auto simp: h'_def intro: store_wf)
  show "cells h' a = Some cl" by (simp add: h'_def store_frame)
  show "lim h \<le> a" "a < lim h'" using al(2) lims by simp_all
qed

lemma deep_copy_ptr:
  assumes dc: "deep_copy rep foot into" and get: "\<And>c. get (put c) = Some c"
  shows "deep_copy (repPtr put rep) (footPtr get foot) (copyPtr get put into)"
proof
  fix h h' :: heap and p v
  assume r: "repPtr put rep h p v" and same: "\<And>a. a \<in> footPtr get foot h p \<Longrightarrow> cells h' a = cells h a"
  show "repPtr put rep h' p v \<and> footPtr get foot h' p = footPtr get foot h p"
  proof (cases p)
    case (Some a)
    with r obtain c w where c: "v = Some w" "cells h a = Some (put c)" "rep h c w" by (auto simp: repPtr_def)
    with Some get have f: "footPtr get foot h p = insert a (foot h c)" by (simp add: footPtr_def)
    have "rep h' c w \<and> foot h' c = foot h c" by (rule deep_copy.frame [OF dc c(3)]) (simp add: same f)
    with c Some f same [of a] get show ?thesis by (auto simp: repPtr_def footPtr_def)
  qed (use r in \<open>simp add: repPtr_def footPtr_def\<close>)
next
  fix h p v assume h: "wfHeap h" "repPtr put rep h p v"
  then show "footPtr get foot h p \<subseteq> {..<lim h}"
    using wf_cells [OF h(1)] deep_copy.inside [OF dc h(1)] get
    by (auto simp: repPtr_def footPtr_def split: option.splits) blast
next
  fix h p v p' h'
  assume h: "wfHeap h" "repPtr put rep h p v" and cp: "copyPtr get put into p h = (p', h')"
  show "repPtr put rep h' p' v \<and> footPtr get foot h' p' \<subseteq> {lim h..<lim h'} \<and> extends h h' \<and> wfHeap h'"
  proof (cases p)
    case None
    with h cp show ?thesis by (simp add: copyPtr_def repPtr_def footPtr_def)
  next
    case (Some a)
    with h(2) obtain c w where c: "v = Some w" "cells h a = Some (put c)" "rep h c w" by (auto simp: repPtr_def)
    obtain b h1 c' h2 where steps: "alloc (put c) h = (b, h1)" "into c h1 = (c', h2)" by fastforce
    with cp Some c(2) get have out: "p' = Some b" "h' = store b (put c') h2" by (simp_all add: copyPtr_def)
    from deep_copy_new [OF dc h(1) c(3) steps out(2)] c(1) get show ?thesis
      by (auto simp: out(1) repPtr_def footPtr_def)
  qed
qed

text \<open>A list of what can be copied.\<close>

definition footList :: "(heap \<Rightarrow> 'c \<Rightarrow> addr set) \<Rightarrow> heap \<Rightarrow> 'c list \<Rightarrow> addr set" where
  "footList foot h cs = (\<Union>c\<in>set cs. foot h c)"

lemma deep_copy_list_frame:
  assumes dc: "deep_copy rep foot into" and "list_all2 (rep h) cs vs"
    and "\<And>a. a \<in> footList foot h cs \<Longrightarrow> cells h' a = cells h a"
  shows "list_all2 (rep h') cs vs \<and> footList foot h' cs = footList foot h cs"
  using assms(2,3)
proof (induction rule: list_all2_induct)
  case (Cons c cs v vs)
  have "rep h' c v \<and> foot h' c = foot h c"
    by (rule deep_copy.frame [OF dc Cons(1)]) (simp add: Cons.prems footList_def)
  with Cons show ?case by (simp add: footList_def)
qed (simp add: footList_def)

lemma deep_copy_list:
  assumes dc: "deep_copy rep foot into"
  shows "deep_copy (\<lambda>h. list_all2 (rep h)) (footList foot) (copyList into)"
proof
  fix h h' :: heap and cs vs
  assume "list_all2 (rep h) cs vs" "\<And>a. a \<in> footList foot h cs \<Longrightarrow> cells h' a = cells h a"
  then show "list_all2 (rep h') cs vs \<and> footList foot h' cs = footList foot h cs"
    by (rule deep_copy_list_frame [OF dc])
next
  fix h cs vs assume "wfHeap h" "list_all2 (rep h) cs vs"
  then show "footList foot h cs \<subseteq> {..<lim h}"
    using deep_copy.inside [OF dc] by (fastforce simp: footList_def list_all2_conv_all_nth in_set_conv_nth)
next
  fix h cs vs cs' h'
  assume "wfHeap h" "list_all2 (rep h) cs vs" "copyList into cs h = (cs', h')"
  then show "list_all2 (rep h') cs' vs \<and> footList foot h' cs' \<subseteq> {lim h..<lim h'} \<and> extends h h' \<and> wfHeap h'"
  proof (induction cs arbitrary: vs h cs')
    case (Cons c cs)
    from Cons.prems(2) obtain v ws where vs: "vs = v # ws" "rep h c v" "list_all2 (rep h) cs ws"
      by (auto simp: list_all2_Cons1)
    obtain c1 h1 cs1 where steps: "into c h = (c1, h1)" "copyList into cs h1 = (cs1, h')" "cs' = c1 # cs1"
      using Cons.prems(3) by (auto split: prod.splits)
    note c1 = deep_copy.copied [OF dc Cons.prems(1) vs(2) steps(1)]
    have "list_all2 (rep h1) cs ws"
      using vs(3) c1 deep_copy.extended [OF dc Cons.prems(1)] by (auto elim: list_all2_mono)
    with Cons.IH [OF _ this steps(2)] c1 have rest: "list_all2 (rep h') cs1 ws"
      "footList foot h' cs1 \<subseteq> {lim h1..<lim h'}" "extends h1 h'" "wfHeap h'" by blast+
    with c1 deep_copy.extended [OF dc _ _ rest(3)] have "rep h' c1 v \<and> foot h' c1 = foot h1 c1" by blast
    with rest c1 show ?case
      by (fastforce simp: vs(1) steps(3) footList_def extends_def intro: extends_trans [of h h1 h'])
  qed (simp add: footList_def)
qed

text \<open>A slice stands for the elements below its length; nil and the empty slice both stand for the empty list.\<close>

definition repSlice :: "('c list \<Rightarrow> cell) \<Rightarrow> (heap \<Rightarrow> 'c \<Rightarrow> 'v \<Rightarrow> bool) \<Rightarrow> heap \<Rightarrow> slice option \<Rightarrow> 'v list \<Rightarrow> bool" where
  "repSlice put rep h s vs \<longleftrightarrow>
     (case s of
        None \<Rightarrow> vs = []
      | Some sl \<Rightarrow> \<exists>arr. cells h (sl_Array sl) = Some (put arr) \<and> sl_Len sl \<le> length arr \<and>
          list_all2 (rep h) (take (sl_Len sl) arr) vs)"

definition footSlice ::
    "(cell \<Rightarrow> 'c list option) \<Rightarrow> (heap \<Rightarrow> 'c \<Rightarrow> addr set) \<Rightarrow> heap \<Rightarrow> slice option \<Rightarrow> addr set" where
  "footSlice get foot h s =
     (case s of
        None \<Rightarrow> {}
      | Some sl \<Rightarrow> insert (sl_Array sl)
          (case Option.bind (cells h (sl_Array sl)) get of
             None \<Rightarrow> {}
           | Some arr \<Rightarrow> footList foot h (take (sl_Len sl) arr)))"

lemma deep_copy_slice:
  assumes dc: "deep_copy rep foot into" and get: "\<And>cs. get (put cs) = Some cs"
  shows "deep_copy (repSlice put rep) (footSlice get foot) (copySlice get put into)"
proof
  fix h h' :: heap and s vs
  assume r: "repSlice put rep h s vs" and same: "\<And>a. a \<in> footSlice get foot h s \<Longrightarrow> cells h' a = cells h a"
  show "repSlice put rep h' s vs \<and> footSlice get foot h' s = footSlice get foot h s"
  proof (cases s)
    case (Some sl)
    with r obtain arr where arr: "cells h (sl_Array sl) = Some (put arr)" "sl_Len sl \<le> length arr"
      "list_all2 (rep h) (take (sl_Len sl) arr) vs" by (auto simp: repSlice_def)
    with Some get have f: "footSlice get foot h s = insert (sl_Array sl) (footList foot h (take (sl_Len sl) arr))"
      by (simp add: footSlice_def)
    have "list_all2 (rep h') (take (sl_Len sl) arr) vs \<and>
        footList foot h' (take (sl_Len sl) arr) = footList foot h (take (sl_Len sl) arr)"
      by (rule deep_copy_list_frame [OF dc arr(3)]) (simp add: same f)
    with arr Some f same [of "sl_Array sl"] get show ?thesis by (auto simp: repSlice_def footSlice_def)
  qed (use r in \<open>simp add: repSlice_def footSlice_def\<close>)
next
  fix h s vs assume h: "wfHeap h" "repSlice put rep h s vs"
  then show "footSlice get foot h s \<subseteq> {..<lim h}"
    using wf_cells [OF h(1)] deep_copy.inside [OF deep_copy_list [OF dc] h(1)] get
    by (auto simp: repSlice_def footSlice_def split: option.splits) blast
next
  fix h s vs s' h'
  assume h: "wfHeap h" "repSlice put rep h s vs" and cp: "copySlice get put into s h = (s', h')"
  show "repSlice put rep h' s' vs \<and> footSlice get foot h' s' \<subseteq> {lim h..<lim h'} \<and> extends h h' \<and> wfHeap h'"
  proof (cases s)
    case None
    with h cp show ?thesis by (simp add: copySlice_def repSlice_def footSlice_def)
  next
    case (Some sl)
    with h(2) obtain arr where arr: "cells h (sl_Array sl) = Some (put arr)"
      "list_all2 (rep h) (take (sl_Len sl) arr) vs" by (auto simp: repSlice_def)
    let ?cs = "take (sl_Len sl) arr"
    obtain b h1 cs' h2 where steps: "alloc (put ?cs) h = (b, h1)" "copyList into ?cs h1 = (cs', h2)" by fastforce
    with cp Some arr(1) get have out: "s' = Some \<lparr>sl_Array = b, sl_Len = length cs'\<rparr>" "h' = store b (put cs') h2"
      by (simp_all add: copySlice_def)
    from deep_copy_new [OF deep_copy_list [OF dc] h(1) arr(2) steps out(2)] get show ?thesis
      by (auto simp: out(1) repSlice_def footSlice_def)
  qed
qed

text \<open>Two fields after each other, and a struct with fields to copy and fields that are values.\<close>

definition copyPair ::
    "('a \<Rightarrow> heap \<Rightarrow> 'a \<times> heap) \<Rightarrow> ('b \<Rightarrow> heap \<Rightarrow> 'b \<times> heap) \<Rightarrow> 'a \<times> 'b \<Rightarrow> heap \<Rightarrow> ('a \<times> 'b) \<times> heap" where
  "copyPair into1 into2 c h = (let (a, h1) = into1 (fst c) h; (b, h2) = into2 (snd c) h1 in ((a, b), h2))"

lemma deep_copy_pair:
  assumes dc1: "deep_copy rep1 foot1 into1" and dc2: "deep_copy rep2 foot2 into2"
  shows "deep_copy (\<lambda>h c v. rep1 h (fst c) (fst v) \<and> rep2 h (snd c) (snd v)) (\<lambda>h c. foot1 h (fst c) \<union> foot2 h (snd c))
    (copyPair into1 into2)"
proof
  fix h h' :: heap and c v
  assume "rep1 h (fst c) (fst v) \<and> rep2 h (snd c) (snd v)"
    "\<And>a. a \<in> foot1 h (fst c) \<union> foot2 h (snd c) \<Longrightarrow> cells h' a = cells h a"
  then show "(rep1 h' (fst c) (fst v) \<and> rep2 h' (snd c) (snd v)) \<and>
      foot1 h' (fst c) \<union> foot2 h' (snd c) = foot1 h (fst c) \<union> foot2 h (snd c)"
    using deep_copy.frame [OF dc1, of h "fst c" "fst v" h'] deep_copy.frame [OF dc2, of h "snd c" "snd v" h'] by auto
next
  fix h c v assume "wfHeap h" "rep1 h (fst c) (fst v) \<and> rep2 h (snd c) (snd v)"
  then show "foot1 h (fst c) \<union> foot2 h (snd c) \<subseteq> {..<lim h}"
    using deep_copy.inside [OF dc1] deep_copy.inside [OF dc2] by blast
next
  fix h c v c' h'
  assume h: "wfHeap h" "rep1 h (fst c) (fst v) \<and> rep2 h (snd c) (snd v)" and cp: "copyPair into1 into2 c h = (c', h')"
  then obtain a h1 b where steps: "into1 (fst c) h = (a, h1)" "into2 (snd c) h1 = (b, h')" "c' = (a, b)"
    by (auto simp: copyPair_def split: prod.splits)
  have c1: "rep1 h1 a (fst v)" "foot1 h1 a \<subseteq> {lim h..<lim h1}" "extends h h1" "wfHeap h1"
    using deep_copy.copied [OF dc1 h(1) _ steps(1)] h(2) by blast+
  then have "rep2 h1 (snd c) (snd v)" using deep_copy.extended [OF dc2 h(1) _ c1(3)] h(2) by blast
  from deep_copy.copied [OF dc2 c1(4) this steps(2)]
  have c2: "rep2 h' b (snd v)" "foot2 h' b \<subseteq> {lim h1..<lim h'}" "extends h1 h'" "wfHeap h'" by blast+
  from deep_copy.extended [OF dc1 c1(4,1) c2(3)] have "rep1 h' a (fst v)" "foot1 h' a = foot1 h1 a" by blast+
  moreover have "lim h \<le> lim h1" "lim h1 \<le> lim h'" using c1(3) c2(3) by (auto dest: extends_lim)
  ultimately show "(rep1 h' (fst c') (fst v) \<and> rep2 h' (snd c') (snd v)) \<and>
      foot1 h' (fst c') \<union> foot2 h' (snd c') \<subseteq> {lim h..<lim h'} \<and> extends h h' \<and> wfHeap h'"
    using c1(2) c2 extends_trans [OF c1(3) c2(3)] by (auto simp: steps(3))
qed

lemma deep_copy_struct:
  assumes dc: "deep_copy rep foot into"
    and parts: "\<And>c d. parts (rebuild c d) = c" "\<And>c d. scalars (rebuild c d) = scalars d"
  shows "deep_copy (\<lambda>h d v. rep h (parts d) (vparts v) \<and> scalars d = vscalars v) (\<lambda>h d. foot h (parts d))
    (\<lambda>d h. let (c, h') = into (parts d) h in (rebuild c d, h'))"
proof
  fix h h' :: heap and d v
  assume r: "rep h (parts d) (vparts v) \<and> scalars d = vscalars v"
    and same: "\<And>a. a \<in> foot h (parts d) \<Longrightarrow> cells h' a = cells h a"
  from deep_copy.frame [OF dc r [THEN conjunct1] same] r
  show "(rep h' (parts d) (vparts v) \<and> scalars d = vscalars v) \<and> foot h' (parts d) = foot h (parts d)" by blast
next
  fix h d v assume "wfHeap h" "rep h (parts d) (vparts v) \<and> scalars d = vscalars v"
  then show "foot h (parts d) \<subseteq> {..<lim h}" using deep_copy.inside [OF dc] by blast
next
  fix h d v d' h'
  assume h: "wfHeap h" "rep h (parts d) (vparts v) \<and> scalars d = vscalars v"
    and "(let (c, h') = into (parts d) h in (rebuild c d, h')) = (d', h')"
  then obtain c where c: "into (parts d) h = (c, h')" "d' = rebuild c d" by (auto split: prod.splits)
  from deep_copy.copied [OF dc h(1) h(2) [THEN conjunct1] c(1)] h(2)
  show "(rep h' (parts d') (vparts v) \<and> scalars d' = vscalars v) \<and> foot h' (parts d') \<subseteq> {lim h..<lim h'} \<and>
      extends h h' \<and> wfHeap h'" by (simp add: c(2) parts)
qed

section \<open>The generated functions\<close>

text \<open>What is in a cell, when it is of the type asked for. Go's types see to it that a pointer leads to a cell of its
  type; the copies of an ill-typed pointer above are never taken.\<close>

definition inBool :: "cell \<Rightarrow> bool option" where
  "inBool c = (case c of BoolCell x \<Rightarrow> Some x | _ \<Rightarrow> None)"

definition inSecurity :: "cell \<Rightarrow> hSecurity option" where
  "inSecurity c = (case c of SecurityCell x \<Rightarrow> Some x | _ \<Rightarrow> None)"

definition inHealth :: "cell \<Rightarrow> ModelServiceHealth option" where
  "inHealth c = (case c of HealthCell x \<Rightarrow> Some x | _ \<Rightarrow> None)"

definition inRollout :: "cell \<Rightarrow> ModelServiceRollout option" where
  "inRollout c = (case c of RolloutCell x \<Rightarrow> Some x | _ \<Rightarrow> None)"

definition inPodDisruptionBudget :: "cell \<Rightarrow> ModelServicePodDisruptionBudget option" where
  "inPodDisruptionBudget c = (case c of PodDisruptionBudgetCell x \<Rightarrow> Some x | _ \<Rightarrow> None)"

definition inNetworkPolicy :: "cell \<Rightarrow> ModelServiceNetworkPolicy option" where
  "inNetworkPolicy c = (case c of NetworkPolicyCell x \<Rightarrow> Some x | _ \<Rightarrow> None)"

definition inExposure :: "cell \<Rightarrow> ModelServiceExposure option" where
  "inExposure c = (case c of ExposureCell x \<Rightarrow> Some x | _ \<Rightarrow> None)"

definition inStorage :: "cell \<Rightarrow> ModelServiceStorage option" where
  "inStorage c = (case c of StorageCell x \<Rightarrow> Some x | _ \<Rightarrow> None)"

definition inModelFormat :: "cell \<Rightarrow> ModelServiceModelFormat option" where
  "inModelFormat c = (case c of ModelFormatCell x \<Rightarrow> Some x | _ \<Rightarrow> None)"

definition inPredictor :: "cell \<Rightarrow> ModelServicePredictor option" where
  "inPredictor c = (case c of PredictorCell x \<Rightarrow> Some x | _ \<Rightarrow> None)"

definition inSpec :: "cell \<Rightarrow> hSpec option" where
  "inSpec c = (case c of SpecCell x \<Rightarrow> Some x | _ \<Rightarrow> None)"

definition inStatus :: "cell \<Rightarrow> hStatus option" where
  "inStatus c = (case c of StatusCell x \<Rightarrow> Some x | _ \<Rightarrow> None)"

definition inConditions :: "cell \<Rightarrow> (Condition list) option" where
  "inConditions c = (case c of ConditionsCell x \<Rightarrow> Some x | _ \<Rightarrow> None)"

definition inModelService :: "cell \<Rightarrow> hModelService option" where
  "inModelService c = (case c of ModelServiceCell x \<Rightarrow> Some x | _ \<Rightarrow> None)"

definition inItems :: "cell \<Rightarrow> (hModelService list) option" where
  "inItems c = (case c of ItemsCell x \<Rightarrow> Some x | _ \<Rightarrow> None)"

definition inList :: "cell \<Rightarrow> hModelServiceList option" where
  "inList c = (case c of ListCell x \<Rightarrow> Some x | _ \<Rightarrow> None)"

lemma in_cell [simp]:
  "inBool (BoolCell xBool) = Some xBool"
  "inSecurity (SecurityCell xSecurity) = Some xSecurity"
  "inHealth (HealthCell xHealth) = Some xHealth"
  "inRollout (RolloutCell xRollout) = Some xRollout"
  "inPodDisruptionBudget (PodDisruptionBudgetCell xPodDisruptionBudget) = Some xPodDisruptionBudget"
  "inNetworkPolicy (NetworkPolicyCell xNetworkPolicy) = Some xNetworkPolicy"
  "inExposure (ExposureCell xExposure) = Some xExposure"
  "inStorage (StorageCell xStorage) = Some xStorage"
  "inModelFormat (ModelFormatCell xModelFormat) = Some xModelFormat"
  "inPredictor (PredictorCell xPredictor) = Some xPredictor"
  "inSpec (SpecCell xSpec) = Some xSpec"
  "inStatus (StatusCell xStatus) = Some xStatus"
  "inConditions (ConditionsCell xConditions) = Some xConditions"
  "inModelService (ModelServiceCell xModelService) = Some xModelService"
  "inItems (ItemsCell xItems) = Some xItems"
  "inList (ListCell xList) = Some xList"
  by (simp_all add: inBool_def inSecurity_def inHealth_def inRollout_def inPodDisruptionBudget_def inNetworkPolicy_def inExposure_def inStorage_def inModelFormat_def inPredictor_def inSpec_def inStatus_def inConditions_def inModelService_def inItems_def inList_def)

text \<open>\<^verbatim>\<open>*out = *in\<close>: the types without pointers.\<close>

definition exposureDeepCopyInto :: "ModelServiceExposure \<Rightarrow> heap \<Rightarrow> ModelServiceExposure \<times> heap" where
  "exposureDeepCopyInto = copyValue"

definition healthDeepCopyInto :: "ModelServiceHealth \<Rightarrow> heap \<Rightarrow> ModelServiceHealth \<times> heap" where
  "healthDeepCopyInto = copyValue"

definition modelFormatDeepCopyInto :: "ModelServiceModelFormat \<Rightarrow> heap \<Rightarrow> ModelServiceModelFormat \<times> heap" where
  "modelFormatDeepCopyInto = copyValue"

definition networkPolicyDeepCopyInto :: "ModelServiceNetworkPolicy \<Rightarrow> heap \<Rightarrow> ModelServiceNetworkPolicy \<times> heap" where
  "networkPolicyDeepCopyInto = copyValue"

definition podDisruptionBudgetDeepCopyInto :: "ModelServicePodDisruptionBudget \<Rightarrow> heap \<Rightarrow> ModelServicePodDisruptionBudget \<times> heap" where
  "podDisruptionBudgetDeepCopyInto = copyValue"

definition rolloutDeepCopyInto :: "ModelServiceRollout \<Rightarrow> heap \<Rightarrow> ModelServiceRollout \<times> heap" where
  "rolloutDeepCopyInto = copyValue"

definition storageDeepCopyInto :: "ModelServiceStorage \<Rightarrow> heap \<Rightarrow> ModelServiceStorage \<times> heap" where
  "storageDeepCopyInto = copyValue"

definition predictorDeepCopyInto :: "ModelServicePredictor \<Rightarrow> heap \<Rightarrow> ModelServicePredictor \<times> heap" where
  "predictorDeepCopyInto c h =
     (let out = c; (modelFormat, h1) = copyValue (pr_ModelFormat c) h in (out\<lparr>pr_ModelFormat := modelFormat\<rparr>, h1))"

definition securityDeepCopyInto :: "hSecurity \<Rightarrow> heap \<Rightarrow> hSecurity \<times> heap" where
  "securityDeepCopyInto c h =
     (let (automount, h1) = copyPtr inBool BoolCell copyValue (hs_AutomountServiceAccountToken c) h
      in (c\<lparr>hs_AutomountServiceAccountToken := automount\<rparr>, h1))"

definition specDeepCopyInto :: "hSpec \<Rightarrow> heap \<Rightarrow> hSpec \<times> heap" where
  "specDeepCopyInto c h =
     (let (security, h1) = copyPtr inSecurity SecurityCell securityDeepCopyInto (hp_Security c) h;
          (health, h2) = copyPtr inHealth HealthCell copyValue (hp_Health c) h1;
          (rollout, h3) = copyPtr inRollout RolloutCell copyValue (hp_Rollout c) h2;
          (pdb, h4) = copyPtr inPodDisruptionBudget PodDisruptionBudgetCell copyValue (hp_PodDisruptionBudget c) h3;
          (networkPolicy, h5) = copyPtr inNetworkPolicy NetworkPolicyCell copyValue (hp_NetworkPolicy c) h4;
          (exposure, h6) = copyPtr inExposure ExposureCell copyValue (hp_Exposure c) h5;
          (storage, h7) = copyPtr inStorage StorageCell copyValue (hp_Storage c) h6;
          (predictor, h8) = copyPtr inPredictor PredictorCell copyValue (hp_Predictor c) h7
      in (c\<lparr>hp_Security := security, hp_Health := health, hp_Rollout := rollout, hp_PodDisruptionBudget := pdb,
            hp_NetworkPolicy := networkPolicy, hp_Exposure := exposure, hp_Storage := storage,
            hp_Predictor := predictor\<rparr>, h8))"

definition statusDeepCopyInto :: "hStatus \<Rightarrow> heap \<Rightarrow> hStatus \<times> heap" where
  "statusDeepCopyInto c h =
     (let (conditions, h1) = copySlice inConditions ConditionsCell copyValue (ht_Conditions c) h
      in (c\<lparr>ht_Conditions := conditions\<rparr>, h1))"

definition modelServiceDeepCopyInto :: "hModelService \<Rightarrow> heap \<Rightarrow> hModelService \<times> heap" where
  "modelServiceDeepCopyInto c h =
     (let (spec, h1) = specDeepCopyInto (hm_Spec c) h;
          (status, h2) = statusDeepCopyInto (hm_Status c) h1
      in (c\<lparr>hm_Spec := spec, hm_Status := status\<rparr>, h2))"

definition modelServiceListDeepCopyInto :: "hModelServiceList \<Rightarrow> heap \<Rightarrow> hModelServiceList \<times> heap" where
  "modelServiceListDeepCopyInto c h =
     (let (items, h1) = copySlice inItems ItemsCell modelServiceDeepCopyInto (hl_Items c) h
      in (c\<lparr>hl_Items := items\<rparr>, h1))"

text \<open>\<^verbatim>\<open>DeepCopy\<close>: nil, or a new object the receiver is copied into.\<close>

definition exposureDeepCopy :: "addr option \<Rightarrow> heap \<Rightarrow> addr option \<times> heap" where
  "exposureDeepCopy = copyPtr inExposure ExposureCell exposureDeepCopyInto"

definition healthDeepCopy :: "addr option \<Rightarrow> heap \<Rightarrow> addr option \<times> heap" where
  "healthDeepCopy = copyPtr inHealth HealthCell healthDeepCopyInto"

definition modelFormatDeepCopy :: "addr option \<Rightarrow> heap \<Rightarrow> addr option \<times> heap" where
  "modelFormatDeepCopy = copyPtr inModelFormat ModelFormatCell modelFormatDeepCopyInto"

definition networkPolicyDeepCopy :: "addr option \<Rightarrow> heap \<Rightarrow> addr option \<times> heap" where
  "networkPolicyDeepCopy = copyPtr inNetworkPolicy NetworkPolicyCell networkPolicyDeepCopyInto"

definition podDisruptionBudgetDeepCopy :: "addr option \<Rightarrow> heap \<Rightarrow> addr option \<times> heap" where
  "podDisruptionBudgetDeepCopy = copyPtr inPodDisruptionBudget PodDisruptionBudgetCell podDisruptionBudgetDeepCopyInto"

definition rolloutDeepCopy :: "addr option \<Rightarrow> heap \<Rightarrow> addr option \<times> heap" where
  "rolloutDeepCopy = copyPtr inRollout RolloutCell rolloutDeepCopyInto"

definition storageDeepCopy :: "addr option \<Rightarrow> heap \<Rightarrow> addr option \<times> heap" where
  "storageDeepCopy = copyPtr inStorage StorageCell storageDeepCopyInto"

definition predictorDeepCopy :: "addr option \<Rightarrow> heap \<Rightarrow> addr option \<times> heap" where
  "predictorDeepCopy = copyPtr inPredictor PredictorCell predictorDeepCopyInto"

definition securityDeepCopy :: "addr option \<Rightarrow> heap \<Rightarrow> addr option \<times> heap" where
  "securityDeepCopy = copyPtr inSecurity SecurityCell securityDeepCopyInto"

definition specDeepCopy :: "addr option \<Rightarrow> heap \<Rightarrow> addr option \<times> heap" where
  "specDeepCopy = copyPtr inSpec SpecCell specDeepCopyInto"

definition statusDeepCopy :: "addr option \<Rightarrow> heap \<Rightarrow> addr option \<times> heap" where
  "statusDeepCopy = copyPtr inStatus StatusCell statusDeepCopyInto"

definition modelServiceDeepCopy :: "addr option \<Rightarrow> heap \<Rightarrow> addr option \<times> heap" where
  "modelServiceDeepCopy = copyPtr inModelService ModelServiceCell modelServiceDeepCopyInto"

definition modelServiceListDeepCopy :: "addr option \<Rightarrow> heap \<Rightarrow> addr option \<times> heap" where
  "modelServiceListDeepCopy = copyPtr inList ListCell modelServiceListDeepCopyInto"

text \<open>\<^verbatim>\<open>DeepCopyObject\<close> returns the copy as an interface value, nil for a nil pointer.\<close>

definition modelServiceDeepCopyObject :: "addr option \<Rightarrow> heap \<Rightarrow> addr option \<times> heap" where
  "modelServiceDeepCopyObject p h =
     (let (c, h1) = modelServiceDeepCopy p h in case c of Some a \<Rightarrow> (Some a, h1) | None \<Rightarrow> (None, h1))"

definition modelServiceListDeepCopyObject :: "addr option \<Rightarrow> heap \<Rightarrow> addr option \<times> heap" where
  "modelServiceListDeepCopyObject p h =
     (let (c, h1) = modelServiceListDeepCopy p h in case c of Some a \<Rightarrow> (Some a, h1) | None \<Rightarrow> (None, h1))"

section \<open>The generated functions meet the contract\<close>

abbreviation repValue :: "heap \<Rightarrow> 'c \<Rightarrow> 'c \<Rightarrow> bool" where
  "repValue h c v \<equiv> c = v"

abbreviation footValue :: "heap \<Rightarrow> 'c \<Rightarrow> addr set" where
  "footValue h c \<equiv> {}"

definition repSecurity :: "heap \<Rightarrow> hSecurity \<Rightarrow> ModelServiceSecurity \<Rightarrow> bool" where
  "repSecurity h c v \<longleftrightarrow>
     repPtr BoolCell repValue h (hs_AutomountServiceAccountToken c) (sec_AutomountServiceAccountToken v) \<and>
     (hs_RunAsNonRoot c, hs_RunAsUser c, hs_RunAsGroup c, hs_FSGroup c, hs_ReadOnlyRootFilesystem c) =
     (sec_RunAsNonRoot v, sec_RunAsUser v, sec_RunAsGroup v, sec_FSGroup v, sec_ReadOnlyRootFilesystem v)"

definition footSecurity :: "heap \<Rightarrow> hSecurity \<Rightarrow> addr set" where
  "footSecurity h c = footPtr inBool footValue h (hs_AutomountServiceAccountToken c)"

definition repSpec :: "heap \<Rightarrow> hSpec \<Rightarrow> ModelServiceSpec \<Rightarrow> bool" where
  "repSpec h c v \<longleftrightarrow>
     (repPtr SecurityCell repSecurity h (hp_Security c) (spec_Security v) \<and>
      repPtr HealthCell repValue h (hp_Health c) (spec_Health v) \<and>
      repPtr RolloutCell repValue h (hp_Rollout c) (spec_Rollout v) \<and>
      repPtr PodDisruptionBudgetCell repValue h (hp_PodDisruptionBudget c) (spec_PodDisruptionBudget v) \<and>
      repPtr NetworkPolicyCell repValue h (hp_NetworkPolicy c) (spec_NetworkPolicy v) \<and>
      repPtr ExposureCell repValue h (hp_Exposure c) (spec_Exposure v) \<and>
      repPtr StorageCell repValue h (hp_Storage c) (spec_Storage v) \<and>
      repPtr PredictorCell repValue h (hp_Predictor c) (spec_Predictor v)) \<and>
     (hp_Backend c, hp_Image c, hp_Replicas c, hp_Port c, hp_Resources c) =
     (spec_Backend v, spec_Image v, spec_Replicas v, spec_Port v, spec_Resources v)"

definition footSpec :: "heap \<Rightarrow> hSpec \<Rightarrow> addr set" where
  "footSpec h c =
     footPtr inSecurity footSecurity h (hp_Security c) \<union>
     (footPtr inHealth footValue h (hp_Health c) \<union>
     (footPtr inRollout footValue h (hp_Rollout c) \<union>
     (footPtr inPodDisruptionBudget footValue h (hp_PodDisruptionBudget c) \<union>
     (footPtr inNetworkPolicy footValue h (hp_NetworkPolicy c) \<union>
     (footPtr inExposure footValue h (hp_Exposure c) \<union>
     (footPtr inStorage footValue h (hp_Storage c) \<union>
      footPtr inPredictor footValue h (hp_Predictor c)))))))"

definition repStatus :: "heap \<Rightarrow> hStatus \<Rightarrow> ModelServiceStatus \<Rightarrow> bool" where
  "repStatus h c v \<longleftrightarrow>
     repSlice ConditionsCell repValue h (ht_Conditions c) (status_Conditions v) \<and>
     (ht_Phase c, ht_ReadyReplicas c, ht_Endpoint c, ht_ObservedGeneration c) =
     (status_Phase v, status_ReadyReplicas v, status_Endpoint v, status_ObservedGeneration v)"

definition footStatus :: "heap \<Rightarrow> hStatus \<Rightarrow> addr set" where
  "footStatus h c = footSlice inConditions footValue h (ht_Conditions c)"

definition repModelService :: "heap \<Rightarrow> hModelService \<Rightarrow> ModelService \<Rightarrow> bool" where
  "repModelService h c v \<longleftrightarrow>
     (repSpec h (hm_Spec c) (ms_Spec v) \<and> repStatus h (hm_Status c) (ms_Status v)) \<and>
     (hm_APIVersion c, hm_Kind c, hm_Meta c) = (ms_APIVersion v, ms_Kind v, ms_Meta v)"

definition footModelService :: "heap \<Rightarrow> hModelService \<Rightarrow> addr set" where
  "footModelService h c = footSpec h (hm_Spec c) \<union> footStatus h (hm_Status c)"

definition repModelServiceList :: "heap \<Rightarrow> hModelServiceList \<Rightarrow> ModelServiceList \<Rightarrow> bool" where
  "repModelServiceList h c v \<longleftrightarrow>
     repSlice ItemsCell repModelService h (hl_Items c) (ml_Items v) \<and>
     (hl_APIVersion c, hl_Kind c, hl_Meta c) = (ml_APIVersion v, ml_Kind v, ml_Meta v)"

definition footModelServiceList :: "heap \<Rightarrow> hModelServiceList \<Rightarrow> addr set" where
  "footModelServiceList h c = footSlice inItems footModelService h (hl_Items c)"

interpretation exposure_copy: deep_copy repValue footValue exposureDeepCopyInto
  unfolding exposureDeepCopyInto_def by (rule deep_copy_value)

interpretation health_copy: deep_copy repValue footValue healthDeepCopyInto
  unfolding healthDeepCopyInto_def by (rule deep_copy_value)

interpretation format_copy: deep_copy repValue footValue modelFormatDeepCopyInto
  unfolding modelFormatDeepCopyInto_def by (rule deep_copy_value)

interpretation policy_copy: deep_copy repValue footValue networkPolicyDeepCopyInto
  unfolding networkPolicyDeepCopyInto_def by (rule deep_copy_value)

interpretation budget_copy: deep_copy repValue footValue podDisruptionBudgetDeepCopyInto
  unfolding podDisruptionBudgetDeepCopyInto_def by (rule deep_copy_value)

interpretation rollout_copy: deep_copy repValue footValue rolloutDeepCopyInto
  unfolding rolloutDeepCopyInto_def by (rule deep_copy_value)

interpretation storage_copy: deep_copy repValue footValue storageDeepCopyInto
  unfolding storageDeepCopyInto_def by (rule deep_copy_value)

interpretation predictor_copy: deep_copy repValue footValue predictorDeepCopyInto
proof -
  have "predictorDeepCopyInto = copyValue" by (rule ext, rule ext) (simp add: predictorDeepCopyInto_def copyValue_def)
  then show "deep_copy repValue footValue predictorDeepCopyInto" using deep_copy_value by simp
qed

interpretation security_copy: deep_copy repSecurity footSecurity securityDeepCopyInto
proof -
  have "deep_copy (\<lambda>h d v. repPtr BoolCell repValue h (hs_AutomountServiceAccountToken d) (sec_AutomountServiceAccountToken v) \<and>
        (hs_RunAsNonRoot d, hs_RunAsUser d, hs_RunAsGroup d, hs_FSGroup d, hs_ReadOnlyRootFilesystem d) =
        (sec_RunAsNonRoot v, sec_RunAsUser v, sec_RunAsGroup v, sec_FSGroup v, sec_ReadOnlyRootFilesystem v))
      (\<lambda>h d. footPtr inBool footValue h (hs_AutomountServiceAccountToken d))
      (\<lambda>d h. let (c, h') = copyPtr inBool BoolCell copyValue (hs_AutomountServiceAccountToken d) h
        in (d\<lparr>hs_AutomountServiceAccountToken := c\<rparr>, h'))"
    by (rule deep_copy_struct [OF deep_copy_ptr [OF deep_copy_value]]) simp_all
  then show "deep_copy repSecurity footSecurity securityDeepCopyInto"
    by (simp add: repSecurity_def [abs_def] footSecurity_def [abs_def] securityDeepCopyInto_def [abs_def])
qed

interpretation status_copy: deep_copy repStatus footStatus statusDeepCopyInto
proof -
  have "deep_copy (\<lambda>h d v. repSlice ConditionsCell repValue h (ht_Conditions d) (status_Conditions v) \<and>
        (ht_Phase d, ht_ReadyReplicas d, ht_Endpoint d, ht_ObservedGeneration d) =
        (status_Phase v, status_ReadyReplicas v, status_Endpoint v, status_ObservedGeneration v))
      (\<lambda>h d. footSlice inConditions footValue h (ht_Conditions d))
      (\<lambda>d h. let (c, h') = copySlice inConditions ConditionsCell copyValue (ht_Conditions d) h
        in (d\<lparr>ht_Conditions := c\<rparr>, h'))"
    by (rule deep_copy_struct [OF deep_copy_slice [OF deep_copy_value]]) simp_all
  then show "deep_copy repStatus footStatus statusDeepCopyInto"
    by (simp add: repStatus_def [abs_def] footStatus_def [abs_def] statusDeepCopyInto_def [abs_def])
qed

interpretation spec_copy: deep_copy repSpec footSpec specDeepCopyInto
proof -
  let ?parts = "\<lambda>d. (hp_Security d, hp_Health d, hp_Rollout d, hp_PodDisruptionBudget d, hp_NetworkPolicy d,
      hp_Exposure d, hp_Storage d, hp_Predictor d)"
    and ?vparts = "\<lambda>v. (spec_Security v, spec_Health v, spec_Rollout v, spec_PodDisruptionBudget v,
      spec_NetworkPolicy v, spec_Exposure v, spec_Storage v, spec_Predictor v)"
    and ?rebuild = "\<lambda>c d. case c of (security, health, rollout, pdb, networkPolicy, exposure, storage, predictor) \<Rightarrow>
      d\<lparr>hp_Security := security, hp_Health := health, hp_Rollout := rollout, hp_PodDisruptionBudget := pdb,
        hp_NetworkPolicy := networkPolicy, hp_Exposure := exposure, hp_Storage := storage, hp_Predictor := predictor\<rparr>"
    and ?scalars = "\<lambda>d. (hp_Backend d, hp_Image d, hp_Replicas d, hp_Port d, hp_Resources d)"
    and ?vscalars = "\<lambda>v. (spec_Backend v, spec_Image v, spec_Replicas v, spec_Port v, spec_Resources v)"
  note fields = deep_copy_pair [OF deep_copy_ptr [OF security_copy.deep_copy_axioms, where get = inSecurity and put = SecurityCell]
      deep_copy_pair [OF deep_copy_ptr [OF deep_copy_value, where get = inHealth and put = HealthCell]
      deep_copy_pair [OF deep_copy_ptr [OF deep_copy_value, where get = inRollout and put = RolloutCell]
      deep_copy_pair [OF deep_copy_ptr [OF deep_copy_value, where get = inPodDisruptionBudget and put = PodDisruptionBudgetCell]
      deep_copy_pair [OF deep_copy_ptr [OF deep_copy_value, where get = inNetworkPolicy and put = NetworkPolicyCell]
      deep_copy_pair [OF deep_copy_ptr [OF deep_copy_value, where get = inExposure and put = ExposureCell]
      deep_copy_pair [OF deep_copy_ptr [OF deep_copy_value, where get = inStorage and put = StorageCell]
      deep_copy_ptr [OF deep_copy_value, where get = inPredictor and put = PredictorCell]]]]]]]]
  note struct = deep_copy_struct [OF fields, where parts = ?parts and vparts = ?vparts and rebuild = ?rebuild and
      scalars = ?scalars and vscalars = ?vscalars]
  show "deep_copy repSpec footSpec specDeepCopyInto"
    by (rule struct [THEN iffD1 [OF arg_cong3 [where f = deep_copy], rotated 3]])
       (auto simp: fun_eq_iff repSpec_def footSpec_def specDeepCopyInto_def copyPair_def Let_def split: prod.splits)
qed

interpretation modelService_copy: deep_copy repModelService footModelService modelServiceDeepCopyInto
proof -
  let ?rebuild = "\<lambda>c d. d\<lparr>hm_Spec := fst c, hm_Status := snd c\<rparr>"
  note struct = deep_copy_struct [OF deep_copy_pair [OF spec_copy.deep_copy_axioms status_copy.deep_copy_axioms],
      where parts = "\<lambda>d. (hm_Spec d, hm_Status d)" and vparts = "\<lambda>v. (ms_Spec v, ms_Status v)" and rebuild = ?rebuild
        and scalars = "\<lambda>d. (hm_APIVersion d, hm_Kind d, hm_Meta d)" and vscalars = "\<lambda>v. (ms_APIVersion v, ms_Kind v, ms_Meta v)"]
  show "deep_copy repModelService footModelService modelServiceDeepCopyInto"
    by (rule struct [THEN iffD1 [OF arg_cong3 [where f = deep_copy], rotated 3]])
       (auto simp: fun_eq_iff repModelService_def footModelService_def modelServiceDeepCopyInto_def copyPair_def Let_def
         split: prod.splits)
qed

interpretation list_copy: deep_copy repModelServiceList footModelServiceList modelServiceListDeepCopyInto
proof -
  note struct = deep_copy_struct [OF deep_copy_slice [OF modelService_copy.deep_copy_axioms, where get = inItems and put = ItemsCell],
      where parts = hl_Items and vparts = ml_Items and rebuild = "\<lambda>c d. d\<lparr>hl_Items := c\<rparr>"
        and scalars = "\<lambda>d. (hl_APIVersion d, hl_Kind d, hl_Meta d)" and vscalars = "\<lambda>v. (ml_APIVersion v, ml_Kind v, ml_Meta v)"]
  show "deep_copy repModelServiceList footModelServiceList modelServiceListDeepCopyInto"
    by (rule struct [THEN iffD1 [OF arg_cong3 [where f = deep_copy], rotated 3]])
       (auto simp: fun_eq_iff repModelServiceList_def footModelServiceList_def modelServiceListDeepCopyInto_def)
qed

text \<open>\<^verbatim>\<open>DeepCopy\<close> on pointers.\<close>

interpretation list_ptr: deep_copy "repPtr ListCell repModelServiceList" "footPtr inList footModelServiceList"
  modelServiceListDeepCopy
  unfolding modelServiceListDeepCopy_def by (rule deep_copy_ptr [OF list_copy.deep_copy_axioms]) simp

interpretation modelService_ptr: deep_copy "repPtr ModelServiceCell repModelService" "footPtr inModelService footModelService"
  modelServiceDeepCopy
  unfolding modelServiceDeepCopy_def by (rule deep_copy_ptr [OF modelService_copy.deep_copy_axioms]) simp


section \<open>The status update on the heap\<close>

text \<open>
  \<^verbatim>\<open>updateModelServiceStatus\<close> as it works on memory. The ModelService is the cell at \<open>ma\<close>; its conditions are
  in an array that the function overwrites in place, or appends to. \<open>spare\<close> is the room \<^verbatim>\<open>append\<close> leaves in
  a new array, which the Go runtime chooses.
\<close>

definition msAt :: "heap \<Rightarrow> addr \<Rightarrow> hModelService" where
  "msAt h a = the (Option.bind (cells h a) inModelService)"

definition arrayAt :: "heap \<Rightarrow> addr \<Rightarrow> Condition list" where
  "arrayAt h a = the (Option.bind (cells h a) inConditions)"

text \<open>The elements of a slice.\<close>

definition elements :: "heap \<Rightarrow> slice option \<Rightarrow> Condition list" where
  "elements h s = (case s of None \<Rightarrow> [] | Some sl \<Rightarrow> take (sl_Len sl) (arrayAt h (sl_Array sl)))"

definition zeroCondition :: Condition where
  "zeroCondition = \<lparr>cond_Type = [], cond_Status = [], cond_ObservedGeneration = 0, cond_LastTransitionTime = 0,
     cond_Reason = [], cond_Message = []\<rparr>"

text \<open>\<^verbatim>\<open>append\<close>: in place while the array has room, otherwise into a new array.\<close>

definition appendCondition :: "nat \<Rightarrow> Condition \<Rightarrow> slice option \<Rightarrow> heap \<Rightarrow> slice \<times> heap" where
  "appendCondition spare c s h =
     (case s of
        Some sl \<Rightarrow>
          if sl_Len sl < length (arrayAt h (sl_Array sl))
          then (sl\<lparr>sl_Len := Suc (sl_Len sl)\<rparr>,
                store (sl_Array sl) (ConditionsCell ((arrayAt h (sl_Array sl))[sl_Len sl := c])) h)
          else let (a, h1) = alloc (ConditionsCell (elements h s @ c # replicate spare zeroCondition)) h
               in (\<lparr>sl_Array = a, sl_Len = Suc (sl_Len sl)\<rparr>, h1)
      | None \<Rightarrow>
          let (a, h1) = alloc (ConditionsCell (c # replicate spare zeroCondition)) h
          in (\<lparr>sl_Array = a, sl_Len = 1\<rparr>, h1))"

primrec conditionIndex :: "string \<Rightarrow> Condition list \<Rightarrow> nat option" where
  "conditionIndex t [] = None"
| "conditionIndex t (c # cs) = (if cond_Type c = t then Some 0 else map_option Suc (conditionIndex t cs))"

definition heapSetCondition ::
    "nat \<Rightarrow> time \<Rightarrow> conditionStatus \<Rightarrow> string \<Rightarrow> string \<Rightarrow> addr \<Rightarrow> heap \<Rightarrow> heap" where
  "heapSetCondition spare now status reason message ma h =
     (let m = msAt h ma; s = ht_Conditions (hm_Status m);
          newCondition = \<lparr>cond_Type = ''Available'', cond_Status = status,
            cond_ObservedGeneration = meta_Generation (hm_Meta m), cond_LastTransitionTime = now,
            cond_Reason = reason, cond_Message = message\<rparr>
      in case (conditionIndex ''Available'' (elements h s), s) of
           (Some i, Some sl) \<Rightarrow>
             let arr = arrayAt h (sl_Array sl);
                 new = (if sameConditionState (arr ! i) newCondition
                        then newCondition\<lparr>cond_LastTransitionTime := cond_LastTransitionTime (arr ! i)\<rparr>
                        else newCondition)
             in store (sl_Array sl) (ConditionsCell (arr[i := new])) h
         | _ \<Rightarrow>
             let (sl, h1) = appendCondition spare newCondition s h
             in store ma (ModelServiceCell (m\<lparr>hm_Status := (hm_Status m)\<lparr>ht_Conditions := Some sl\<rparr>\<rparr>)) h1)"

text \<open>\<^verbatim>\<open>reflect.DeepEqual\<close> on two statuses: a nil slice is not equal to an empty one.\<close>

definition heapDeepEqual :: "heap \<Rightarrow> hStatus \<Rightarrow> hStatus \<Rightarrow> bool" where
  "heapDeepEqual h a b \<longleftrightarrow>
     (ht_Phase a, ht_ReadyReplicas a, ht_Endpoint a, ht_ObservedGeneration a) =
     (ht_Phase b, ht_ReadyReplicas b, ht_Endpoint b, ht_ObservedGeneration b) \<and>
     (ht_Conditions a = None \<longleftrightarrow> ht_Conditions b = None) \<and>
     elements h (ht_Conditions a) = elements h (ht_Conditions b)"

text \<open>The update up to the comparison: whether the status has to be written, and the memory.\<close>

definition heapUpdateStatus :: "nat \<Rightarrow> time \<Rightarrow> Deployment \<Rightarrow> addr \<Rightarrow> heap \<Rightarrow> bool \<times> heap" where
  "heapUpdateStatus spare now d ma h =
     (let m = msAt h ma;
          (pa, h1) = alloc (StatusCell (hm_Status m)) h;
          (previousStatus, h2) = statusDeepCopyInto (hm_Status m) h1;
          h3 = store pa (StatusCell previousStatus) h2;
          endpoint = ''http://'' @ meta_Name (hm_Meta m) @ ''.'' @ meta_Namespace (hm_Meta m) @
            ''.svc.cluster.local:'' @ showInt (sint (hp_Port (hm_Spec m)));
          (phase, status, reason, message) = deploymentOutcome (hp_Replicas (hm_Spec m)) d;
          h4 = store ma (ModelServiceCell (m\<lparr>hm_Status := (hm_Status m)
            \<lparr>ht_ReadyReplicas := dep_StatusReadyReplicas d, ht_Endpoint := endpoint,
             ht_ObservedGeneration := meta_Generation (hm_Meta m), ht_Phase := phase\<rparr>\<rparr>)) h3;
          h5 = heapSetCondition spare now status reason message ma h4
      in (\<not> heapDeepEqual h5 (the (Option.bind (cells h5 pa) inStatus)) (hm_Status (msAt h5 ma)), h5))"

text \<open>In-place update and append, as the functional \<^const>\<open>putCondition\<close>.\<close>

lemma putCondition_index:
  "putCondition new cs =
     (case conditionIndex (cond_Type new) cs of
        None \<Rightarrow> cs @ [new]
      | Some i \<Rightarrow> cs[i := if sameConditionState (cs ! i) new
          then new\<lparr>cond_LastTransitionTime := cond_LastTransitionTime (cs ! i)\<rparr> else new])"
  by (induction cs) (auto split: option.splits)

lemma conditionIndex_less: "conditionIndex t cs = Some i \<Longrightarrow> i < length cs"
  by (induction cs arbitrary: i) (auto split: if_splits)

text \<open>The cells of a specification, of its status and of the ModelService itself are of different types.\<close>

abbreviation specCell :: "cell \<Rightarrow> bool" where
  "specCell x \<equiv> (case x of ConditionsCell _ \<Rightarrow> False | ModelServiceCell _ \<Rightarrow> False | _ \<Rightarrow> True)"

lemma value_ptr_cells:
  "repPtr put repValue h p v \<Longrightarrow> a \<in> footPtr get footValue h p \<Longrightarrow> \<exists>c. cells h a = Some (put c)"
  by (auto simp: repPtr_def footPtr_def split: option.splits)

lemma security_ptr_cells:
  assumes "repPtr SecurityCell repSecurity h p v" "a \<in> footPtr inSecurity footSecurity h p"
  shows "\<exists>x. cells h a = Some x \<and> specCell x"
proof -
  from assms obtain b c w where c: "p = Some b" "cells h b = Some (SecurityCell c)" "repSecurity h c w"
    by (auto simp: repPtr_def footPtr_def split: option.splits)
  with assms(2) have "a = b \<or> a \<in> footSecurity h c" by (simp add: footPtr_def)
  then show ?thesis
  proof
    assume "a \<in> footSecurity h c"
    with c(3) value_ptr_cells [of BoolCell h "hs_AutomountServiceAccountToken c" "sec_AutomountServiceAccountToken w"]
    have "\<exists>x. cells h a = Some (BoolCell x)" unfolding repSecurity_def footSecurity_def by blast
    then show ?thesis by auto
  qed (simp add: c(2))
qed

lemma spec_cells:
  assumes "repSpec h c v" "a \<in> footSpec h c"
  shows "\<exists>x. cells h a = Some x \<and> specCell x"
  using assms unfolding repSpec_def footSpec_def
  by (elim conjE UnE) (erule (1) security_ptr_cells | drule (1) value_ptr_cells, auto)+

lemma status_cells:
  assumes "repStatus h c v" "a \<in> footStatus h c"
  shows "\<exists>arr. cells h a = Some (ConditionsCell arr)"
  using assms by (auto simp: repStatus_def footStatus_def repSlice_def footSlice_def footList_def split: option.splits)

lemma repSlice_value:
  "repSlice ConditionsCell repValue h s vs \<longleftrightarrow>
     (case s of
        None \<Rightarrow> vs = []
      | Some sl \<Rightarrow> \<exists>arr. cells h (sl_Array sl) = Some (ConditionsCell arr) \<and> sl_Len sl \<le> length arr \<and>
          vs = take (sl_Len sl) arr)"
  by (auto simp: repSlice_def list.rel_eq split: option.splits)

lemma elements_rep: "repSlice ConditionsCell repValue h s vs \<Longrightarrow> elements h s = vs"
  by (auto simp: repSlice_value elements_def arrayAt_def split: option.splits)

lemma footSlice_value: "footSlice inConditions footValue h s = (case s of None \<Rightarrow> {} | Some sl \<Rightarrow> {sl_Array sl})"
  by (auto simp: footSlice_def footList_def split: option.splits)

lemma appended:
  assumes "wfHeap h" "repSlice ConditionsCell repValue h s vs" "appendCondition spare c s h = (sl, h')"
  shows "repSlice ConditionsCell repValue h' (Some sl) (vs @ [c])" "lim h \<le> lim h'"
    "a < lim h \<Longrightarrow> a \<notin> footSlice inConditions footValue h s \<Longrightarrow> cells h' a = cells h a"
    "sl_Array sl \<in> footSlice inConditions footValue h s \<or> lim h \<le> sl_Array sl"
proof -
  have "repSlice ConditionsCell repValue h' (Some sl) (vs @ [c]) \<and> lim h \<le> lim h' \<and>
    (\<forall>a<lim h. a \<notin> footSlice inConditions footValue h s \<longrightarrow> cells h' a = cells h a) \<and>
    (sl_Array sl \<in> footSlice inConditions footValue h s \<or> lim h \<le> sl_Array sl)"
  proof (cases s)
    case None
    with assms show ?thesis by (auto simp: appendCondition_def repSlice_value footSlice_value alloc_def)
  next
    case (Some s0)
    with assms(2) obtain arr where arr: "cells h (sl_Array s0) = Some (ConditionsCell arr)" "sl_Len s0 \<le> length arr"
      "vs = take (sl_Len s0) arr" by (auto simp: repSlice_value)
    then have at: "arrayAt h (sl_Array s0) = arr" "elements h s = vs" using Some by (simp_all add: arrayAt_def elements_def)
    show ?thesis
    proof (cases "sl_Len s0 < length arr")
      case True
      with assms(3) Some at have out: "sl = s0\<lparr>sl_Len := Suc (sl_Len s0)\<rparr>"
        "h' = store (sl_Array s0) (ConditionsCell (arr[sl_Len s0 := c])) h" by (simp_all add: appendCondition_def)
      from True arr(3) have "take (Suc (sl_Len s0)) (arr[sl_Len s0 := c]) = vs @ [c]"
        by (simp add: take_Suc_conv_app_nth)
      with True Some show ?thesis by (auto simp: out repSlice_value footSlice_value store_def)
    next
      case False
      with assms(3) Some at arr(2,3) show ?thesis
        by (auto simp: appendCondition_def alloc_def repSlice_value footSlice_value)
    qed
  qed
  then show "repSlice ConditionsCell repValue h' (Some sl) (vs @ [c])" "lim h \<le> lim h'"
    "a < lim h \<Longrightarrow> a \<notin> footSlice inConditions footValue h s \<Longrightarrow> cells h' a = cells h a"
    "sl_Array sl \<in> footSlice inConditions footValue h s \<or> lim h \<le> sl_Array sl" by blast+
qed

lemma repSpec_kept:
  assumes "repSpec h c v" "\<And>a x. cells h a = Some x \<Longrightarrow> specCell x \<Longrightarrow> cells h' a = Some x"
  shows "repSpec h' c v"
proof -
  have "cells h' a = cells h a" if "a \<in> footSpec h c" for a
    using spec_cells [OF assms(1) that] assms(2) by auto
  from spec_copy.frame [OF assms(1) this] show ?thesis by blast
qed

lemma in_place:
  assumes "repSlice ConditionsCell repValue h s cs" "conditionIndex t cs = Some i"
  obtains sl arr where "s = Some sl" "cells h (sl_Array sl) = Some (ConditionsCell arr)" "arrayAt h (sl_Array sl) = arr"
    "sl_Len sl \<le> length arr" "cs = take (sl_Len sl) arr" "arr ! i = cs ! i" "i < length cs"
proof -
  from assms(2) have i: "i < length cs" by (rule conditionIndex_less)
  then obtain sl where "s = Some sl" using assms(1) by (cases s) (simp_all add: repSlice_value)
  with assms(1) i show thesis by (auto simp: repSlice_value arrayAt_def intro!: that)
qed

text \<open>Setting the condition in memory is setting it in the value, and touches the ModelService and its conditions only.\<close>

lemma set_condition_refines:
  assumes wf: "wfHeap h" and ma: "cells h ma = Some (ModelServiceCell m)" and rep: "repModelService h m ms"
    and h': "h' = heapSetCondition spare now st reason message ma h"
  shows "\<exists>m'. cells h' ma = Some (ModelServiceCell m') \<and>
      repModelService h' m' (setModelServiceCondition now st reason message ms) \<and> ht_Conditions (hm_Status m') \<noteq> None"
    and "a < lim h \<Longrightarrow> a \<noteq> ma \<Longrightarrow> a \<notin> footStatus h (hm_Status m) \<Longrightarrow> cells h' a = cells h a"
proof -
  let ?s = "ht_Conditions (hm_Status m)" and ?cs = "status_Conditions (ms_Status ms)"
  let ?new = "\<lparr>cond_Type = ''Available'', cond_Status = st, cond_ObservedGeneration = ms_Generation ms,
    cond_LastTransitionTime = now, cond_Reason = reason, cond_Message = message\<rparr>"
  from rep have spec: "repSpec h (hm_Spec m) (ms_Spec ms)" and slice: "repSlice ConditionsCell repValue h ?s ?cs"
    and gen: "hm_Meta m = ms_Meta ms" by (simp_all add: repModelService_def repStatus_def)
  note at = elements_rep [OF slice]
  have msAt: "msAt h ma = m" using ma by (simp add: msAt_def)
  have "(\<exists>m'. cells h' ma = Some (ModelServiceCell m') \<and>
      repModelService h' m' (setModelServiceCondition now st reason message ms) \<and> ht_Conditions (hm_Status m') \<noteq> None) \<and>
    (\<forall>a<lim h. a \<noteq> ma \<longrightarrow> a \<notin> footStatus h (hm_Status m) \<longrightarrow> cells h' a = cells h a)"
  proof (cases "conditionIndex ''Available'' ?cs")
    case (Some i)
    let ?upd = "if sameConditionState (?cs ! i) ?new
      then ?new\<lparr>cond_LastTransitionTime := cond_LastTransitionTime (?cs ! i)\<rparr> else ?new"
    from in_place [OF slice Some] obtain sl arr where sl: "?s = Some sl" "cells h (sl_Array sl) = Some (ConditionsCell arr)"
      "arrayAt h (sl_Array sl) = arr" "sl_Len sl \<le> length arr" "?cs = take (sl_Len sl) arr" "arr ! i = ?cs ! i" "i < length ?cs" .
    have out: "h' = store (sl_Array sl) (ConditionsCell (arr[i := ?upd])) h"
      using h' Some sl(1,3,6) at by (simp add: heapSetCondition_def msAt at [unfolded sl(1)] gen Let_def)
    have "repSlice ConditionsCell repValue h' ?s (putCondition ?new ?cs)"
      using Some sl(1,4) by (simp add: repSlice_value out store_def putCondition_index take_update_swap flip: sl(5))
    moreover have "repSpec h' (hm_Spec m) (ms_Spec ms)"
      by (rule repSpec_kept [OF spec]) (use sl(2) in \<open>auto simp: out store_def\<close>)
    moreover have "sl_Array sl \<noteq> ma" using sl(2) ma by auto
    ultimately show ?thesis using rep ma sl(1)
      by (auto simp: repModelService_def repStatus_def setModelServiceCondition_def Let_def out store_def
          footStatus_def footSlice_value)
  next
    case None
    obtain sl h1 where ap: "appendCondition spare ?new ?s h = (sl, h1)" by fastforce
    let ?m = "m\<lparr>hm_Status := (hm_Status m)\<lparr>ht_Conditions := Some sl\<rparr>\<rparr>"
    have out: "h' = store ma (ModelServiceCell ?m) h1"
      using h' None ap by (simp add: heapSetCondition_def msAt at gen Let_def)
    note app = appended [OF wf slice ap]
    have foot: "cells h a = Some x \<Longrightarrow> specCell x \<Longrightarrow> a < lim h \<and> a \<notin> footSlice inConditions footValue h ?s \<and> a \<noteq> ma" for a x
      using wf_cells [OF wf] ma slice by (auto simp: footSlice_value repSlice_value split: option.splits)
    have arr: "sl_Array sl \<noteq> ma"
      using app(4) wf_cells [OF wf ma] ma slice by (auto simp: footSlice_value repSlice_value split: option.splits)
    have "repSlice ConditionsCell repValue h' (Some sl) (putCondition ?new ?cs)"
      using app(1) None arr by (simp add: repSlice_value out store_def putCondition_index)
    moreover have "repSpec h' (hm_Spec m) (ms_Spec ms)"
      by (rule repSpec_kept [OF spec]) (use foot app(3) in \<open>simp add: out store_def\<close>)
    ultimately show ?thesis using rep app(3)
      by (auto simp: repModelService_def repStatus_def setModelServiceCondition_def Let_def out store_def footStatus_def)
  qed
  then show "\<exists>m'. cells h' ma = Some (ModelServiceCell m') \<and>
      repModelService h' m' (setModelServiceCondition now st reason message ms) \<and> ht_Conditions (hm_Status m') \<noteq> None"
    and "a < lim h \<Longrightarrow> a \<noteq> ma \<Longrightarrow> a \<notin> footStatus h (hm_Status m) \<Longrightarrow> cells h' a = cells h a"
    by blast+
qed

lemma copied_nil:
  "repStatus h c v \<Longrightarrow> statusDeepCopyInto c h = (c', h') \<Longrightarrow> ht_Conditions c' = None \<longleftrightarrow> ht_Conditions c = None"
  by (auto simp: statusDeepCopyInto_def copySlice_def repStatus_def repSlice_value Let_def split: option.splits prod.splits)

lemma deepEqual_iff:
  assumes "repStatus h a v" "repStatus h b w" "ht_Conditions b \<noteq> None"
    and "ht_Conditions a = None \<Longrightarrow> v \<noteq> w"
  shows "heapDeepEqual h a b \<longleftrightarrow> v = w"
proof -
  have "elements h (ht_Conditions a) = status_Conditions v" "elements h (ht_Conditions b) = status_Conditions w"
    using assms(1,2) by (auto simp: repStatus_def intro: elements_rep)
  then have "heapDeepEqual h a b \<longleftrightarrow> ht_Conditions a \<noteq> None \<and> v = w"
    using assms(1-3) by (cases v, cases w) (auto simp: heapDeepEqual_def repStatus_def)
  with assms(4) show ?thesis by blast
qed

lemma putCondition_nonempty: "putCondition new cs \<noteq> []"
  by (cases cs) auto

text \<open>The value after the assignments that precede the condition.\<close>

lemma assigned:
  assumes "repModelService h m ms"
  shows "repModelService h (m\<lparr>hm_Status := (hm_Status m)\<lparr>ht_ReadyReplicas := r, ht_Endpoint := e,
      ht_ObservedGeneration := g, ht_Phase := p\<rparr>\<rparr>)
    (setPhase p (ms\<lparr>ms_Status := (ms_Status ms)\<lparr>status_ReadyReplicas := r, status_Endpoint := e,
      status_ObservedGeneration := g\<rparr>\<rparr>))"
  using assms by (simp add: repModelService_def repStatus_def setPhase_def)

lemma store_ms:
  assumes "repModelService h m ms" "cells h ma = Some (ModelServiceCell m0)"
  shows "repModelService (store ma c h) m ms"
proof -
  from assms(1) have parts: "repSpec h (hm_Spec m) (ms_Spec ms)" "repStatus h (hm_Status m) (ms_Status ms)"
    by (simp_all add: repModelService_def)
  have same: "cells (store ma c h) a = cells h a" if "a \<in> footModelService h m" for a
  proof -
    have "a \<noteq> ma"
    proof (cases "a \<in> footSpec h (hm_Spec m)")
      case True
      with spec_cells [OF parts(1)] assms(2) show ?thesis by force
    next
      case False
      with that have "a \<in> footStatus h (hm_Status m)" by (simp add: footModelService_def)
      with status_cells [OF parts(2)] assms(2) show ?thesis by force
    qed
    then show ?thesis by (simp add: store_frame)
  qed
  from modelService_copy.frame [OF assms(1) same] show ?thesis by blast
qed

text \<open>The state when the condition is about to be set: the ModelService has its new fields, and the copy of the old
  status is out of the way.\<close>

lemma snapshot:
  assumes "wfHeap h" "cells h ma = Some (ModelServiceCell m)" "repModelService h m ms"
    and al: "alloc (StatusCell (hm_Status m)) h = (pa, h1)" and cp: "statusDeepCopyInto (hm_Status m) h1 = (prev, h2)"
    and m4: "m4 = m\<lparr>hm_Status := (hm_Status m)\<lparr>ht_ReadyReplicas := r, ht_Endpoint := e, ht_ObservedGeneration := g, ht_Phase := p\<rparr>\<rparr>"
    and h4: "h4 = store ma (ModelServiceCell m4) (store pa (StatusCell prev) h2)"
  shows "wfHeap h4" "cells h4 ma = Some (ModelServiceCell m4)"
    "repModelService h4 m4 (setPhase p (ms\<lparr>ms_Status := (ms_Status ms)\<lparr>status_ReadyReplicas := r, status_Endpoint := e,
      status_ObservedGeneration := g\<rparr>\<rparr>))"
    "cells h4 pa = Some (StatusCell prev)" "repStatus h4 prev (ms_Status ms)"
    "a \<in> insert pa (footStatus h4 prev) \<Longrightarrow> a < lim h4 \<and> a \<noteq> ma \<and> a \<notin> footStatus h4 (hm_Status m4)"
    "ht_Conditions prev = None \<Longrightarrow> status_Conditions (ms_Status ms) = []"
proof -
  have st: "repStatus h (hm_Status m) (ms_Status ms)" using assms(3) by (simp add: repModelService_def)
  define h3 where "h3 = store pa (StatusCell prev) h2"
  note new = deep_copy_new [OF status_copy.deep_copy_axioms assms(1) st al cp h3_def]
  have ma: "ma < lim h" using wf_cells [OF assms(1,2)] .
  have h3: "cells h3 ma = Some (ModelServiceCell m)" "repModelService h3 m ms"
    using new(3) assms(2) ma modelService_copy.extended [OF assms(1,3) new(3)] by (simp_all add: extends_def)
  have out: "h4 = store ma (ModelServiceCell m4) h3" by (simp add: h4 h3_def)
  have foot: "footStatus h4 (hm_Status m4) = footStatus h (hm_Status m)" by (simp add: m4 footStatus_def footSlice_value)
  show "wfHeap h4" using store_wf [OF new(4)] ma new(3) by (simp add: out extends_def)
  show "cells h4 ma = Some (ModelServiceCell m4)" by (simp add: out store_frame)
  show "repModelService h4 m4 (setPhase p (ms\<lparr>ms_Status := (ms_Status ms)\<lparr>status_ReadyReplicas := r,
      status_Endpoint := e, status_ObservedGeneration := g\<rparr>\<rparr>))"
    unfolding out m4 by (rule store_ms [OF assigned [OF h3(2)] h3(1)])
  show "cells h4 pa = Some (StatusCell prev)" using new(5,6) ma by (simp add: out store_frame)
  have kept: "cells h4 a = cells h3 a" if "lim h \<le> a" for a using that ma by (simp add: out store_frame)
  then have prev: "repStatus h4 prev (ms_Status ms) \<and> footStatus h4 prev = footStatus h3 prev"
    using status_copy.frame [OF new(1), of h4] new(2) by fastforce
  then show "repStatus h4 prev (ms_Status ms)" by blast
  show "a < lim h4 \<and> a \<noteq> ma \<and> a \<notin> footStatus h4 (hm_Status m4)" if "a \<in> insert pa (footStatus h4 prev)"
  proof -
    have "lim h \<le> a \<and> a < lim h3" using that prev new(2,6,7) by auto
    then show ?thesis using ma foot status_copy.inside [OF assms(1) st] by (auto simp: out store_frame)
  qed
  have "repStatus h1 (hm_Status m) (ms_Status ms)"
    using status_copy.extended [OF assms(1) st alloc_extends(1) [OF al]] by blast
  with copied_nil [OF this cp] show "ht_Conditions prev = None \<Longrightarrow> status_Conditions (ms_Status ms) = []"
    by (simp add: repStatus_def repSlice_value)
qed

text \<open>C19. Updating the status in memory is updating it in the value. Run on any representation of the ModelService, with
  the conditions overwritten in place or appended to wherever the array has room, the update leaves the ModelService
  the functional model computes, and the comparison with the deep copy taken before decides, as the functional model
  does, whether the status is written.\<close>

theorem status_update_in_place:
  assumes "wfHeap h" and "cells h ma = Some (ModelServiceCell m)" and "repModelService h m ms"
    and "heapUpdateStatus spare now d ma h = (changed, h')"
  shows "(\<exists>m'. cells h' ma = Some (ModelServiceCell m') \<and> repModelService h' m' (withDeploymentStatus now d ms)) \<and>
    writeStatusIfChanged (ms_Status ms) (withDeploymentStatus now d ms) =
      (if changed then bindE (objCall (OStatusUpdate (KModelService (withDeploymentStatus now d ms)))) (\<lambda>_. Ret (Inr ()))
       else Ret (Inr ()))"
proof -
  have meta: "hm_Meta m = ms_Meta ms" "hp_Port (hm_Spec m) = spec_Port (ms_Spec ms)"
    "hp_Replicas (hm_Spec m) = spec_Replicas (ms_Spec ms)"
    using assms(3) by (simp_all add: repModelService_def repSpec_def)
  obtain phase status reason message where
    oc: "deploymentOutcome (spec_Replicas (ms_Spec ms)) d = (phase, status, reason, message)" by (rule prod_cases4)
  obtain pa h1 where al: "alloc (StatusCell (hm_Status m)) h = (pa, h1)" by fastforce
  obtain prev h2 where cp: "statusDeepCopyInto (hm_Status m) h1 = (prev, h2)" by fastforce
  define m4 where "m4 = m\<lparr>hm_Status := (hm_Status m)\<lparr>ht_ReadyReplicas := dep_StatusReadyReplicas d,
    ht_Endpoint := serviceEndpoint ms, ht_ObservedGeneration := ms_Generation ms, ht_Phase := phase\<rparr>\<rparr>"
  define h4 where "h4 = store ma (ModelServiceCell m4) (store pa (StatusCell prev) h2)"
  define h5 where "h5 = heapSetCondition spare now status reason message ma h4"
  let ?new = "withDeploymentStatus now d ms"
  have "heapUpdateStatus spare now d ma h =
      (\<not> heapDeepEqual h5 (the (Option.bind (cells h5 pa) inStatus)) (hm_Status (msAt h5 ma)), h5)"
    using assms(2) by (simp add: heapUpdateStatus_def msAt_def al cp meta oc Let_def m4_def h4_def h5_def serviceEndpoint_def)
  with assms(4) have out: "h' = h5"
    "changed \<longleftrightarrow> \<not> heapDeepEqual h5 (the (Option.bind (cells h5 pa) inStatus)) (hm_Status (msAt h5 ma))" by auto
  note snap = snapshot [OF assms(1-3) al cp m4_def h4_def]
  note set = set_condition_refines [OF snap(1-3) h5_def]
  from set(1) obtain m' where m': "cells h5 ma = Some (ModelServiceCell m')" "repModelService h5 m' ?new"
    "ht_Conditions (hm_Status m') \<noteq> None"
    by (auto simp: withDeploymentStatus_def applyOutcome_def oc)
  have kept: "cells h5 a = cells h4 a" if "a \<in> insert pa (footStatus h4 prev)" for a
    using set(2) snap(6) [OF that] by blast
  have "repStatus h5 prev (ms_Status ms)" using status_copy.frame [OF snap(5), of h5] kept by blast
  moreover have "repStatus h5 (hm_Status m') (ms_Status ?new)" using m'(2) by (simp add: repModelService_def)
  moreover have "ms_Status ms \<noteq> ms_Status ?new" if "ht_Conditions prev = None"
    using snap(7) [OF that] by (metis applyOutcome_simps(7) withDeploymentStatus_def putCondition_nonempty)
  ultimately have "heapDeepEqual h5 prev (hm_Status m') \<longleftrightarrow> ms_Status ms = ms_Status ?new"
    using m'(3) by (intro deepEqual_iff)
  with out(2) kept [of pa] snap(4) m'(1) have "changed \<longleftrightarrow> ms_Status ms \<noteq> ms_Status ?new" by (simp add: msAt_def)
  with m'(1,2) out(1) show ?thesis by (auto simp: writeStatusIfChanged_def)
qed

section \<open>A concrete memory\<close>

definition sampleCondition :: Condition where
  "sampleCondition = zeroCondition\<lparr>cond_Type := ''Available'', cond_Status := ConditionFalse, cond_Reason := ''Old''\<rparr>"

definition sampleCell :: hModelService where
  "sampleCell = \<lparr>hm_APIVersion = [], hm_Kind = [], hm_Meta = zeroMeta,
     hm_Spec = \<lparr>hp_Backend = [], hp_Image = [], hp_Replicas = 0, hp_Port = 0,
       hp_Resources = \<lparr>rr_Limits = [], rr_Requests = []\<rparr>, hp_Security = None, hp_Health = None, hp_Rollout = None,
       hp_PodDisruptionBudget = None, hp_NetworkPolicy = None, hp_Exposure = None, hp_Storage = Some 2, hp_Predictor = None\<rparr>,
     hm_Status = \<lparr>ht_Phase = [], ht_ReadyReplicas = 0, ht_Endpoint = [], ht_ObservedGeneration = 0,
       ht_Conditions = Some \<lparr>sl_Array = 1, sl_Len = 1\<rparr>\<rparr>\<rparr>"

definition sampleHeap :: heap where
  "sampleHeap = \<lparr>cells = [0 \<mapsto> ModelServiceCell sampleCell, 1 \<mapsto> ConditionsCell [sampleCondition],
     2 \<mapsto> StorageCell zeroStorage], lim = 3\<rparr>"

definition sampleValue :: ModelService where
  "sampleValue = zeroModelService\<lparr>ms_Spec := zeroSpec\<lparr>spec_Storage := Some zeroStorage\<rparr>,
     ms_Status := zeroStatus\<lparr>status_Conditions := [sampleCondition]\<rparr>\<rparr>"

lemma sampleHeap_facts:
  "wfHeap sampleHeap" "cells sampleHeap 0 = Some (ModelServiceCell sampleCell)" "repModelService sampleHeap sampleCell sampleValue"
  by (simp_all add: wfHeap_def sampleHeap_def sampleCell_def sampleValue_def zeroModelService_def zeroSpec_def zeroStatus_def
      repModelService_def repSpec_def repStatus_def repPtr_def repSlice_value)


theorem status_update_in_place_witness:
  "\<exists>h' m'. heapUpdateStatus 3 7 zeroDeployment 0 sampleHeap = (True, h') \<and> cells h' 0 = Some (ModelServiceCell m') \<and>
     repModelService h' m' (withDeploymentStatus 7 zeroDeployment sampleValue)"
proof -
  obtain b h' where r: "heapUpdateStatus 3 7 zeroDeployment 0 sampleHeap = (b, h')" by fastforce
  note w = status_update_in_place [OF sampleHeap_facts r]
  have "status_Phase (ms_Status (withDeploymentStatus 7 zeroDeployment sampleValue)) \<noteq> []"
    by (simp add: withDeploymentStatus_def deploymentOutcome_def go_const)
  then have "ms_Status sampleValue \<noteq> ms_Status (withDeploymentStatus 7 zeroDeployment sampleValue)"
    by (auto simp: sampleValue_def zeroStatus_def)
  with w have b by (auto simp: writeStatusIfChanged_def bindE_def objCall_def split: if_splits)
  with r w show ?thesis by auto
qed

end
